(* ===== verification/Harness_Prelude.thy ===== *)
theory Harness_Prelude
  imports Main "HOL-Library.Sublist" "HOL-Library.Char_ord" "HOL-Library.List_Lexorder"
    "HOL-Library.Product_Lexorder" "HOL-Library.Word"
begin

text \<open>
  Shared ground of the development: the parts of the Rust language and of its standard library
  that the deterministic crates under \<open>src/codex-rs/\<close> use, and the generic lemmas about them.

  A Rust \<open>String\<close> is UTF-8; the model keeps its bytes, as a HOL \<open>string\<close> (a list of 8-bit
  characters), so \<open>len()\<close> is \<open>length\<close>, \<open>==\<close> is equality, \<open><\<close> on strings is the lexicographic order
  on bytes (HOL-Library.List_Lexorder over Char_ord) and a slice \<open>&s[..n]\<close> panics off a character
  boundary (\<open>str_slice_to\<close>). \<open>trim\<close> knows every Unicode white-space character. \<open>to_lowercase\<close> folds
  ASCII and the two non-ASCII characters whose lower case contains an ASCII letter (U+0130 and
  U+212A); every other non-ASCII character is left as it is. Its lower case is non-ASCII in Rust
  too, so each comparison of a folded string with an ASCII text has the outcome it has in Rust. Two
  uses go beyond such comparisons: the text of the error for a label or an assignee with a non-ASCII
  character quotes it, and an extra safe make target with a non-ASCII upper-case letter is compared
  with a folded target. The saved queue views take the full \<open>to_lowercase\<close> as a parameter.

  A function that returns \<open>anyhow::Result<T>\<close> returns \<open>error + 'a\<close>; \<open>Bail\<close> carries the text of the
  message, \<open>Caused\<close> a context text around an operating-system error, \<open>Panic\<close> stands for a panic.
\<close>

section \<open>Results\<close>

datatype io_error = NotFound | NotADirectory | IsADirectory | AlreadyExists | FilesystemLoop
  | InvalidData | SpawnFailed

datatype error = Bail string | Caused string io_error | Io io_error | Panic string

type_synonym 'a result = "error + 'a"

definition and_then :: "'a result \<Rightarrow> ('a \<Rightarrow> 'b result) \<Rightarrow> 'b result" where
  "and_then r f = (case r of Inl e \<Rightarrow> Inl e | Inr x \<Rightarrow> f x)"

definition ok_or :: "error \<Rightarrow> 'a option \<Rightarrow> 'a result" where
  "ok_or e x = (case x of None \<Rightarrow> Inl e | Some v \<Rightarrow> Inr v)"

definition unwrap_or :: "'a \<Rightarrow> 'a option \<Rightarrow> 'a" where
  "unwrap_or d x = (case x of None \<Rightarrow> d | Some v \<Rightarrow> v)"

definition is_some :: "'a option \<Rightarrow> bool" where
  "is_some x = (case x of None \<Rightarrow> False | Some _ \<Rightarrow> True)"

definition is_ok :: "'a result \<Rightarrow> bool" where
  "is_ok r = (case r of Inl _ \<Rightarrow> False | Inr _ \<Rightarrow> True)"

lemma and_then_simps [simp]:
  "and_then (Inl e) f = Inl e"
  "and_then (Inr x) f = f x"
  by (simp_all add: and_then_def)

lemma and_then_InrD: "and_then r f = Inr y \<Longrightarrow> \<exists>x. r = Inr x \<and> f x = Inr y"
  by (cases r) auto

lemma and_then_eq_Inr: "and_then r f = Inr y \<longleftrightarrow> (\<exists>x. r = Inr x \<and> f x = Inr y)"
  by (cases r) auto

lemma ok_or_simps [simp]:
  "ok_or e None = Inl e"
  "ok_or e (Some v) = Inr v"
  by (simp_all add: ok_or_def)

lemma ok_or_eq_Inr [simp]: "ok_or e x = Inr v \<longleftrightarrow> x = Some v"
  by (cases x) auto

lemma unwrap_or_simps [simp]:
  "unwrap_or d None = d"
  "unwrap_or d (Some v) = v"
  by (simp_all add: unwrap_or_def)

lemma is_some_simps [simp]:
  "\<not> is_some None"
  "is_some (Some v)"
  by (simp_all add: is_some_def)

lemma is_some_iff: "is_some x \<longleftrightarrow> x \<noteq> None"
  by (cases x) auto

lemma if_Some_neq_None: "(if b then Some x else None) \<noteq> None \<longleftrightarrow> b"
  by simp

lemma if_eq_SomeE:
  assumes "(if b then Some x else r) = Some y"
  obtains "b" "y = x" | "\<not> b" "r = Some y"
  using assms by (cases b) simp_all

lemma is_ok_simps [simp]:
  "\<not> is_ok (Inl e)"
  "is_ok (Inr v)"
  by (simp_all add: is_ok_def)


section \<open>Byte strings\<close>

definition starts_with :: "string \<Rightarrow> string \<Rightarrow> bool" where
  "starts_with s p \<longleftrightarrow> take (length p) s = p"

fun contains :: "string \<Rightarrow> string \<Rightarrow> bool" where
  "contains [] p = (p = [])"
| "contains (c # s) p = (starts_with (c # s) p \<or> contains s p)"

definition strip_prefix :: "string \<Rightarrow> string \<Rightarrow> string option" where
  "strip_prefix p s = (if starts_with s p then Some (drop (length p) s) else None)"

fun join :: "string \<Rightarrow> string list \<Rightarrow> string" where
  "join sep [] = []"
| "join sep [x] = x"
| "join sep (x # y # zs) = x @ sep @ join sep (y # zs)"

definition quoted :: "string \<Rightarrow> string" where
  "quoted s = [CHR 0x27] @ s @ [CHR 0x27]"

text \<open>The three non-ASCII characters of the harness's own messages.\<close>

definition arrow :: string where "arrow = [CHR 0xE2, CHR 0x86, CHR 0x92]"

definition em_dash :: string where "em_dash = [CHR 0xE2, CHR 0x80, CHR 0x94]"

definition en_dash :: string where "en_dash = [CHR 0xE2, CHR 0x80, CHR 0x93]"

definition newline :: char where
  "newline = CHR 0x0A"

definition ascii_lower :: "char \<Rightarrow> char" where
  "ascii_lower c = (let n = (of_char c :: nat) in if 65 \<le> n \<and> n \<le> 90 then char_of (n + 32) else c)"

fun to_lowercase :: "string \<Rightarrow> string" where
  "to_lowercase [] = []"
| "to_lowercase (c # cs) =
     (if c = CHR 0xC4 \<and> take 1 cs = [CHR 0xB0]
      then CHR ''i'' # CHR 0xCC # CHR 0x87 # to_lowercase (drop 1 cs)
      else if c = CHR 0xE2 \<and> take 2 cs = [CHR 0x84, CHR 0xAA]
      then CHR ''k'' # to_lowercase (drop 2 cs)
      else ascii_lower c # to_lowercase cs)"

definition whitespace_chars :: "string list" where
  "whitespace_chars =
     [[CHR 0x09], [CHR 0x0A], [CHR 0x0B], [CHR 0x0C], [CHR 0x0D], [CHR 0x20],
      [CHR 0xC2, CHR 0x85], [CHR 0xC2, CHR 0xA0], [CHR 0xE1, CHR 0x9A, CHR 0x80],
      [CHR 0xE2, CHR 0x80, CHR 0x80], [CHR 0xE2, CHR 0x80, CHR 0x81], [CHR 0xE2, CHR 0x80, CHR 0x82],
      [CHR 0xE2, CHR 0x80, CHR 0x83], [CHR 0xE2, CHR 0x80, CHR 0x84], [CHR 0xE2, CHR 0x80, CHR 0x85],
      [CHR 0xE2, CHR 0x80, CHR 0x86], [CHR 0xE2, CHR 0x80, CHR 0x87], [CHR 0xE2, CHR 0x80, CHR 0x88],
      [CHR 0xE2, CHR 0x80, CHR 0x89], [CHR 0xE2, CHR 0x80, CHR 0x8A], [CHR 0xE2, CHR 0x80, CHR 0xA8],
      [CHR 0xE2, CHR 0x80, CHR 0xA9], [CHR 0xE2, CHR 0x80, CHR 0xAF], [CHR 0xE2, CHR 0x81, CHR 0x9F],
      [CHR 0xE3, CHR 0x80, CHR 0x80]]"

definition leading :: "string list \<Rightarrow> string \<Rightarrow> string option" where
  "leading ws s = find (\<lambda>w. w \<noteq> [] \<and> starts_with s w) ws"

lemma leading_SomeD: "leading ws s = Some w \<Longrightarrow> w \<in> set ws \<and> w \<noteq> [] \<and> starts_with s w"
  unfolding leading_def by (auto simp: find_Some_iff)

lemma leading_shorter: "leading ws s = Some w \<Longrightarrow> length (drop (length w) s) < length s"
  by (drule leading_SomeD) (cases s; auto simp: starts_with_def)

function strip_leading :: "string list \<Rightarrow> string \<Rightarrow> string" where
  "strip_leading ws s =
     (case leading ws s of None \<Rightarrow> s | Some w \<Rightarrow> strip_leading ws (drop (length w) s))"
  by pat_completeness auto
termination
  by (relation "measure (\<lambda>(ws, s). length s)") (auto dest: leading_shorter)

declare strip_leading.simps [simp del]

definition trim_start :: "string \<Rightarrow> string" where
  "trim_start s = strip_leading whitespace_chars s"

definition trim_end :: "string \<Rightarrow> string" where
  "trim_end s = rev (strip_leading (map rev whitespace_chars) (rev s))"

definition trim :: "string \<Rightarrow> string" where
  "trim s = trim_end (trim_start s)"

text \<open>\<open>split_whitespace().next()\<close>: the bytes up to the next white-space character.\<close>

fun take_token :: "string \<Rightarrow> string" where
  "take_token [] = []"
| "take_token (c # cs) =
     (if leading whitespace_chars (c # cs) = None then c # take_token cs else [])"

definition first_token :: "string \<Rightarrow> string" where
  "first_token s = take_token (trim_start s)"

definition strip_cr :: "string \<Rightarrow> string" where
  "strip_cr l = (if l \<noteq> [] \<and> last l = CHR 0x0D then butlast l else l)"

text \<open>\<open>str::lines\<close>: a carriage return goes only together with the line feed it precedes.\<close>

function str_lines :: "string \<Rightarrow> string list" where
  "str_lines [] = []"
| "str_lines (c # cs) =
     (case dropWhile (\<lambda>x. x \<noteq> newline) (c # cs) of
        [] \<Rightarrow> [c # cs]
      | _ # rest \<Rightarrow> strip_cr (takeWhile (\<lambda>x. x \<noteq> newline) (c # cs)) # str_lines rest)"
  by pat_completeness auto
termination
proof (relation "measure length")
  fix c cs x rest
  assume "dropWhile (\<lambda>x. x \<noteq> newline) (c # cs) = x # rest"
  then have "length (x # rest) \<le> length (c # cs)"
    by (metis length_dropWhile_le)
  then show "(rest, c # cs) \<in> measure length" by simp
qed simp

fun splitn :: "nat \<Rightarrow> char \<Rightarrow> string \<Rightarrow> string list" where
  "splitn 0 d s = []"
| "splitn (Suc 0) d s = [s]"
| "splitn (Suc (Suc n)) d s =
     (case dropWhile (\<lambda>x. x \<noteq> d) s of
        [] \<Rightarrow> [s]
      | _ # rest \<Rightarrow> takeWhile (\<lambda>x. x \<noteq> d) s # splitn (Suc n) d rest)"

fun replace_first :: "string \<Rightarrow> string \<Rightarrow> string \<Rightarrow> string" where
  "replace_first old new [] = (if old = [] then new else [])"
| "replace_first old new (c # cs) =
     (if starts_with (c # cs) old then new @ drop (length old) (c # cs)
      else c # replace_first old new cs)"

definition is_continuation :: "char \<Rightarrow> bool" where
  "is_continuation c \<longleftrightarrow> 128 \<le> (of_char c :: nat) \<and> (of_char c :: nat) < 192"

definition is_char_boundary :: "string \<Rightarrow> nat \<Rightarrow> bool" where
  "is_char_boundary s n \<longleftrightarrow> n = 0 \<or> n = length s \<or> (n < length s \<and> \<not> is_continuation (s ! n))"

definition str_slice_to :: "string \<Rightarrow> nat \<Rightarrow> string result" where
  "str_slice_to s n =
     (if is_char_boundary s n then Inr (take n s)
      else Inl (Panic ''byte index is not a char boundary''))"

definition is_ascii_digit :: "char \<Rightarrow> bool" where
  "is_ascii_digit c \<longleftrightarrow> CHR ''0'' \<le> c \<and> c \<le> CHR ''9''"

definition digit_char :: "nat \<Rightarrow> char" where
  "digit_char n = char_of (48 + n)"

fun show_nat :: "nat \<Rightarrow> string" where
  "show_nat n = (if n < 10 then [digit_char n] else show_nat (n div 10) @ [digit_char (n mod 10)])"

declare show_nat.simps [simp del]

definition show_int :: "int \<Rightarrow> string" where
  "show_int i = (if i < 0 then ''-'' @ show_nat (nat (- i)) else show_nat (nat i))"

definition digit_value :: "char \<Rightarrow> nat" where
  "digit_value c = of_char c - 48"

definition parse_digits :: "string \<Rightarrow> nat" where
  "parse_digits s = foldl (\<lambda>acc c. 10 * acc + digit_value c) 0 s"

text \<open>\<open>str::parse::<u64>\<close>: an optional plus sign, then digits, within 64 bits.\<close>

definition parse_u64 :: "string \<Rightarrow> nat option" where
  "parse_u64 s =
     (let ds = (case s of [] \<Rightarrow> [] | c # cs \<Rightarrow> if c = CHR ''+'' then cs else s)
      in if ds = [] \<or> \<not> list_all is_ascii_digit ds then None
         else if parse_digits ds < 2 ^ 64 then Some (parse_digits ds) else None)"

text \<open>The debug format \<open>{:?}\<close> of strings and of vectors of strings; bytes above ASCII are printed as
  they are.\<close>

definition hex_digit :: "nat \<Rightarrow> char" where
  "hex_digit n = (if n < 10 then char_of (48 + n) else char_of (87 + n))"

definition debug_char :: "char \<Rightarrow> string" where
  "debug_char c =
     (let n = (of_char c :: nat) in
      if c = CHR 0x22 then [CHR 0x5C, CHR 0x22]
      else if c = CHR 0x5C then [CHR 0x5C, CHR 0x5C]
      else if n = 0 then [CHR 0x5C, CHR ''0'']
      else if n = 9 then [CHR 0x5C, CHR ''t'']
      else if n = 10 then [CHR 0x5C, CHR ''n'']
      else if n = 13 then [CHR 0x5C, CHR ''r'']
      else if n < 16 then [CHR 0x5C, CHR ''u'', CHR 0x7B, hex_digit n, CHR 0x7D]
      else if n < 32 \<or> n = 127
      then [CHR 0x5C, CHR ''u'', CHR 0x7B, hex_digit (n div 16), hex_digit (n mod 16), CHR 0x7D]
      else [c])"

definition debug_str :: "string \<Rightarrow> string" where
  "debug_str s = [CHR 0x22] @ concat (map debug_char s) @ [CHR 0x22]"

definition debug_list :: "string list \<Rightarrow> string" where
  "debug_list xs = ''['' @ join '', '' (map debug_str xs) @ '']''"

text \<open>A loop that returns at the first element for which it has a result.\<close>

fun find_map :: "('a \<Rightarrow> 'b option) \<Rightarrow> 'a list \<Rightarrow> 'b option" where
  "find_map f [] = None"
| "find_map f (x # xs) = (case f x of None \<Rightarrow> find_map f xs | Some y \<Rightarrow> Some y)"

lemma find_map_None_iff: "find_map f xs = None \<longleftrightarrow> (\<forall>x \<in> set xs. f x = None)"
  by (induction xs) (auto split: option.splits)

lemma find_map_SomeD: "find_map f xs = Some y \<Longrightarrow> \<exists>x \<in> set xs. f x = Some y"
  by (induction xs) (auto split: option.splits)

lemma find_map_find: "find_map (\<lambda>x. if P x then Some (g x) else None) xs = map_option g (find P xs)"
  by (induction xs) auto

text \<open>\<open>n as i64\<close> for a 64-bit \<open>usize\<close>: the value is reinterpreted in two's complement.\<close>

definition usize_as_i64 :: "nat \<Rightarrow> int" where
  "usize_as_i64 n = sint (word_of_nat n :: 64 word)"


subsection \<open>Lemmas on byte strings\<close>

lemma starts_with_iff_prefix: "starts_with s p \<longleftrightarrow> prefix p s"
  by (metis starts_with_def append_eq_conv_conj prefix_def)

lemma starts_with_append [simp]: "starts_with (p @ s) p"
  by (simp add: starts_with_def)

lemma starts_with_refl [simp]: "starts_with s s"
  by (simp add: starts_with_def)

lemma starts_with_Nil [simp]: "starts_with s []"
  by (simp add: starts_with_def)

lemma starts_with_Cons [simp]: "starts_with (c # s) (d # p) \<longleftrightarrow> c = d \<and> starts_with s p"
  by (simp add: starts_with_def)

lemma starts_with_Nil_iff [simp]: "starts_with [] p \<longleftrightarrow> p = []"
  by (cases p) (simp_all add: starts_with_def)

lemma contains_iff_sublist: "contains s p \<longleftrightarrow> sublist p s"
  by (induction s) (auto simp: starts_with_iff_prefix sublist_Cons_right)

lemma contains_Nil [simp]: "contains s []"
  by (simp add: contains_iff_sublist)

lemma strip_prefix_append [simp]: "strip_prefix p (p @ s) = Some s"
  by (simp add: strip_prefix_def)

lemma strip_prefix_SomeD: "strip_prefix p s = Some r \<Longrightarrow> s = p @ r"
  by (auto simp: strip_prefix_def starts_with_def split: if_splits)
     (metis append_take_drop_id)

lemma replace_first_spec:
  "contains s old \<Longrightarrow> \<exists>a b. s = a @ old @ b \<and> replace_first old new s = a @ new @ b
     \<and> (\<forall>a' b'. s = a' @ old @ b' \<longrightarrow> length a \<le> length a')"
proof (induction s)
  case (Cons c cs)
  show ?case
  proof (cases "starts_with (c # cs) old")
    case True
    then have "c # cs = [] @ old @ drop (length old) (c # cs)"
      by (metis append_Nil append_take_drop_id starts_with_def)
    with True show ?thesis
      by (intro exI [of _ "[]"] exI [of _ "drop (length old) (c # cs)"]) simp
  next
    case False
    with Cons obtain a b where ab: "cs = a @ old @ b" "replace_first old new cs = a @ new @ b"
      "\<forall>a' b'. cs = a' @ old @ b' \<longrightarrow> length a \<le> length a'" by auto
    have "length (c # a) \<le> length a'" if "c # cs = a' @ old @ b'" for a' b'
      using that False ab(3) by (cases a') (auto simp: starts_with_iff_prefix)
    with False ab(1,2) show ?thesis
      by (intro exI [of _ "c # a"] exI [of _ b]) auto
  qed
qed simp

lemma join_singleton_eq: "join sep [x] = x"
  by simp

lemma strip_leading_fix: "leading ws (strip_leading ws s) = None"
proof (induction ws s rule: strip_leading.induct)
  case (1 ws s)
  then show ?case
    by (cases "leading ws s") (auto simp: strip_leading.simps [of ws s])
qed

lemma strip_leading_idem [simp]: "strip_leading ws (strip_leading ws s) = strip_leading ws s"
  by (subst strip_leading.simps) (simp add: strip_leading_fix)

lemma strip_leading_suffix: "suffix (strip_leading ws s) s"
proof (induction ws s rule: strip_leading.induct)
  case (1 ws s)
  show ?case
  proof (cases "leading ws s")
    case None
    then show ?thesis by (simp add: strip_leading.simps [of ws s])
  next
    case (Some w)
    with "1" have "suffix (strip_leading ws (drop (length w) s)) (drop (length w) s)"
      by simp
    with Some show ?thesis
      by (simp add: strip_leading.simps [of ws s]) (metis suffix_drop suffix_order.trans)
  qed
qed

lemma strip_leading_length: "length (strip_leading ws s) \<le> length s"
  using strip_leading_suffix by (rule suffix_length_le)

lemma trim_length: "length (trim s) \<le> length s"
  unfolding trim_def trim_end_def trim_start_def
  by (metis length_rev order_trans strip_leading_length)

lemma to_lowercase_eq_Nil [simp]: "to_lowercase s = [] \<longleftrightarrow> s = []"
  by (cases s) auto

lemma of_char_char_of_small: "n < 256 \<Longrightarrow> (of_char (char_of n) :: nat) = n"
  by simp

lemma ascii_lower_not_upper: "\<not> (65 \<le> (of_char (ascii_lower c) :: nat) \<and> (of_char (ascii_lower c) :: nat) \<le> 90)"
  by (auto simp: ascii_lower_def Let_def)

lemma str_slice_to_length: "str_slice_to s n = Inr t \<Longrightarrow> length t \<le> n \<and> prefix t s"
  by (auto simp: str_slice_to_def take_is_prefix split: if_splits)

lemma usize_max_as_i64: "usize_as_i64 (2 ^ 64 - 1) = -1"
  by (simp add: usize_as_i64_def)

lemma usize_small_as_i64: "n < 2 ^ 63 \<Longrightarrow> usize_as_i64 n = int n"
proof -
  assume n: "n < 2 ^ 63"
  then have "take_bit 64 (int n) = int n"
    by (simp add: take_bit_int_eq_self)
  with n show ?thesis
    by (simp add: usize_as_i64_def signed_take_bit_int_eq_self sint_uint unsigned_of_nat
        take_bit_nat_eq_self)
qed


subsection \<open>Lines\<close>

text \<open>Lines that survive being written out one by one and read back: \<open>str::lines\<close> gives them again.\<close>

definition plain_line :: "string \<Rightarrow> bool" where
  "plain_line l \<longleftrightarrow> newline \<notin> set l \<and> strip_cr l = l"

definition as_text :: "string list \<Rightarrow> string" where
  "as_text ls = concat (map (\<lambda>l. l @ [newline]) ls)"

lemma str_lines_line:
  assumes "plain_line l"
  shows "str_lines (l @ newline # rest) = l # str_lines rest"
proof -
  from assms have "newline \<notin> set l" by (simp add: plain_line_def)
  then have "dropWhile (\<lambda>x. x \<noteq> newline) (l @ newline # rest) = newline # rest"
    "takeWhile (\<lambda>x. x \<noteq> newline) (l @ newline # rest) = l"
    by (induction l) auto
  then show ?thesis using assms by (cases l) (auto simp: plain_line_def)
qed

lemma str_lines_last:
  assumes "newline \<notin> set l" "l \<noteq> []"
  shows "str_lines l = [l]"
proof -
  have "dropWhile (\<lambda>x. x \<noteq> newline) l = []" using assms(1) by (auto simp: dropWhile_eq_Nil_conv)
  with assms(2) show ?thesis by (cases l) simp_all
qed

lemma str_lines_text:
  "list_all plain_line ls \<Longrightarrow> newline \<notin> set l \<Longrightarrow> l \<noteq> [] \<Longrightarrow> str_lines (as_text ls @ l) = ls @ [l]"
  by (induction ls) (simp_all add: as_text_def str_lines_line str_lines_last)

lemma str_lines_snoc:
  "c = [] \<or> last c = newline \<Longrightarrow> plain_line l \<Longrightarrow> str_lines (c @ l @ [newline]) = str_lines c @ [l]"
proof (induction c rule: str_lines.induct)
  case 1
  then show ?case using str_lines_line [of l "[]"] by simp
next
  case (2 x xs)
  let ?P = "\<lambda>x. x \<noteq> newline"
  from "2.prems"(1) have "newline \<in> set (x # xs)" by (metis last_in_set list.distinct(1))
  then obtain rest where d: "dropWhile ?P (x # xs) = newline # rest"
    by (metis (mono_tags, lifting) dropWhile_eq_Cons_conv dropWhile_eq_Nil_conv list.exhaust)
  then have e: "x # xs = takeWhile ?P (x # xs) @ newline # rest" by (metis takeWhile_dropWhile_id)
  then have "rest = [] \<or> last rest = newline" using "2.prems"(1) by (metis last.simps last_appendR list.distinct(1))
  with "2.IH" [OF d] "2.prems"(2) have "str_lines (rest @ l @ [newline]) = str_lines rest @ [l]" by simp
  moreover have "dropWhile ?P ((x # xs) @ l @ [newline]) = newline # rest @ l @ [newline]"
    "takeWhile ?P ((x # xs) @ l @ [newline]) = takeWhile ?P (x # xs)"
    using \<open>newline \<in> set (x # xs)\<close> d by (auto simp: dropWhile_append takeWhile_append)
  ultimately show ?case using d by simp
qed

lemma str_lines_newline:
  "c \<noteq> [] \<Longrightarrow> last c \<noteq> newline \<Longrightarrow> last c \<noteq> CHR 0x0D \<Longrightarrow> str_lines (c @ [newline]) = str_lines c"
proof (induction c rule: str_lines.induct)
  case (2 x xs)
  let ?P = "\<lambda>x. x \<noteq> newline"
  show ?case
  proof (cases "dropWhile ?P (x # xs)")
    case Nil
    then have n: "newline \<notin> set (x # xs)" unfolding dropWhile_eq_Nil_conv by blast
    moreover have "plain_line (x # xs)" using n "2.prems"(3) by (simp add: plain_line_def strip_cr_def)
    ultimately show ?thesis using str_lines_line [of "x # xs" "[]"] str_lines_last [of "x # xs"] by simp
  next
    case (Cons y rest)
    have "y = newline" using Cons by (metis (full_types) dropWhile_eq_Cons_conv)
    with Cons have e: "x # xs = takeWhile ?P (x # xs) @ newline # rest" by (metis takeWhile_dropWhile_id)
    have "rest \<noteq> []" using "2.prems"(2) e by (metis last_snoc)
    moreover from this e have "last rest = last (x # xs)" by (metis last.simps last_appendR list.distinct(1))
    ultimately have "str_lines (rest @ [newline]) = str_lines rest" using "2.IH" [OF Cons] "2.prems" by simp
    moreover have "newline \<in> set (x # xs)" using e by (metis in_set_conv_decomp)
    then have "dropWhile ?P ((x # xs) @ [newline]) = newline # rest @ [newline]"
      "takeWhile ?P ((x # xs) @ [newline]) = takeWhile ?P (x # xs)"
      using Cons \<open>y = newline\<close> by (auto simp: dropWhile_append takeWhile_append)
    ultimately show ?thesis using Cons \<open>y = newline\<close> by simp
  qed
qed simp


section \<open>Sorted lists\<close>

lemma sorted_remdups_adj_distinct: "sorted xs \<Longrightarrow> distinct (remdups_adj xs)"
  by (induction xs rule: remdups_adj.induct) (auto dest: order.antisym)

end
