(* ===== verification/Protocol_Methods.thy ===== *)
theory Protocol_Methods
  imports Harness_Prelude
begin

text \<open>
  The method names of the internal JSON-RPC surface
  (\<open>src/codex-rs/deterministic-protocol/src/methods.rs\<close>): the enum, its wire names, the parser,
  the enumeration of all methods and the names that must never be served.
\<close>

datatype Method =
    RunPrepare | RunRefresh | RunReplan | WorkspaceSummary | FileRead
  | GitStatus | CodeSearch | PatchApply | TestsRun | GitDiff
  | ApprovalResolve | RunsList | RunGet | RunHistory | PatchPreflight
  | TestsPreflight | RunFinalize | RunReopen | RunSupersede | RunArchive
  | RunUnarchive | RunAnnotate | RunPin | RunUnpin | RunSnooze
  | RunUnsnooze | RunSetPriority | RunAssignOwner | RunSetDueDate | RunSetDependencies
  | RunsQueueOverview | RunSetEffort | CommandRun | QueueViewCreate | QueueViewUpdate
  | QueueViewDelete | QueueViewGet | QueueViewList

fun method_as_str :: "Method \<Rightarrow> string" where
  "method_as_str RunPrepare = ''run.prepare''"
| "method_as_str RunRefresh = ''run.refresh''"
| "method_as_str RunReplan = ''run.replan''"
| "method_as_str WorkspaceSummary = ''workspace.summary''"
| "method_as_str FileRead = ''file.read''"
| "method_as_str GitStatus = ''git.status''"
| "method_as_str CodeSearch = ''code.search''"
| "method_as_str PatchApply = ''patch.apply''"
| "method_as_str TestsRun = ''tests.run''"
| "method_as_str GitDiff = ''git.diff''"
| "method_as_str ApprovalResolve = ''approval.resolve''"
| "method_as_str RunsList = ''runs.list''"
| "method_as_str RunGet = ''run.get''"
| "method_as_str RunHistory = ''run.history''"
| "method_as_str PatchPreflight = ''patch.preflight''"
| "method_as_str TestsPreflight = ''tests.preflight''"
| "method_as_str RunFinalize = ''run.finalize''"
| "method_as_str RunReopen = ''run.reopen''"
| "method_as_str RunSupersede = ''run.supersede''"
| "method_as_str RunArchive = ''run.archive''"
| "method_as_str RunUnarchive = ''run.unarchive''"
| "method_as_str RunAnnotate = ''run.annotate''"
| "method_as_str RunPin = ''run.pin''"
| "method_as_str RunUnpin = ''run.unpin''"
| "method_as_str RunSnooze = ''run.snooze''"
| "method_as_str RunUnsnooze = ''run.unsnooze''"
| "method_as_str RunSetPriority = ''run.set_priority''"
| "method_as_str RunAssignOwner = ''run.assign_owner''"
| "method_as_str RunSetDueDate = ''run.set_due_date''"
| "method_as_str RunSetDependencies = ''run.set_dependencies''"
| "method_as_str RunsQueueOverview = ''runs.overview''"
| "method_as_str RunSetEffort = ''run.set_effort''"
| "method_as_str CommandRun = ''run.command''"
| "method_as_str QueueViewCreate = ''queue_view.create''"
| "method_as_str QueueViewUpdate = ''queue_view.update''"
| "method_as_str QueueViewDelete = ''queue_view.delete''"
| "method_as_str QueueViewGet = ''queue_view.get''"
| "method_as_str QueueViewList = ''queue_view.list''"

definition parse_method :: "string \<Rightarrow> Method option" where
  "parse_method s =
     (if s = ''run.prepare'' then Some RunPrepare
      else if s = ''run.refresh'' then Some RunRefresh
      else if s = ''run.replan'' then Some RunReplan
      else if s = ''workspace.summary'' then Some WorkspaceSummary
      else if s = ''file.read'' then Some FileRead
      else if s = ''git.status'' then Some GitStatus
      else if s = ''code.search'' then Some CodeSearch
      else if s = ''patch.apply'' then Some PatchApply
      else if s = ''tests.run'' then Some TestsRun
      else if s = ''git.diff'' then Some GitDiff
      else if s = ''approval.resolve'' then Some ApprovalResolve
      else if s = ''runs.list'' then Some RunsList
      else if s = ''run.get'' then Some RunGet
      else if s = ''run.history'' then Some RunHistory
      else if s = ''patch.preflight'' then Some PatchPreflight
      else if s = ''tests.preflight'' then Some TestsPreflight
      else if s = ''run.finalize'' then Some RunFinalize
      else if s = ''run.reopen'' then Some RunReopen
      else if s = ''run.supersede'' then Some RunSupersede
      else if s = ''run.archive'' then Some RunArchive
      else if s = ''run.unarchive'' then Some RunUnarchive
      else if s = ''run.annotate'' then Some RunAnnotate
      else if s = ''run.pin'' then Some RunPin
      else if s = ''run.unpin'' then Some RunUnpin
      else if s = ''run.snooze'' then Some RunSnooze
      else if s = ''run.unsnooze'' then Some RunUnsnooze
      else if s = ''run.set_priority'' then Some RunSetPriority
      else if s = ''run.assign_owner'' then Some RunAssignOwner
      else if s = ''run.set_due_date'' then Some RunSetDueDate
      else if s = ''run.set_dependencies'' then Some RunSetDependencies
      else if s = ''run.set_effort'' then Some RunSetEffort
      else if s = ''run.command'' then Some CommandRun
      else if s = ''runs.overview'' then Some RunsQueueOverview
      else if s = ''queue_view.create'' then Some QueueViewCreate
      else if s = ''queue_view.update'' then Some QueueViewUpdate
      else if s = ''queue_view.delete'' then Some QueueViewDelete
      else if s = ''queue_view.get'' then Some QueueViewGet
      else if s = ''queue_view.list'' then Some QueueViewList
      else None)"

definition method_all :: "Method list" where
  "method_all =
     [RunPrepare, RunRefresh, RunReplan, WorkspaceSummary, FileRead,
      GitStatus, CodeSearch, PatchApply, TestsRun, GitDiff,
      ApprovalResolve, RunsList, RunGet, RunHistory, PatchPreflight,
      TestsPreflight, RunFinalize, RunReopen, RunSupersede, RunArchive,
      RunUnarchive, RunAnnotate, RunPin, RunUnpin, RunSnooze,
      RunUnsnooze, RunSetPriority, RunAssignOwner, RunSetDueDate, RunSetDependencies,
      RunsQueueOverview, RunSetEffort, CommandRun, QueueViewCreate, QueueViewUpdate,
      QueueViewDelete, QueueViewGet, QueueViewList]"

definition FORBIDDEN_METHODS :: "string list" where
  "FORBIDDEN_METHODS = [''turn.start'', ''turn.steer'', ''review.start'', ''agent.step'', ''run.continue'']"

lemma parse_method_as_str [simp]: "parse_method (method_as_str m) = Some m"
  by (induct m) code_simp+

lemma parse_method_SomeD: "parse_method s = Some m \<Longrightarrow> s = method_as_str m"
  unfolding parse_method_def by (elim if_eq_SomeE) simp_all

lemma parse_method_iff: "parse_method s = Some m \<longleftrightarrow> s = method_as_str m"
  using parse_method_SomeD by auto

lemma method_all_complete: "set method_all = UNIV"
proof -
  have "m \<in> set method_all" for m
    by (cases m) (simp_all add: method_all_def)
  then show ?thesis by auto
qed

lemma method_all_distinct: "distinct method_all"
  by (simp add: method_all_def)

lemma forbidden_all_unparsed: "list_all (\<lambda>s. parse_method s = None) FORBIDDEN_METHODS"
  by code_simp

lemma forbidden_not_method: "s \<in> set FORBIDDEN_METHODS \<Longrightarrow> parse_method s = None"
  using forbidden_all_unparsed by (auto simp: list_all_iff)

end
