(* ===== verification/Protocol_Types.thy ===== *)
theory Protocol_Types
  imports Harness_Prelude
begin

text \<open>
  The request and response structures of \<open>src/codex-rs/deterministic-protocol/src/types.rs\<close>, one
  record per struct and one datatype per enum, with the field names of the source behind a short
  prefix (none for \<open>RunState\<close>, the state the daemon persists for a run). \<open>usize\<close>, \<open>u64\<close> and the
  exit codes are unbounded here; the counters \<open>reopen_count\<close> and \<open>age_days\<close>, which the code
  increments or casts, keep their 32 bits. A \<open>serde_json::Value\<close> is a type parameter.
\<close>

section \<open>JSON-RPC envelope\<close>

record 'j JsonRpcRequest =
  rq_jsonrpc :: string
  rq_id :: "'j"
  rq_method :: string
  rq_params :: "'j"

record 'j JsonRpcError =
  je_code :: int
  je_message :: string
  je_data :: "'j option"

record 'j JsonRpcResponse =
  rs_jsonrpc :: string
  rs_id :: "'j"
  rs_result :: "'j option"
  rs_error :: "('j JsonRpcError) option"

section \<open>Run policy\<close>

record RunPolicy =
  pol_patch_edit_threshold :: nat
  pol_delete_requires_approval :: bool
  pol_sensitive_path_requires_approval :: bool
  pol_outside_focus_requires_approval :: bool
  pol_extra_safe_make_targets :: "string list"
  pol_focus_paths :: "string list"

definition default_policy :: RunPolicy where
  "default_policy =
     \<lparr>pol_patch_edit_threshold = 5, pol_delete_requires_approval = True,
      pol_sensitive_path_requires_approval = True, pol_outside_focus_requires_approval = True,
      pol_extra_safe_make_targets = [], pol_focus_paths = []\<rparr>"

record RunPolicyInput =
  polin_patch_edit_threshold :: "nat option"
  polin_delete_requires_approval :: "bool option"
  polin_sensitive_path_requires_approval :: "bool option"
  polin_outside_focus_requires_approval :: "bool option"
  polin_extra_safe_make_targets :: "string list option"

definition default_policy_input :: RunPolicyInput where
  "default_policy_input =
     \<lparr>polin_patch_edit_threshold = None, polin_delete_requires_approval = None,
      polin_sensitive_path_requires_approval = None, polin_outside_focus_requires_approval = None,
      polin_extra_safe_make_targets = None\<rparr>"

definition into_policy :: "RunPolicyInput \<Rightarrow> string list \<Rightarrow> RunPolicy" where
  "into_policy self paths =
     \<lparr>pol_patch_edit_threshold =
        unwrap_or (pol_patch_edit_threshold default_policy) (polin_patch_edit_threshold self),
      pol_delete_requires_approval =
        unwrap_or (pol_delete_requires_approval default_policy) (polin_delete_requires_approval self),
      pol_sensitive_path_requires_approval =
        unwrap_or (pol_sensitive_path_requires_approval default_policy)
          (polin_sensitive_path_requires_approval self),
      pol_outside_focus_requires_approval =
        unwrap_or (pol_outside_focus_requires_approval default_policy)
          (polin_outside_focus_requires_approval self),
      pol_extra_safe_make_targets =
        map to_lowercase (unwrap_or [] (polin_extra_safe_make_targets self)),
      pol_focus_paths = paths\<rparr>"

section \<open>Enumerations\<close>

datatype RunPriority = Low | Normal | High | Urgent

fun priority_as_str :: "RunPriority \<Rightarrow> string" where
  "priority_as_str Low = ''low''"
| "priority_as_str Normal = ''normal''"
| "priority_as_str High = ''high''"
| "priority_as_str Urgent = ''urgent''"

definition priority_parse :: "string \<Rightarrow> RunPriority option" where
  "priority_parse s =
     (if s = ''low'' then Some Low else if s = ''normal'' then Some Normal
      else if s = ''high'' then Some High else if s = ''urgent'' then Some Urgent else None)"

definition priority_all :: "RunPriority list" where
  "priority_all = [Low, Normal, High, Urgent]"

fun priority_sort_key :: "RunPriority \<Rightarrow> int" where
  "priority_sort_key Low = 0"
| "priority_sort_key Normal = 1"
| "priority_sort_key High = 2"
| "priority_sort_key Urgent = 3"

datatype RunEffort = Small | Medium | Large

fun effort_as_str :: "RunEffort \<Rightarrow> string" where
  "effort_as_str Small = ''small''"
| "effort_as_str Medium = ''medium''"
| "effort_as_str Large = ''large''"

definition effort_parse :: "string \<Rightarrow> RunEffort option" where
  "effort_parse s =
     (if s = ''small'' then Some Small else if s = ''medium'' then Some Medium
      else if s = ''large'' then Some Large else None)"

definition effort_all :: "RunEffort list" where
  "effort_all = [Small, Medium, Large]"

fun effort_sort_key :: "RunEffort \<Rightarrow> int" where
  "effort_sort_key Small = 0"
| "effort_sort_key Medium = 1"
| "effort_sort_key Large = 2"

datatype RunStaleness = Fresh | Aging | Stale

fun staleness_as_str :: "RunStaleness \<Rightarrow> string" where
  "staleness_as_str Fresh = ''fresh''"
| "staleness_as_str Aging = ''aging''"
| "staleness_as_str Stale = ''stale''"

definition staleness_parse :: "string \<Rightarrow> RunStaleness option" where
  "staleness_parse s =
     (if s = ''fresh'' then Some Fresh else if s = ''aging'' then Some Aging
      else if s = ''stale'' then Some Stale else None)"

fun staleness_sort_key :: "RunStaleness \<Rightarrow> int" where
  "staleness_sort_key Fresh = 0"
| "staleness_sort_key Aging = 1"
| "staleness_sort_key Stale = 2"

datatype RunTriageBucket = Critical | Attention | Ready | Blocked | Deferred | Done

fun triage_sort_key :: "RunTriageBucket \<Rightarrow> int" where
  "triage_sort_key Critical = 5"
| "triage_sort_key Attention = 4"
| "triage_sort_key Ready = 3"
| "triage_sort_key Blocked = 2"
| "triage_sort_key Deferred = 1"
| "triage_sort_key Done = 0"

fun triage_display :: "RunTriageBucket \<Rightarrow> string" where
  "triage_display Critical = ''critical''"
| "triage_display Attention = ''attention''"
| "triage_display Ready = ''ready''"
| "triage_display Blocked = ''blocked''"
| "triage_display Deferred = ''deferred''"
| "triage_display Done = ''done''"

text \<open>The derived order of \<open>RunPriority\<close> and \<open>RunEffort\<close> (constructor order).\<close>

instantiation RunPriority :: linorder
begin
definition less_eq_RunPriority :: "RunPriority \<Rightarrow> RunPriority \<Rightarrow> bool" where
  "less_eq_RunPriority a b \<longleftrightarrow> priority_sort_key a \<le> priority_sort_key b"
definition less_RunPriority :: "RunPriority \<Rightarrow> RunPriority \<Rightarrow> bool" where
  "less_RunPriority a b \<longleftrightarrow> priority_sort_key a < priority_sort_key b"
instance
proof
  fix a b c :: RunPriority
  show "a < b \<longleftrightarrow> a \<le> b \<and> \<not> b \<le> a"
    by (auto simp: less_eq_RunPriority_def less_RunPriority_def)
  show "a \<le> a" by (simp add: less_eq_RunPriority_def)
  show "a \<le> b \<Longrightarrow> b \<le> c \<Longrightarrow> a \<le> c" by (simp add: less_eq_RunPriority_def)
  show "a \<le> b \<Longrightarrow> b \<le> a \<Longrightarrow> a = b"
    by (cases a; cases b) (simp_all add: less_eq_RunPriority_def)
  show "a \<le> b \<or> b \<le> a" by (auto simp: less_eq_RunPriority_def)
qed
end

instantiation RunEffort :: linorder
begin
definition less_eq_RunEffort :: "RunEffort \<Rightarrow> RunEffort \<Rightarrow> bool" where
  "less_eq_RunEffort a b \<longleftrightarrow> effort_sort_key a \<le> effort_sort_key b"
definition less_RunEffort :: "RunEffort \<Rightarrow> RunEffort \<Rightarrow> bool" where
  "less_RunEffort a b \<longleftrightarrow> effort_sort_key a < effort_sort_key b"
instance
proof
  fix a b c :: RunEffort
  show "a < b \<longleftrightarrow> a \<le> b \<and> \<not> b \<le> a"
    by (auto simp: less_eq_RunEffort_def less_RunEffort_def)
  show "a \<le> a" by (simp add: less_eq_RunEffort_def)
  show "a \<le> b \<Longrightarrow> b \<le> c \<Longrightarrow> a \<le> c" by (simp add: less_eq_RunEffort_def)
  show "a \<le> b \<Longrightarrow> b \<le> a \<Longrightarrow> a = b"
    by (cases a; cases b) (simp_all add: less_eq_RunEffort_def)
  show "a \<le> b \<or> b \<le> a" by (auto simp: less_eq_RunEffort_def)
qed
end

section \<open>Run state\<close>

record PendingApproval =
  pa_approval_id :: string
  pa_run_id :: string
  pa_action_description :: string
  pa_risk_reason :: string
  pa_policy_rationale :: string
  pa_status :: string
  pa_created_at :: string

record RetryableAction =
  ra_kind :: string
  ra_summary :: string
  ra_payload :: "string option"
  ra_retryable_reason :: string
  ra_is_valid :: bool
  ra_is_recommended :: bool
  ra_invalidation_reason :: "string option"
  ra_recommended_tool :: string
  ra_created_at :: string

record RunOutcome =
  out_outcome_kind :: string
  out_summary :: string
  out_reason :: "string option"
  out_finalized_at :: string

record ReopenMetadata =
  reopenM_reason :: string
  reopenM_reopened_at :: string
  reopenM_reopened_from_outcome_kind :: string
  reopenM_reopen_count :: "32 word"

record ArchiveMetadata =
  archiveM_reason :: string
  archiveM_archived_at :: string

record UnarchiveMetadata =
  unarchiveM_reason :: string
  unarchiveM_unarchived_at :: string

record RunAnnotation =
  ann_labels :: "string list"
  ann_operator_note :: "string option"

record PinMetadata =
  pinM_reason :: string
  pinM_pinned_at :: string

record SnoozeMetadata =
  snoozeM_reason :: string
  snoozeM_snoozed_at :: string

record RunState =
  run_id :: string
  workspace_id :: string
  user_goal :: string
  status :: string
  plan :: "string list"
  current_step :: nat
  completed_steps :: "string list"
  pending_steps :: "string list"
  last_action :: "string option"
  last_observation :: "string option"
  recommended_next_action :: "string option"
  recommended_tool :: "string option"
  latest_diff_summary :: "string option"
  latest_test_result :: "string option"
  focus_paths :: "string list"
  warnings :: "string list"
  retryable_action :: "RetryableAction option"
  policy_profile :: RunPolicy
  finalized_outcome :: "RunOutcome option"
  reopen_metadata :: "ReopenMetadata option"
  supersedes_run_id :: "string option"
  superseded_by_run_id :: "string option"
  supersession_reason :: "string option"
  superseded_at :: "string option"
  archive_metadata :: "ArchiveMetadata option"
  unarchive_metadata :: "UnarchiveMetadata option"
  annotation :: "RunAnnotation option"
  pin_metadata :: "PinMetadata option"
  snooze_metadata :: "SnoozeMetadata option"
  priority :: RunPriority
  assignee :: "string option"
  ownership_note :: "string option"
  due_date :: "string option"
  blocked_by_run_ids :: "string list"
  effort :: "RunEffort option"
  created_at :: string
  updated_at :: string

record 'j ResponseEnvelope =
  env_ok :: bool
  env_result :: "'j"
  env_run_state :: "RunState option"
  env_warnings :: "string list"
  env_audit_id :: string

section \<open>Lifecycle requests\<close>

record RunPrepareParams =
  prepareP_workspace_id :: string
  prepareP_user_goal :: string
  prepareP_focus_paths :: "string list"
  prepareP_mode :: "string option"
  prepareP_policy :: "RunPolicyInput option"

record RunPrepareResult =
  prepareR_run_id :: string
  prepareR_objective :: string
  prepareR_assistant_brief :: string
  prepareR_constraints :: "string list"
  prepareR_status :: string
  prepareR_plan :: "string list"
  prepareR_current_step :: nat
  prepareR_recommended_next_action :: string
  prepareR_recommended_tool :: string
  prepareR_effective_policy :: RunPolicy

record RunRefreshParams =
  refreshP_run_id :: string

record RunRefreshResult =
  refreshR_run_id :: string
  refreshR_status :: string
  refreshR_current_step :: nat
  refreshR_completed_steps :: "string list"
  refreshR_pending_steps :: "string list"
  refreshR_last_action :: "string option"
  refreshR_last_observation :: "string option"
  refreshR_recommended_next_action :: "string option"
  refreshR_recommended_tool :: "string option"
  refreshR_pending_approvals :: "PendingApproval list"
  refreshR_latest_diff_summary :: "string option"
  refreshR_latest_test_result :: "string option"
  refreshR_retryable_action :: "RetryableAction option"
  refreshR_warnings :: "string list"
  refreshR_effective_policy :: RunPolicy
  refreshR_finalized_outcome :: "RunOutcome option"
  refreshR_reopen_metadata :: "ReopenMetadata option"

record RunReplanParams =
  replanP_run_id :: string
  replanP_reason :: string
  replanP_new_evidence :: "string list"
  replanP_failure_context :: "string option"

record RunReplanResult =
  replanR_run_id :: string
  replanR_status :: string
  replanR_current_step :: nat
  replanR_pending_steps :: "string list"
  replanR_recommended_next_action :: string
  replanR_recommended_tool :: string
  replanR_replan_summary :: string
  replanR_retryable_action :: "RetryableAction option"
  replanR_replan_delta :: "string option"

record ApprovalResolveParams =
  approvalResolveP_run_id :: string
  approvalResolveP_approval_id :: string
  approvalResolveP_decision :: string
  approvalResolveP_reason :: "string option"

record ApprovalResolveResult =
  approvalResolveR_approval_id :: string
  approvalResolveR_run_id :: string
  approvalResolveR_decision :: string
  approvalResolveR_status :: string
  approvalResolveR_summary :: string
  approvalResolveR_recommended_next_action :: "string option"
  approvalResolveR_recommended_tool :: "string option"
  approvalResolveR_retryable_action :: "RetryableAction option"

definition VALID_OUTCOME_KINDS :: "string list" where
  "VALID_OUTCOME_KINDS = [''completed'', ''failed'', ''abandoned'']"

record RunFinalizeParams =
  finalizeP_run_id :: string
  finalizeP_outcome_kind :: string
  finalizeP_summary :: string
  finalizeP_reason :: "string option"

record RunFinalizeResult =
  finalizeR_run_id :: string
  finalizeR_outcome_kind :: string
  finalizeR_finalized_at :: string
  finalizeR_status :: string
  finalizeR_recommended_next_action :: string

record RunReopenParams =
  reopenP_run_id :: string
  reopenP_reason :: string

record RunReopenResult =
  reopenR_run_id :: string
  reopenR_status :: string
  reopenR_reopened_from_outcome_kind :: string
  reopenR_reopen_count :: "32 word"
  reopenR_reopened_at :: string
  reopenR_recommended_next_action :: string
  reopenR_recommended_tool :: string

record RunSupersedeParams =
  supersedeP_run_id :: string
  supersedeP_new_user_goal :: "string option"
  supersedeP_reason :: string

record RunSupersedeResult =
  supersedeR_original_run_id :: string
  supersedeR_successor_run_id :: string
  supersedeR_superseded_at :: string
  supersedeR_successor_status :: string
  supersedeR_recommended_next_action :: string
  supersedeR_recommended_tool :: string

record RunArchiveParams =
  archiveP_run_id :: string
  archiveP_reason :: string

record RunArchiveResult =
  archiveR_run_id :: string
  archiveR_status :: string
  archiveR_archived_at :: string
  archiveR_reason :: string
  archiveR_message :: string

record RunUnarchiveParams =
  unarchiveP_run_id :: string
  unarchiveP_reason :: string

record RunUnarchiveResult =
  unarchiveR_run_id :: string
  unarchiveR_status :: string
  unarchiveR_unarchived_at :: string
  unarchiveR_reason :: string
  unarchiveR_message :: string

section \<open>Metadata requests\<close>

definition LABEL_MAX_LEN :: nat where "LABEL_MAX_LEN = 64"

definition LABEL_MAX_COUNT :: nat where "LABEL_MAX_COUNT = 16"

definition OPERATOR_NOTE_MAX_LEN :: nat where "OPERATOR_NOTE_MAX_LEN = 1000"

definition PIN_REASON_MAX_LEN :: nat where "PIN_REASON_MAX_LEN = 500"

definition SNOOZE_REASON_MAX_LEN :: nat where "SNOOZE_REASON_MAX_LEN = 500"

definition PRIORITY_REASON_MAX_LEN :: nat where "PRIORITY_REASON_MAX_LEN = 500"

definition ASSIGNEE_MAX_LEN :: nat where "ASSIGNEE_MAX_LEN = 64"

definition OWNERSHIP_NOTE_MAX_LEN :: nat where "OWNERSHIP_NOTE_MAX_LEN = 500"

definition MAX_DEPENDENCY_COUNT :: nat where "MAX_DEPENDENCY_COUNT = 32"

record RunAnnotateParams =
  annotateP_run_id :: string
  annotateP_labels :: "string list option"
  annotateP_operator_note :: "string option"

record RunAnnotateResult =
  annotateR_run_id :: string
  annotateR_annotation :: RunAnnotation
  annotateR_message :: string

record RunPinParams =
  pinP_run_id :: string
  pinP_reason :: string

record RunPinResult =
  pinR_run_id :: string
  pinR_status :: string
  pinR_pinned_at :: string
  pinR_reason :: string
  pinR_message :: string

record RunUnpinParams =
  unpinP_run_id :: string
  unpinP_reason :: string

record RunUnpinResult =
  unpinR_run_id :: string
  unpinR_status :: string
  unpinR_message :: string

record RunSnoozeParams =
  snoozeP_run_id :: string
  snoozeP_reason :: string

record RunSnoozeResult =
  snoozeR_run_id :: string
  snoozeR_status :: string
  snoozeR_snoozed_at :: string
  snoozeR_reason :: string
  snoozeR_message :: string

record RunUnsnoozeParams =
  unsnoozeP_run_id :: string
  unsnoozeP_reason :: string

record RunUnsnoozeResult =
  unsnoozeR_run_id :: string
  unsnoozeR_status :: string
  unsnoozeR_message :: string

record RunSetPriorityParams =
  setPriorityP_run_id :: string
  setPriorityP_priority :: RunPriority
  setPriorityP_reason :: string

record RunSetPriorityResult =
  setPriorityR_run_id :: string
  setPriorityR_status :: string
  setPriorityR_previous_priority :: RunPriority
  setPriorityR_priority :: RunPriority
  setPriorityR_reason :: string
  setPriorityR_set_at :: string
  setPriorityR_message :: string

record RunAssignOwnerParams =
  assignOwnerP_run_id :: string
  assignOwnerP_assignee :: "string option option"
  assignOwnerP_ownership_note :: "string option option"

record RunAssignOwnerResult =
  assignOwnerR_run_id :: string
  assignOwnerR_status :: string
  assignOwnerR_previous_assignee :: "string option"
  assignOwnerR_assignee :: "string option"
  assignOwnerR_ownership_note :: "string option"
  assignOwnerR_updated_at :: string
  assignOwnerR_message :: string

record RunSetDueDateParams =
  setDueDateP_run_id :: string
  setDueDateP_due_date :: "string option option"

record RunSetDueDateResult =
  setDueDateR_run_id :: string
  setDueDateR_status :: string
  setDueDateR_previous_due_date :: "string option"
  setDueDateR_due_date :: "string option"
  setDueDateR_updated_at :: string
  setDueDateR_message :: string

record RunSetDependenciesParams =
  setDependenciesP_run_id :: string
  setDependenciesP_blocked_by_run_ids :: "string list"

record RunSetDependenciesResult =
  setDependenciesR_run_id :: string
  setDependenciesR_status :: string
  setDependenciesR_blocked_by_run_ids :: "string list"
  setDependenciesR_previous_blocked_by_run_ids :: "string list"
  setDependenciesR_updated_at :: string
  setDependenciesR_message :: string

record RunSetEffortParams =
  setEffortP_run_id :: string
  setEffortP_effort :: "RunEffort option option"

record RunSetEffortResult =
  setEffortR_run_id :: string
  setEffortR_status :: string
  setEffortR_previous_effort :: "RunEffort option"
  setEffortR_effort :: "RunEffort option"
  setEffortR_updated_at :: string
  setEffortR_message :: string

section \<open>Workspace requests\<close>

record WorkspaceSummaryParams =
  workspaceSummaryP_workspace_id :: string
  workspaceSummaryP_focus_paths :: "string list"

record WorkspaceSummaryResult =
  workspaceSummaryR_root :: string
  workspaceSummaryR_detected_languages :: "string list"
  workspaceSummaryR_dirty_files :: "string list"
  workspaceSummaryR_relevant_paths :: "string list"

record FileReadParams =
  fileReadP_run_id :: string
  fileReadP_path :: string
  fileReadP_start_line :: "nat option"
  fileReadP_end_line :: "nat option"
  fileReadP_purpose :: "string option"

record FileReadResult =
  fileReadR_path :: string
  fileReadR_content :: string
  fileReadR_start_line :: nat
  fileReadR_end_line :: nat
  fileReadR_total_lines :: nat

record GitStatusParams =
  gitStatusP_run_id :: string

record GitStatusResult =
  gitStatusR_branch :: string
  gitStatusR_dirty_files :: "string list"
  gitStatusR_untracked_files :: "string list"

record CodeSearchParams =
  codeSearchP_run_id :: string
  codeSearchP_query :: string
  codeSearchP_path_glob :: "string option"
  codeSearchP_max_results :: "nat option"

record CodeSearchMatch =
  match_path :: string
  match_line :: nat
  match_snippet :: string

record CodeSearchResult =
  codeSearchR_matches :: "CodeSearchMatch list"

record PatchEdit =
  edit_path :: string
  edit_operation :: string
  edit_start_line :: "nat option"
  edit_end_line :: "nat option"
  edit_old_text :: "string option"
  edit_new_text :: string
  edit_anchor_text :: "string option"
  edit_reason :: "string option"

record PatchApplyParams =
  patchApplyP_run_id :: string
  patchApplyP_edits :: "PatchEdit list"

record PatchApplyResult =
  patchApplyR_changed_files :: "string list"
  patchApplyR_diff_stats :: string
  patchApplyR_approval_required :: "PendingApproval option"

record TestsRunParams =
  testsRunP_run_id :: string
  testsRunP_scope :: string
  testsRunP_target :: "string option"
  testsRunP_reason :: string

record TestsRunResult =
  testsRunR_resolved_command :: string
  testsRunR_exit_code :: int
  testsRunR_stdout :: string
  testsRunR_stderr :: string
  testsRunR_summary :: string
  testsRunR_approval_required :: "PendingApproval option"

record GitDiffParams =
  gitDiffP_run_id :: string
  gitDiffP_paths :: "string list"
  gitDiffP_format :: "string option"

record GitDiffResult =
  gitDiffR_changed_files :: "string list"
  gitDiffR_diff_summary :: string
  gitDiffR_patch_text :: "string option"

datatype PreflightDecision = PreflightProceed | PreflightRequiresApproval

record PreflightResult =
  pf_decision :: PreflightDecision
  pf_action_summary :: "string option"
  pf_risk_reason :: "string option"
  pf_policy_rationale :: "string option"
  pf_effective_policy :: RunPolicy

record PatchPreflightParams =
  patchPreflightP_run_id :: string
  patchPreflightP_edits :: "PatchEdit list"

record TestsPreflightParams =
  testsPreflightP_run_id :: string
  testsPreflightP_scope :: string
  testsPreflightP_target :: "string option"
  testsPreflightP_reason :: "string option"

record CommandRunParams =
  commandRunP_run_id :: string
  commandRunP_command :: string
  commandRunP_args :: "string list"
  commandRunP_workdir :: "string option"
  commandRunP_timeout_secs :: "nat option"

record CommandRunResult =
  commandRunR_run_id :: string
  commandRunR_command :: string
  commandRunR_stdout :: string
  commandRunR_stderr :: string
  commandRunR_exit_code :: int
  commandRunR_duration_ms :: nat
  commandRunR_allowed :: bool
  commandRunR_denial_reason :: "string option"

section \<open>Round trips of the canonical texts\<close>

lemma priority_all_complete: "set priority_all = UNIV"
  by (auto simp: priority_all_def intro: RunPriority.exhaust)

lemma effort_all_complete: "set effort_all = UNIV"
  by (auto simp: effort_all_def intro: RunEffort.exhaust)

lemma priority_parse_as_str [simp]: "priority_parse (priority_as_str p) = Some p"
  by (cases p) (simp_all add: priority_parse_def)

lemma effort_parse_as_str [simp]: "effort_parse (effort_as_str e) = Some e"
  by (cases e) (simp_all add: effort_parse_def)

lemma staleness_parse_as_str [simp]: "staleness_parse (staleness_as_str s) = Some s"
  by (cases s) (simp_all add: staleness_parse_def)

lemma priority_parse_SomeD: "priority_parse s = Some p \<Longrightarrow> s = priority_as_str p"
  by (auto simp: priority_parse_def split: if_splits)

lemma effort_parse_SomeD: "effort_parse s = Some e \<Longrightarrow> s = effort_as_str e"
  by (auto simp: effort_parse_def split: if_splits)

lemma staleness_parse_SomeD: "staleness_parse s = Some b \<Longrightarrow> s = staleness_as_str b"
  by (auto simp: staleness_parse_def split: if_splits)

end
