(* ===== verification/Protocol_Queue.thy ===== *)
theory Protocol_Queue
  imports Protocol_Types
begin

text \<open>
  The structures of \<open>src/codex-rs/deterministic-protocol/src/types.rs\<close> for listing and inspecting
  runs: run summaries with their filters and sort flags, the queue overview, saved queue views, the
  full view of one run and the audit trail.
\<close>

section \<open>Listing\<close>

record RunSummary =
  sum_run_id :: string
  sum_workspace_id :: string
  sum_user_goal :: string
  sum_status :: string
  sum_current_step :: nat
  sum_total_steps :: nat
  sum_outcome_kind :: "string option"
  sum_reopen_count :: "(32 word) option"
  sum_supersedes_run_id :: "string option"
  sum_superseded_by_run_id :: "string option"
  sum_is_archived :: "bool option"
  sum_archive_reason :: "string option"
  sum_archived_at :: "string option"
  sum_unarchive_reason :: "string option"
  sum_unarchived_at :: "string option"
  sum_labels :: "string list"
  sum_operator_note :: "string option"
  sum_is_pinned :: "bool option"
  sum_pin_reason :: "string option"
  sum_pinned_at :: "string option"
  sum_is_snoozed :: "bool option"
  sum_snooze_reason :: "string option"
  sum_snoozed_at :: "string option"
  sum_priority :: RunPriority
  sum_assignee :: "string option"
  sum_due_date :: "string option"
  sum_is_blocked :: "bool option"
  sum_blocked_by_count :: "nat option"
  sum_is_blocking :: "bool option"
  sum_blocking_run_count :: "nat option"
  sum_blocking_reason :: "string option"
  sum_effort :: "RunEffort option"
  sum_age_days :: "(32 word) option"
  sum_is_stale :: "bool option"
  sum_staleness_reason :: "string option"
  sum_staleness_bucket :: "RunStaleness option"
  sum_triage_bucket :: "RunTriageBucket option"
  sum_triage_reason :: "string option"
  sum_created_at :: string
  sum_updated_at :: string

record RunsListParams =
  runsListP_limit :: "nat option"
  runsListP_workspace_id :: "string option"
  runsListP_status :: "string option"
  runsListP_include_archived :: "bool option"
  runsListP_archived_only :: "bool option"
  runsListP_label :: "string option"
  runsListP_pinned_only :: "bool option"
  runsListP_include_snoozed :: "bool option"
  runsListP_snoozed_only :: "bool option"
  runsListP_priority_filter :: "RunPriority option"
  runsListP_sort_by_priority :: "bool option"
  runsListP_assignee :: "string option"
  runsListP_due_on_or_before :: "string option"
  runsListP_sort_by_due_date :: "bool option"
  runsListP_blocked_only :: "bool option"
  runsListP_blocked_by_run_id :: "string option"
  runsListP_blocking_only :: "bool option"
  runsListP_blocking_run_count_at_least :: "nat option"
  runsListP_effort_filter :: "RunEffort option"
  runsListP_sort_by_effort :: "bool option"
  runsListP_stale_only :: "bool option"
  runsListP_fresh_only :: "bool option"
  runsListP_sort_by_staleness :: "bool option"
  runsListP_today :: "string option"
  runsListP_triage_bucket_filter :: "RunTriageBucket option"
  runsListP_sort_by_triage :: "bool option"

record RunsListResult =
  runsListR_runs :: "RunSummary list"
  runsListR_count :: nat

record RunsQueueOverviewParams =
  runsQueueOverviewP_workspace_id :: "string option"
  runsQueueOverviewP_include_archived :: "bool option"
  runsQueueOverviewP_include_snoozed :: "bool option"
  runsQueueOverviewP_today :: "string option"

record PriorityCounts =
  pc_low :: nat
  pc_normal :: nat
  pc_high :: nat
  pc_urgent :: nat

record RunQueueOverview =
  ov_total_visible :: nat
  ov_ready_count :: nat
  ov_blocked_count :: nat
  ov_needs_attention_count :: nat
  ov_pinned_count :: nat
  ov_snoozed_count :: nat
  ov_overdue_count :: "nat option"
  ov_archived_count :: "nat option"
  ov_by_priority :: PriorityCounts
  ov_by_assignee :: "string \<rightharpoonup> nat"
  ov_by_status :: "string \<rightharpoonup> nat"

section \<open>Saved queue views\<close>

record QueueViewFilters =
  qf_workspace_id :: "string option"
  qf_status :: "string option"
  qf_label :: "string option"
  qf_assignee :: "string option"
  qf_include_archived :: bool
  qf_include_snoozed :: bool
  qf_pinned_only :: bool
  qf_snoozed_only :: bool
  qf_archived_only :: bool
  qf_priority_filter :: "RunPriority option"
  qf_effort_filter :: "RunEffort option"
  qf_blocked_only :: bool
  qf_blocked_by_run_id :: "string option"
  qf_due_on_or_before :: "string option"
  qf_triage_bucket_filter :: "RunTriageBucket option"
  qf_stale_only :: bool
  qf_fresh_only :: bool
  qf_blocking_run_count_at_least :: "nat option"
  qf_today :: "string option"

record QueueViewSort =
  qs_sort_by_priority :: bool
  qs_sort_by_due_date :: bool
  qs_sort_by_effort :: bool
  qs_sort_by_triage :: bool
  qs_sort_by_staleness :: bool

record QueueView =
  qv_view_id :: string
  qv_name :: string
  qv_description :: "string option"
  qv_filters :: QueueViewFilters
  qv_sort :: QueueViewSort
  qv_limit :: "nat option"
  qv_created_at :: string
  qv_updated_at :: string

record CreateQueueViewParams =
  createQueueViewP_name :: string
  createQueueViewP_description :: "string option"
  createQueueViewP_filters :: QueueViewFilters
  createQueueViewP_sort :: QueueViewSort
  createQueueViewP_limit :: "nat option"

record CreateQueueViewResult =
  createQueueViewR_view :: QueueView

record UpdateQueueViewParams =
  updateQueueViewP_view_id :: string
  updateQueueViewP_name :: "string option"
  updateQueueViewP_description :: "string option option"
  updateQueueViewP_filters :: "QueueViewFilters option"
  updateQueueViewP_sort :: "QueueViewSort option"
  updateQueueViewP_limit :: "nat option option"

record UpdateQueueViewResult =
  updateQueueViewR_view :: QueueView

record DeleteQueueViewParams =
  deleteQueueViewP_view_id :: string

record DeleteQueueViewResult =
  deleteQueueViewR_deleted_view_id :: string

record GetQueueViewParams =
  getQueueViewP_view_id :: string

record ListQueueViewsParams =
  listQueueViewsP_name_contains :: "string option"

record ListQueueViewsResult =
  listQueueViewsR_views :: "QueueView list"
  listQueueViewsR_count :: nat

section \<open>One run and its history\<close>

record RunGetParams =
  getP_run_id :: string

record RunGetResult =
  getR_run_state :: RunState
  getR_pending_approvals :: "PendingApproval list"
  getR_retryable_action :: "RetryableAction option"
  getR_latest_diff_summary :: "string option"
  getR_latest_test_result :: "string option"
  getR_recommended_next_action :: "string option"
  getR_recommended_tool :: "string option"
  getR_warnings :: "string list"
  getR_effective_policy :: RunPolicy
  getR_finalized_outcome :: "RunOutcome option"
  getR_reopen_metadata :: "ReopenMetadata option"
  getR_supersedes_run_id :: "string option"
  getR_superseded_by_run_id :: "string option"
  getR_supersession_reason :: "string option"
  getR_superseded_at :: "string option"
  getR_archive_metadata :: "ArchiveMetadata option"
  getR_unarchive_metadata :: "UnarchiveMetadata option"
  getR_annotation :: "RunAnnotation option"
  getR_pin_metadata :: "PinMetadata option"
  getR_priority :: RunPriority
  getR_due_date :: "string option"
  getR_blocked_by_run_ids :: "string list"
  getR_is_blocking :: "bool option"
  getR_blocking_run_count :: "nat option"
  getR_blocking_reason :: "string option"
  getR_effort :: "RunEffort option"
  getR_triage_bucket :: "RunTriageBucket option"
  getR_triage_reason :: "string option"

record RunHistoryEntry =
  hist_entry_id :: string
  hist_run_id :: string
  hist_event_kind :: string
  hist_summary :: string
  hist_metadata :: "string option"
  hist_occurred_at :: string

record RunHistoryParams =
  historyP_run_id :: string
  historyP_limit :: "nat option"

record RunHistoryResult =
  historyR_run_id :: string
  historyR_entries :: "RunHistoryEntry list"
  historyR_count :: nat

end
