(* ===== verification/Table_Prelude.thy ===== *)
theory Table_Prelude
  imports Harness_Prelude
begin

text \<open>
  Shared ground of the components that keep tables: rows in row-id order under a text key, with the
  statements of SQLite the sources use on them, JSON values, and the arithmetic of \<open>i64\<close>.
\<close>

section \<open>Values\<close>

text \<open>JSON values; a number that is no integer is kept as its text.\<close>

datatype jval = JNull | JBool bool | JNum int | JFloat string | JStr string | JArr "jval list"
  | JObj "(string \<times> jval) list"

text \<open>Sums and differences of 64-bit signed integers wrap.\<close>

definition i64_add :: "int \<Rightarrow> int \<Rightarrow> int" where
  "i64_add a b = sint (word_of_int (a + b) :: 64 word)"

definition i64_sub :: "int \<Rightarrow> int \<Rightarrow> int" where
  "i64_sub a b = sint (word_of_int (a - b) :: 64 word)"


section \<open>Rows\<close>

text \<open>\<open>INSERT OR REPLACE\<close> and a lookup by primary key.\<close>

definition upsert :: "('a \<Rightarrow> string) \<Rightarrow> 'a \<Rightarrow> 'a list \<Rightarrow> 'a list" where
  "upsert key x xs = filter (\<lambda>y. key y \<noteq> key x) xs @ [x]"

definition lookup :: "('a \<Rightarrow> string) \<Rightarrow> string \<Rightarrow> 'a list \<Rightarrow> 'a option" where
  "lookup key k xs = find (\<lambda>x. key x = k) xs"

text \<open>\<open>INSERT\<close>, which a row with the same primary key makes fail, and \<open>UPDATE\<close> of the rows with a key.\<close>

definition insert_row :: "string \<Rightarrow> ('a \<Rightarrow> string) \<Rightarrow> 'a \<Rightarrow> 'a list \<Rightarrow> 'a list result" where
  "insert_row column key x xs =
     (if is_some (lookup key (key x) xs) then Inl (Bail (''UNIQUE constraint failed: '' @ column)) else Inr (xs @ [x]))"

definition update_rows :: "('a \<Rightarrow> string) \<Rightarrow> string \<Rightarrow> ('a \<Rightarrow> 'a) \<Rightarrow> 'a list \<Rightarrow> 'a list" where
  "update_rows key k f xs = map (\<lambda>x. if key x = k then f x else x) xs"

lemma lookup_upsert: "lookup key k (upsert key x xs) = (if k = key x then Some x else lookup key k xs)"
proof -
  have "find (\<lambda>y. key y = k) (filter (\<lambda>y. key y \<noteq> key x) xs @ [x]) =
        (if k = key x then Some x else find (\<lambda>y. key y = k) xs)"
    by (induction xs) auto
  then show ?thesis by (simp add: lookup_def upsert_def)
qed

lemma lookup_SomeD: "lookup key k xs = Some x \<Longrightarrow> key x = k \<and> x \<in> set xs"
  by (auto simp: lookup_def find_Some_iff)

lemma lookup_None_iff: "lookup key k xs = None \<longleftrightarrow> (\<forall>x \<in> set xs. key x \<noteq> k)"
  by (auto simp: lookup_def find_None_iff)

lemma lookup_update_rows:
  assumes "\<And>x. key (f x) = key x"
  shows "lookup key k (update_rows key k' f xs) = (if k = k' then map_option f else id) (lookup key k xs)"
  using assms by (induction xs) (auto simp: lookup_def update_rows_def)

lemma insert_row_Inr:
  "insert_row c key x xs = Inr ys \<longleftrightarrow> lookup key (key x) xs = None \<and> ys = xs @ [x]"
  by (auto simp: insert_row_def is_some_iff)

lemma lookup_append_row:
  "lookup key (key x) xs = None \<Longrightarrow> lookup key k (xs @ [x]) = (if k = key x then Some x else lookup key k xs)"
  by (induction xs) (auto simp: lookup_def split: if_splits)


section \<open>Tables with a key\<close>

text \<open>
  An interface for tables with a key: what a client may rely on after a write. It is met by the runs
  (\<open>Daemon_State\<close>), by the rows that hold them (\<open>Store_Refinement\<close>) and by the identifiers of access tokens
  (\<open>Oauth_Safety\<close>).
\<close>

locale keyed_table =
  fixes put :: "'v \<Rightarrow> 's \<Rightarrow> 's"
    and get :: "string \<Rightarrow> 's \<Rightarrow> 'v option"
    and key :: "'v \<Rightarrow> string"
    and ok :: "'v \<Rightarrow> bool"
  assumes get_put: "ok v \<Longrightarrow> get k (put v s) = (if k = key v then Some v else get k s)"
    and get_key: "get k s = Some v \<Longrightarrow> key v = k"
begin

lemma get_put_same [simp]: "ok v \<Longrightarrow> get (key v) (put v s) = Some v"
  by (simp add: get_put)

lemma get_put_other: "ok v \<Longrightarrow> k \<noteq> key v \<Longrightarrow> get k (put v s) = get k s"
  by (simp add: get_put)

lemma modify_get:
  assumes "get i s = Some v" "key (f v) = key v" "ok (f v)"
  shows "get k (put (f v) s) = (if k = i then Some (f v) else get k s)"
  using assms get_key [OF assms(1)] by (simp add: get_put)

lemma get_puts:
  assumes "\<forall>v \<in> set vs. ok v"
  shows "get k (fold put vs s) =
           (case find (\<lambda>v. key v = k) (rev vs) of Some v \<Rightarrow> Some v | None \<Rightarrow> get k s)"
  using assms
proof (induction vs rule: rev_induct)
  case (snoc v vs)
  then show ?case by (simp add: get_put)
qed simp

lemma put_commute:
  assumes "ok a" "ok b" "key a \<noteq> key b"
  shows "get k (put a (put b s)) = get k (put b (put a s))"
  using assms by (simp add: get_put)

end

end
