(* ===== verification/Run_Store.thy ===== *)
theory Run_Store
  imports Protocol_Queue Table_Prelude
begin

text \<open>
  The run store of \<open>src/codex-rs/deterministic-daemon/src/persistence.rs\<close> as the handlers see it:
  three tables of typed rows, each a list in row-id order, with the queries of the source read as
  operations on those lists. \<open>INSERT OR REPLACE\<close> drops a row with the same key and appends the new
  one; an \<open>ORDER BY\<close> is a stable sort. \<open>foreign_keys\<close> says whether the connection enforces the foreign
  keys of the schema (the bundled SQLite does). Disk and lock errors are not modelled. The theory
  \<open>Persistence\<close> has the columns and their text encodings, and \<open>Store_Refinement\<close> shows that they
  implement this store.
\<close>

section \<open>Tables\<close>

record ApprovalRow =
  ar_approval :: PendingApproval
  ar_decision :: "string option"
  ar_decision_reason :: "string option"
  ar_resolved_at :: "string option"

record store =
  runs :: "RunState list"
  approvals :: "ApprovalRow list"
  audit :: "RunHistoryEntry list"
  foreign_keys :: bool

definition empty_store :: store where
  "empty_store = \<lparr>runs = [], approvals = [], audit = [], foreign_keys = True\<rparr>"

definition run_exists :: "string \<Rightarrow> store \<Rightarrow> bool" where
  "run_exists i s = is_some (lookup run_id i (runs s))"


section \<open>Runs\<close>

definition save_run :: "RunState \<Rightarrow> store \<Rightarrow> store" where
  "save_run state s = s\<lparr>runs := upsert run_id state (runs s)\<rparr>"

definition get_run :: "string \<Rightarrow> store \<Rightarrow> RunState option" where
  "get_run i s = lookup run_id i (runs s)"

definition workspace_for_run :: "string \<Rightarrow> store \<Rightarrow> string option" where
  "workspace_for_run i s = map_option workspace_id (get_run i s)"


section \<open>Approvals\<close>

definition approval_key :: "ApprovalRow \<Rightarrow> string" where
  "approval_key row = pa_approval_id (ar_approval row)"

definition save_approval :: "PendingApproval \<Rightarrow> store \<Rightarrow> store result" where
  "save_approval approval s =
     (if foreign_keys s \<and> \<not> run_exists (pa_run_id approval) s
      then Inl (Bail ''failed to save approval'')
      else Inr (s\<lparr>approvals := upsert approval_key
             \<lparr>ar_approval = approval, ar_decision = None, ar_decision_reason = None,
              ar_resolved_at = None\<rparr> (approvals s)\<rparr>))"

definition is_pending :: "ApprovalRow \<Rightarrow> bool" where
  "is_pending row \<longleftrightarrow> pa_status (ar_approval row) = ''pending''"

definition get_pending_approvals :: "string \<Rightarrow> store \<Rightarrow> PendingApproval list" where
  "get_pending_approvals i s =
     map ar_approval (filter (\<lambda>row. pa_run_id (ar_approval row) = i \<and> is_pending row) (approvals s))"

definition get_approval :: "string \<Rightarrow> store \<Rightarrow> PendingApproval option" where
  "get_approval a s = map_option ar_approval (lookup approval_key a (approvals s))"

definition decided_row :: "string \<Rightarrow> string \<Rightarrow> string \<Rightarrow> string option \<Rightarrow> ApprovalRow \<Rightarrow> ApprovalRow" where
  "decided_row now st decision reason row =
     \<lparr>ar_approval = (ar_approval row)\<lparr>pa_status := st\<rparr>, ar_decision = Some decision,
      ar_decision_reason = reason, ar_resolved_at = Some now\<rparr>"

definition resolve_approval ::
  "string \<Rightarrow> string \<Rightarrow> string \<Rightarrow> string option \<Rightarrow> store \<Rightarrow> store result" where
  "resolve_approval now a decision reason s =
     and_then
       (if decision = ''approve'' then Inr ''approved''
        else if decision = ''deny'' then Inr ''denied''
        else Inl (Bail (''invalid decision: must be '' @ quoted ''approve'' @ '' or '' @ quoted ''deny''))) (\<lambda>st.
     let hit = (\<lambda>row. approval_key row = a \<and> is_pending row) in
     if \<not> list_ex hit (approvals s)
     then Inl (Bail (''approval not found or already resolved: '' @ a))
     else Inr (s\<lparr>approvals :=
            map (\<lambda>row. if hit row then decided_row now st decision reason row else row) (approvals s)\<rparr>))"


section \<open>Listing\<close>

definition sort_key_desc :: "('a \<Rightarrow> 'b::linorder) \<Rightarrow> 'a list \<Rightarrow> 'a list" where
  "sort_key_desc f xs = rev (sort_key f (rev xs))"

text \<open>\<open>LIMIT ?1\<close> with the limit cast to \<open>i64\<close>: a negative limit is no limit.\<close>

definition sql_limit :: "nat \<Rightarrow> 'a list \<Rightarrow> 'a list" where
  "sql_limit limit xs =
     (let n = usize_as_i64 limit in if n < 0 then xs else take (nat n) xs)"

definition is_archived_run :: "RunState \<Rightarrow> bool" where
  "is_archived_run r \<longleftrightarrow> is_some (archive_metadata r) \<and> \<not> is_some (unarchive_metadata r)"

definition is_snoozed_run :: "RunState \<Rightarrow> bool" where
  "is_snoozed_run r \<longleftrightarrow> is_some (snooze_metadata r)"

definition some_if :: "bool \<Rightarrow> bool option" where
  "some_if b = (if b then Some True else None)"

definition summary_of :: "RunState \<Rightarrow> RunSummary" where
  "summary_of r =
     \<lparr>sum_run_id = run_id r, sum_workspace_id = workspace_id r, sum_user_goal = user_goal r,
      sum_status = status r, sum_current_step = current_step r, sum_total_steps = length (plan r),
      sum_outcome_kind = map_option out_outcome_kind (finalized_outcome r),
      sum_reopen_count = map_option reopenM_reopen_count (reopen_metadata r),
      sum_supersedes_run_id = supersedes_run_id r,
      sum_superseded_by_run_id = superseded_by_run_id r,
      sum_is_archived = some_if (is_archived_run r),
      sum_archive_reason = map_option archiveM_reason (archive_metadata r),
      sum_archived_at = map_option archiveM_archived_at (archive_metadata r),
      sum_unarchive_reason = map_option unarchiveM_reason (unarchive_metadata r),
      sum_unarchived_at = map_option unarchiveM_unarchived_at (unarchive_metadata r),
      sum_labels = (case annotation r of None \<Rightarrow> [] | Some a \<Rightarrow> ann_labels a),
      sum_operator_note = (case annotation r of None \<Rightarrow> None | Some a \<Rightarrow> ann_operator_note a),
      sum_is_pinned = some_if (is_some (pin_metadata r)),
      sum_pin_reason = map_option pinM_reason (pin_metadata r),
      sum_pinned_at = map_option pinM_pinned_at (pin_metadata r),
      sum_is_snoozed = some_if (is_snoozed_run r),
      sum_snooze_reason = map_option snoozeM_reason (snooze_metadata r),
      sum_snoozed_at = map_option snoozeM_snoozed_at (snooze_metadata r),
      sum_priority = priority r, sum_assignee = assignee r, sum_due_date = due_date r,
      sum_is_blocked = Some (blocked_by_run_ids r \<noteq> []),
      sum_blocked_by_count = Some (length (blocked_by_run_ids r)),
      sum_is_blocking = None, sum_blocking_run_count = None, sum_blocking_reason = None,
      sum_effort = effort r, sum_age_days = None, sum_is_stale = None,
      sum_staleness_reason = None, sum_staleness_bucket = None, sum_triage_bucket = None,
      sum_triage_reason = None, sum_created_at = created_at r, sum_updated_at = updated_at r\<rparr>"

record ListQuery =
  lq_limit :: nat
  lq_workspace :: "string option"
  lq_status :: "string option"
  lq_include_archived :: bool
  lq_archived_only :: bool
  lq_label :: "string option"
  lq_pinned_only :: bool
  lq_include_snoozed :: bool
  lq_snoozed_only :: bool

definition list_where :: "ListQuery \<Rightarrow> RunState \<Rightarrow> bool" where
  "list_where q r \<longleftrightarrow>
     (case lq_workspace q of None \<Rightarrow> True | Some ws \<Rightarrow> workspace_id r = ws) \<and>
     (case lq_status q of None \<Rightarrow> True | Some st \<Rightarrow> status r = st) \<and>
     (if lq_archived_only q then is_archived_run r
      else if \<not> lq_include_archived q then \<not> is_archived_run r else True) \<and>
     (if lq_snoozed_only q then is_snoozed_run r
      else if \<not> lq_include_snoozed q then \<not> is_snoozed_run r else True)"

definition list_order :: "RunState list \<Rightarrow> RunState list" where
  "list_order rs =
     sort_key (\<lambda>r. if is_some (pin_metadata r) then 0 else 1 :: nat) (sort_key_desc updated_at rs)"

definition list_post :: "ListQuery \<Rightarrow> RunSummary \<Rightarrow> bool" where
  "list_post q summary \<longleftrightarrow>
     (case lq_label q of None \<Rightarrow> True | Some l \<Rightarrow> l \<in> set (sum_labels summary)) \<and>
     \<not> (lq_pinned_only q \<and> sum_is_pinned summary \<noteq> Some True)"

definition list_runs :: "ListQuery \<Rightarrow> store \<Rightarrow> RunSummary list" where
  "list_runs q s =
     filter (list_post q)
       (map summary_of (sql_limit (lq_limit q) (list_order (filter (list_where q) (runs s)))))"

definition all_runs_query :: ListQuery where
  "all_runs_query =
     \<lparr>lq_limit = 2 ^ 64 - 1, lq_workspace = None, lq_status = None, lq_include_archived = True,
      lq_archived_only = False, lq_label = None, lq_pinned_only = False, lq_include_snoozed = True,
      lq_snoozed_only = False\<rparr>"


section \<open>Audit trail\<close>

definition append_audit_entry ::
  "string \<Rightarrow> string \<Rightarrow> string \<Rightarrow> string \<Rightarrow> string \<Rightarrow> string option \<Rightarrow> store \<Rightarrow> string result \<times> store" where
  "append_audit_entry entry_id now i event_kind summary metadata s =
     (if is_some (lookup hist_entry_id entry_id (audit s)) \<or> foreign_keys s \<and> \<not> run_exists i s
      then (Inl (Bail ''failed to append audit entry''), s)
      else (Inr entry_id,
            s\<lparr>audit := audit s @ [\<lparr>hist_entry_id = entry_id, hist_run_id = i,
                 hist_event_kind = event_kind, hist_summary = summary, hist_metadata = metadata,
                 hist_occurred_at = now\<rparr>]\<rparr>))"

definition get_audit_entries :: "string \<Rightarrow> nat \<Rightarrow> store \<Rightarrow> RunHistoryEntry list" where
  "get_audit_entries i limit s =
     sql_limit limit
       (sort_key_desc hist_occurred_at (rev (filter (\<lambda>e. hist_run_id e = i) (audit s))))"

text \<open>The number of runs that list a run among their blockers; absent means none.\<close>

definition blocker_impact :: "store \<Rightarrow> string \<Rightarrow> nat" where
  "blocker_impact s i = (\<Sum>r \<leftarrow> runs s. count_list (blocked_by_run_ids r) i)"

end
