(* ===== verification/Run_Derivation.thy ===== *)
theory Run_Derivation
  imports Protocol_Types
begin

text \<open>
  What the harness derives from a run without storing it
  (\<open>src/codex-rs/deterministic-core/src/run_readiness.rs\<close>, \<open>run_staleness.rs\<close>, \<open>run_triage.rs\<close>):
  whether it is ready and needs attention, how stale it is, and its triage bucket. The parser of
  calendar dates is the \<open>chrono\<close> crate's; it is the parameter \<open>parse_date\<close>, which gives the number
  of a day, so that the difference of two dates in days is the difference of their numbers.
\<close>

type_synonym date_parser = "string \<Rightarrow> int option"

section \<open>Readiness\<close>

record RunReadinessSummary =
  is_ready :: bool
  readiness_reason :: "string option"
  needs_attention :: bool
  attention_reason :: "string option"

definition ready_and_reason :: "string \<Rightarrow> bool \<Rightarrow> bool \<Rightarrow> nat \<Rightarrow> bool \<times> string option" where
  "ready_and_reason st is_archived is_snoozed blocked_by_count =
     (if is_archived then (False, Some ''archived'')
      else if starts_with st ''finalized:'' then (False, Some ''finalized'')
      else if is_snoozed then (False, Some ''snoozed'')
      else if blocked_by_count > 0
      then (False, Some (if blocked_by_count = 1 then ''blocked by 1 run''
                         else ''blocked by '' @ show_nat blocked_by_count @ '' runs''))
      else (True, None))"

definition derive_readiness ::
  "string \<Rightarrow> bool \<Rightarrow> bool \<Rightarrow> nat \<Rightarrow> RunPriority \<Rightarrow> string option \<Rightarrow> bool \<Rightarrow> string option
     \<Rightarrow> RunReadinessSummary" where
  "derive_readiness st is_archived is_snoozed blocked_by_count prio due is_pinned today =
     (let (ready, reason) = ready_and_reason st is_archived is_snoozed blocked_by_count;
          visible = (\<not> is_archived \<and> \<not> is_snoozed \<and> \<not> starts_with st ''finalized:'');
          reasons =
            (if visible \<and> prio = Urgent \<and> ready then [''urgent''] else [])
            @ (if visible \<and> is_pinned \<and> blocked_by_count > 0 then [''pinned and blocked''] else [])
            @ (if visible then
                 (case due of
                    None \<Rightarrow> []
                  | Some d \<Rightarrow> (case today of
                                None \<Rightarrow> []
                              | Some today_val \<Rightarrow> if d < today_val then [''overdue''] else []))
               else []);
          attention = (reasons \<noteq> [])
      in \<lparr>is_ready = ready, readiness_reason = reason, needs_attention = attention,
          attention_reason = (if attention then Some (join '', '' reasons) else None)\<rparr>)"


section \<open>Staleness\<close>

record RunStalenessSummary =
  stal_age_days :: nat
  stal_is_stale :: bool
  stal_reason :: string
  stal_bucket :: RunStaleness

definition compute_age_days :: "date_parser \<Rightarrow> string \<Rightarrow> string \<Rightarrow> nat" where
  "compute_age_days parse_date updated reference_date =
     (case parse_date reference_date of
        None \<Rightarrow> 0
      | Some ref_date \<Rightarrow>
          (let updated_date_str = takeWhile (\<lambda>c. c \<noteq> CHR ''T'') updated in
           case parse_date updated_date_str of
             None \<Rightarrow> 0
           | Some updated_date \<Rightarrow>
               (let days = ref_date - updated_date in if days < 0 then 0 else nat days)))"

definition derive_staleness :: "date_parser \<Rightarrow> string \<Rightarrow> string \<Rightarrow> RunStalenessSummary" where
  "derive_staleness parse_date updated reference_date =
     (let age = compute_age_days parse_date updated reference_date;
          (bucket, reason, stale) =
            (if age \<le> 3 then (Fresh, ''updated '' @ show_nat age @ '' day(s) ago'', False)
             else if age \<le> 7 then (Aging, ''updated '' @ show_nat age @ '' days ago'', False)
             else (Stale, ''stale: '' @ show_nat age @ '' days since update'', True))
      in \<lparr>stal_age_days = age, stal_is_stale = stale, stal_reason = reason, stal_bucket = bucket\<rparr>)"


section \<open>Triage\<close>

record RunTriageSummary =
  tri_bucket :: RunTriageBucket
  tri_reason :: string

definition is_past_due :: "date_parser \<Rightarrow> string \<Rightarrow> string \<Rightarrow> bool" where
  "is_past_due parse_date due reference_date =
     (case parse_date reference_date of
        None \<Rightarrow> False
      | Some ref_date \<Rightarrow> (case parse_date due of None \<Rightarrow> False | Some d \<Rightarrow> d < ref_date))"

definition derive_triage ::
  "date_parser \<Rightarrow> string \<Rightarrow> bool \<Rightarrow> bool \<Rightarrow> bool \<Rightarrow> string \<Rightarrow> string option \<Rightarrow> RunStaleness option
     \<Rightarrow> string \<Rightarrow> RunTriageSummary" where
  "derive_triage parse_date st is_archived is_snoozed is_blocked prio due staleness reference_date =
     (if is_archived \<or> starts_with st ''finalized:''
      then \<lparr>tri_bucket = Done, tri_reason = ''archived or finalized''\<rparr>
      else if is_snoozed then \<lparr>tri_bucket = Deferred, tri_reason = ''snoozed''\<rparr>
      else if is_blocked then \<lparr>tri_bucket = Blocked, tri_reason = ''has blocking dependencies''\<rparr>
      else
        (let is_overdue = (case due of Some d \<Rightarrow> is_past_due parse_date d reference_date | None \<Rightarrow> False);
             is_stale = (staleness = Some Stale)
         in if prio = ''urgent'' \<and> (is_overdue \<or> is_stale)
            then \<lparr>tri_bucket = Critical,
                  tri_reason = (if is_overdue \<and> is_stale then ''urgent, overdue, and stale''
                                else if is_overdue then ''urgent and overdue''
                                else ''urgent and stale'')\<rparr>
            else if prio = ''urgent'' \<or> contains st ''attention'' \<or> contains st ''waiting''
            then \<lparr>tri_bucket = Attention,
                  tri_reason = (if prio = ''urgent'' then ''urgent priority'' else ''needs attention'')\<rparr>
            else if \<not> is_blocked \<and> prio \<noteq> ''urgent'' \<and> \<not> is_stale \<and> \<not> is_snoozed
            then \<lparr>tri_bucket = Ready, tri_reason = ''ready to proceed''\<rparr>
            else \<lparr>tri_bucket = Deferred, tri_reason = ''no specific priority''\<rparr>))"



section \<open>How the derivations agree\<close>

lemma ready_iff:
  "is_ready (derive_readiness st arch snz n prio due pinned today) \<longleftrightarrow>
     \<not> arch \<and> \<not> starts_with st ''finalized:'' \<and> \<not> snz \<and> n = 0"
  by (auto simp: derive_readiness_def ready_and_reason_def Let_def)

lemma triage_done_iff:
  "tri_bucket (derive_triage pd st arch snz blk prio due stal ref) = Done \<longleftrightarrow>
     arch \<or> starts_with st ''finalized:''"
  by (simp add: derive_triage_def Let_def)

lemma triage_blocked_iff:
  "tri_bucket (derive_triage pd st arch snz blk prio due stal ref) = Blocked \<longleftrightarrow>
     \<not> arch \<and> \<not> starts_with st ''finalized:'' \<and> \<not> snz \<and> blk"
  by (simp add: derive_triage_def Let_def)

lemma attention_iff:
  "needs_attention (derive_readiness st arch snz n prio due pinned today) \<longleftrightarrow>
     \<not> arch \<and> \<not> starts_with st ''finalized:'' \<and> \<not> snz \<and>
     (prio = Urgent \<and> n = 0 \<or> pinned \<and> n > 0 \<or>
      (\<exists>d t. due = Some d \<and> today = Some t \<and> d < t))"
  by (auto simp: derive_readiness_def ready_and_reason_def Let_def split: option.splits)

text \<open>
  Readiness and triage agree. For the same run, the readiness derivation says it can be worked on
  exactly when it is not snoozed and triage puts it in none of the buckets \<open>done\<close> and \<open>blocked\<close>; a
  ready run that waits for an approval, or is urgent, is triaged as critical or as needing attention.
\<close>

theorem readiness_triage_agree:
  "let ready = is_ready (derive_readiness st arch snz n prio due pinned today);
       bucket = tri_bucket (derive_triage pd st arch snz (n > 0) (priority_as_str prio) due stal ref)
   in (ready \<longleftrightarrow> \<not> snz \<and> bucket \<noteq> Done \<and> bucket \<noteq> Blocked) \<and>
      (ready \<and> (st = ''awaiting_approval'' \<or> prio = Urgent) \<longrightarrow> bucket = Critical \<or> bucket = Attention)"
proof -
  have "contains ''awaiting_approval'' ''waiting''" by code_simp
  then show ?thesis
    unfolding Let_def ready_iff triage_done_iff triage_blocked_iff
    by (auto simp: derive_triage_def Let_def)
qed

theorem readiness_triage_agree_witness:
  "tri_bucket (derive_triage (\<lambda>_. None) ''awaiting_approval'' False False False ''normal'' None None ''2026-01-01'')
     = Attention"
proof -
  have "is_ready (derive_readiness ''awaiting_approval'' False False 0 Normal None False None)" by code_simp
  moreover have "tri_bucket (derive_triage (\<lambda>_. None) ''awaiting_approval'' False False False ''normal'' None None ''2026-01-01'') \<noteq> Critical"
    by (simp add: derive_triage_def Let_def)
  ultimately show ?thesis
    using readiness_triage_agree [of "''awaiting_approval''" False False 0 Normal None False None
        "\<lambda>_. None" None "''2026-01-01''"] by (simp add: Let_def)
qed

text \<open>
  A run is stale exactly when both dates can be read and more than seven days lie between them, and
  it is fresh up to three days; a date that cannot be read and an update in the future count as
  today.
\<close>

theorem staleness_buckets:
  "let u = parse_date (takeWhile (\<lambda>c. c \<noteq> CHR ''T'') updated); r = parse_date ref;
       days = (case (r, u) of (Some a, Some b) \<Rightarrow> max 0 (a - b) | _ \<Rightarrow> 0);
       st = derive_staleness parse_date updated ref
   in int (stal_age_days st) = days \<and>
      (stal_bucket st = Fresh \<longleftrightarrow> days \<le> 3) \<and> (stal_bucket st = Stale \<longleftrightarrow> days > 7) \<and>
      stal_is_stale st = (stal_bucket st = Stale)"
  by (auto simp: derive_staleness_def compute_age_days_def Let_def split: option.splits)

end
