(* ===== verification/Workspace_FS.thy ===== *)
theory Workspace_FS
  imports Harness_Prelude
begin

text \<open>
  The part of \<open>std::path\<close> and \<open>std::fs\<close> that the workspace tools of \<open>deterministic-core\<close> use, over a
  Unix file system: a map from physical paths (component lists from the root) to nodes, with
  directories, regular files and symbolic links. Paths are resolved one component at a time, as the
  kernel does, with at most 40 links followed. There are no permissions, quotas or other processes:
  the only errors are missing entries, a wrong kind of node, link loops and text that is not UTF-8.
\<close>

type_synonym path = "string list"

datatype node = File string | Dir | Symlink string

type_synonym fs = "path \<Rightarrow> node option"

record world =
  tree :: fs
  cwd :: path

section \<open>Paths\<close>

definition slash :: char where "slash = CHR ''/''"

fun split_on :: "char \<Rightarrow> string \<Rightarrow> string list" where
  "split_on d [] = [[]]"
| "split_on d (c # cs) =
     (if c = d then [] # split_on d cs
      else case split_on d cs of [] \<Rightarrow> [[c]] | w # ws \<Rightarrow> (c # w) # ws)"

definition is_absolute :: "string \<Rightarrow> bool" where
  "is_absolute p \<longleftrightarrow> starts_with p ''/''"

text \<open>\<open>Path::join\<close>: an absolute second path replaces the first.\<close>

definition path_join :: "string \<Rightarrow> string \<Rightarrow> string" where
  "path_join base p =
     (if is_absolute p then p
      else if base = [] \<or> last base = slash then base @ p
      else base @ ''/'' @ p)"

text \<open>The components the kernel walks: a trailing slash asks for a directory, like a final dot.\<close>

definition raw_components :: "string \<Rightarrow> string list" where
  "raw_components p =
     filter (\<lambda>c. c \<noteq> []) (split_on slash p) @ (if p \<noteq> [] \<and> last p = slash then [''.''] else [])"

text \<open>\<open>Path::components\<close>, from which \<open>Path::parent\<close> is computed: dots inside a path are dropped.\<close>

definition path_components :: "string \<Rightarrow> string list" where
  "path_components p = filter (\<lambda>c. c \<noteq> [] \<and> c \<noteq> ''.'') (split_on slash p)"

text \<open>\<open>Path::file_name\<close>: the last component, unless the path ends in \<open>..\<close>.\<close>

definition path_file_name :: "string \<Rightarrow> string option" where
  "path_file_name p =
     (let cs = path_components p in if cs = [] \<or> last cs = ''..'' then None else Some (last cs))"


section \<open>Resolution\<close>

text \<open>
  \<open>walk create fs k cur cs\<close> follows the components \<open>cs\<close> from the physical directory \<open>cur\<close> with \<open>k\<close>
  links left; with \<open>create\<close> the last component may be missing, and the place where it would be is
  the result.
\<close>

function walk :: "bool \<Rightarrow> fs \<Rightarrow> nat \<Rightarrow> path \<Rightarrow> string list \<Rightarrow> io_error + path" where
  "walk create fs k cur [] = Inr cur"
| "walk create fs k cur (c # cs) =
     (if fs cur \<noteq> Some Dir then Inl NotADirectory
      else if c = ''.'' then walk create fs k cur cs
      else if c = ''..'' then walk create fs k (butlast cur) cs
      else case fs (cur @ [c]) of
          None \<Rightarrow> if create \<and> cs = [] then Inr (cur @ [c]) else Inl NotFound
        | Some (Symlink target) \<Rightarrow>
            if k = 0 then Inl FilesystemLoop
            else walk create fs (k - 1) (if is_absolute target then [] else cur)
                   (raw_components target @ cs)
        | Some _ \<Rightarrow> walk create fs k (cur @ [c]) cs)"
  by pat_completeness auto
termination
  by (relation "measures [\<lambda>(create, fs, k, cur, cs). k, \<lambda>(create, fs, k, cur, cs). length cs]") auto

definition LINK_LIMIT :: nat where "LINK_LIMIT = 40"

definition start_dir :: "world \<Rightarrow> string \<Rightarrow> path" where
  "start_dir w p = (if is_absolute p then [] else cwd w)"

definition canonicalize :: "world \<Rightarrow> string \<Rightarrow> io_error + path" where
  "canonicalize w p =
     (if p = [] then Inl NotFound
      else walk False (tree w) LINK_LIMIT (start_dir w p) (raw_components p))"

definition is_dir :: "world \<Rightarrow> string \<Rightarrow> bool" where
  "is_dir w p =
     (case canonicalize w p of Inl _ \<Rightarrow> False | Inr q \<Rightarrow> tree w q = Some Dir)"

definition path_exists :: "world \<Rightarrow> string \<Rightarrow> bool" where
  "path_exists w p =
     (case canonicalize w p of Inl _ \<Rightarrow> False | Inr q \<Rightarrow> tree w q \<noteq> None)"


section \<open>Reading\<close>

definition byte_in :: "nat \<Rightarrow> nat \<Rightarrow> char \<Rightarrow> bool" where
  "byte_in lo hi c \<longleftrightarrow> lo \<le> (of_char c :: nat) \<and> (of_char c :: nat) \<le> hi"

fun utf8_valid :: "string \<Rightarrow> bool" where
  "utf8_valid [] = True"
| "utf8_valid (a # s) =
     (if byte_in 0 127 a then utf8_valid s
      else case s of
        [] \<Rightarrow> False
      | b # s2 \<Rightarrow>
          if byte_in 194 223 a \<and> byte_in 128 191 b then utf8_valid s2
          else case s2 of
            [] \<Rightarrow> False
          | c # s3 \<Rightarrow>
              if byte_in 128 191 c
                 \<and> (byte_in 224 224 a \<and> byte_in 160 191 b \<or> byte_in 225 236 a \<and> byte_in 128 191 b
                    \<or> byte_in 237 237 a \<and> byte_in 128 159 b \<or> byte_in 238 239 a \<and> byte_in 128 191 b)
              then utf8_valid s3
              else case s3 of
                [] \<Rightarrow> False
              | d # s4 \<Rightarrow>
                  byte_in 128 191 c \<and> byte_in 128 191 d
                  \<and> (byte_in 240 240 a \<and> byte_in 144 191 b \<or> byte_in 241 243 a \<and> byte_in 128 191 b
                     \<or> byte_in 244 244 a \<and> byte_in 128 143 b)
                  \<and> utf8_valid s4)"

definition read_to_string :: "fs \<Rightarrow> path \<Rightarrow> io_error + string" where
  "read_to_string fs p =
     (case fs p of
        None \<Rightarrow> Inl NotFound
      | Some (File content) \<Rightarrow> if utf8_valid content then Inr content else Inl InvalidData
      | Some Dir \<Rightarrow> Inl IsADirectory
      | Some (Symlink _) \<Rightarrow> Inl NotFound)"


section \<open>Writing\<close>

text \<open>\<open>fs::write\<close> on a path: links are followed, also a dangling one, and a missing file is created.\<close>

definition write_path :: "world \<Rightarrow> string \<Rightarrow> string \<Rightarrow> io_error + world" where
  "write_path w p content =
     (case walk True (tree w) LINK_LIMIT (start_dir w p) (raw_components p) of
        Inl e \<Rightarrow> Inl e
      | Inr q \<Rightarrow>
          if tree w q = Some Dir then Inl IsADirectory
          else Inr (w\<lparr>tree := (tree w)(q \<mapsto> File content)\<rparr>))"

definition write_file :: "fs \<Rightarrow> path \<Rightarrow> string \<Rightarrow> io_error + fs" where
  "write_file fs q content =
     (if fs q = Some Dir then Inl IsADirectory else Inr (fs(q \<mapsto> File content)))"

definition remove_file :: "fs \<Rightarrow> path \<Rightarrow> io_error + fs" where
  "remove_file fs q =
     (case fs q of None \<Rightarrow> Inl NotFound | Some Dir \<Rightarrow> Inl IsADirectory | Some _ \<Rightarrow> Inr (fs(q := None)))"

definition mkdir :: "fs \<Rightarrow> path \<Rightarrow> io_error + fs" where
  "mkdir fs cs =
     (if cs = [] then Inl AlreadyExists
      else case walk False fs LINK_LIMIT [] (butlast cs) of
          Inl e \<Rightarrow> Inl e
        | Inr d \<Rightarrow>
            if fs d \<noteq> Some Dir then Inl NotADirectory
            else if last cs = ''..'' then Inl AlreadyExists
            else if fs (d @ [last cs]) \<noteq> None then Inl AlreadyExists
            else Inr (fs(d @ [last cs] \<mapsto> Dir)))"

definition is_dir_at :: "fs \<Rightarrow> path \<Rightarrow> bool" where
  "is_dir_at fs cs =
     (case walk False fs LINK_LIMIT [] cs of Inl _ \<Rightarrow> False | Inr q \<Rightarrow> fs q = Some Dir)"

text \<open>\<open>fs::create_dir_all\<close>: make the directory, and on a missing parent make that first.\<close>

function create_dir_all :: "fs \<Rightarrow> path \<Rightarrow> (io_error option) \<times> fs" where
  "create_dir_all fs cs =
     (case mkdir fs cs of
        Inr fs' \<Rightarrow> (None, fs')
      | Inl e \<Rightarrow>
          if e \<noteq> NotFound then (if is_dir_at fs cs then None else Some e, fs)
          else if cs = [] then (Some NotFound, fs)
          else case create_dir_all fs (butlast cs) of
              (Some e', fs') \<Rightarrow> (Some e', fs')
            | (None, fs') \<Rightarrow>
                (case mkdir fs' cs of
                   Inr fs'' \<Rightarrow> (None, fs'')
                 | Inl e' \<Rightarrow> (if is_dir_at fs' cs then None else Some e', fs')))"
  by pat_completeness auto
termination
  by (relation "measure (\<lambda>(fs, cs). length cs)") auto

declare create_dir_all.simps [simp del]


section \<open>Lemmas\<close>

lemma split_on_no: "d \<notin> set c \<Longrightarrow> split_on d c = [c]"
  by (induction c) auto

lemma split_on_append: "d \<notin> set c \<Longrightarrow> split_on d (c @ d # s) = c # split_on d s"
  by (induction c) auto

lemma walk_Nil_Inr [simp]: "walk create fs k cur [] = Inr cur"
  by simp

lemma write_file_frame: "write_file fs q content = Inr fs' \<Longrightarrow> p \<noteq> q \<Longrightarrow> fs' p = fs p"
  by (auto simp: write_file_def split: if_splits)

lemma remove_file_frame: "remove_file fs q = Inr fs' \<Longrightarrow> p \<noteq> q \<Longrightarrow> fs' p = fs p"
  by (auto simp: remove_file_def split: option.splits node.splits)

lemma write_file_content: "write_file fs q content = Inr fs' \<Longrightarrow> fs' q = Some (File content)"
  by (auto simp: write_file_def split: if_splits)

lemma remove_file_gone: "remove_file fs q = Inr fs' \<Longrightarrow> fs' q = None"
  by (auto simp: remove_file_def split: option.splits node.splits)

lemma mkdir_dir_mono: "mkdir fs cs = Inr fs' \<Longrightarrow> fs p \<noteq> None \<Longrightarrow> fs' p = fs p"
  by (auto simp: mkdir_def split: if_splits sum.splits)

lemma mkdir_only_dirs: "mkdir fs cs = Inr fs' \<Longrightarrow> fs' p = fs p \<or> fs p = None \<and> fs' p = Some Dir"
  by (auto simp: mkdir_def split: if_splits sum.splits)

lemma create_dir_all_only_dirs:
  "create_dir_all fs cs = (r, fs') \<Longrightarrow> fs' p = fs p \<or> fs p = None \<and> fs' p = Some Dir"
proof (induction fs cs arbitrary: r fs' rule: create_dir_all.induct)
  case (1 fs cs)
  show ?case
  proof (cases "mkdir fs cs")
    case (Inr fs1)
    with "1.prems" mkdir_only_dirs [of fs cs fs1 p] show ?thesis
      by (auto simp: create_dir_all.simps [of fs cs])
  next
    case (Inl e)
    obtain r1 fs1 where rec: "create_dir_all fs (butlast cs) = (r1, fs1)" by fastforce
    show ?thesis
    proof (cases "e \<noteq> NotFound \<or> cs = []")
      case True
      with Inl "1.prems" show ?thesis by (auto simp: create_dir_all.simps [of fs cs] split: if_splits)
    next
      case False
      with "1.IH" Inl rec have ih: "fs1 p = fs p \<or> fs p = None \<and> fs1 p = Some Dir" by fastforce
      show ?thesis
      proof (cases "mkdir fs1 cs")
        case (Inl e')
        with \<open>mkdir fs cs = Inl e\<close> False rec "1.prems" ih show ?thesis
          by (auto simp: create_dir_all.simps [of fs cs] split: option.splits)
      next
        case (Inr fs2)
        with \<open>mkdir fs cs = Inl e\<close> False rec "1.prems" ih mkdir_only_dirs [of fs1 cs fs2 p]
        show ?thesis
          by (auto simp: create_dir_all.simps [of fs cs] split: option.splits)
      qed
    qed
  qed
qed

end
