(* ===== verification/Workspace_Tools.thy ===== *)
theory Workspace_Tools
  imports Protocol_Types Workspace_FS
begin

text \<open>
  The tools that look at a workspace (\<open>src/codex-rs/deterministic-core/src/\<close>): \<open>file_read.rs\<close>,
  \<open>code_search.rs\<close>, \<open>tests_run.rs\<close>, \<open>git_status.rs\<close>, \<open>git_diff.rs\<close> and \<open>workspace_summary.rs\<close>.
  Programs they start (grep, git, cargo, npm, python, make) are the parameter \<open>exec\<close>, which takes a
  command line with a working directory and gives either a failure to start it or its output, and the
  world it leaves behind; standard output and error come decoded (\<open>from_utf8_lossy\<close>). The directory
  listing of the operating system is the parameter \<open>read_dir\<close>.
\<close>

section \<open>file.read\<close>

definition numbered_lines :: "nat \<Rightarrow> nat \<Rightarrow> string list \<Rightarrow> string list" where
  "numbered_lines first_line last_line lines =
     map snd (filter (\<lambda>(i, l). first_line \<le> i + 1 \<and> i + 1 \<le> last_line) (enumerate 0 lines))"

definition file_read :: "FileReadParams \<Rightarrow> string \<Rightarrow> world \<Rightarrow> FileReadResult result" where
  "file_read params workspace_root w =
     (let p = fileReadP_path params in
      if p = [] then Inl (Bail ''path must not be empty'')
      else case canonicalize w (path_join workspace_root p) of
        Inl e \<Rightarrow> Inl (Caused (''file not found: '' @ p) e)
      | Inr canonical \<Rightarrow>
      (case canonicalize w workspace_root of
        Inl e \<Rightarrow> Inl (Caused (''cannot resolve workspace root: '' @ workspace_root) e)
      | Inr canonical_base \<Rightarrow>
      if \<not> prefix canonical_base canonical
      then Inl (Bail (''path escapes workspace: '' @ p))
      else if \<not> (case tree w canonical of Some (File _) \<Rightarrow> True | _ \<Rightarrow> False)
      then Inl (Bail (''path is not a file: '' @ p))
      else case read_to_string (tree w) canonical of
        Inl e \<Rightarrow> Inl (Caused (''cannot read file: '' @ p) e)
      | Inr content \<Rightarrow>
      (let lines = str_lines content;
           total_lines = length lines;
           start = max (unwrap_or 1 (fileReadP_start_line params)) 1;
           end = max (unwrap_or total_lines (fileReadP_end_line params)) 1
       in if start > end
          then Inl (Bail (''start_line ('' @ show_nat start @ '') cannot be greater than end_line (''
                 @ show_nat end @ '')''))
          else
            (let effective_start = min start (max total_lines 1);
                 effective_end = min end total_lines;
                 selected = (if effective_start > total_lines then []
                             else join [newline] (numbered_lines effective_start effective_end lines))
             in Inr \<lparr>fileReadR_path = p, fileReadR_content = selected,
                     fileReadR_start_line = effective_start, fileReadR_end_line = effective_end,
                     fileReadR_total_lines = total_lines\<rparr>))))"


section \<open>Programs\<close>

record command =
  cmd_program :: string
  cmd_args :: "string list"
  cmd_dir :: string

record proc_output =
  po_code :: "int option"
  po_stdout :: string
  po_stderr :: string

type_synonym exec = "command \<Rightarrow> world \<Rightarrow> (io_error + proc_output) \<times> world"

definition make_command :: "string \<Rightarrow> string list \<Rightarrow> string \<Rightarrow> command" where
  "make_command program args dir = \<lparr>cmd_program = program, cmd_args = args, cmd_dir = dir\<rparr>"


section \<open>code.search\<close>

definition parse_match :: "string \<Rightarrow> CodeSearchMatch option" where
  "parse_match line =
     (let rest = unwrap_or line (strip_prefix ''./'' line) in
      case splitn 3 (CHR '':'') rest of
        [file, line_str, snippet] \<Rightarrow>
          if snippet = ''Binary file matches'' then None
          else Some \<lparr>match_path = file, match_line = unwrap_or 0 (parse_u64 line_str),
                     match_snippet = snippet\<rparr>
      | _ \<Rightarrow> None)"

fun collect_matches :: "nat \<Rightarrow> CodeSearchMatch list \<Rightarrow> string list \<Rightarrow> CodeSearchMatch list" where
  "collect_matches m acc [] = acc"
| "collect_matches m acc (line # lines) =
     (if length acc \<ge> m then acc
      else case parse_match line of
             None \<Rightarrow> collect_matches m acc lines
           | Some x \<Rightarrow> collect_matches m (acc @ [x]) lines)"

definition grep_command :: "CodeSearchParams \<Rightarrow> string \<Rightarrow> command" where
  "grep_command params root =
     make_command ''grep''
       ([''-rn'']
        @ (case codeSearchP_path_glob params of Some glob \<Rightarrow> [''--include'', glob] | None \<Rightarrow> [])
        @ [''--'', codeSearchP_query params, ''.'']) root"

definition search ::
  "exec \<Rightarrow> CodeSearchParams \<Rightarrow> string \<Rightarrow> world \<Rightarrow> CodeSearchResult result \<times> world" where
  "search exec params workspace_root w =
     (if \<not> is_dir w workspace_root
      then (Inl (Bail (''workspace root is not a directory: '' @ workspace_root)), w)
      else if codeSearchP_query params = [] then (Inr \<lparr>codeSearchR_matches = []\<rparr>, w)
      else
        (let m = unwrap_or 50 (codeSearchP_max_results params) in
         case exec (grep_command params workspace_root) w of
           (Inl e, w') \<Rightarrow> (Inl (Caused ''failed to run grep'' e), w')
         | (Inr out, w') \<Rightarrow>
             (Inr \<lparr>codeSearchR_matches = collect_matches m [] (str_lines (po_stdout out))\<rparr>, w')))"


section \<open>tests.run\<close>

definition FRAMEWORK_SCOPES :: "string list" where
  "FRAMEWORK_SCOPES = [''cargo'', ''npm'', ''pytest'', ''make'']"

definition SEMANTIC_SCOPES :: "string list" where
  "SEMANTIC_SCOPES = [''unit'', ''integration'', ''all'']"

definition framework_command :: "string \<Rightarrow> string option \<Rightarrow> string list option" where
  "framework_command scope target =
     (if scope = ''cargo'' then Some ([''cargo'', ''test''] @ (case target of Some t \<Rightarrow> [t] | None \<Rightarrow> []))
      else if scope = ''npm''
      then Some ([''npm'', ''test''] @ (case target of Some t \<Rightarrow> [''--'', t] | None \<Rightarrow> []))
      else if scope = ''pytest''
      then Some ([''python'', ''-m'', ''pytest''] @ (case target of Some t \<Rightarrow> [t] | None \<Rightarrow> []))
      else if scope = ''make'' then Some [''make'', unwrap_or ''test'' target]
      else None)"

definition detect_framework :: "world \<Rightarrow> string \<Rightarrow> string result" where
  "detect_framework w root =
     (if path_exists w (path_join root ''Cargo.toml'') then Inr ''cargo''
      else if path_exists w (path_join root ''package.json'') then Inr ''npm''
      else if path_exists w (path_join root ''setup.py'')
        \<or> path_exists w (path_join root ''pyproject.toml'')
      then Inr ''pytest''
      else if path_exists w (path_join root ''Makefile'') then Inr ''make''
      else Inl (Bail (''cannot auto-detect test framework in '' @ root
             @ ''. Use an explicit framework scope (cargo, npm, pytest, make) instead.'')))"

definition unsupported_scope :: "string \<Rightarrow> error" where
  "unsupported_scope other =
     Bail (''unsupported test scope: '' @ quoted other @ ''. Accepted values:'' @ [newline]
       @ ''- Framework names: cargo, npm, pytest, make'' @ [newline]
       @ ''- Semantic scopes: unit, integration, all'')"

text \<open>
  The recursive call of \<open>resolve_command\<close> is on a detected framework, so it takes one of the four
  framework arms.
\<close>

definition resolve_command :: "world \<Rightarrow> string \<Rightarrow> string option \<Rightarrow> string \<Rightarrow> string list result" where
  "resolve_command w scope target root =
     (case framework_command scope target of
        Some cmd \<Rightarrow> Inr cmd
      | None \<Rightarrow>
          if scope \<in> set [''unit'', ''integration'', ''all'']
          then and_then (detect_framework w root) (\<lambda>detected.
                 ok_or (unsupported_scope detected) (framework_command detected target))
          else Inl (unsupported_scope scope))"

definition max_output_len :: nat where "max_output_len = 4096"

definition truncate_output :: "string \<Rightarrow> string result" where
  "truncate_output s =
     (if length s > max_output_len
      then and_then (str_slice_to s max_output_len) (\<lambda>t. Inr (t @ ''... (truncated)''))
      else Inr s)"

definition tests_output :: "string \<Rightarrow> proc_output \<Rightarrow> TestsRunResult result" where
  "tests_output resolved out =
     (let exit_code = unwrap_or (-1) (po_code out) in
      and_then (truncate_output (po_stdout out)) (\<lambda>so.
      and_then (truncate_output (po_stderr out)) (\<lambda>se.
      Inr \<lparr>testsRunR_resolved_command = resolved, testsRunR_exit_code = exit_code,
           testsRunR_stdout = so, testsRunR_stderr = se,
           testsRunR_summary = (if exit_code = 0 then ''tests passed''
                                else ''tests failed with exit code '' @ show_int exit_code),
           testsRunR_approval_required = None\<rparr>)))"

definition tests_plan :: "TestsRunParams \<Rightarrow> string \<Rightarrow> world \<Rightarrow> string list result" where
  "tests_plan params workspace_root w =
     (if testsRunP_scope params = [] then Inl (Bail ''scope must not be empty'')
      else if testsRunP_reason params = []
      then Inl (Bail ''reason must not be empty (required for audit trail)'')
      else if \<not> is_dir w workspace_root
      then Inl (Bail (''workspace root is not a directory: '' @ workspace_root))
      else
        (let scope_lower = to_lowercase (testsRunP_scope params);
             is_framework = (scope_lower \<in> set FRAMEWORK_SCOPES);
             is_semantic = (scope_lower \<in> set SEMANTIC_SCOPES)
         in if \<not> is_framework \<and> \<not> is_semantic
            then Inl (Bail (''unsupported test scope: '' @ quoted (testsRunP_scope params)
                   @ ''. Supported framework scopes: '' @ join '', '' FRAMEWORK_SCOPES
                   @ ''. Supported semantic scopes: '' @ join '', '' SEMANTIC_SCOPES @ ''.''))
            else resolve_command w scope_lower (testsRunP_target params) workspace_root))"

definition tests_run ::
  "exec \<Rightarrow> TestsRunParams \<Rightarrow> string \<Rightarrow> world \<Rightarrow> TestsRunResult result \<times> world" where
  "tests_run exec params workspace_root w =
     (case tests_plan params workspace_root w of
        Inl e \<Rightarrow> (Inl e, w)
      | Inr cmd_parts \<Rightarrow>
          (let resolved = join '' '' cmd_parts in
           case exec (make_command (hd cmd_parts) (tl cmd_parts) workspace_root) w of
             (Inl e, w') \<Rightarrow> (Inl (Caused (''failed to run test command: '' @ resolved) e), w')
           | (Inr out, w') \<Rightarrow> (tests_output resolved out, w')))"


section \<open>git.status and git.diff\<close>

definition current_branch :: "exec \<Rightarrow> string \<Rightarrow> world \<Rightarrow> string result \<times> world" where
  "current_branch exec root w =
     (case exec (make_command ''git'' [''rev-parse'', ''--abbrev-ref'', ''HEAD''] root) w of
        (Inl e, w') \<Rightarrow> (Inl (Caused ''failed to run git rev-parse'' e), w')
      | (Inr out, w') \<Rightarrow> (Inr (trim (po_stdout out)), w'))"

text \<open>\<open>line.get(3..)\<close>: the rest of the line after three bytes, if that is a character boundary.\<close>

definition get_from3 :: "string \<Rightarrow> string option" where
  "get_from3 line = (if 3 \<le> length line \<and> is_char_boundary line 3 then Some (drop 3 line) else None)"

fun sort_status_lines :: "string list \<Rightarrow> string list \<times> string list" where
  "sort_status_lines [] = ([], [])"
| "sort_status_lines (line # lines) =
     (let (dirty, untracked) = sort_status_lines lines in
      if line = [] then (dirty, untracked)
      else case get_from3 line of
             None \<Rightarrow> (dirty, untracked)
           | Some p \<Rightarrow>
               if starts_with line ''??'' then (dirty, trim p # untracked)
               else (trim p # dirty, untracked))"

definition porcelain_status ::
  "exec \<Rightarrow> string \<Rightarrow> world \<Rightarrow> (string list \<times> string list) result \<times> world" where
  "porcelain_status exec root w =
     (case exec (make_command ''git'' [''status'', ''--porcelain''] root) w of
        (Inl e, w') \<Rightarrow> (Inl (Caused ''failed to run git status'' e), w')
      | (Inr out, w') \<Rightarrow> (Inr (sort_status_lines (str_lines (po_stdout out))), w'))"

definition git_status ::
  "exec \<Rightarrow> string \<Rightarrow> world \<Rightarrow> GitStatusResult result \<times> world" where
  "git_status exec workspace_root w =
     (if \<not> is_dir w workspace_root
      then (Inl (Bail (''workspace root is not a directory: '' @ workspace_root)), w)
      else case current_branch exec workspace_root w of
        (Inl e, w1) \<Rightarrow> (Inl e, w1)
      | (Inr branch, w1) \<Rightarrow>
      (case porcelain_status exec workspace_root w1 of
        (Inl e, w2) \<Rightarrow> (Inl e, w2)
      | (Inr (dirty, untracked), w2) \<Rightarrow>
          (Inr \<lparr>gitStatusR_branch = branch, gitStatusR_dirty_files = dirty,
                gitStatusR_untracked_files = untracked\<rparr>, w2)))"

definition changed_files_of :: "GitDiffParams \<Rightarrow> string \<Rightarrow> string list" where
  "changed_files_of params names =
     (let changed = filter (\<lambda>l. l \<noteq> []) (str_lines names) in
      if gitDiffP_paths params \<noteq> []
      then filter (\<lambda>f. list_ex (\<lambda>p. contains f p) (gitDiffP_paths params)) changed
      else changed)"

definition git_diff ::
  "exec \<Rightarrow> GitDiffParams \<Rightarrow> string \<Rightarrow> world \<Rightarrow> GitDiffResult result \<times> world" where
  "git_diff exec params workspace_root w =
     (if \<not> is_dir w workspace_root
      then (Inl (Bail (''workspace root is not a directory: '' @ workspace_root)), w)
      else
        (let format = unwrap_or ''summary'' (gitDiffP_format params) in
         case exec (make_command ''git'' [''diff'', ''--name-only''] workspace_root) w of
           (Inl e, w1) \<Rightarrow> (Inl (Caused ''failed to run git diff --name-only'' e), w1)
         | (Inr names, w1) \<Rightarrow>
         (let changed = changed_files_of params (po_stdout names) in
          case exec (make_command ''git'' [''diff'', ''--stat''] workspace_root) w1 of
           (Inl e, w2) \<Rightarrow> (Inl (Caused ''failed to run git diff --stat'' e), w2)
         | (Inr stat, w2) \<Rightarrow>
             if format = ''patch'' then
               (case exec (make_command ''git''
                        ([''diff''] @ concat (map (\<lambda>p. [''--'', p]) (gitDiffP_paths params)))
                        workspace_root) w2 of
                  (Inl e, w3) \<Rightarrow> (Inl (Caused ''failed to run git diff'' e), w3)
                | (Inr patch, w3) \<Rightarrow>
                    (Inr \<lparr>gitDiffR_changed_files = changed, gitDiffR_diff_summary = po_stdout stat,
                          gitDiffR_patch_text = Some (po_stdout patch)\<rparr>, w3))
             else (Inr \<lparr>gitDiffR_changed_files = changed, gitDiffR_diff_summary = po_stdout stat,
                        gitDiffR_patch_text = None\<rparr>, w2))))"


section \<open>workspace.summary\<close>

definition language_markers :: "(string \<times> string) list" where
  "language_markers =
     [(''Cargo.toml'', ''Rust''), (''package.json'', ''TypeScript/JavaScript''), (''go.mod'', ''Go''),
      (''pyproject.toml'', ''Python''), (''setup.py'', ''Python''), (''requirements.txt'', ''Python''),
      (''Makefile'', ''Make''), (''CMakeLists.txt'', ''C/C++''), (''pom.xml'', ''Java''),
      (''build.gradle'', ''Java/Kotlin'')]"

definition detect_languages :: "world \<Rightarrow> string \<Rightarrow> string list" where
  "detect_languages w root =
     map snd (filter (\<lambda>(file, lang). path_exists w (path_join root file)) language_markers)"

definition git_dirty_files :: "exec \<Rightarrow> string \<Rightarrow> world \<Rightarrow> string list \<times> world" where
  "git_dirty_files exec root w =
     (case exec (make_command ''git'' [''status'', ''--porcelain''] root) w of
        (Inl e, w') \<Rightarrow> ([], w')
      | (Inr out, w') \<Rightarrow> (map trim (filter (\<lambda>l. l \<noteq> []) (str_lines (po_stdout out))), w'))"

definition list_top_level :: "(world \<Rightarrow> string \<Rightarrow> string list) \<Rightarrow> world \<Rightarrow> string \<Rightarrow> string list" where
  "list_top_level read_dir w root =
     sort (filter (\<lambda>name. utf8_valid name \<and> \<not> starts_with name ''.'') (read_dir w root))"

definition workspace_summary ::
  "exec \<Rightarrow> (world \<Rightarrow> string \<Rightarrow> string list) \<Rightarrow> WorkspaceSummaryParams \<Rightarrow> world
     \<Rightarrow> WorkspaceSummaryResult result \<times> world" where
  "workspace_summary exec read_dir params w =
     (let root = workspaceSummaryP_workspace_id params in
      if \<not> is_dir w root then (Inl (Bail (''workspace root is not a directory: '' @ root)), w)
      else
        (let languages = detect_languages w root;
             (dirty, w1) = git_dirty_files exec root w;
             relevant = (if workspaceSummaryP_focus_paths params = []
                         then list_top_level read_dir w1 root
                         else workspaceSummaryP_focus_paths params)
         in (Inr \<lparr>workspaceSummaryR_root = root, workspaceSummaryR_detected_languages = languages,
                  workspaceSummaryR_dirty_files = dirty, workspaceSummaryR_relevant_paths = relevant\<rparr>,
             w1)))"

end
