(* ===== verification/Daemon_State.thy ===== *)
theory Daemon_State
  imports Run_Store Run_Derivation Workspace_Tools
begin

text \<open>
  What the request handlers of \<open>src/codex-rs/deterministic-daemon/src/handlers.rs\<close> work on: the run
  store, the saved queue views and the world of files, together with what one request draws from
  outside (clock readings, fresh identifiers, programs, the JSON printer). The handlers that load a
  run, call one core operation, save the run and append to the audit trail share \<open>update_run\<close>.
\<close>

section \<open>Outside of the daemon\<close>

datatype child_outcome = SpawnFailure string | Exited proc_output | WaitFailure string | TimedOut
  | ChannelClosed

text \<open>
  \<open>rx_clock n\<close> and \<open>rx_uuid n\<close> are the \<open>n\<close>-th time stamp and the \<open>n\<close>-th identifier drawn while one
  request is served. \<open>rx_lower\<close> is the full Unicode \<open>str::to_lowercase\<close>, which the saved queue views
  need: they compare two folded texts with each other.
\<close>

record request_env =
  rx_clock :: "nat \<Rightarrow> string"
  rx_uuid :: "nat \<Rightarrow> string"
  rx_millis :: int
  rx_today :: string
  rx_elapsed_ms :: nat
  rx_parse_date :: date_parser
  rx_exec :: exec
  rx_child :: "command \<Rightarrow> nat \<Rightarrow> world \<Rightarrow> child_outcome \<times> world"
  rx_read_dir :: "world \<Rightarrow> string \<Rightarrow> string list"
  rx_lower :: "string \<Rightarrow> string"
  rx_json :: "jval \<Rightarrow> string"
  rx_patch_json :: "PatchApplyParams \<Rightarrow> string option"
  rx_tests_json :: "TestsRunParams \<Rightarrow> string option"
  rx_command_json :: "CommandRunResult \<Rightarrow> string"


section \<open>State\<close>

record daemon =
  store_of :: store
  queue_views :: "(string \<times> QueueView) list"
  world_of :: world

type_synonym ('r) handled = "('r \<times> RunState option) result \<times> daemon"

definition unknown_run :: "string \<Rightarrow> error" where
  "unknown_run i = Bail (''unknown run: '' @ i)"

type_synonym audit_event = "string \<times> string \<times> string option"

text \<open>\<open>let _ = store.append_audit_entry(...)\<close>: a failure to append is ignored.\<close>

definition append_event ::
  "string \<Rightarrow> string \<Rightarrow> string \<Rightarrow> audit_event \<Rightarrow> store \<Rightarrow> store" where
  "append_event entry_id now i ev s =
     (case ev of (kind, summary, metadata) \<Rightarrow>
        snd (append_audit_entry entry_id now i kind summary metadata s))"

definition update_run ::
  "request_env \<Rightarrow> string \<Rightarrow> (RunState \<Rightarrow> ('r \<times> RunState) result) \<Rightarrow> ('r \<Rightarrow> audit_event)
     \<Rightarrow> daemon \<Rightarrow> 'r handled" where
  "update_run env i core event d =
     (case get_run i (store_of d) of
        None \<Rightarrow> (Inl (unknown_run i), d)
      | Some state \<Rightarrow>
          (case core state of
             Inl e \<Rightarrow> (Inl e, d)
           | Inr (result, state') \<Rightarrow>
               (Inr (result, Some state'),
                d\<lparr>store_of := append_event (rx_uuid env 0) (rx_clock env 1) i (event result)
                                (save_run state' (store_of d))\<rparr>)))"

text \<open>The handlers that only look: find the workspace of the run, use a tool, return the run.\<close>

definition inspect_run ::
  "string \<Rightarrow> (string \<Rightarrow> world \<Rightarrow> 'r result \<times> world) \<Rightarrow> daemon \<Rightarrow> 'r handled" where
  "inspect_run i tool d =
     (case workspace_for_run i (store_of d) of
        None \<Rightarrow> (Inl (unknown_run i), d)
      | Some ws \<Rightarrow>
          (case tool ws (world_of d) of
             (Inl e, w) \<Rightarrow> (Inl e, d\<lparr>world_of := w\<rparr>)
           | (Inr result, w) \<Rightarrow> (Inr (result, get_run i (store_of d)), d\<lparr>world_of := w\<rparr>)))"


section \<open>The store as a keyed table\<close>

text \<open>The table of runs meets the interface for tables with a key.\<close>

interpretation run_table: keyed_table save_run get_run run_id "\<lambda>_. True"
  by unfold_locales (auto simp: get_run_def save_run_def lookup_upsert dest: lookup_SomeD)

lemma get_run_audit [simp]:
  "get_run i (append_event e now j ev s) = get_run i s"
  by (auto simp: get_run_def append_event_def append_audit_entry_def split: prod.splits)

lemma run_exists_iff: "run_exists i s \<longleftrightarrow> get_run i s \<noteq> None"
  by (simp add: run_exists_def get_run_def is_some_iff)

lemma approvals_kept [simp]:
  "approvals (save_run r s) = approvals s"
  "approvals (append_event e now i ev s) = approvals s"
  by (auto simp: save_run_def append_event_def append_audit_entry_def split: prod.splits)

lemma audit_save_run [simp]: "audit (save_run r s) = audit s"
  by (simp add: save_run_def)

lemma foreign_keys_kept [simp]:
  "foreign_keys (save_run r s) = foreign_keys s"
  "foreign_keys (append_event e now i ev s) = foreign_keys s"
  by (auto simp: save_run_def append_event_def append_audit_entry_def split: prod.splits)

lemma runs_append_event [simp]: "runs (append_event e now i ev s) = runs s"
  by (auto simp: append_event_def append_audit_entry_def split: prod.splits)

lemma audit_append_event_prefix: "prefix (audit s) (audit (append_event e now i ev s))"
  by (auto simp: append_event_def append_audit_entry_def split: prod.splits)

text \<open>An outside with fixed identifiers and clock, in which no program can be started.\<close>

definition sample_env :: "string \<Rightarrow> request_env" where
  "sample_env tag =
     \<lparr>rx_clock = (\<lambda>n. tag @ show_nat n), rx_uuid = (\<lambda>n. tag @ show_nat (n + 1)), rx_millis = 7,
      rx_today = ''2026-01-05'', rx_elapsed_ms = 1, rx_parse_date = (\<lambda>_. None),
      rx_exec = (\<lambda>_ w. (Inl SpawnFailed, w)), rx_child = (\<lambda>_ _ w. (SpawnFailure ''none'', w)),
      rx_read_dir = (\<lambda>_ _. []), rx_lower = to_lowercase, rx_json = (\<lambda>_. []),
      rx_patch_json = (\<lambda>_. None), rx_tests_json = (\<lambda>_. None), rx_command_json = (\<lambda>_. [])\<rparr>"

end
