(* ===== verification/Approval_Policy.thy ===== *)
theory Approval_Policy
  imports Protocol_Types
begin

text \<open>
  The approval policy of \<open>src/codex-rs/deterministic-core/src/approval_policy.rs\<close>: which patches and
  which test runs may proceed at once and which must wait for a decision of the operator. The rules
  are tried in order and the first that matches decides. The lemmas characterise the outcome, show
  which rule a gate comes from, and that the gate is monotone in the edits and in the policy.
\<close>

datatype PolicyDecision =
    Proceed
  | RequiresApproval (action_summary: string) (risk_reason: string) (policy_rationale: string)

definition SENSITIVE_PATTERNS :: "string list" where
  "SENSITIVE_PATTERNS =
     [''.env'', ''.ssh'', ''.git/'', ''id_rsa'', ''id_ed25519'', ''secrets'', ''.secret'',
      ''.credentials'', ''.key'', ''.pem'']"

definition matches_sensitive_pattern :: "string \<Rightarrow> string option" where
  "matches_sensitive_pattern path =
     (let lower = to_lowercase path in find (\<lambda>pattern. contains lower pattern) SENSITIVE_PATTERNS)"

definition is_within_focus_paths :: "string \<Rightarrow> string list \<Rightarrow> bool" where
  "is_within_focus_paths path fps = list_ex (\<lambda>fp. starts_with path fp) fps"

definition unique_paths :: "PatchEdit list \<Rightarrow> nat" where
  "unique_paths edits = card (set (map edit_path edits))"

definition evaluate_patch :: "PatchApplyParams \<Rightarrow> RunPolicy \<Rightarrow> PolicyDecision" where
  "evaluate_patch params policy =
     (let edits = patchApplyP_edits params; fps = pol_focus_paths policy in
      case (if pol_delete_requires_approval policy
            then find_map (\<lambda>edit.
              if edit_operation edit = ''delete''
              then Some (RequiresApproval (''Delete file: '' @ edit_path edit)
                     ''File deletion is destructive and irreversible''
                     ''Policy: file deletion requires approval'')
              else None) edits
            else None) of
        Some d \<Rightarrow> d
      | None \<Rightarrow>
      if length edits > pol_patch_edit_threshold policy
      then RequiresApproval
             (''Patch with '' @ show_nat (length edits) @ '' edits across ''
                @ show_nat (unique_paths edits) @ '' file(s)'')
             (''Patch touches '' @ show_nat (length edits) @ '' edits (threshold: ''
                @ show_nat (pol_patch_edit_threshold policy) @ '')'')
             (''Policy: large patch (>'' @ show_nat (pol_patch_edit_threshold policy)
                @ '' edits) requires approval'')
      else
      case (if pol_sensitive_path_requires_approval policy
            then find_map (\<lambda>edit.
              case matches_sensitive_pattern (edit_path edit) of
                Some pattern \<Rightarrow>
                  Some (RequiresApproval (''Edit sensitive file: '' @ edit_path edit)
                    (''Path '' @ quoted (edit_path edit) @ '' matches sensitive pattern '' @ quoted pattern)
                    ''Policy: sensitive file path requires approval'')
              | None \<Rightarrow> None) edits
            else None) of
        Some d \<Rightarrow> d
      | None \<Rightarrow>
      case (if pol_outside_focus_requires_approval policy \<and> fps \<noteq> []
            then find_map (\<lambda>edit.
              if \<not> is_within_focus_paths (edit_path edit) fps
              then Some (RequiresApproval (''Edit outside focus: '' @ edit_path edit)
                     (''Path '' @ quoted (edit_path edit)
                        @ '' is outside declared focus paths: '' @ debug_list fps)
                     ''Policy: edit outside declared focus paths requires approval'')
              else None) edits
            else None) of
        Some d \<Rightarrow> d
      | None \<Rightarrow> Proceed)"

definition SAFE_MAKE_TARGETS :: "string list" where
  "SAFE_MAKE_TARGETS =
     [''test'', ''check'', ''lint'', ''build'', ''clean'', ''all'', ''verify'', ''fmt'', ''format'']"

definition evaluate_test_run :: "TestsRunParams \<Rightarrow> RunPolicy \<Rightarrow> PolicyDecision" where
  "evaluate_test_run params policy =
     (let scope_lower = to_lowercase (testsRunP_scope params) in
      if scope_lower = ''make'' then
        (case testsRunP_target params of
           None \<Rightarrow> Proceed
         | Some target \<Rightarrow>
             let target_lower = to_lowercase target;
                 is_builtin_safe = (target_lower \<in> set SAFE_MAKE_TARGETS);
                 is_extra_safe = list_ex (\<lambda>t. t = target_lower) (pol_extra_safe_make_targets policy)
             in if \<not> is_builtin_safe \<and> \<not> is_extra_safe
                then RequiresApproval (''Run make target: '' @ target)
                       (''Make target '' @ quoted target @ '' is not in the safe-target list'')
                       ''Policy: non-standard make target requires approval''
                else Proceed)
      else Proceed)"


section \<open>Which patches proceed\<close>

definition delete_gate :: "RunPolicy \<Rightarrow> PatchEdit list \<Rightarrow> bool" where
  "delete_gate policy edits \<longleftrightarrow>
     pol_delete_requires_approval policy \<and> (\<exists>e \<in> set edits. edit_operation e = ''delete'')"

definition size_gate :: "RunPolicy \<Rightarrow> PatchEdit list \<Rightarrow> bool" where
  "size_gate policy edits \<longleftrightarrow> length edits > pol_patch_edit_threshold policy"

definition sensitive_gate :: "RunPolicy \<Rightarrow> PatchEdit list \<Rightarrow> bool" where
  "sensitive_gate policy edits \<longleftrightarrow>
     pol_sensitive_path_requires_approval policy \<and>
     (\<exists>e \<in> set edits. \<exists>p \<in> set SENSITIVE_PATTERNS. contains (to_lowercase (edit_path e)) p)"

definition focus_gate :: "RunPolicy \<Rightarrow> PatchEdit list \<Rightarrow> bool" where
  "focus_gate policy edits \<longleftrightarrow>
     pol_outside_focus_requires_approval policy \<and> pol_focus_paths policy \<noteq> [] \<and>
     (\<exists>e \<in> set edits. \<not> (\<exists>fp \<in> set (pol_focus_paths policy). prefix fp (edit_path e)))"

lemmas gate_defs = delete_gate_def size_gate_def sensitive_gate_def focus_gate_def

lemma matches_sensitive_None_iff:
  "matches_sensitive_pattern path = None \<longleftrightarrow>
     (\<forall>p \<in> set SENSITIVE_PATTERNS. \<not> contains (to_lowercase path) p)"
  by (auto simp: matches_sensitive_pattern_def find_None_iff)

lemma within_focus_iff: "is_within_focus_paths path fps \<longleftrightarrow> (\<exists>fp \<in> set fps. prefix fp path)"
  by (simp add: is_within_focus_paths_def list_ex_iff starts_with_iff_prefix)

lemma sensitive_hit:
  "(case matches_sensitive_pattern path of None \<Rightarrow> None | Some p \<Rightarrow> Some (h p)) \<noteq> None \<longleftrightarrow>
     (\<exists>p \<in> set SENSITIVE_PATTERNS. contains (to_lowercase path) p)"
  using matches_sensitive_None_iff [of path] by (cases "matches_sensitive_pattern path") auto

fun decision_rationale :: "PolicyDecision \<Rightarrow> string option" where
  "decision_rationale Proceed = None"
| "decision_rationale (RequiresApproval a r p) = Some p"

definition gate_rationale :: "RunPolicy \<Rightarrow> PatchEdit list \<Rightarrow> string option" where
  "gate_rationale policy edits =
     (if delete_gate policy edits then Some ''Policy: file deletion requires approval''
      else if size_gate policy edits
      then Some (''Policy: large patch (>'' @ show_nat (pol_patch_edit_threshold policy)
                   @ '' edits) requires approval'')
      else if sensitive_gate policy edits then Some ''Policy: sensitive file path requires approval''
      else if focus_gate policy edits
      then Some ''Policy: edit outside declared focus paths requires approval''
      else None)"

lemma rationale_rule:
  assumes "\<And>x d. f x = Some d \<Longrightarrow> decision_rationale d = Some w"
  shows "decision_rationale (case (if g then find_map f xs else None) of Some d \<Rightarrow> d | None \<Rightarrow> rest) =
           (if g \<and> (\<exists>x \<in> set xs. f x \<noteq> None) then Some w else decision_rationale rest)"
proof (cases "find_map f xs")
  case None
  moreover from None have "\<not> (\<exists>x \<in> set xs. f x \<noteq> None)" by (simp add: find_map_None_iff)
  ultimately show ?thesis by simp
next
  case (Some d)
  then obtain x where x: "x \<in> set xs" "f x = Some d" by (blast dest: find_map_SomeD)
  then have "\<exists>x \<in> set xs. f x \<noteq> None" by force
  with assms [OF x(2)] Some show ?thesis by simp
qed

lemma decision_rationale_None_iff: "decision_rationale d = None \<longleftrightarrow> d = Proceed"
  by (cases d) auto

lemma evaluate_patch_rationale:
  "decision_rationale (evaluate_patch params policy) = gate_rationale policy (patchApplyP_edits params)"
  unfolding evaluate_patch_def Let_def
  apply (subst rationale_rule [where w = "''Policy: file deletion requires approval''"])
   apply (force split: if_splits)
  apply (subst if_distrib [of decision_rationale])
  apply (subst rationale_rule [where w = "''Policy: sensitive file path requires approval''"])
   apply (force split: option.splits)
  apply (subst rationale_rule
      [where w = "''Policy: edit outside declared focus paths requires approval''"])
   apply (force split: if_splits)
  apply (simp only: gate_rationale_def gate_defs sensitive_hit within_focus_iff if_Some_neq_None
      decision_rationale.simps conj_assoc)
  done

lemma gate_rationale_None_iff:
  "gate_rationale policy edits = None \<longleftrightarrow>
     \<not> delete_gate policy edits \<and> \<not> size_gate policy edits \<and> \<not> sensitive_gate policy edits
     \<and> \<not> focus_gate policy edits"
  by (simp add: gate_rationale_def)

lemma evaluate_patch_Proceed_iff:
  "evaluate_patch params policy = Proceed \<longleftrightarrow>
     \<not> delete_gate policy (patchApplyP_edits params) \<and> \<not> size_gate policy (patchApplyP_edits params)
     \<and> \<not> sensitive_gate policy (patchApplyP_edits params)
     \<and> \<not> focus_gate policy (patchApplyP_edits params)"
  by (metis evaluate_patch_rationale gate_rationale_None_iff decision_rationale_None_iff)

lemma gates_antimono:
  assumes "set edits' \<subseteq> set edits" "length edits' \<le> length edits"
  shows "delete_gate policy edits' \<Longrightarrow> delete_gate policy edits"
    and "size_gate policy edits' \<Longrightarrow> size_gate policy edits"
    and "sensitive_gate policy edits' \<Longrightarrow> sensitive_gate policy edits"
    and "focus_gate policy edits' \<Longrightarrow> focus_gate policy edits"
  using assms unfolding gate_defs by auto

lemma evaluate_test_run_Proceed_iff:
  "evaluate_test_run params policy = Proceed \<longleftrightarrow>
     (to_lowercase (testsRunP_scope params) = ''make'' \<longrightarrow>
      (\<forall>target. testsRunP_target params = Some target \<longrightarrow>
         to_lowercase target \<in> set SAFE_MAKE_TARGETS \<union> set (pol_extra_safe_make_targets policy)))"
  by (cases "testsRunP_target params")
     (auto simp: evaluate_test_run_def Let_def list_ex_iff)

text \<open>
  C39: the decision on a patch is the first matching rule of the policy: a deletion, then more edits
  than the threshold, then a path containing a sensitive pattern (whatever its case), then a path
  outside every focus path; the reported rationale is the one of that rule, and a patch that no
  rule matches proceeds.
\<close>

theorem evaluate_patch_first_rule:
  "decision_rationale (evaluate_patch params policy) = gate_rationale policy (patchApplyP_edits params)"
  by (rule evaluate_patch_rationale)

text \<open>
  Splitting a patch never adds a gate. If a patch may proceed, then so does every patch whose
  edits are among its edits and are not more in number, under the same policy.
\<close>

theorem evaluate_patch_proceed_mono:
  assumes "evaluate_patch params policy = Proceed"
    and "set (patchApplyP_edits params') \<subseteq> set (patchApplyP_edits params)"
    and "length (patchApplyP_edits params') \<le> length (patchApplyP_edits params)"
  shows "evaluate_patch params' policy = Proceed"
  using assms gates_antimono [OF assms(2,3)] by (auto simp: evaluate_patch_Proceed_iff)

definition sample_edit :: "string \<Rightarrow> string \<Rightarrow> PatchEdit" where
  "sample_edit path operation =
     \<lparr>edit_path = path, edit_operation = operation, edit_start_line = None, edit_end_line = None,
      edit_old_text = Some ''a'', edit_new_text = ''b'', edit_anchor_text = None, edit_reason = None\<rparr>"

definition sample_patch :: "PatchEdit list \<Rightarrow> PatchApplyParams" where
  "sample_patch edits = \<lparr>patchApplyP_run_id = ''run_1'', patchApplyP_edits = edits\<rparr>"

theorem evaluate_patch_proceed_mono_witness:
  "evaluate_patch
     (sample_patch [sample_edit ''src/a.rs'' ''replace'', sample_edit ''src/b.rs'' ''create''])
     (default_policy\<lparr>pol_focus_paths := [''src/'']\<rparr>) = Proceed \<and>
   evaluate_patch (sample_patch [sample_edit ''src/b.rs'' ''create''])
     (default_policy\<lparr>pol_focus_paths := [''src/'']\<rparr>) = Proceed"
proof -
  let ?e1 = "sample_edit ''src/a.rs'' ''replace''" and ?e2 = "sample_edit ''src/b.rs'' ''create''"
  let ?pol = "default_policy\<lparr>pol_focus_paths := [''src/'']\<rparr>"
  have "evaluate_patch (sample_patch [?e1, ?e2]) ?pol = Proceed"
    by code_simp
  moreover from this have "evaluate_patch (sample_patch [?e2]) ?pol = Proceed"
    by (rule evaluate_patch_proceed_mono) (simp_all add: sample_patch_def)
  ultimately show ?thesis by simp
qed

text \<open>
  A test run waits for approval exactly when its scope is \<open>make\<close> and it names a target that,
  in lower case, is neither one of the built-in safe targets nor one of the extra safe targets of
  the run's policy.
\<close>

theorem evaluate_test_run_gated_iff:
  "evaluate_test_run params policy \<noteq> Proceed \<longleftrightarrow>
     to_lowercase (testsRunP_scope params) = ''make'' \<and>
     (\<exists>target. testsRunP_target params = Some target \<and>
        to_lowercase target \<notin> set SAFE_MAKE_TARGETS \<union> set (pol_extra_safe_make_targets policy))"
  unfolding evaluate_test_run_Proceed_iff by blast

end
