(* ===== verification/Run_Lifecycle.thy ===== *)
theory Run_Lifecycle
  imports Protocol_Types
begin

text \<open>
  The life cycle of a run, from \<open>src/codex-rs/deterministic-core/src/\<close>: \<open>run_prepare.rs\<close>,
  \<open>run_replan.rs\<close>, \<open>approval.rs\<close>, \<open>run_refresh.rs\<close>, \<open>run_finalize.rs\<close>, \<open>run_reopen.rs\<close>,
  \<open>run_supersede.rs\<close>, \<open>run_archive.rs\<close> and \<open>run_unarchive.rs\<close>. A function that takes \<open>&mut RunState\<close>
  returns the new state next to its result; the values it takes from the clock and from the UUID
  generator are arguments. The lemmas give the guard of each transition, what it writes and what it
  leaves alone.
\<close>

section \<open>run.prepare\<close>

definition default_plan :: "string list" where
  "default_plan =
     [''inspect workspace'', ''read relevant files'', ''search code if needed'', ''apply patch'',
      ''run tests'', ''show diff'']"

definition run_constraints :: "string list" where
  "run_constraints =
     [''All file writes must go through apply_patch'',
      ''All test execution must go through run_tests'',
      ''No autonomous continuation '' @ em_dash @ '' each step requires explicit invocation'']"

definition prepare ::
  "string \<Rightarrow> string \<Rightarrow> RunPrepareParams \<Rightarrow> RunPrepareResult \<times> RunState" where
  "prepare uuid now params =
     (let policy = into_policy (unwrap_or default_policy_input (prepareP_policy params))
                     (prepareP_focus_paths params);
          pl = default_plan;
          brief = ''Goal: '' @ prepareP_user_goal params @ ''. Workspace: ''
                    @ prepareP_workspace_id params @ ''. Plan has '' @ show_nat (length pl)
                    @ '' steps. Start by inspecting the workspace.'';
          result =
            \<lparr>prepareR_run_id = uuid, prepareR_objective = prepareP_user_goal params,
             prepareR_assistant_brief = brief, prepareR_constraints = run_constraints,
             prepareR_status = ''prepared'', prepareR_plan = pl, prepareR_current_step = 0,
             prepareR_recommended_next_action = ''Inspect the workspace to understand the codebase.'',
             prepareR_recommended_tool = ''get_workspace_summary'',
             prepareR_effective_policy = policy\<rparr>;
          state =
            \<lparr>run_id = uuid, workspace_id = prepareP_workspace_id params,
             user_goal = prepareP_user_goal params, status = ''prepared'', plan = pl,
             current_step = 0, completed_steps = [], pending_steps = pl, last_action = None,
             last_observation = None,
             recommended_next_action = Some ''Inspect the workspace to understand the codebase.'',
             recommended_tool = Some ''get_workspace_summary'', latest_diff_summary = None,
             latest_test_result = None, focus_paths = prepareP_focus_paths params, warnings = [],
             retryable_action = None, policy_profile = policy, finalized_outcome = None,
             reopen_metadata = None, supersedes_run_id = None, superseded_by_run_id = None,
             supersession_reason = None, superseded_at = None, archive_metadata = None,
             unarchive_metadata = None, annotation = None, pin_metadata = None,
             snooze_metadata = None, priority = Normal, assignee = None, ownership_note = None,
             due_date = None, blocked_by_run_ids = [], effort = None, created_at = now,
             updated_at = now\<rparr>
      in (result, state))"


section \<open>run.replan\<close>

definition truncate :: "string \<Rightarrow> nat \<Rightarrow> string result" where
  "truncate s max_len = (if length s \<le> max_len then Inr s else str_slice_to s max_len)"

definition tool_for_step :: "string \<Rightarrow> string" where
  "tool_for_step lower =
     (if contains lower ''inspect'' \<or> contains lower ''workspace'' \<or> contains lower ''summary''
      then ''get_workspace_summary''
      else if contains lower ''read'' \<or> contains lower ''file'' then ''read_file''
      else if contains lower ''search'' \<or> contains lower ''find'' \<or> contains lower ''grep''
      then ''search_code''
      else if contains lower ''patch'' \<or> contains lower ''edit'' \<or> contains lower ''write''
        \<or> contains lower ''apply''
      then ''apply_patch''
      else if contains lower ''test'' \<or> contains lower ''verify'' then ''run_tests''
      else if contains lower ''diff'' \<or> contains lower ''review'' then ''show_diff''
      else if contains lower ''git'' \<or> contains lower ''status'' then ''git_status''
      else ''read_file'')"

definition recommend_for_step :: "string \<Rightarrow> (string \<times> string) result" where
  "recommend_for_step step =
     (let tool = tool_for_step (to_lowercase step) in
      and_then (truncate step 100) (\<lambda>short. Inr (''Execute step: '' @ short, tool)))"

definition replan_evidence :: "RunReplanParams \<Rightarrow> RunState \<Rightarrow> RunState \<times> string list" where
  "replan_evidence params state =
     (if replanP_new_evidence params \<noteq> []
      then (state\<lparr>last_observation :=
                Some (''Replan evidence: '' @ join ''; '' (replanP_new_evidence params))\<rparr>,
            [''absorbed '' @ show_nat (length (replanP_new_evidence params))
               @ '' new evidence item(s)''])
      else (state, []))"

definition replan_failure ::
  "string \<Rightarrow> RunState \<times> string list \<Rightarrow> (RunState \<times> string list) result" where
  "replan_failure failure sd =
     (let (state, delta) = sd;
          (state, delta) =
            (if status state = ''blocked'' \<or> status state = ''awaiting_approval''
             then (state\<lparr>status := ''active''\<rparr>,
                   delta @ [''status '' @ status state @ '' '' @ arrow @ '' active''])
             else (state, delta))
      in and_then (truncate failure 120) (\<lambda>short.
      let recovery_step = ''recover from failure: '' @ short;
          (state, delta) =
            (if recovery_step \<notin> set (pending_steps state)
             then (state\<lparr>pending_steps := recovery_step # pending_steps state\<rparr>,
                   delta @ [''inserted recovery step''])
             else (state, delta))
      in case retryable_action state of
           None \<Rightarrow> Inr (state, delta)
         | Some ra \<Rightarrow>
             if ra_is_valid ra
             then and_then (truncate failure 80) (\<lambda>short80.
               Inr (state\<lparr>retryable_action :=
                      Some (ra\<lparr>ra_is_valid := False, ra_is_recommended := False,
                              ra_invalidation_reason :=
                                Some (''Invalidated by replan failure context: '' @ short80)\<rparr>)\<rparr>,
                    delta @ [''invalidated retryable action '' @ quoted (ra_kind ra)]))
             else Inr (state, delta)))"

definition replan_without_failure :: "RunState \<times> string list \<Rightarrow> RunState \<times> string list" where
  "replan_without_failure sd =
     (let (state, delta) = sd in
      if status state = ''blocked'' then
        (let (state, delta) =
           (case retryable_action state of
              None \<Rightarrow> (state, delta)
            | Some ra \<Rightarrow>
                if ra_is_valid ra
                then (state\<lparr>retryable_action := Some (ra\<lparr>ra_is_recommended := False\<rparr>)\<rparr>,
                      delta @ [''retryable action '' @ quoted (ra_kind ra)
                                 @ '' preserved but not recommended (blocked state replan)''])
                else (state, delta))
         in (state\<lparr>status := ''active''\<rparr>, delta @ [''status blocked '' @ arrow @ '' active'']))
      else (state, delta))"

definition replan_recommend ::
  "RunState \<times> string list \<Rightarrow> ((string \<times> string) \<times> RunState \<times> string list) result" where
  "replan_recommend sd =
     (let (state, delta) = sd in
      case pending_steps state of
        [] \<Rightarrow> Inr ((''All steps complete '' @ em_dash @ '' review diff and finalize.'', ''show_diff''),
                  state\<lparr>status := ''done''\<rparr>, delta @ [''all steps complete''])
      | step # _ \<Rightarrow> and_then (recommend_for_step step) (\<lambda>rec. Inr (rec, state, delta)))"

definition replan_finish ::
  "string \<Rightarrow> RunReplanParams \<Rightarrow> (string \<times> string) \<times> RunState \<times> string list
     \<Rightarrow> (RunReplanResult \<times> RunState) result" where
  "replan_finish now params rsd =
     (let ((action, tool), state, delta) = rsd;
          (state, delta) =
            (if status state = ''prepared''
             then (state\<lparr>status := ''active''\<rparr>, delta @ [''status prepared '' @ arrow @ '' active''])
             else (state, delta));
          state = state\<lparr>recommended_next_action := Some action, recommended_tool := Some tool,
                         updated_at := now\<rparr>
      in and_then (truncate (replanP_reason params) 80) (\<lambda>reason.
      let summary = ''Replanned (reason: '' @ reason @ ''): ''
                      @ show_nat (length (pending_steps state)) @ '' pending step(s). Next: '' @ action;
          replan_delta = (if delta = [] then None else Some (join ''; '' delta))
      in Inr (\<lparr>replanR_run_id = run_id state, replanR_status = status state,
               replanR_current_step = current_step state,
               replanR_pending_steps = pending_steps state,
               replanR_recommended_next_action = action, replanR_recommended_tool = tool,
               replanR_replan_summary = summary, replanR_retryable_action = retryable_action state,
               replanR_replan_delta = replan_delta\<rparr>, state)))"

definition replan ::
  "string \<Rightarrow> RunReplanParams \<Rightarrow> RunState \<Rightarrow> (RunReplanResult \<times> RunState) result" where
  "replan now params state =
     (let sd = replan_evidence params state in
      and_then
        (case replanP_failure_context params of
           Some failure \<Rightarrow> replan_failure failure sd
         | None \<Rightarrow> Inr (replan_without_failure sd)) (\<lambda>sd.
      and_then (replan_recommend sd) (replan_finish now params)))"


section \<open>Approvals\<close>

definition create_approval ::
  "string \<Rightarrow> string \<Rightarrow> RunState \<Rightarrow> string \<Rightarrow> string \<Rightarrow> string \<Rightarrow> PendingApproval \<times> RunState" where
  "create_approval now uuid state action_description risk_reason policy_rationale =
     (let state =
        state\<lparr>status := ''awaiting_approval'',
              recommended_next_action :=
                Some (''Approval required: '' @ action_description
                        @ ''. Use approve_action to approve or deny.''),
              recommended_tool := Some ''approve_action'', updated_at := now\<rparr>
      in (\<lparr>pa_approval_id = ''appr_'' @ uuid, pa_run_id = run_id state,
           pa_action_description = action_description, pa_risk_reason = risk_reason,
           pa_policy_rationale = policy_rationale, pa_status = ''pending'', pa_created_at = now\<rparr>,
          state))"

definition reason_suffix :: "string option \<Rightarrow> string" where
  "reason_suffix r = unwrap_or [] (map_option (\<lambda>x. '': '' @ x) r)"

definition approved_guidance :: "RetryableAction option \<Rightarrow> string \<times> string" where
  "approved_guidance r =
     (case r of
        Some ra \<Rightarrow>
          if ra_is_valid ra
          then (''Retry the approved action: '' @ ra_summary ra, ra_recommended_tool ra)
          else (''Previously gated action is no longer valid''
                  @ reason_suffix (ra_invalidation_reason ra) @ ''. Consider replanning.'',
                ''replan_run'')
      | None \<Rightarrow> (''Retry the previously gated action.'', ''refresh_run_state''))"

definition resolve_approve ::
  "nat \<Rightarrow> RunState \<Rightarrow> (string \<times> string \<times> string option \<times> string option) \<times> RunState" where
  "resolve_approve remaining state =
     (let state =
        (case retryable_action state of
           Some ra \<Rightarrow>
             if ra_is_valid ra
             then state\<lparr>retryable_action := Some (ra\<lparr>ra_is_recommended := True\<rparr>)\<rparr>
             else state
         | None \<Rightarrow> state)
      in if remaining = 0 then
           (let (action_text, tool) = approved_guidance (retryable_action state)
            in ((''active'', ''Approval granted; run unblocked.'', Some action_text, Some tool),
                state\<lparr>status := ''active'', recommended_next_action := Some action_text,
                      recommended_tool := Some tool\<rparr>))
         else
           (let msg = ''Resolve remaining '' @ show_nat remaining @ '' pending approval(s).''
            in ((''awaiting_approval'',
                 ''Approval granted; '' @ show_nat remaining @ '' approval(s) still pending.'',
                 Some msg, Some ''approve_action''),
                state\<lparr>recommended_next_action := Some msg,
                      recommended_tool := Some ''approve_action''\<rparr>)))"

definition resolve_deny ::
  "string option \<Rightarrow> RunState \<Rightarrow> (string \<times> string \<times> string option \<times> string option) \<times> RunState" where
  "resolve_deny reason state =
     (let state =
        (case retryable_action state of
           Some ra \<Rightarrow>
             state\<lparr>retryable_action :=
               Some (ra\<lparr>ra_is_valid := False, ra_is_recommended := False,
                       ra_invalidation_reason := Some (''Action denied'' @ reason_suffix reason)\<rparr>)\<rparr>
         | None \<Rightarrow> state);
          msg = ''Replan the run to work around the denied action.''
      in ((''blocked'', ''Approval denied'' @ reason_suffix reason @ ''; run blocked.'',
           Some msg, Some ''replan_run''),
          state\<lparr>status := ''blocked'', recommended_next_action := Some msg,
                recommended_tool := Some ''replan_run''\<rparr>))"

definition resolve ::
  "string \<Rightarrow> ApprovalResolveParams \<Rightarrow> RunState \<Rightarrow> nat \<Rightarrow> (ApprovalResolveResult \<times> RunState) result" where
  "resolve now params state remaining_pending_count =
     and_then
       (if approvalResolveP_decision params = ''approve''
        then Inr (resolve_approve remaining_pending_count state)
        else if approvalResolveP_decision params = ''deny''
        then Inr (resolve_deny (approvalResolveP_reason params) state)
        else Inl (Bail (''invalid decision '' @ quoted (approvalResolveP_decision params)
               @ '': must be '' @ quoted ''approve'' @ '' or '' @ quoted ''deny''))) (\<lambda>(out, state).
     let (new_status, summary, rec_action, rec_tool) = out;
         state = state\<lparr>updated_at := now\<rparr>
     in Inr (\<lparr>approvalResolveR_approval_id = approvalResolveP_approval_id params,
              approvalResolveR_run_id = approvalResolveP_run_id params,
              approvalResolveR_decision = approvalResolveP_decision params,
              approvalResolveR_status = new_status, approvalResolveR_summary = summary,
              approvalResolveR_recommended_next_action = rec_action,
              approvalResolveR_recommended_tool = rec_tool,
              approvalResolveR_retryable_action = retryable_action state\<rparr>, state))"


section \<open>run.refresh\<close>

definition refresh_warnings :: "RunState \<Rightarrow> PendingApproval list \<Rightarrow> string list" where
  "refresh_warnings state pending_approvals =
     warnings state
     @ (if pending_approvals \<noteq> [] \<and> status state \<noteq> ''awaiting_approval''
        then [''Run has pending approvals but status is not awaiting_approval''] else [])
     @ (if status state = ''failed''
        then [''Run is in a failed state '' @ em_dash @ '' consider replanning''] else [])
     @ (case retryable_action state of
          None \<Rightarrow> []
        | Some ra \<Rightarrow>
            if ra_is_valid ra then []
            else case ra_invalidation_reason ra of
                Some reason \<Rightarrow>
                  [''Retryable action '' @ quoted (ra_kind ra) @ '' is stale: '' @ reason]
              | None \<Rightarrow> [''Retryable action '' @ quoted (ra_kind ra) @ '' is no longer valid''])"

definition refresh ::
  "RunState \<Rightarrow> PendingApproval list \<Rightarrow> string option \<Rightarrow> RunRefreshResult" where
  "refresh state pending_approvals live_diff_summary =
     \<lparr>refreshR_run_id = run_id state, refreshR_status = status state,
      refreshR_current_step = current_step state,
      refreshR_completed_steps = completed_steps state,
      refreshR_pending_steps = pending_steps state, refreshR_last_action = last_action state,
      refreshR_last_observation = last_observation state,
      refreshR_recommended_next_action = recommended_next_action state,
      refreshR_recommended_tool = recommended_tool state,
      refreshR_pending_approvals = pending_approvals,
      refreshR_latest_diff_summary =
        (case live_diff_summary of Some d \<Rightarrow> Some d | None \<Rightarrow> latest_diff_summary state),
      refreshR_latest_test_result = latest_test_result state,
      refreshR_retryable_action = retryable_action state,
      refreshR_warnings = refresh_warnings state pending_approvals,
      refreshR_effective_policy = policy_profile state,
      refreshR_finalized_outcome = finalized_outcome state,
      refreshR_reopen_metadata = reopen_metadata state\<rparr>"


section \<open>run.finalize and run.reopen\<close>

definition finalize ::
  "string \<Rightarrow> RunFinalizeParams \<Rightarrow> RunState \<Rightarrow> (RunFinalizeResult \<times> RunState) result" where
  "finalize now params state =
     (let kind = finalizeP_outcome_kind params in
      if kind \<notin> set VALID_OUTCOME_KINDS
      then Inl (Bail (''invalid outcome_kind '' @ quoted kind @ '': must be one of ''
             @ join '', '' VALID_OUTCOME_KINDS))
      else if is_some (finalized_outcome state)
      then Inl (Bail (''run '' @ quoted (finalizeP_run_id params) @ '' is already finalized (status: ''
             @ status state @ ''). Use reopen_run to continue work, or supersede_run to start a new approach.''))
      else
        (let outcome =
               \<lparr>out_outcome_kind = kind, out_summary = finalizeP_summary params,
                out_reason = finalizeP_reason params, out_finalized_at = now\<rparr>;
             state = state\<lparr>finalized_outcome := Some outcome, status := ''finalized:'' @ kind,
                            updated_at := now\<rparr>;
             guidance =
               (if kind = ''completed'' then ''Run is complete. Review results or prepare a new run.''
                else if kind = ''failed'' then ''Run failed. Inspect the audit trail or prepare a new run.''
                else if kind = ''abandoned''
                then ''Run was abandoned. Prepare a new run if work should continue.''
                else ''Run finalized.'')
         in Inr (\<lparr>finalizeR_run_id = finalizeP_run_id params, finalizeR_outcome_kind = kind,
                  finalizeR_finalized_at = now, finalizeR_status = status state,
                  finalizeR_recommended_next_action = guidance\<rparr>, state)))"

definition reopen_guidance :: "string \<Rightarrow> string" where
  "reopen_guidance kind =
     (if kind = ''completed''
      then ''Run reopened from a completed state. Call refresh_run_state to inspect current state, then replan or continue from where the run left off.''
      else if kind = ''failed''
      then ''Run reopened from a failed state. Call refresh_run_state to inspect current state and use replan_run to update the plan with new evidence.''
      else if kind = ''abandoned''
      then ''Run reopened from an abandoned state. Call refresh_run_state to inspect current state, then replan_run with the updated goal.''
      else ''Run reopened. Call refresh_run_state to inspect current state.'')"

definition reopen ::
  "string \<Rightarrow> RunReopenParams \<Rightarrow> RunState \<Rightarrow> (RunReopenResult \<times> RunState) result" where
  "reopen now params state =
     (if \<not> starts_with (status state) ''finalized:''
      then Inl (Bail (''run '' @ quoted (reopenP_run_id params) @ '' cannot be reopened: status is ''
             @ quoted (status state)
             @ '' (only finalized runs may be reopened). Use get_run_state to inspect the run, or finalize_run if work is complete.''))
      else
        (let from_kind = unwrap_or ''unknown'' (strip_prefix ''finalized:'' (status state));
             count = unwrap_or 1 (map_option (\<lambda>m. reopenM_reopen_count m + 1) (reopen_metadata state));
             meta = \<lparr>reopenM_reason = reopenP_reason params, reopenM_reopened_at = now,
                     reopenM_reopened_from_outcome_kind = from_kind, reopenM_reopen_count = count\<rparr>;
             state = state\<lparr>status := ''active'', finalized_outcome := None,
                            reopen_metadata := Some meta, updated_at := now\<rparr>
         in Inr (\<lparr>reopenR_run_id = reopenP_run_id params, reopenR_status = status state,
                  reopenR_reopened_from_outcome_kind = from_kind, reopenR_reopen_count = count,
                  reopenR_reopened_at = now,
                  reopenR_recommended_next_action = reopen_guidance from_kind,
                  reopenR_recommended_tool = ''refresh_run_state''\<rparr>, state)))"


section \<open>run.supersede\<close>

definition supersede ::
  "string \<Rightarrow> RunSupersedeParams \<Rightarrow> RunState \<Rightarrow> string
     \<Rightarrow> (RunSupersedeResult \<times> RunState \<times> RunState) result" where
  "supersede now params original new_run_id =
     (if \<not> starts_with (status original) ''finalized:''
      then Inl (Bail (''run '' @ quoted (supersedeP_run_id params) @ '' cannot be superseded: status is ''
             @ quoted (status original)
             @ '' (only finalized runs may be superseded). Use finalize_run to close the run first, or reopen_run to continue work on it.''))
      else
        (let goal = (case supersedeP_new_user_goal params of
                       Some g \<Rightarrow> if g \<noteq> [] then g else user_goal original
                     | None \<Rightarrow> user_goal original);
             original = original\<lparr>superseded_by_run_id := Some new_run_id,
                                  supersession_reason := Some (supersedeP_reason params),
                                  superseded_at := Some now, updated_at := now\<rparr>;
             successor =
               \<lparr>run_id = new_run_id, workspace_id = workspace_id original, user_goal = goal,
                status = ''prepared'', plan = [], current_step = 0, completed_steps = [],
                pending_steps = [], last_action = None, last_observation = None,
                recommended_next_action =
                  Some ''Successor run prepared. Call refresh_run_state to inspect its initial state, then replan_run to define the new plan.'',
                recommended_tool = Some ''refresh_run_state'', latest_diff_summary = None,
                latest_test_result = None, focus_paths = focus_paths original, warnings = [],
                retryable_action = None, policy_profile = policy_profile original,
                finalized_outcome = None, reopen_metadata = None,
                supersedes_run_id = Some (supersedeP_run_id params), superseded_by_run_id = None,
                supersession_reason = Some (supersedeP_reason params), superseded_at = Some now,
                archive_metadata = None, unarchive_metadata = None, annotation = None,
                pin_metadata = None, snooze_metadata = None, priority = priority original,
                assignee = None, ownership_note = None, due_date = None, blocked_by_run_ids = [],
                effort = None, created_at = now, updated_at = now\<rparr>;
             result =
               \<lparr>supersedeR_original_run_id = supersedeP_run_id params,
                supersedeR_successor_run_id = new_run_id, supersedeR_superseded_at = now,
                supersedeR_successor_status = status successor,
                supersedeR_recommended_next_action =
                  ''Supersession complete. Call refresh_run_state on the successor run to inspect its initial state, then replan_run to define the new plan.'',
                supersedeR_recommended_tool = ''refresh_run_state''\<rparr>
         in Inr (result, original, successor)))"

definition make_successor_run_id :: "int \<Rightarrow> string \<Rightarrow> string" where
  "make_successor_run_id timestamp_millis original_run_id =
     original_run_id @ ''-successor-'' @ show_int timestamp_millis"


section \<open>run.archive and run.unarchive\<close>

definition archive ::
  "string \<Rightarrow> RunArchiveParams \<Rightarrow> RunState \<Rightarrow> (RunArchiveResult \<times> RunState) result" where
  "archive now params state =
     (if \<not> starts_with (status state) ''finalized:''
      then Inl (Bail (''run '' @ quoted (archiveP_run_id params) @ '' cannot be archived: status is ''
             @ quoted (status state)
             @ '' (only finalized runs may be archived). Use finalize_run to close the run first, or wait for the run to complete.''))
      else if is_some (archive_metadata state)
      then Inl (Bail (''run '' @ quoted (archiveP_run_id params)
             @ '' is already archived. Use unarchive_run to restore it to the active list.''))
      else
        (let state = state\<lparr>archive_metadata :=
                              Some \<lparr>archiveM_reason = archiveP_reason params, archiveM_archived_at = now\<rparr>,
                            updated_at := now\<rparr>
         in Inr (\<lparr>archiveR_run_id = archiveP_run_id params, archiveR_status = status state,
                  archiveR_archived_at = now, archiveR_reason = archiveP_reason params,
                  archiveR_message = ''Run '' @ quoted (archiveP_run_id params)
                    @ '' archived. It remains preserved and inspectable but will be excluded from the default active list.''\<rparr>,
                 state)))"

definition unarchive ::
  "string \<Rightarrow> RunUnarchiveParams \<Rightarrow> RunState \<Rightarrow> (RunUnarchiveResult \<times> RunState) result" where
  "unarchive now params state =
     (if \<not> is_some (archive_metadata state)
      then Inl (Bail (''run '' @ quoted (unarchiveP_run_id params)
             @ '' cannot be unarchived: it is not archived. Use list_runs with includeArchived=true to see archived runs, or archive_run to archive first.''))
      else if is_some (unarchive_metadata state)
      then Inl (Bail (''run '' @ quoted (unarchiveP_run_id params)
             @ '' is already unarchived. Use get_run_state to inspect the run, or list_runs to see it in the default listing.''))
      else
        (let state = state\<lparr>unarchive_metadata :=
                              Some \<lparr>unarchiveM_reason = unarchiveP_reason params,
                                    unarchiveM_unarchived_at = now\<rparr>,
                            updated_at := now\<rparr>
         in Inr (\<lparr>unarchiveR_run_id = unarchiveP_run_id params, unarchiveR_status = status state,
                  unarchiveR_unarchived_at = now, unarchiveR_reason = unarchiveP_reason params,
                  unarchiveR_message = ''Run '' @ quoted (unarchiveP_run_id params)
                    @ '' unarchived. It is now visible in the default active run listing.''\<rparr>,
                 state)))"



section \<open>Guards and effects\<close>

definition is_finalized_status :: "string \<Rightarrow> bool" where
  "is_finalized_status st \<longleftrightarrow> starts_with st ''finalized:''"

lemma finalize_ok:
  assumes "finalize now p s = Inr (r, s')"
  shows "finalizeP_outcome_kind p \<in> set VALID_OUTCOME_KINDS" "finalized_outcome s = None"
    "s' = s\<lparr>finalized_outcome := Some \<lparr>out_outcome_kind = finalizeP_outcome_kind p,
              out_summary = finalizeP_summary p, out_reason = finalizeP_reason p,
              out_finalized_at = now\<rparr>,
            status := ''finalized:'' @ finalizeP_outcome_kind p, updated_at := now\<rparr>"
  using assms by (auto simp: finalize_def Let_def is_some_iff split: if_splits)

lemma finalize_is_ok:
  "is_ok (finalize now p s) \<longleftrightarrow>
     finalizeP_outcome_kind p \<in> set VALID_OUTCOME_KINDS \<and> finalized_outcome s = None"
  by (auto simp: finalize_def Let_def is_some_iff)

definition reopened_meta :: "string \<Rightarrow> RunReopenParams \<Rightarrow> RunState \<Rightarrow> ReopenMetadata" where
  "reopened_meta now p s =
     \<lparr>reopenM_reason = reopenP_reason p, reopenM_reopened_at = now,
      reopenM_reopened_from_outcome_kind = unwrap_or ''unknown'' (strip_prefix ''finalized:'' (status s)),
      reopenM_reopen_count =
        (case reopen_metadata s of None \<Rightarrow> 1 | Some m \<Rightarrow> reopenM_reopen_count m + 1)\<rparr>"

lemma reopen_ok:
  assumes "reopen now p s = Inr (r, s')"
  shows "is_finalized_status (status s)"
    "s' = s\<lparr>status := ''active'', finalized_outcome := None,
            reopen_metadata := Some (reopened_meta now p s), updated_at := now\<rparr>"
  using assms
  by (auto simp: reopen_def Let_def is_finalized_status_def reopened_meta_def
      split: if_splits option.splits)

lemma reopen_is_ok: "is_ok (reopen now p s) \<longleftrightarrow> is_finalized_status (status s)"
  by (simp add: reopen_def Let_def is_finalized_status_def)

lemma archive_ok:
  assumes "archive now p s = Inr (r, s')"
  shows "is_finalized_status (status s)" "archive_metadata s = None"
    "s' = s\<lparr>archive_metadata := Some \<lparr>archiveM_reason = archiveP_reason p, archiveM_archived_at = now\<rparr>,
            updated_at := now\<rparr>"
  using assms by (auto simp: archive_def Let_def is_finalized_status_def is_some_iff split: if_splits)

lemma archive_is_ok:
  "is_ok (archive now p s) \<longleftrightarrow> is_finalized_status (status s) \<and> archive_metadata s = None"
  by (auto simp: archive_def Let_def is_finalized_status_def is_some_iff)

lemma unarchive_ok:
  assumes "unarchive now p s = Inr (r, s')"
  shows "archive_metadata s \<noteq> None" "unarchive_metadata s = None"
    "s' = s\<lparr>unarchive_metadata := Some \<lparr>unarchiveM_reason = unarchiveP_reason p,
              unarchiveM_unarchived_at = now\<rparr>, updated_at := now\<rparr>"
  using assms by (auto simp: unarchive_def Let_def is_some_iff split: if_splits)

lemma unarchive_is_ok:
  "is_ok (unarchive now p s) \<longleftrightarrow> archive_metadata s \<noteq> None \<and> unarchive_metadata s = None"
  by (auto simp: unarchive_def Let_def is_some_iff)

lemma supersede_ok:
  assumes "supersede now p s j = Inr (r, s', n)"
  shows "is_finalized_status (status s)"
    "s' = s\<lparr>superseded_by_run_id := Some j, supersession_reason := Some (supersedeP_reason p),
            superseded_at := Some now, updated_at := now\<rparr>"
    "run_id n = j" "workspace_id n = workspace_id s" "policy_profile n = policy_profile s"
    "supersedes_run_id n = Some (supersedeP_run_id p)" "status n = ''prepared''"
    "finalized_outcome n = None" "superseded_by_run_id n = None"
  using assms by (auto simp: supersede_def Let_def is_finalized_status_def split: if_splits)

lemma supersede_is_ok: "is_ok (supersede now p s j) \<longleftrightarrow> is_finalized_status (status s)"
  by (auto simp: supersede_def Let_def is_finalized_status_def)

lemma resolve_ok_cases:
  assumes "resolve now p s n = Inr (r, s')"
  obtains (approve) "approvalResolveP_decision p = ''approve''"
      "s' = (snd (resolve_approve n s))\<lparr>updated_at := now\<rparr>"
  | (deny) "approvalResolveP_decision p = ''deny''"
      "s' = (snd (resolve_deny (approvalResolveP_reason p) s))\<lparr>updated_at := now\<rparr>"
  using assms by (auto simp: resolve_def and_then_eq_Inr Let_def split: if_splits prod.splits)

lemmas ok_rules = finalize_ok reopen_ok archive_ok unarchive_ok supersede_ok


section \<open>Properties of the life cycle\<close>

definition sample_prepare :: RunPrepareParams where
  "sample_prepare =
     \<lparr>prepareP_workspace_id = ''/ws'', prepareP_user_goal = ''fix the bug'',
      prepareP_focus_paths = [], prepareP_mode = None, prepareP_policy = None\<rparr>"

definition sample_run :: RunState where
  "sample_run = snd (prepare ''run_1'' ''2026-01-05T10:00:00+00:00'' sample_prepare)"

definition sample_finalize :: RunFinalizeParams where
  "sample_finalize =
     \<lparr>finalizeP_run_id = ''run_1'', finalizeP_outcome_kind = ''completed'',
      finalizeP_summary = ''done'', finalizeP_reason = None\<rparr>"

definition sample_reopen :: RunReopenParams where
  "sample_reopen = \<lparr>reopenP_run_id = ''run_1'', reopenP_reason = ''more work''\<rparr>"

text \<open>
  Finalizing and reopening undo each other. A run that has been finalized can be reopened, whatever
  its outcome; the reopened run is the run before it was finalized, except that it is active, that
  its reopening is recorded with the outcome it was reopened from and a count one higher than
  before (at 32 bits), and for the time stamp.
\<close>

theorem finalize_reopen_roundtrip:
  assumes "finalize t1 pf s = Inr (r1, s1)"
  shows "\<exists>r2 m.
     reopen t2 pr s1 = Inr (r2, s\<lparr>status := ''active'', reopen_metadata := Some m, updated_at := t2\<rparr>) \<and>
     reopenM_reopened_from_outcome_kind m = finalizeP_outcome_kind pf \<and>
     reopenM_reason m = reopenP_reason pr \<and>
     reopenM_reopen_count m =
       (case reopen_metadata s of None \<Rightarrow> 1 | Some m0 \<Rightarrow> reopenM_reopen_count m0 + 1)"
proof -
  note fin = finalize_ok [OF assms]
  then have "is_ok (reopen t2 pr s1)" by (simp add: reopen_is_ok is_finalized_status_def)
  then obtain r2 s2 where ro: "reopen t2 pr s1 = Inr (r2, s2)" by (cases "reopen t2 pr s1") auto
  let ?m = "reopened_meta t2 pr s1"
  have "s2 = s\<lparr>status := ''active'', reopen_metadata := Some ?m, updated_at := t2\<rparr>"
    using reopen_ok(2) [OF ro] fin(2,3) by (cases s) simp
  moreover have "reopenM_reopened_from_outcome_kind ?m = finalizeP_outcome_kind pf"
    using fin(3) by (simp add: reopened_meta_def strip_prefix_def)
  ultimately show ?thesis using ro fin(3) by (auto simp: reopened_meta_def)
qed

theorem finalize_reopen_roundtrip_witness:
  "\<exists>r1 s1 r2 s2. finalize ''t1'' sample_finalize sample_run = Inr (r1, s1) \<and>
     reopen ''t2'' sample_reopen s1 = Inr (r2, s2) \<and>
     status s2 = ''active'' \<and> plan s2 = plan sample_run"
proof -
  have "is_ok (finalize ''t1'' sample_finalize sample_run)" by code_simp
  then obtain r1 s1 where f: "finalize ''t1'' sample_finalize sample_run = Inr (r1, s1)"
    by (cases "finalize ''t1'' sample_finalize sample_run") auto
  from finalize_reopen_roundtrip [OF f, of "''t2''" sample_reopen] f show ?thesis by fastforce
qed

text \<open>
  Archiving is final in one direction. A run can be unarchived once after it was archived, and a run
  that has been archived and unarchived can be neither archived nor unarchived again, although the
  error of a second archiving names unarchiving as the way out.
\<close>

theorem archive_unarchive_once:
  assumes "archive t1 pa s = Inr (r1, s1)" "unarchive t2 pu s1 = Inr (r2, s2)"
  shows "\<not> is_ok (archive t3 pa' s2) \<and> \<not> is_ok (unarchive t4 pu' s2) \<and>
         s2 = s\<lparr>archive_metadata := archive_metadata s2, unarchive_metadata := unarchive_metadata s2,
                updated_at := t2\<rparr>"
proof -
  have "archive_metadata s2 \<noteq> None" "unarchive_metadata s2 \<noteq> None"
    using archive_ok(3) [OF assms(1)] unarchive_ok(3) [OF assms(2)] by simp_all
  then have "\<not> is_ok (archive t3 pa' s2)" "\<not> is_ok (unarchive t4 pu' s2)"
    by (auto simp: archive_is_ok unarchive_is_ok)
  moreover have "s2 = s\<lparr>archive_metadata := archive_metadata s2,
      unarchive_metadata := unarchive_metadata s2, updated_at := t2\<rparr>"
    using archive_ok(3) [OF assms(1)] unarchive_ok(3) [OF assms(2)] by simp
  ultimately show ?thesis by simp
qed

definition sample_archive :: RunArchiveParams where
  "sample_archive = \<lparr>archiveP_run_id = ''run_1'', archiveP_reason = ''old''\<rparr>"

definition sample_unarchive :: RunUnarchiveParams where
  "sample_unarchive = \<lparr>unarchiveP_run_id = ''run_1'', unarchiveP_reason = ''needed''\<rparr>"

theorem archive_unarchive_once_witness:
  "\<exists>r1 s1 r2 s2.
     archive ''t1'' sample_archive (sample_run\<lparr>status := ''finalized:failed''\<rparr>) = Inr (r1, s1) \<and>
     unarchive ''t2'' sample_unarchive s1 = Inr (r2, s2) \<and>
     \<not> is_ok (archive ''t3'' sample_archive s2)"
proof -
  let ?s = "sample_run\<lparr>status := ''finalized:failed''\<rparr>"
  have "is_ok (archive ''t1'' sample_archive ?s)" by code_simp
  then obtain r1 s1 where a: "archive ''t1'' sample_archive ?s = Inr (r1, s1)"
    by (cases "archive ''t1'' sample_archive ?s") auto
  have "is_ok (unarchive ''t2'' sample_unarchive s1)"
    using archive_ok(3) [OF a] by (simp add: unarchive_is_ok sample_run_def prepare_def Let_def)
  then obtain r2 s2 where u: "unarchive ''t2'' sample_unarchive s1 = Inr (r2, s2)"
    by (cases "unarchive ''t2'' sample_unarchive s1") auto
  from archive_unarchive_once [OF a u] a u show ?thesis by blast
qed

definition stuck :: "RunState \<Rightarrow> bool" where
  "stuck s \<longleftrightarrow> finalized_outcome s \<noteq> None \<and> \<not> is_finalized_status (status s)"

lemma stuck_rejects:
  assumes "stuck s"
  shows "\<not> is_ok (finalize t p1 s)" "\<not> is_ok (reopen t p2 s)" "\<not> is_ok (supersede t p3 s j)"
    "\<not> is_ok (archive t p4 s)"
  using assms by (auto simp: stuck_def finalize_is_ok reopen_is_ok supersede_is_ok archive_is_ok)


section \<open>Working on a run\<close>

text \<open>A change to the fields that record progress only: with those blanked, the states are equal.\<close>

definition sans_progress :: "RunState \<Rightarrow> RunState" where
  "sans_progress s =
     s\<lparr>status := [], pending_steps := [], last_observation := None, retryable_action := None,
       recommended_next_action := None, recommended_tool := None, updated_at := []\<rparr>"

definition progress_only :: "RunState \<Rightarrow> RunState \<Rightarrow> bool" where
  "progress_only s s' \<longleftrightarrow> sans_progress s' = sans_progress s"

lemma progress_only_refl [simp]: "progress_only s s"
  by (simp add: progress_only_def)

lemma progress_only_trans: "progress_only a b \<Longrightarrow> progress_only b c \<Longrightarrow> progress_only a c"
  by (simp add: progress_only_def)

lemma progress_only_upd [simp]:
  "progress_only a (s\<lparr>status := st\<rparr>) = progress_only a s"
  "progress_only a (s\<lparr>pending_steps := ps\<rparr>) = progress_only a s"
  "progress_only a (s\<lparr>last_observation := lo\<rparr>) = progress_only a s"
  "progress_only a (s\<lparr>retryable_action := ra\<rparr>) = progress_only a s"
  "progress_only a (s\<lparr>recommended_next_action := na\<rparr>) = progress_only a s"
  "progress_only a (s\<lparr>recommended_tool := to\<rparr>) = progress_only a s"
  "progress_only a (s\<lparr>updated_at := up\<rparr>) = progress_only a s"
  by (simp_all add: progress_only_def sans_progress_def)

lemma progress_onlyD:
  assumes "progress_only s s'"
  shows "run_id s' = run_id s" "workspace_id s' = workspace_id s" "user_goal s' = user_goal s"
    "plan s' = plan s" "current_step s' = current_step s" "completed_steps s' = completed_steps s"
    "focus_paths s' = focus_paths s" "policy_profile s' = policy_profile s"
    "finalized_outcome s' = finalized_outcome s" "reopen_metadata s' = reopen_metadata s"
    "archive_metadata s' = archive_metadata s" "unarchive_metadata s' = unarchive_metadata s"
    "annotation s' = annotation s" "pin_metadata s' = pin_metadata s"
    "snooze_metadata s' = snooze_metadata s" "priority s' = priority s" "assignee s' = assignee s"
    "due_date s' = due_date s" "blocked_by_run_ids s' = blocked_by_run_ids s"
    "created_at s' = created_at s" "ownership_note s' = ownership_note s" "effort s' = effort s"
proof -
  have *: "sans_progress s' = sans_progress s" using assms by (simp add: progress_only_def)
  note facts = arg_cong [OF *, of run_id] arg_cong [OF *, of workspace_id] arg_cong [OF *, of user_goal]
    arg_cong [OF *, of plan] arg_cong [OF *, of current_step] arg_cong [OF *, of completed_steps]
    arg_cong [OF *, of focus_paths] arg_cong [OF *, of policy_profile] arg_cong [OF *, of finalized_outcome]
    arg_cong [OF *, of reopen_metadata] arg_cong [OF *, of archive_metadata] arg_cong [OF *, of unarchive_metadata]
    arg_cong [OF *, of annotation] arg_cong [OF *, of pin_metadata] arg_cong [OF *, of snooze_metadata]
    arg_cong [OF *, of priority] arg_cong [OF *, of assignee] arg_cong [OF *, of due_date]
    arg_cong [OF *, of blocked_by_run_ids] arg_cong [OF *, of created_at]
    arg_cong [OF *, of ownership_note] arg_cong [OF *, of effort]
  show "run_id s' = run_id s" "workspace_id s' = workspace_id s" "user_goal s' = user_goal s"
    "plan s' = plan s" "current_step s' = current_step s" "completed_steps s' = completed_steps s"
    "focus_paths s' = focus_paths s" "policy_profile s' = policy_profile s" "finalized_outcome s' = finalized_outcome s"
    "reopen_metadata s' = reopen_metadata s" "archive_metadata s' = archive_metadata s" "unarchive_metadata s' = unarchive_metadata s"
    "annotation s' = annotation s" "pin_metadata s' = pin_metadata s" "snooze_metadata s' = snooze_metadata s"
    "priority s' = priority s" "assignee s' = assignee s" "due_date s' = due_date s"
    "blocked_by_run_ids s' = blocked_by_run_ids s" "created_at s' = created_at s"
    "ownership_note s' = ownership_note s" "effort s' = effort s"
    using facts by (simp_all add: sans_progress_def)
qed

lemma create_approval_progress:
  "progress_only s (snd (create_approval now uuid s action risk rationale))"
  by (simp add: create_approval_def Let_def)

lemma resolve_approve_progress: "progress_only s (snd (resolve_approve n s))"
  by (simp add: resolve_approve_def Let_def split: option.splits prod.splits)

lemma resolve_deny_progress: "progress_only s (snd (resolve_deny reason s))"
  by (simp add: resolve_deny_def Let_def split: option.splits)

lemma resolve_progress: "resolve now p s n = Inr (r, s') \<Longrightarrow> progress_only s s'"
  by (erule resolve_ok_cases) (simp_all add: resolve_approve_progress resolve_deny_progress)

lemma replan_evidence_progress: "progress_only s (fst (replan_evidence p s))"
  by (simp add: replan_evidence_def)

lemma replan_failure_progress:
  "replan_failure f (s, delta) = Inr (s', delta') \<Longrightarrow> progress_only s s'"
  by (auto simp: replan_failure_def Let_def and_then_eq_Inr split: if_splits option.splits)

lemma replan_without_failure_progress: "progress_only s (fst (replan_without_failure (s, delta)))"
  by (simp add: replan_without_failure_def Let_def split: option.splits)

lemma replan_recommend_progress:
  "replan_recommend (s, delta) = Inr (rec, s', delta') \<Longrightarrow> progress_only s s'"
  by (auto simp: replan_recommend_def and_then_eq_Inr split: list.splits)

lemma replan_finish_ok:
  "replan_finish now p ((action, tool), s, delta) = Inr (r, s') \<Longrightarrow>
     s' = s\<lparr>status := (if status s = ''prepared'' then ''active'' else status s),
            recommended_next_action := Some action, recommended_tool := Some tool, updated_at := now\<rparr>"
  by (cases "status s = ''prepared''") (auto simp: replan_finish_def Let_def and_then_eq_Inr)

lemma replan_steps:
  assumes "replan now p s = Inr (r, s')"
  obtains s1 d1 s2 d2 action tool where
    "(case replanP_failure_context p of
        Some f \<Rightarrow> replan_failure f (replan_evidence p s)
      | None \<Rightarrow> Inr (replan_without_failure (replan_evidence p s))) = Inr (s1, d1)"
    "replan_recommend (s1, d1) = Inr ((action, tool), s2, d2)"
    "s' = s2\<lparr>status := (if status s2 = ''prepared'' then ''active'' else status s2),
             recommended_next_action := Some action, recommended_tool := Some tool,
             updated_at := now\<rparr>"
  using assms unfolding replan_def Let_def and_then_eq_Inr
  by (metis prod.collapse replan_finish_ok)

lemma replan_progress: "replan now p s = Inr (r, s') \<Longrightarrow> progress_only s s'"
proof (erule replan_steps)
  fix s1 d1 s2 d2 action tool
  assume *: "(case replanP_failure_context p of
      Some f \<Rightarrow> replan_failure f (replan_evidence p s)
    | None \<Rightarrow> Inr (replan_without_failure (replan_evidence p s))) = Inr (s1, d1)"
    "replan_recommend (s1, d1) = Inr ((action, tool), s2, d2)"
    "s' = s2\<lparr>status := (if status s2 = ''prepared'' then ''active'' else status s2),
             recommended_next_action := Some action, recommended_tool := Some tool,
             updated_at := now\<rparr>"
  obtain se de where e: "replan_evidence p s = (se, de)" by fastforce
  have "progress_only s se" using replan_evidence_progress [of s p] e by simp
  moreover have "progress_only se s1"
    using *(1) e replan_without_failure_progress [of se de]
    by (auto dest: replan_failure_progress split: option.splits)
  moreover have "progress_only s1 s2" using *(2) by (rule replan_recommend_progress)
  ultimately have "progress_only s s2" by (blast intro: progress_only_trans)
  with *(3) show "progress_only s s'" by simp
qed



subsection \<open>What replanning does\<close>

definition is_ascii :: "string \<Rightarrow> bool" where
  "is_ascii s \<longleftrightarrow> list_all (\<lambda>c. (of_char c :: nat) < 128) s"

lemma truncate_ascii: "is_ascii s \<Longrightarrow> is_ok (truncate s n)"
  by (auto simp: truncate_def str_slice_to_def is_char_boundary_def is_continuation_def is_ascii_def
      list_all_length) (metis leD leI)

lemma truncate_short: "length s \<le> n \<Longrightarrow> truncate s n = Inr s"
  by (simp add: truncate_def)

lemma truncate_prefix: "truncate s n = Inr t \<Longrightarrow> t = take n s"
  by (auto simp: truncate_def str_slice_to_def split: if_splits)

definition recovery_step :: "string \<Rightarrow> string" where
  "recovery_step failure = ''recover from failure: '' @ take 120 failure"

definition replanned_steps :: "RunReplanParams \<Rightarrow> RunState \<Rightarrow> string list" where
  "replanned_steps p s =
     (case replanP_failure_context p of
        None \<Rightarrow> pending_steps s
      | Some f \<Rightarrow> if recovery_step f \<in> set (pending_steps s) then pending_steps s
                  else recovery_step f # pending_steps s)"

definition replanned_status :: "RunReplanParams \<Rightarrow> RunState \<Rightarrow> string" where
  "replanned_status p s =
     (if replanned_steps p s = [] then ''done''
      else if status s = ''prepared'' \<or> status s = ''blocked''
        \<or> status s = ''awaiting_approval'' \<and> replanP_failure_context p \<noteq> None
      then ''active'' else status s)"

lemma replan_evidence_keeps:
  "status (fst (replan_evidence p s)) = status s"
  "pending_steps (fst (replan_evidence p s)) = pending_steps s"
  "retryable_action (fst (replan_evidence p s)) = retryable_action s"
  by (simp_all add: replan_evidence_def)

lemma replan_failure_effect:
  assumes "replan_failure f (s, delta) = Inr (s', delta')"
  shows "status s' = (if status s = ''blocked'' \<or> status s = ''awaiting_approval'' then ''active'' else status s)"
    "pending_steps s' = (if recovery_step f \<in> set (pending_steps s) then pending_steps s
                         else recovery_step f # pending_steps s)"
    "\<forall>ra. retryable_action s' = Some ra \<longrightarrow> \<not> ra_is_valid ra"
  using assms
  by (auto simp: replan_failure_def Let_def and_then_eq_Inr recovery_step_def
      dest!: truncate_prefix split: if_splits option.splits)

lemma replan_without_failure_effect:
  "status (fst (replan_without_failure (s, delta))) =
     (if status s = ''blocked'' then ''active'' else status s)"
  "pending_steps (fst (replan_without_failure (s, delta))) = pending_steps s"
  by (simp_all add: replan_without_failure_def Let_def split: option.splits)

lemma replan_recommend_effect:
  assumes "replan_recommend (s, delta) = Inr (rec, s', delta')"
  shows "status s' = (if pending_steps s = [] then ''done'' else status s)"
    "pending_steps s' = pending_steps s" "retryable_action s' = retryable_action s"
  using assms by (auto simp: replan_recommend_def and_then_eq_Inr split: list.splits)

lemma replan_effect:
  assumes "replan now p s = Inr (r, s')"
  shows "pending_steps s' = replanned_steps p s" "status s' = replanned_status p s"
    "replanP_failure_context p \<noteq> None \<Longrightarrow> \<forall>ra. retryable_action s' = Some ra \<longrightarrow> \<not> ra_is_valid ra"
proof -
  obtain s1 d1 s2 d2 action tool where *:
    "(case replanP_failure_context p of
        Some f \<Rightarrow> replan_failure f (replan_evidence p s)
      | None \<Rightarrow> Inr (replan_without_failure (replan_evidence p s))) = Inr (s1, d1)"
    "replan_recommend (s1, d1) = Inr ((action, tool), s2, d2)"
    "s' = s2\<lparr>status := (if status s2 = ''prepared'' then ''active'' else status s2),
             recommended_next_action := Some action, recommended_tool := Some tool,
             updated_at := now\<rparr>"
    using assms by (rule replan_steps)
  obtain se de where e: "replan_evidence p s = (se, de)" by fastforce
  then have se: "status se = status s" "pending_steps se = pending_steps s"
    using replan_evidence_keeps [of p s] by simp_all
  note r = replan_recommend_effect [OF *(2)]
  have s1: "pending_steps s1 = replanned_steps p s"
    "status s1 = (if status s = ''blocked'' \<or>
       status s = ''awaiting_approval'' \<and> replanP_failure_context p \<noteq> None then ''active'' else status s)"
    "replanP_failure_context p \<noteq> None \<Longrightarrow> \<forall>ra. retryable_action s1 = Some ra \<longrightarrow> \<not> ra_is_valid ra"
    using *(1) e se replan_without_failure_effect [of se de]
    by (auto simp: replanned_steps_def split: option.splits dest: replan_failure_effect)
  show "pending_steps s' = replanned_steps p s" "status s' = replanned_status p s"
    using *(3) r s1 by (auto simp: replanned_status_def)
  show "replanP_failure_context p \<noteq> None \<Longrightarrow> \<forall>ra. retryable_action s' = Some ra \<longrightarrow> \<not> ra_is_valid ra"
    using *(3) r s1(3) by simp
qed


lemma is_ok_iff: "is_ok r \<longleftrightarrow> (\<exists>x. r = Inr x)"
  by (cases r) auto

lemma recovery_step_ascii: "is_ascii f \<Longrightarrow> is_ascii (recovery_step f)"
  by (auto simp: is_ascii_def recovery_step_def list_all_iff dest: in_set_takeD)

lemma replan_failure_total: "is_ascii f \<Longrightarrow> is_ok (replan_failure f (s, delta))"
proof -
  assume "is_ascii f"
  then obtain a b where "truncate f 120 = Inr a" "truncate f 80 = Inr b"
    using truncate_ascii [of f 120] truncate_ascii [of f 80] by (auto simp: is_ok_iff)
  then show ?thesis
    by (simp add: replan_failure_def Let_def split: option.splits)
qed

lemma replan_recommend_total:
  "list_all is_ascii (pending_steps s) \<Longrightarrow> is_ok (replan_recommend (s, delta))"
  using truncate_ascii [of "hd (pending_steps s)" 100]
  by (cases "pending_steps s")
     (auto simp: replan_recommend_def recommend_for_step_def Let_def is_ok_iff)

lemma replan_finish_total:
  "is_ascii (replanP_reason p) \<Longrightarrow> is_ok (replan_finish now p ((a, t), s, delta))"
  using truncate_ascii [of "replanP_reason p" 80]
  by (auto simp: replan_finish_def Let_def is_ok_iff)

lemma replan_total_ascii:
  assumes "is_ascii (replanP_reason p)" "list_all is_ascii (pending_steps s)"
    "list_all is_ascii (case replanP_failure_context p of None \<Rightarrow> [] | Some f \<Rightarrow> [f])"
  shows "is_ok (replan now p s)"
proof -
  obtain se de where e: "replan_evidence p s = (se, de)" by fastforce
  then have se: "pending_steps se = pending_steps s" using replan_evidence_keeps(2) [of p s] by simp
  obtain s1 d1 where 1: "(case replanP_failure_context p of
      Some f \<Rightarrow> replan_failure f (se, de) | None \<Rightarrow> Inr (replan_without_failure (se, de))) = Inr (s1, d1)"
    using assms(3) replan_failure_total [of _ se de]
    by (cases "replanP_failure_context p") (fastforce simp: is_ok_iff)+
  have "list_all is_ascii (pending_steps s1)"
    using 1 se assms(2,3) replan_without_failure_effect(2) [of se de]
    by (auto split: option.splits if_splits dest!: replan_failure_effect(2) intro: recovery_step_ascii)
  then obtain a t s2 d2 where 2: "replan_recommend (s1, d1) = Inr ((a, t), s2, d2)"
    using replan_recommend_total [of s1 d1] by (auto simp: is_ok_iff)
  show ?thesis
    using 1 2 e replan_finish_total [OF assms(1), of now a t s2 d2] by (simp add: replan_def)
qed

text \<open>
  Replanning is a function of the run and the request. When it succeeds, the pending steps are the
  old ones, with one recovery step in front if the request has a failure context that is not
  already among them; the status is \<open>done\<close> if nothing is pending, \<open>active\<close> if the run was prepared,
  blocked, or awaiting an approval while a failure is reported, and otherwise what it was; a
  failure leaves no valid action to retry; and apart from the progress fields the run is unchanged.
\<close>

theorem replan_outcome:
  assumes "replan now p s = Inr (r, s')"
  shows "pending_steps s' = replanned_steps p s \<and> status s' = replanned_status p s \<and>
         progress_only s s' \<and>
         (replanP_failure_context p = None \<or>
          (case retryable_action s' of None \<Rightarrow> True | Some ra \<Rightarrow> \<not> ra_is_valid ra))"
  using replan_effect [OF assms] replan_progress [OF assms] by (auto split: option.splits)

definition sample_replan :: "string \<Rightarrow> RunReplanParams" where
  "sample_replan reason =
     \<lparr>replanP_run_id = ''run_1'', replanP_reason = reason, replanP_new_evidence = [],
      replanP_failure_context = Some ''tests fail''\<rparr>"

theorem replan_outcome_witness:
  "\<exists>r s'. replan ''t'' (sample_replan ''retry'') sample_run = Inr (r, s') \<and> status s' = ''active'' \<and>
     pending_steps s' = ''recover from failure: tests fail'' # default_plan"
proof -
  have "is_ok (replan ''t'' (sample_replan ''retry'') sample_run)" by code_simp
  then obtain r s' where *: "replan ''t'' (sample_replan ''retry'') sample_run = Inr (r, s')"
    by (auto simp: is_ok_iff)
  have "replanned_steps (sample_replan ''retry'') sample_run = ''recover from failure: tests fail'' # default_plan"
    "replanned_status (sample_replan ''retry'') sample_run = ''active''" by code_simp+
  with replan_outcome [OF *] * show ?thesis by simp
qed

text \<open>
  Replanning answers every request whose texts are ASCII; but a reason of more than eighty bytes with
  a multi-byte character across the eightieth makes it panic, for any such text is cut at a byte.
\<close>

theorem replan_total_on_ascii_only:
  "(is_ascii (replanP_reason p) \<and> list_all is_ascii (pending_steps s) \<and>
    list_all is_ascii (case replanP_failure_context p of None \<Rightarrow> [] | Some f \<Rightarrow> [f]) \<longrightarrow>
    is_ok (replan now p s)) \<and>
   replan ''t'' (sample_replan (replicate 79 (CHR ''a'') @ [CHR 0xC3, CHR 0xA9])) sample_run =
     Inl (Panic ''byte index is not a char boundary'')"
proof (intro conjI impI)
  show "replan ''t'' (sample_replan (replicate 79 (CHR ''a'') @ [CHR 0xC3, CHR 0xA9])) sample_run =
     Inl (Panic ''byte index is not a char boundary'')" by code_simp
qed (use replan_total_ascii in blast)

theorem replan_total_on_ascii_only_witness:
  "is_ascii (replanP_reason (sample_replan ''retry'')) \<and> list_all is_ascii (pending_steps sample_run) \<and>
   is_ok (replan ''t'' (sample_replan ''retry'') sample_run)"
proof -
  have "is_ascii (replanP_reason (sample_replan ''retry''))" "list_all is_ascii (pending_steps sample_run)"
    "list_all is_ascii (case replanP_failure_context (sample_replan ''retry'') of None \<Rightarrow> [] | Some f \<Rightarrow> [f])"
    by code_simp+
  then show ?thesis
    using replan_total_on_ascii_only [of "sample_replan ''retry''" sample_run "''t''"] by blast
qed

end
