(* ===== verification/Run_Metadata.thy ===== *)
theory Run_Metadata
  imports Run_Lifecycle
begin

text \<open>
  The operations that organise runs without doing work on them
  (\<open>src/codex-rs/deterministic-core/src/\<close>): \<open>run_pin.rs\<close>, \<open>run_unpin.rs\<close>, \<open>run_snooze.rs\<close>,
  \<open>run_unsnooze.rs\<close>, \<open>run_annotate.rs\<close>, \<open>run_set_priority.rs\<close>, \<open>run_assign_owner.rs\<close>,
  \<open>run_set_due_date.rs\<close>, \<open>run_set_dependencies.rs\<close> and \<open>run_set_effort.rs\<close>. The lemmas give the
  normal form each stores (labels, assignee, due date, dependencies), and that each writes only the
  fields it is about.
\<close>

section \<open>Pins and snoozes\<close>

definition pin :: "string \<Rightarrow> RunPinParams \<Rightarrow> RunState \<Rightarrow> (RunPinResult \<times> RunState) result" where
  "pin now params state =
     (let reason = trim (pinP_reason params) in
      if reason = [] then Inl (Bail ''pin reason must not be empty'')
      else if length reason > PIN_REASON_MAX_LEN
      then Inl (Bail (''pin reason exceeds maximum length of '' @ show_nat PIN_REASON_MAX_LEN @ '' characters''))
      else
        (let state = state\<lparr>pin_metadata := Some \<lparr>pinM_reason = reason, pinM_pinned_at = now\<rparr>,
                            updated_at := now\<rparr>
         in Inr (\<lparr>pinR_run_id = pinP_run_id params, pinR_status = status state, pinR_pinned_at = now,
                  pinR_reason = reason,
                  pinR_message = ''Run '' @ quoted (pinP_run_id params) @ '' pinned.''\<rparr>, state)))"

definition unpin :: "string \<Rightarrow> RunUnpinParams \<Rightarrow> RunState \<Rightarrow> (RunUnpinResult \<times> RunState) result" where
  "unpin now params state =
     (if \<not> is_some (pin_metadata state)
      then Inl (Bail (''run '' @ quoted (unpinP_run_id params) @ '' is not pinned''))
      else
        (let reason = trim (unpinP_reason params) in
         if reason = [] then Inl (Bail ''unpin reason must not be empty'')
         else if length reason > PIN_REASON_MAX_LEN
         then Inl (Bail (''unpin reason exceeds maximum length of '' @ show_nat PIN_REASON_MAX_LEN @ '' characters''))
         else
           (let state = state\<lparr>pin_metadata := None, updated_at := now\<rparr>
            in Inr (\<lparr>unpinR_run_id = unpinP_run_id params, unpinR_status = status state,
                     unpinR_message = ''Run '' @ quoted (unpinP_run_id params) @ '' unpinned.''\<rparr>, state))))"

definition snooze :: "string \<Rightarrow> RunSnoozeParams \<Rightarrow> RunState \<Rightarrow> (RunSnoozeResult \<times> RunState) result" where
  "snooze now params state =
     (let reason = trim (snoozeP_reason params) in
      if reason = [] then Inl (Bail ''snooze reason must not be empty'')
      else if length reason > SNOOZE_REASON_MAX_LEN
      then Inl (Bail (''snooze reason exceeds maximum length of '' @ show_nat SNOOZE_REASON_MAX_LEN @ '' characters''))
      else
        (let state = state\<lparr>snooze_metadata := Some \<lparr>snoozeM_reason = reason, snoozeM_snoozed_at = now\<rparr>,
                            updated_at := now\<rparr>
         in Inr (\<lparr>snoozeR_run_id = snoozeP_run_id params, snoozeR_status = status state,
                  snoozeR_snoozed_at = now, snoozeR_reason = reason,
                  snoozeR_message = ''Run '' @ quoted (snoozeP_run_id params) @ '' snoozed.''\<rparr>, state)))"

definition unsnooze ::
  "string \<Rightarrow> RunUnsnoozeParams \<Rightarrow> RunState \<Rightarrow> (RunUnsnoozeResult \<times> RunState) result" where
  "unsnooze now params state =
     (if \<not> is_some (snooze_metadata state)
      then Inl (Bail (''run '' @ quoted (unsnoozeP_run_id params)
             @ '' is not snoozed. Use list_runs with includeSnoozed=true to see snoozed runs, or get_run_state to check snooze status.''))
      else
        (let reason = trim (unsnoozeP_reason params) in
         if reason = [] then Inl (Bail ''unsnooze reason must not be empty'')
         else if length reason > SNOOZE_REASON_MAX_LEN
         then Inl (Bail (''unsnooze reason exceeds maximum length of '' @ show_nat SNOOZE_REASON_MAX_LEN @ '' characters''))
         else
           (let state = state\<lparr>snooze_metadata := None, updated_at := now\<rparr>
            in Inr (\<lparr>unsnoozeR_run_id = unsnoozeP_run_id params, unsnoozeR_status = status state,
                     unsnoozeR_message = ''Run '' @ quoted (unsnoozeP_run_id params) @ '' unsnoozed.''\<rparr>, state))))"


section \<open>Labels and notes\<close>

definition is_lower_letter :: "char \<Rightarrow> bool" where
  "is_lower_letter c \<longleftrightarrow> CHR ''a'' \<le> c \<and> c \<le> CHR ''z''"

definition is_label_char :: "char \<Rightarrow> bool" where
  "is_label_char c \<longleftrightarrow>
     is_lower_letter c \<or> is_ascii_digit c \<or> c = CHR ''-'' \<or> c = CHR ''_''"

text \<open>The first character of a text that a byte test rejects, with its continuation bytes.\<close>

fun first_invalid_char :: "(char \<Rightarrow> bool) \<Rightarrow> string \<Rightarrow> string option" where
  "first_invalid_char ok [] = None"
| "first_invalid_char ok (c # cs) =
     (if ok c then first_invalid_char ok cs else Some (c # takeWhile is_continuation cs))"

definition normalize_label :: "string \<Rightarrow> string result" where
  "normalize_label raw =
     (let trimmed = to_lowercase (trim raw) in
      if trimmed = [] then Inl (Bail ''label must not be empty after trimming'')
      else if length trimmed > LABEL_MAX_LEN
      then Inl (Bail (''label '' @ quoted trimmed @ '' exceeds maximum length of ''
             @ show_nat LABEL_MAX_LEN @ '' characters''))
      else case first_invalid_char is_label_char trimmed of
             Some ch \<Rightarrow>
               Inl (Bail (''label '' @ quoted trimmed @ '' contains invalid character '' @ quoted ch
                 @ ''; only lowercase ASCII letters, digits, hyphens, and underscores are allowed''))
           | None \<Rightarrow> Inr trimmed)"

fun normalize_each :: "string list \<Rightarrow> string list \<Rightarrow> string list result" where
  "normalize_each normalized [] = Inr normalized"
| "normalize_each normalized (raw # raws) =
     and_then (normalize_label raw) (\<lambda>label.
       normalize_each (if label \<notin> set normalized then normalized @ [label] else normalized) raws)"

definition normalize_labels :: "string list \<Rightarrow> string list result" where
  "normalize_labels raw_labels =
     (if length raw_labels > LABEL_MAX_COUNT
      then Inl (Bail (''too many labels: '' @ show_nat (length raw_labels) @ '' provided, maximum is ''
             @ show_nat LABEL_MAX_COUNT))
      else and_then (normalize_each [] raw_labels) (\<lambda>normalized. Inr (sort normalized)))"

definition default_annotation :: RunAnnotation where
  "default_annotation = \<lparr>ann_labels = [], ann_operator_note = None\<rparr>"

definition annotate ::
  "string \<Rightarrow> RunAnnotateParams \<Rightarrow> RunState \<Rightarrow> (RunAnnotateResult \<times> RunState) result" where
  "annotate now params state =
     (if \<not> is_some (annotateP_labels params) \<and> \<not> is_some (annotateP_operator_note params)
      then Inl (Bail (''run.annotate requires at least one of '' @ quoted ''labels'' @ '' or ''
             @ quoted ''operatorNote''))
      else
        (let ann = unwrap_or default_annotation (annotation state) in
         and_then
           (case annotateP_labels params of
              None \<Rightarrow> Inr ann
            | Some raw \<Rightarrow> and_then (normalize_labels raw) (\<lambda>ls. Inr (ann\<lparr>ann_labels := ls\<rparr>))) (\<lambda>ann.
         and_then
           (case annotateP_operator_note params of
              None \<Rightarrow> Inr ann
            | Some note \<Rightarrow>
                if length note > OPERATOR_NOTE_MAX_LEN
                then Inl (Bail (''operator note exceeds maximum length of ''
                       @ show_nat OPERATOR_NOTE_MAX_LEN @ '' characters''))
                else Inr (ann\<lparr>ann_operator_note := if note = [] then None else Some note\<rparr>)) (\<lambda>ann.
         let state = state\<lparr>annotation := Some ann, updated_at := now\<rparr>
         in Inr (\<lparr>annotateR_run_id = annotateP_run_id params, annotateR_annotation = ann,
                  annotateR_message = ''Run '' @ quoted (annotateP_run_id params)
                    @ '' annotation updated.''\<rparr>, state)))))"


section \<open>Priority, owner, due date\<close>

definition set_priority ::
  "string \<Rightarrow> RunSetPriorityParams \<Rightarrow> RunState \<Rightarrow> (RunSetPriorityResult \<times> RunState) result" where
  "set_priority now params state =
     (let reason = trim (setPriorityP_reason params) in
      if reason = [] then Inl (Bail ''priority reason must not be empty'')
      else if length reason > PRIORITY_REASON_MAX_LEN
      then Inl (Bail (''priority reason exceeds maximum length of '' @ show_nat PRIORITY_REASON_MAX_LEN @ '' characters''))
      else
        (let previous = priority state; new = setPriorityP_priority params;
             state = state\<lparr>priority := new, updated_at := now\<rparr>
         in Inr (\<lparr>setPriorityR_run_id = setPriorityP_run_id params, setPriorityR_status = status state,
                  setPriorityR_previous_priority = previous, setPriorityR_priority = new,
                  setPriorityR_reason = reason, setPriorityR_set_at = now,
                  setPriorityR_message = ''Run '' @ quoted (setPriorityP_run_id params)
                    @ '' priority set to '' @ quoted (priority_as_str new) @ ''.''\<rparr>, state)))"

definition is_assignee_char :: "char \<Rightarrow> bool" where
  "is_assignee_char c \<longleftrightarrow>
     is_lower_letter c \<or> is_ascii_digit c \<or> c = CHR ''.'' \<or> c = CHR ''_'' \<or> c = CHR ''-''"

definition normalize_assignee :: "string \<Rightarrow> string result" where
  "normalize_assignee s =
     (let trimmed = trim s in
      if trimmed = [] then Inl (Bail ''assignee must not be empty after trimming whitespace'')
      else
        (let lower = to_lowercase trimmed in
         if length lower > ASSIGNEE_MAX_LEN
         then Inl (Bail (''assignee exceeds maximum length of '' @ show_nat ASSIGNEE_MAX_LEN @ '' characters''))
         else case first_invalid_char is_assignee_char lower of
                Some ch \<Rightarrow>
                  Inl (Bail (''assignee contains invalid character '' @ quoted ch
                    @ ''; allowed: [a-z0-9._-]''))
              | None \<Rightarrow> Inr lower))"


definition owner_message :: "string option \<Rightarrow> string option \<Rightarrow> string" where
  "owner_message previous new =
     (case previous of
        None \<Rightarrow> (case new of None \<Rightarrow> ''ownership unchanged (no assignee)''
                           | Some a \<Rightarrow> ''run assigned to '' @ a)
      | Some prev \<Rightarrow>
          (case new of None \<Rightarrow> ''assignee '' @ prev @ '' cleared''
             | Some next \<Rightarrow> if prev = next then ''assignee unchanged: '' @ next
                            else ''run reassigned from '' @ prev @ '' to '' @ next))"

definition assign_owner ::
  "string \<Rightarrow> RunAssignOwnerParams \<Rightarrow> RunState \<Rightarrow> (RunAssignOwnerResult \<times> RunState) result" where
  "assign_owner now params state =
     (let previous = assignee state in
      and_then
        (case assignOwnerP_assignee params of
           None \<Rightarrow> Inr (assignee state)
         | Some None \<Rightarrow> Inr None
         | Some (Some s) \<Rightarrow> and_then (normalize_assignee s) (\<lambda>a. Inr (Some a))) (\<lambda>new_assignee.
      and_then
        (case assignOwnerP_ownership_note params of
           None \<Rightarrow> Inr (ownership_note state)
         | Some None \<Rightarrow> Inr None
         | Some (Some s) \<Rightarrow>
             (let trimmed = trim s in
              if length trimmed > OWNERSHIP_NOTE_MAX_LEN
              then Inl (Bail (''ownership_note exceeds maximum length of ''
                     @ show_nat OWNERSHIP_NOTE_MAX_LEN @ '' characters''))
              else Inr (if trimmed = [] then None else Some trimmed))) (\<lambda>new_note.
      let state = state\<lparr>assignee := new_assignee, ownership_note := new_note\<rparr>
      in Inr (\<lparr>assignOwnerR_run_id = assignOwnerP_run_id params, assignOwnerR_status = status state,
               assignOwnerR_previous_assignee = previous, assignOwnerR_assignee = new_assignee,
               assignOwnerR_ownership_note = new_note, assignOwnerR_updated_at = now,
               assignOwnerR_message = owner_message previous new_assignee\<rparr>, state))))"

definition validate_due_date :: "string \<Rightarrow> string result" where
  "validate_due_date s =
     (let trimmed = trim s in
      if length trimmed \<noteq> 10
      then Inl (Bail (''due_date must be exactly 10 characters in YYYY-MM-DD format, got: '' @ quoted trimmed))
      else if trimmed ! 4 \<noteq> CHR ''-'' \<or> trimmed ! 7 \<noteq> CHR ''-''
      then Inl (Bail (''due_date must use '' @ quoted ''-'' @ '' separators in YYYY-MM-DD format, got: ''
             @ quoted trimmed))
      else case find (\<lambda>idx. \<not> is_ascii_digit (trimmed ! idx)) [0, 1, 2, 3, 5, 6, 8, 9] of
             Some idx \<Rightarrow>
               Inl (Bail (''due_date contains non-digit character at position '' @ show_nat idx
                 @ '' in '' @ quoted trimmed))
           | None \<Rightarrow>
               (let month = parse_digits (take 2 (drop 5 trimmed));
                    day = parse_digits (take 2 (drop 8 trimmed))
                in if \<not> (1 \<le> month \<and> month \<le> 12)
                   then Inl (Bail (''due_date month must be 01'' @ en_dash @ ''12, got '' @ quoted trimmed))
                   else if \<not> (1 \<le> day \<and> day \<le> 31)
                   then Inl (Bail (''due_date day must be 01'' @ en_dash @ ''31, got '' @ quoted trimmed))
                   else Inr trimmed))"

definition due_date_message :: "string option \<Rightarrow> string option \<Rightarrow> string" where
  "due_date_message previous new =
     (case previous of
        None \<Rightarrow> (case new of None \<Rightarrow> ''due date unchanged (no due date set)''
                           | Some d \<Rightarrow> ''due date set to '' @ d)
      | Some prev \<Rightarrow>
          (case new of None \<Rightarrow> ''due date '' @ prev @ '' cleared''
             | Some next \<Rightarrow> if prev = next then ''due date unchanged: '' @ next
                            else ''due date updated from '' @ prev @ '' to '' @ next))"

definition set_due_date ::
  "string \<Rightarrow> RunSetDueDateParams \<Rightarrow> RunState \<Rightarrow> (RunSetDueDateResult \<times> RunState) result" where
  "set_due_date now params state =
     (let previous = due_date state in
      and_then
        (case setDueDateP_due_date params of
           None \<Rightarrow> Inr (due_date state)
         | Some None \<Rightarrow> Inr None
         | Some (Some s) \<Rightarrow> and_then (validate_due_date s) (\<lambda>d. Inr (Some d))) (\<lambda>new_due_date.
      let state = state\<lparr>due_date := new_due_date\<rparr>
      in Inr (\<lparr>setDueDateR_run_id = setDueDateP_run_id params, setDueDateR_status = status state,
               setDueDateR_previous_due_date = previous, setDueDateR_due_date = new_due_date,
               setDueDateR_updated_at = now,
               setDueDateR_message = due_date_message previous new_due_date\<rparr>, state)))"


section \<open>Dependencies and effort\<close>

fun check_blockers :: "string \<Rightarrow> string list \<Rightarrow> string list \<Rightarrow> string list result" where
  "check_blockers self known [] = Inr []"
| "check_blockers self known (i # is) =
     (let trimmed = trim i in
      if trimmed = [] then Inl (Bail ''blocked_by_run_ids contains an empty string'')
      else if trimmed = self
      then Inl (Bail (''run cannot depend on itself: '' @ quoted self @ '' appears in blocked_by_run_ids''))
      else if trimmed \<notin> set known
      then Inl (Bail (''unknown run ID in blocked_by_run_ids: '' @ quoted trimmed))
      else and_then (check_blockers self known is) (\<lambda>rest. Inr (trimmed # rest)))"

definition dependencies_message :: "string list \<Rightarrow> string list \<Rightarrow> string" where
  "dependencies_message previous normalized =
     (if previous = [] \<and> normalized = [] then ''dependencies unchanged (no dependencies set)''
      else if previous = [] then ''dependencies set: blocked by '' @ join '', '' normalized
      else if normalized = [] then ''all dependencies cleared''
      else if previous = normalized
      then ''dependencies unchanged: blocked by '' @ join '', '' normalized
      else ''dependencies updated: now blocked by '' @ join '', '' normalized)"

definition set_dependencies ::
  "string \<Rightarrow> RunSetDependenciesParams \<Rightarrow> RunState \<Rightarrow> string list
     \<Rightarrow> (RunSetDependenciesResult \<times> RunState) result" where
  "set_dependencies now params state known_run_ids =
     and_then (check_blockers (setDependenciesP_run_id params) known_run_ids
                 (setDependenciesP_blocked_by_run_ids params)) (\<lambda>checked.
     let normalized = remdups_adj (sort checked) in
     if length normalized > MAX_DEPENDENCY_COUNT
     then Inl (Bail (''blocked_by_run_ids exceeds maximum of '' @ show_nat MAX_DEPENDENCY_COUNT
            @ '' entries (got '' @ show_nat (length normalized) @ '')''))
     else
       (let previous = blocked_by_run_ids state;
            state = state\<lparr>blocked_by_run_ids := normalized\<rparr>
        in Inr (\<lparr>setDependenciesR_run_id = setDependenciesP_run_id params,
                 setDependenciesR_status = status state,
                 setDependenciesR_blocked_by_run_ids = normalized,
                 setDependenciesR_previous_blocked_by_run_ids = previous,
                 setDependenciesR_updated_at = now,
                 setDependenciesR_message = dependencies_message previous normalized\<rparr>, state)))"

definition effort_message :: "RunEffort option \<Rightarrow> RunEffort option \<Rightarrow> string" where
  "effort_message previous new =
     (case previous of
        None \<Rightarrow> (case new of None \<Rightarrow> ''effort unchanged (no estimate set)''
                           | Some e \<Rightarrow> ''effort set to '' @ effort_as_str e)
      | Some prev \<Rightarrow>
          (case new of None \<Rightarrow> ''effort '' @ effort_as_str prev @ '' cleared''
             | Some next \<Rightarrow> if prev = next then ''effort unchanged: '' @ effort_as_str next
                            else ''effort updated from '' @ effort_as_str prev @ '' to ''
                                   @ effort_as_str next))"

definition set_effort ::
  "string \<Rightarrow> RunSetEffortParams \<Rightarrow> RunState \<Rightarrow> RunSetEffortResult \<times> RunState" where
  "set_effort now params state =
     (let previous = effort state;
          new = (case setEffortP_effort params of None \<Rightarrow> effort state | Some e \<Rightarrow> e);
          state = state\<lparr>effort := new, updated_at := now\<rparr>
      in (\<lparr>setEffortR_run_id = setEffortP_run_id params, setEffortR_status = status state,
           setEffortR_previous_effort = previous, setEffortR_effort = new,
           setEffortR_updated_at = now, setEffortR_message = effort_message previous new\<rparr>, state))"



section \<open>Normal forms\<close>

subsection \<open>Labels\<close>

definition label_ok :: "string \<Rightarrow> bool" where
  "label_ok l \<longleftrightarrow> l \<noteq> [] \<and> length l \<le> LABEL_MAX_LEN \<and> list_all is_label_char l"

definition labels_ok :: "string list \<Rightarrow> bool" where
  "labels_ok ls \<longleftrightarrow>
     sorted ls \<and> distinct ls \<and> length ls \<le> LABEL_MAX_COUNT \<and> list_all label_ok ls"

lemma first_invalid_None_iff: "first_invalid_char ok s = None \<longleftrightarrow> list_all ok s"
  by (induction s) auto

lemma normalize_label_ok: "normalize_label raw = Inr l \<Longrightarrow> label_ok l"
  by (auto simp: normalize_label_def label_ok_def Let_def first_invalid_None_iff
      split: if_splits option.splits)

lemma plain_char_byte:
  "is_lower_letter c \<or> is_ascii_digit c \<Longrightarrow> 48 \<le> (of_char c :: nat) \<and> (of_char c :: nat) \<le> 122"
  by (auto simp: is_lower_letter_def is_ascii_digit_def less_eq_char_def)

lemma plain_char_not_upper:
  "is_lower_letter c \<or> is_ascii_digit c \<Longrightarrow> ascii_lower c = c"
  by (auto simp: is_lower_letter_def is_ascii_digit_def less_eq_char_def ascii_lower_def Let_def)

text \<open>A word over lower-case letters, digits and ASCII punctuation is its own trimmed lower case.\<close>

definition word_char :: "char \<Rightarrow> bool" where
  "word_char c \<longleftrightarrow>
     is_lower_letter c \<or> is_ascii_digit c \<or> c = CHR ''-'' \<or> c = CHR ''_'' \<or> c = CHR ''.''"

lemma word_char_range: "word_char c \<Longrightarrow> 45 \<le> (of_char c :: nat) \<and> (of_char c :: nat) \<le> 122"
  using plain_char_byte [of c] by (auto simp: word_char_def)

lemma word_char_lower: "word_char c \<Longrightarrow> ascii_lower c = c"
  using plain_char_not_upper [of c] by (auto simp: word_char_def ascii_lower_def Let_def)

lemma to_lowercase_words: "list_all word_char s \<Longrightarrow> to_lowercase s = s"
proof (induction s)
  case (Cons c cs)
  from Cons.prems have "c \<noteq> CHR 0xC4" "c \<noteq> CHR 0xE2" using word_char_range [of c] by auto
  with Cons show ?case by (simp add: word_char_lower)
qed simp

lemma whitespace_ends:
  "list_all (\<lambda>w. w \<noteq> [] \<and> (of_char (hd w) < (45 :: nat) \<or> 122 < (of_char (hd w) :: nat))
       \<and> (of_char (last w) < (45 :: nat) \<or> 122 < (of_char (last w) :: nat))) whitespace_chars"
  by code_simp

lemma leading_NoneI: "\<forall>w \<in> set ws. w \<noteq> [] \<longrightarrow> s \<noteq> [] \<longrightarrow> hd w \<noteq> hd s \<Longrightarrow> leading ws s = None"
  unfolding leading_def find_None_iff
proof clarify
  fix w
  assume *: "\<forall>w \<in> set ws. w \<noteq> [] \<longrightarrow> s \<noteq> [] \<longrightarrow> hd w \<noteq> hd s" "w \<in> set ws" "w \<noteq> []" "starts_with s w"
  then show False by (cases w; cases s) (auto simp: starts_with_def)
qed

lemma trim_Nil: "trim [] = []"
  by code_simp

lemma trim_words:
  assumes "list_all word_char s"
  shows "trim s = s"
proof (cases "s = []")
  case True
  then show ?thesis by (simp add: trim_Nil)
next
  case False
  with assms have "word_char (hd s)" "word_char (last s)" by (auto simp: list_all_iff)
  then have range: "45 \<le> (of_char (hd s) :: nat)" "(of_char (hd s) :: nat) \<le> 122"
    "45 \<le> (of_char (last s) :: nat)" "(of_char (last s) :: nat) \<le> 122"
    by (auto dest: word_char_range)
  from whitespace_ends range False
  have front: "leading whitespace_chars s = None"
    by (intro leading_NoneI) (auto simp: list_all_iff)
  from whitespace_ends range False
  have rear: "leading (map rev whitespace_chars) (rev s) = None"
    by (intro leading_NoneI) (auto simp: list_all_iff hd_rev)
  show ?thesis
    by (simp add: trim_def trim_start_def trim_end_def strip_leading.simps front rear)
qed

lemma label_ok_words: "label_ok l \<Longrightarrow> list_all word_char l"
  by (auto simp: label_ok_def is_label_char_def word_char_def list_all_iff)

lemma normalize_label_fix: "label_ok l \<Longrightarrow> normalize_label l = Inr l"
  using label_ok_words [of l] first_invalid_None_iff [of is_label_char l]
  by (auto simp: normalize_label_def Let_def trim_words to_lowercase_words label_ok_def)

lemma normalize_each_spec:
  "normalize_each acc raws = Inr ls \<Longrightarrow> distinct acc \<Longrightarrow> list_all label_ok acc
     \<Longrightarrow> distinct ls \<and> list_all label_ok ls \<and> length ls \<le> length acc + length raws \<and>
         set acc \<subseteq> set ls"
proof (induction raws arbitrary: acc)
  case (Cons raw raws)
  then obtain l where l: "normalize_label raw = Inr l"
    "normalize_each (if l \<notin> set acc then acc @ [l] else acc) raws = Inr ls"
    by (auto simp: and_then_eq_Inr)
  with Cons.prems have "distinct (if l \<notin> set acc then acc @ [l] else acc)"
    "list_all label_ok (if l \<notin> set acc then acc @ [l] else acc)"
    by (auto dest: normalize_label_ok)
  from Cons.IH [OF l(2) this] show ?case by (auto split: if_splits)
qed simp

lemma normalize_each_fix:
  "list_all label_ok ls \<Longrightarrow> distinct (acc @ ls) \<Longrightarrow> normalize_each acc ls = Inr (acc @ ls)"
  by (induction ls arbitrary: acc) (auto simp: normalize_label_fix)

lemma normalize_labels_ok: "normalize_labels raws = Inr ls \<Longrightarrow> labels_ok ls"
  using normalize_each_spec [of "[]" raws]
  by (auto simp: normalize_labels_def labels_ok_def and_then_eq_Inr list_all_iff split: if_splits)

lemma normalize_labels_fix: "labels_ok ls \<Longrightarrow> normalize_labels ls = Inr ls"
  using normalize_each_fix [of ls "[]"]
  by (simp add: normalize_labels_def labels_ok_def sorted_sort_id)



subsection \<open>Assignees\<close>

definition assignee_ok :: "string \<Rightarrow> bool" where
  "assignee_ok a \<longleftrightarrow> a \<noteq> [] \<and> length a \<le> ASSIGNEE_MAX_LEN \<and> list_all is_assignee_char a"

lemma assignee_ok_words: "assignee_ok a \<Longrightarrow> list_all word_char a"
  by (auto simp: assignee_ok_def is_assignee_char_def word_char_def list_all_iff)

lemma normalize_assignee_ok: "normalize_assignee s = Inr a \<Longrightarrow> assignee_ok a"
  by (auto simp: normalize_assignee_def assignee_ok_def Let_def first_invalid_None_iff
      split: if_splits option.splits)

lemma normalize_assignee_fix: "assignee_ok a \<Longrightarrow> normalize_assignee a = Inr a"
  using assignee_ok_words [of a] first_invalid_None_iff [of is_assignee_char a]
  by (auto simp: normalize_assignee_def Let_def trim_words to_lowercase_words assignee_ok_def)


subsection \<open>Due dates\<close>

definition date_year :: "string \<Rightarrow> nat" where "date_year d = parse_digits (take 4 d)"
definition date_month :: "string \<Rightarrow> nat" where "date_month d = parse_digits (take 2 (drop 5 d))"
definition date_day :: "string \<Rightarrow> nat" where "date_day d = parse_digits (take 2 (drop 8 d))"

definition due_date_ok :: "string \<Rightarrow> bool" where
  "due_date_ok d \<longleftrightarrow>
     length d = 10 \<and> d ! 4 = CHR ''-'' \<and> d ! 7 = CHR ''-'' \<and>
     list_all (\<lambda>i. is_ascii_digit (d ! i)) [0, 1, 2, 3, 5, 6, 8, 9] \<and>
     1 \<le> date_month d \<and> date_month d \<le> 12 \<and> 1 \<le> date_day d \<and> date_day d \<le> 31"

lemma validate_due_date_iff: "validate_due_date s = Inr d \<longleftrightarrow> d = trim s \<and> due_date_ok d"
proof -
  have "find (\<lambda>idx. \<not> is_ascii_digit (trim s ! idx)) [0, 1, 2, 3, 5, 6, 8, 9] = None \<longleftrightarrow>
      list_all (\<lambda>i. is_ascii_digit (trim s ! i)) [0, 1, 2, 3, 5, 6, 8, 9]"
    by (simp only: find_None_iff list_all_iff) blast
  then show ?thesis
    unfolding validate_due_date_def Let_def due_date_ok_def date_month_def date_day_def
    by (auto simp del: find.simps list.pred_inject split: option.splits if_splits)
qed

lemma length10_split:
  assumes "length d = 10"
  shows "d = take 4 d @ [d ! 4] @ take 2 (drop 5 d) @ [d ! 7] @ take 2 (drop 8 d)"
proof -
  obtain a0 a1 a2 a3 a4 a5 a6 a7 a8 a9 where "d = [a0, a1, a2, a3, a4, a5, a6, a7, a8, a9]"
    using assms by (auto simp: numeral_eq_Suc length_Suc_conv)
  then show ?thesis by simp
qed

lemma due_date_ok_parts:
  assumes "due_date_ok d"
  shows "length (take 4 d) = 4" "length (take 2 (drop 5 d)) = 2" "length (take 2 (drop 8 d)) = 2"
    "list_all is_ascii_digit (take 4 d)" "list_all is_ascii_digit (take 2 (drop 5 d))"
    "list_all is_ascii_digit (take 2 (drop 8 d))"
    "d = take 4 d @ ''-'' @ take 2 (drop 5 d) @ ''-'' @ take 2 (drop 8 d)"
proof -
  obtain a0 a1 a2 a3 a4 a5 a6 a7 a8 a9 where "d = [a0, a1, a2, a3, a4, a5, a6, a7, a8, a9]"
    using assms by (auto simp: due_date_ok_def numeral_eq_Suc length_Suc_conv)
  with assms show "length (take 4 d) = 4" "length (take 2 (drop 5 d)) = 2"
    "length (take 2 (drop 8 d)) = 2"
    "list_all is_ascii_digit (take 4 d)" "list_all is_ascii_digit (take 2 (drop 5 d))"
    "list_all is_ascii_digit (take 2 (drop 8 d))"
    "d = take 4 d @ ''-'' @ take 2 (drop 5 d) @ ''-'' @ take 2 (drop 8 d)"
    by (auto simp: due_date_ok_def)
qed

lemma due_date_ok_words: "due_date_ok d \<Longrightarrow> list_all word_char d"
proof -
  assume d: "due_date_ok d"
  have "list_all word_char (take 4 d @ ''-'' @ take 2 (drop 5 d) @ ''-'' @ take 2 (drop 8 d))"
    using due_date_ok_parts(4-6) [OF d] by (auto simp: list_all_iff word_char_def)
  then show ?thesis by (subst due_date_ok_parts(7) [OF d])
qed

lemma validate_due_date_fix: "due_date_ok d \<Longrightarrow> validate_due_date d = Inr d"
  by (simp add: validate_due_date_iff trim_words due_date_ok_words)

lemma digit_less_iff:
  "is_ascii_digit a \<Longrightarrow> is_ascii_digit b \<Longrightarrow> a < b \<longleftrightarrow> digit_value a < digit_value b"
  by (auto simp: is_ascii_digit_def digit_value_def less_eq_char_def less_char_def)

lemma digit_value_bound: "is_ascii_digit a \<Longrightarrow> digit_value a \<le> 9"
  by (auto simp: is_ascii_digit_def digit_value_def less_eq_char_def)

lemma digit_eq_iff:
  "is_ascii_digit a \<Longrightarrow> is_ascii_digit b \<Longrightarrow> a = b \<longleftrightarrow> digit_value a = digit_value b"
  by (metis digit_less_iff less_irrefl linorder_neqE)

lemma foldl_digits:
  "foldl (\<lambda>acc c. 10 * acc + digit_value c) a cs =
     a * 10 ^ length cs + foldl (\<lambda>acc c. 10 * acc + digit_value c) 0 cs"
proof (induction cs arbitrary: a)
  case (Cons c cs)
  show ?case
    using Cons [of "10 * a + digit_value c"] Cons [of "digit_value c"] by (simp add: algebra_simps)
qed simp

lemma parse_digits_Cons: "parse_digits (c # cs) = digit_value c * 10 ^ length cs + parse_digits cs"
  using foldl_digits [of "digit_value c" cs] by (simp add: parse_digits_def)

lemma parse_digits_bound: "list_all is_ascii_digit cs \<Longrightarrow> parse_digits cs < 10 ^ length cs"
proof (induction cs)
  case (Cons c cs)
  then have "digit_value c \<le> 9" "parse_digits cs < 10 ^ length cs"
    by (auto simp: digit_value_bound)
  then have "digit_value c * 10 ^ length cs + parse_digits cs < 9 * 10 ^ length cs + 10 ^ length cs"
    using mult_le_mono1 [of "digit_value c" 9 "10 ^ length cs"] by linarith
  then show ?case by (simp add: parse_digits_Cons)
qed (simp add: parse_digits_def)

lemma mixed_radix_less:
  fixes a b x y n :: nat
  assumes "x < n" "y < n"
  shows "a * n + x < b * n + y \<longleftrightarrow> a < b \<or> a = b \<and> x < y"
proof (cases "a < b")
  case True
  then have "a * n + n \<le> b * n" by (metis add.commute mult_Suc mult_le_mono1 Suc_leI)
  with True assms show ?thesis by linarith
next
  case False
  then have "b = a \<or> b * n + n \<le> a * n"
    by (metis add.commute linorder_neqE_nat mult_Suc mult_le_mono1 Suc_leI)
  with False assms show ?thesis by auto
qed

lemma parse_digits_less:
  "length xs = length ys \<Longrightarrow> list_all is_ascii_digit xs \<Longrightarrow> list_all is_ascii_digit ys
     \<Longrightarrow> xs < ys \<longleftrightarrow> parse_digits xs < parse_digits ys"
proof (induction xs ys rule: list_induct2)
  case (Cons x xs y ys)
  then have "parse_digits xs < 10 ^ length ys" "parse_digits ys < 10 ^ length ys"
    using parse_digits_bound [of xs] parse_digits_bound [of ys] by auto
  with Cons show ?case
    by (simp add: parse_digits_Cons mixed_radix_less digit_less_iff digit_eq_iff)
qed simp

lemma parse_digits_eq:
  assumes "length xs = length ys" "list_all is_ascii_digit xs" "list_all is_ascii_digit ys"
  shows "xs = ys \<longleftrightarrow> parse_digits xs = parse_digits ys"
  using parse_digits_less [OF assms] parse_digits_less [OF assms(1) [symmetric] assms(3,2)]
  by (metis less_irrefl linorder_neqE)

lemma append_less_iff:
  "length a = length b \<Longrightarrow> a @ x < b @ y \<longleftrightarrow> a < b \<or> a = b \<and> x < (y :: string)"
  by (induction a b rule: list_induct2) auto

lemma due_date_less_iff:
  assumes "due_date_ok d" "due_date_ok e"
  shows "d < e \<longleftrightarrow> (date_year d, date_month d, date_day d) < (date_year e, date_month e, date_day e)"
proof -
  note dp = due_date_ok_parts [OF assms(1)] and ep = due_date_ok_parts [OF assms(2)]
  have "d < e \<longleftrightarrow>
      take 4 d @ ''-'' @ take 2 (drop 5 d) @ ''-'' @ take 2 (drop 8 d) <
      take 4 e @ ''-'' @ take 2 (drop 5 e) @ ''-'' @ take 2 (drop 8 e)"
    using dp(7) ep(7) by metis
  also have "\<dots> \<longleftrightarrow> take 4 d < take 4 e \<or> take 4 d = take 4 e \<and>
      (take 2 (drop 5 d) < take 2 (drop 5 e) \<or> take 2 (drop 5 d) = take 2 (drop 5 e) \<and>
       take 2 (drop 8 d) < take 2 (drop 8 e))"
    using dp(1-3) ep(1-3) by (simp add: append_less_iff)
  also have "\<dots> \<longleftrightarrow> date_year d < date_year e \<or> date_year d = date_year e \<and>
      (date_month d < date_month e \<or> date_month d = date_month e \<and> date_day d < date_day e)"
    using dp(1-6) ep(1-6)
    by (simp add: date_year_def date_month_def date_day_def parse_digits_less parse_digits_eq)
  finally show ?thesis by (auto simp: less_prod_def)
qed


subsection \<open>Dependencies\<close>

definition dependencies_ok :: "string \<Rightarrow> string list \<Rightarrow> bool" where
  "dependencies_ok self ids \<longleftrightarrow>
     sorted ids \<and> distinct ids \<and> length ids \<le> MAX_DEPENDENCY_COUNT \<and> [] \<notin> set ids \<and> self \<notin> set ids"

lemma check_blockers_spec:
  "check_blockers self known ids = Inr cs \<Longrightarrow>
     cs = map trim ids \<and> [] \<notin> set cs \<and> self \<notin> set cs \<and> set cs \<subseteq> set known"
  by (induction ids arbitrary: cs) (fastforce simp: and_then_eq_Inr Let_def split: if_splits)+

lemma set_dependencies_ok:
  assumes "set_dependencies now p state known = Inr (r, state')"
  shows "dependencies_ok (setDependenciesP_run_id p) (blocked_by_run_ids state') \<and>
         set (blocked_by_run_ids state') = trim ` set (setDependenciesP_blocked_by_run_ids p) \<and>
         set (blocked_by_run_ids state') \<subseteq> set known \<and>
         state' = state\<lparr>blocked_by_run_ids := blocked_by_run_ids state'\<rparr>"
  using assms
  by (auto simp: set_dependencies_def and_then_eq_Inr Let_def dependencies_ok_def
      sorted_remdups_adj_distinct sorted_remdups_adj dest!: check_blockers_spec split: if_splits)



section \<open>What the operations store\<close>

definition canonical_label :: "string \<Rightarrow> string" where
  "canonical_label raw = to_lowercase (trim raw)"

lemma normalize_label_iff:
  "normalize_label raw = Inr l \<longleftrightarrow> l = canonical_label raw \<and> label_ok l"
  by (auto simp: normalize_label_def label_ok_def canonical_label_def Let_def first_invalid_None_iff
      split: option.splits) (simp_all flip: first_invalid_None_iff)

lemma normalize_label_good: "label_ok (canonical_label raw) \<Longrightarrow> normalize_label raw = Inr (canonical_label raw)"
  by (simp add: normalize_label_iff)

lemma normalize_label_bad: "\<not> label_ok (canonical_label raw) \<Longrightarrow> \<exists>e. normalize_label raw = Inl e"
  by (cases "normalize_label raw") (auto simp: normalize_label_iff)

lemma normalize_each_iff:
  "(\<exists>ls. normalize_each acc raws = Inr ls) \<longleftrightarrow> list_all (\<lambda>r. label_ok (canonical_label r)) raws"
proof (induction raws arbitrary: acc)
  case (Cons raw raws)
  then show ?case
    using normalize_label_good [of raw] normalize_label_bad [of raw]
    by (cases "label_ok (canonical_label raw)") auto
qed simp

lemma normalize_each_set:
  "normalize_each acc raws = Inr ls \<Longrightarrow> set ls = set acc \<union> canonical_label ` set raws"
proof (induction raws arbitrary: acc)
  case (Cons raw raws)
  then show ?case by (auto simp: and_then_eq_Inr normalize_label_iff split: if_splits)
qed simp

lemma normalize_labels_iff:
  "normalize_labels raws = Inr ls \<longleftrightarrow>
     length raws \<le> LABEL_MAX_COUNT \<and> list_all (\<lambda>r. label_ok (canonical_label r)) raws \<and>
     ls = sorted_list_of_set (canonical_label ` set raws)"
proof -
  have "sort xs = sorted_list_of_set (set xs)" if "distinct xs" for xs :: "string list"
    using that by (simp add: sorted_list_of_set_sort_remdups distinct_remdups_id)
  then have "sort xs = sorted_list_of_set (canonical_label ` set raws)"
    if "normalize_each [] raws = Inr xs" for xs
    using that normalize_each_spec [of "[]" raws xs] normalize_each_set [of "[]" raws xs] by simp
  then show ?thesis
    using normalize_each_iff [of "[]" raws]
    by (auto simp: normalize_labels_def and_then_eq_Inr not_less)
qed

text \<open>
  Labels are stored in one normal form. A list of labels is accepted exactly when it has at most
  sixteen entries and each of them, trimmed and in lower case, is one to sixty-four characters from
  \<open>a-z\<close>, \<open>0-9\<close>, \<open>-\<close> and \<open>_\<close>; the result is the sorted list, without repetition, of those texts, and
  is its own normal form.
\<close>

theorem labels_normal_form:
  "normalize_labels raws = Inr ls \<longleftrightarrow>
     length raws \<le> 16 \<and>
     list_all (\<lambda>r. let l = to_lowercase (trim r) in
       l \<noteq> [] \<and> length l \<le> 64 \<and> list_all is_label_char l) raws \<and>
     ls = sorted_list_of_set ((\<lambda>r. to_lowercase (trim r)) ` set raws) \<and>
     normalize_labels ls = Inr ls"
  using normalize_labels_fix [of ls] normalize_labels_ok [of raws ls]
  unfolding normalize_labels_iff [of raws ls]
  by (auto simp: label_ok_def LABEL_MAX_COUNT_def LABEL_MAX_LEN_def canonical_label_def Let_def
      normalize_labels_iff [of raws])

text \<open>
  C40: a due date is accepted exactly when its trimmed text is a \<open>YYYY-MM-DD\<close> with a month from 1 to 12
  and a day from 1 to 31, and on accepted dates the order of the texts, by which runs are listed,
  filtered and found overdue, is the order of year, month and day.
\<close>

theorem due_dates_valid_and_ordered:
  "(validate_due_date s = Inr d \<longleftrightarrow> d = trim s \<and> due_date_ok d) \<and>
   (validate_due_date a = Inr x \<and> validate_due_date b = Inr y \<longrightarrow>
      (x < y \<longleftrightarrow> (date_year x, date_month x, date_day x) < (date_year y, date_month y, date_day y)))"
  unfolding validate_due_date_iff using due_date_less_iff by blast

theorem due_dates_valid_and_ordered_witness:
  "validate_due_date '' 2026-02-09 '' = Inr ''2026-02-09'' \<and> ''2026-02-09'' < ''2026-11-01''"
proof -
  have "validate_due_date '' 2026-02-09 '' = Inr ''2026-02-09''"
    "validate_due_date ''2026-11-01'' = Inr ''2026-11-01''" by code_simp+
  moreover have "(date_year ''2026-02-09'', date_month ''2026-02-09'', date_day ''2026-02-09'')
      < (date_year ''2026-11-01'', date_month ''2026-11-01'', date_day ''2026-11-01'')" by code_simp
  ultimately show ?thesis
    using due_dates_valid_and_ordered [of "[]" "[]" "'' 2026-02-09 ''" "''2026-02-09''"
        "''2026-11-01''" "''2026-11-01''"] by simp
qed

text \<open>
  The dependencies of a run are stored as a strictly sorted list of at most thirty-two texts, none
  of them empty and none the run itself, all of them known run identifiers, and exactly the trimmed
  texts of the request; nothing else of the run changes.
\<close>

theorem dependencies_normal_form:
  assumes "set_dependencies now p state known = Inr (r, state')"
  shows "sorted (blocked_by_run_ids state') \<and> distinct (blocked_by_run_ids state') \<and>
         length (blocked_by_run_ids state') \<le> 32 \<and>
         setDependenciesP_run_id p \<notin> set (blocked_by_run_ids state') \<and>
         [] \<notin> set (blocked_by_run_ids state') \<and>
         set (blocked_by_run_ids state') = trim ` set (setDependenciesP_blocked_by_run_ids p) \<and>
         set (blocked_by_run_ids state') \<subseteq> set known \<and>
         state' = state\<lparr>blocked_by_run_ids := blocked_by_run_ids state'\<rparr>"
  using set_dependencies_ok [OF assms] unfolding dependencies_ok_def MAX_DEPENDENCY_COUNT_def by blast

theorem dependencies_normal_form_witness:
  "(case set_dependencies ''t''
      \<lparr>setDependenciesP_run_id = ''r1'', setDependenciesP_blocked_by_run_ids = [''r3'', '' r2 '', ''r3'']\<rparr>
      sample_run [''r1'', ''r2'', ''r3''] of
    Inr (r, st) \<Rightarrow> sorted (blocked_by_run_ids st) \<and> length (blocked_by_run_ids st) \<le> 32
    | Inl _ \<Rightarrow> False)"
proof -
  let ?p = "\<lparr>setDependenciesP_run_id = ''r1'',
             setDependenciesP_blocked_by_run_ids = [''r3'', '' r2 '', ''r3'']\<rparr>"
  have "is_ok (check_blockers ''r1'' [''r1'', ''r2'', ''r3''] [''r3'', '' r2 '', ''r3''])" by code_simp
  then obtain cs where cs: "check_blockers ''r1'' [''r1'', ''r2'', ''r3''] [''r3'', '' r2 '', ''r3''] = Inr cs"
    by (cases "check_blockers ''r1'' [''r1'', ''r2'', ''r3''] [''r3'', '' r2 '', ''r3'']") auto
  then have "length cs = 3" using check_blockers_spec by fastforce
  then have "length (remdups_adj (sort cs)) \<le> 32"
    using remdups_adj_length [of "sort cs"] by simp
  with cs obtain r st where "set_dependencies ''t'' ?p sample_run [''r1'', ''r2'', ''r3''] = Inr (r, st)"
    by (auto simp: set_dependencies_def Let_def MAX_DEPENDENCY_COUNT_def)
  with dependencies_normal_form [OF this] show ?thesis by simp
qed

end
