(* ===== verification/Patch_Apply.thy ===== *)
theory Patch_Apply
  imports Protocol_Types Workspace_FS
begin

text \<open>
  \<open>src/codex-rs/deterministic-core/src/patch_apply.rs\<close>: the only writer of workspace files. The edits
  are applied in order; the first that fails ends the call with its error and leaves the earlier ones
  applied, so an edit returns its outcome together with the world it leaves behind. The line counters
  are \<open>usize\<close> and wrap at 64 bits as in a release build.
\<close>

type_synonym counters = "64 word \<times> 64 word"

definition lines_count :: "string \<Rightarrow> 64 word" where
  "lines_count s = word_of_nat (length (str_lines s))"

text \<open>The new content of a file and the lines counted as deleted, for a replace edit.\<close>

definition replace_content :: "PatchEdit \<Rightarrow> string \<Rightarrow> (string \<times> 64 word) result" where
  "replace_content edit content =
     (case edit_old_text edit of
        Some old_text \<Rightarrow>
          if \<not> contains content old_text
          then Inl (Bail (''old_text not found in '' @ edit_path edit @ '': '' @ debug_str old_text))
          else Inr (replace_first old_text (edit_new_text edit) content, 0)
      | None \<Rightarrow>
          (case (edit_start_line edit, edit_end_line edit) of
             (Some start, Some end) \<Rightarrow>
               (let lines = str_lines content;
                    s = start - 1;
                    e = min end (length lines)
                in if s > length lines then Inl (Panic ''range end index out of range for slice'')
                   else Inr (join [newline] (take s lines @ str_lines (edit_new_text edit) @ drop e lines),
                             word_of_nat e - word_of_nat s))
           | _ \<Rightarrow> Inl (Bail (''replace requires either old_text or start_line/end_line for ''
                    @ edit_path edit))))"

definition apply_create ::
  "path \<Rightarrow> string \<Rightarrow> PatchEdit \<Rightarrow> counters \<Rightarrow> world \<Rightarrow> counters result \<times> world" where
  "apply_create canonical_root file_path edit c w =
     (let comps = start_dir w file_path @ path_components file_path;
          (r, t) = (if path_components file_path = [] then (None, tree w)
                    else create_dir_all (tree w) (butlast comps));
          w = w\<lparr>tree := t\<rparr>
      in case r of
           Some e \<Rightarrow> (Inl (Caused (''cannot create parent dirs for '' @ edit_path edit) e), w)
         | None \<Rightarrow>
             (case write_path w file_path (edit_new_text edit) of
                Inl e \<Rightarrow> (Inl (Caused (''cannot create file: '' @ edit_path edit) e), w)
              | Inr w' \<Rightarrow>
                  (case canonicalize w' file_path of
                     Inl e \<Rightarrow> (Inl (Io e), w')
                   | Inr canonical \<Rightarrow>
                       if \<not> prefix canonical_root canonical
                       then (Inl (Bail (''path escapes workspace: '' @ edit_path edit)), w')
                       else (Inr (fst c + lines_count (edit_new_text edit), snd c), w'))))"

definition resolve_inside :: "path \<Rightarrow> string \<Rightarrow> PatchEdit \<Rightarrow> world \<Rightarrow> path result" where
  "resolve_inside canonical_root file_path edit w =
     (case canonicalize w file_path of
        Inl e \<Rightarrow> Inl (Caused (''cannot resolve path: '' @ edit_path edit) e)
      | Inr canonical \<Rightarrow>
          if \<not> prefix canonical_root canonical
          then Inl (Bail (''path escapes workspace: '' @ edit_path edit))
          else Inr canonical)"

definition apply_replace ::
  "path \<Rightarrow> string \<Rightarrow> PatchEdit \<Rightarrow> counters \<Rightarrow> world \<Rightarrow> counters result \<times> world" where
  "apply_replace canonical_root file_path edit c w =
     (case resolve_inside canonical_root file_path edit w of
        Inl e \<Rightarrow> (Inl e, w)
      | Inr canonical \<Rightarrow>
          (case read_to_string (tree w) canonical of
             Inl e \<Rightarrow> (Inl (Caused (''cannot read file: '' @ edit_path edit) e), w)
           | Inr content \<Rightarrow>
               (case replace_content edit content of
                  Inl e \<Rightarrow> (Inl e, w)
                | Inr (new_content, deleted) \<Rightarrow>
                    (case write_file (tree w) canonical new_content of
                       Inl e \<Rightarrow> (Inl (Caused (''cannot write file: '' @ edit_path edit) e), w)
                     | Inr t \<Rightarrow>
                         (Inr (fst c + lines_count (edit_new_text edit), snd c + deleted),
                          w\<lparr>tree := t\<rparr>)))))"

definition apply_delete ::
  "path \<Rightarrow> string \<Rightarrow> PatchEdit \<Rightarrow> counters \<Rightarrow> world \<Rightarrow> counters result \<times> world" where
  "apply_delete canonical_root file_path edit c w =
     (case resolve_inside canonical_root file_path edit w of
        Inl e \<Rightarrow> (Inl e, w)
      | Inr canonical \<Rightarrow>
          (case read_to_string (tree w) canonical of
             Inl e \<Rightarrow> (Inl (Io e), w)
           | Inr content \<Rightarrow>
               (case remove_file (tree w) canonical of
                  Inl e \<Rightarrow> (Inl (Caused (''cannot delete file: '' @ edit_path edit) e), w)
                | Inr t \<Rightarrow> (Inr (fst c, snd c + lines_count content), w\<lparr>tree := t\<rparr>))))"

definition apply_edit ::
  "string \<Rightarrow> PatchEdit \<Rightarrow> counters \<Rightarrow> world \<Rightarrow> counters result \<times> world" where
  "apply_edit root edit c w =
     (let file_path = path_join root (edit_path edit) in
      case canonicalize w root of
        Inl e \<Rightarrow> (Inl (Caused ''cannot resolve workspace root'' e), w)
      | Inr canonical_root \<Rightarrow>
          if edit_operation edit = ''create'' then apply_create canonical_root file_path edit c w
          else if edit_operation edit = ''replace'' then apply_replace canonical_root file_path edit c w
          else if edit_operation edit = ''delete'' then apply_delete canonical_root file_path edit c w
          else (Inl (Bail (''unsupported patch operation: '' @ edit_operation edit)), w))"

fun apply_edits ::
  "string \<Rightarrow> PatchEdit list \<Rightarrow> string list \<Rightarrow> counters \<Rightarrow> world
     \<Rightarrow> (string list \<times> counters) result \<times> world" where
  "apply_edits root [] changed c w = (Inr (changed, c), w)"
| "apply_edits root (edit # edits) changed c w =
     (case apply_edit root edit c w of
        (Inl e, w') \<Rightarrow> (Inl e, w')
      | (Inr c', w') \<Rightarrow>
          apply_edits root edits
            (if edit_path edit \<notin> set changed then changed @ [edit_path edit] else changed) c' w')"

definition apply_patch ::
  "PatchApplyParams \<Rightarrow> string \<Rightarrow> world \<Rightarrow> PatchApplyResult result \<times> world" where
  "apply_patch params workspace_root w =
     (if \<not> is_dir w workspace_root
      then (Inl (Bail (''workspace root is not a directory: '' @ workspace_root)), w)
      else case apply_edits workspace_root (patchApplyP_edits params) [] (0, 0) w of
          (Inl e, w') \<Rightarrow> (Inl e, w')
        | (Inr (changed, adds, dels), w') \<Rightarrow>
            (Inr \<lparr>patchApplyR_changed_files = changed,
                  patchApplyR_diff_stats = ''+'' @ show_nat (unat adds) @ '' -'' @ show_nat (unat dels),
                  patchApplyR_approval_required = None\<rparr>, w'))"


section \<open>Replacing and deleting stays in the workspace\<close>

text \<open>A change of regular files only: directories and links stay.\<close>

definition structure_kept :: "fs \<Rightarrow> fs \<Rightarrow> bool" where
  "structure_kept fs fs' \<longleftrightarrow>
     (\<forall>p. (fs p = Some Dir \<longrightarrow> fs' p = Some Dir) \<and>
          (\<forall>t. fs p = Some (Symlink t) \<longrightarrow> fs' p = Some (Symlink t)))"

lemma structure_kept_refl [simp]: "structure_kept fs fs"
  by (simp add: structure_kept_def)

lemma structure_kept_upd:
  assumes "fs q = Some (File c)"
  shows "structure_kept fs (fs(q := n))"
  using assms by (auto simp: structure_kept_def)

lemma walk_not_dir: "fs cur \<noteq> Some Dir \<Longrightarrow> walk create fs k cur cs = Inr q \<Longrightarrow> cs = [] \<and> q = cur"
  by (cases cs) auto

lemma walk_structure_kept:
  "walk create fs k cur cs = Inr q \<Longrightarrow> \<not> create \<Longrightarrow> fs q = Some Dir \<Longrightarrow> structure_kept fs fs'
     \<Longrightarrow> walk create fs' k cur cs = Inr q"
proof (induction create fs k cur cs rule: walk.induct)
  case (2 create fs k cur c cs)
  have dir: "fs cur = Some Dir" "fs' cur = Some Dir"
    using "2.prems" by (auto simp: structure_kept_def split: if_splits)
  consider "c = ''.''" | "c \<noteq> ''.''" "c = ''..''" | "c \<noteq> ''.''" "c \<noteq> ''..''" by blast
  then show ?case
  proof cases
    case 3
    show ?thesis
    proof (cases "fs (cur @ [c])")
      case None
      with 3 dir "2.prems" show ?thesis by auto
    next
      case (Some n)
      show ?thesis
      proof (cases n)
        case (File content)
        with Some 3 dir "2.prems" show ?thesis by (auto dest: walk_not_dir [rotated])
      next
        case Dir
        with Some "2.prems"(4) have "fs' (cur @ [c]) = Some Dir" by (simp add: structure_kept_def)
        with Some Dir 3 dir "2.prems" "2.IH" show ?thesis by auto
      next
        case (Symlink target)
        with Some "2.prems"(4) have "fs' (cur @ [c]) = Some (Symlink target)"
          by (simp add: structure_kept_def)
        with Some Symlink 3 dir "2.prems" "2.IH" show ?thesis by (auto split: if_splits)
      qed
    qed
  qed (use dir "2.prems" "2.IH" in auto)
qed simp


definition outside_kept :: "path \<Rightarrow> fs \<Rightarrow> fs \<Rightarrow> bool" where
  "outside_kept root fs fs' \<longleftrightarrow> (\<forall>p. \<not> prefix root p \<longrightarrow> fs' p = fs p)"

lemma structure_kept_trans:
  "structure_kept a b \<Longrightarrow> structure_kept b c \<Longrightarrow> structure_kept a c"
  by (simp add: structure_kept_def)

lemma outside_kept_trans: "outside_kept r a b \<Longrightarrow> outside_kept r b c \<Longrightarrow> outside_kept r a c"
  by (simp add: outside_kept_def)

lemma read_to_string_File: "read_to_string fs p = Inr c \<Longrightarrow> fs p = Some (File c)"
  by (auto simp: read_to_string_def split: option.splits node.splits if_splits)

lemma resolve_inside_prefix: "resolve_inside root fp edit w = Inr q \<Longrightarrow> prefix root q"
  by (auto simp: resolve_inside_def split: sum.splits if_splits)

definition confined :: "path \<Rightarrow> world \<Rightarrow> world \<Rightarrow> bool" where
  "confined root w w' \<longleftrightarrow>
     structure_kept (tree w) (tree w') \<and> outside_kept root (tree w) (tree w') \<and> cwd w' = cwd w"

lemma confined_refl [simp]: "confined root w w"
  by (simp add: confined_def outside_kept_def)

lemma confined_trans: "confined root a b \<Longrightarrow> confined root b c \<Longrightarrow> confined root a c"
  by (auto simp: confined_def intro: structure_kept_trans outside_kept_trans)

lemma confined_upd:
  assumes "tree w q = Some (File c)" "prefix root q"
  shows "confined root w (w\<lparr>tree := (tree w)(q := n)\<rparr>)"
  using assms by (auto simp: confined_def outside_kept_def intro: structure_kept_upd)

lemma apply_replace_confined: "confined root w (snd (apply_replace root fp edit c w))"
proof (cases "resolve_inside root fp edit w")
  case (Inr q)
  then have q: "prefix root q" by (rule resolve_inside_prefix)
  show ?thesis
    using Inr q
    by (auto simp: apply_replace_def write_file_def split: sum.splits prod.splits
        dest!: read_to_string_File intro: confined_upd)
qed (simp add: apply_replace_def)

lemma apply_delete_confined: "confined root w (snd (apply_delete root fp edit c w))"
proof (cases "resolve_inside root fp edit w")
  case (Inr q)
  then have q: "prefix root q" by (rule resolve_inside_prefix)
  show ?thesis
    using Inr q
    by (auto simp: apply_delete_def remove_file_def split: sum.splits
        dest!: read_to_string_File intro: confined_upd)
qed (simp add: apply_delete_def)

lemma canonical_root_kept:
  assumes "canonicalize w root = Inr r" "tree w r = Some Dir" "confined r' w w'"
  shows "canonicalize w' root = Inr r \<and> tree w' r = Some Dir"
proof -
  have "structure_kept (tree w) (tree w')" "cwd w' = cwd w" using assms(3) by (auto simp: confined_def)
  then show ?thesis
    using assms(1,2) walk_structure_kept [of False "tree w" LINK_LIMIT _ _ r "tree w'"]
    by (auto simp: canonicalize_def start_dir_def structure_kept_def split: if_splits)
qed

lemma apply_edit_confined:
  assumes "canonicalize w root = Inr r" "edit_operation edit \<noteq> ''create''"
  shows "confined r w (snd (apply_edit root edit c w))"
  using assms by (simp add: apply_edit_def Let_def apply_replace_confined apply_delete_confined)

lemma apply_edits_confined:
  assumes "\<forall>e \<in> set edits. edit_operation e \<noteq> ''create''"
    and "canonicalize w root = Inr r" "tree w r = Some Dir"
  shows "confined r w (snd (apply_edits root edits changed c w))"
  using assms
proof (induction edits arbitrary: changed c w)
  case (Cons e es)
  obtain res w1 where e: "apply_edit root e c w = (res, w1)" by fastforce
  then have conf: "confined r w w1" using apply_edit_confined [of w root r e c] Cons.prems by simp
  have "canonicalize w1 root = Inr r \<and> tree w1 r = Some Dir"
    using Cons.prems(2,3) conf by (rule canonical_root_kept)
  with Cons.IH Cons.prems(1) have "confined r w1 (snd (apply_edits root es ch c' w1))" for ch c'
    by simp
  with conf e show ?case by (cases res) (auto intro: confined_trans)
qed simp

lemma apply_patch_confined:
  assumes "\<forall>e \<in> set (patchApplyP_edits params). edit_operation e \<noteq> ''create''"
    and "canonicalize w root = Inr r"
  shows "confined r w (snd (apply_patch params root w))"
proof (cases "is_dir w root")
  case True
  with assms have "tree w r = Some Dir" by (simp add: is_dir_def)
  with assms have "confined r w (snd (apply_edits root (patchApplyP_edits params) [] (0, 0) w))"
    by (rule apply_edits_confined)
  with True show ?thesis
    by (cases "apply_edits root (patchApplyP_edits params) [] (0, 0) w")
       (auto simp: apply_patch_def split: sum.splits)
qed (simp add: apply_patch_def)



section \<open>What one replace edit does\<close>

lemma replace_old_text_first:
  assumes "edit_old_text edit = Some old" "contains content old"
  shows "\<exists>before after. content = before @ old @ after \<and>
           (\<forall>b' a'. content = b' @ old @ a' \<longrightarrow> length before \<le> length b') \<and>
           replace_content edit content = Inr (before @ edit_new_text edit @ after, 0)"
  using replace_first_spec [OF assms(2), of "edit_new_text edit"] assms
  by (auto simp: replace_content_def)

lemma apply_replace_ok:
  assumes "apply_replace root fp edit c w = (Inr c', w')"
  obtains q content new_content deleted where
    "canonicalize w fp = Inr q" "prefix root q" "tree w q = Some (File content)"
    "replace_content edit content = Inr (new_content, deleted)"
    "c' = (fst c + lines_count (edit_new_text edit), snd c + deleted)"
    "w' = w\<lparr>tree := (tree w)(q \<mapsto> File new_content)\<rparr>"
  using assms
  by (auto simp: apply_replace_def resolve_inside_def write_file_def
      split: sum.splits prod.splits if_splits dest!: read_to_string_File)

text \<open>
  C5: patches that only replace and delete are confined. Whatever their paths are (absolute, with
  \<open>..\<close>, or through symbolic links), and whether or not an edit fails on the way, no node outside the
  resolved workspace root changes, and no directory and no link changes at all.
\<close>

theorem patch_without_create_confined:
  assumes "\<forall>e \<in> set (patchApplyP_edits params). edit_operation e \<noteq> ''create''"
    and "canonicalize w root = Inr r"
    and "apply_patch params root w = (res, w')"
  shows "(\<forall>p. \<not> prefix r p \<longrightarrow> tree w' p = tree w p) \<and>
         (\<forall>p. tree w p = Some Dir \<longrightarrow> tree w' p = Some Dir) \<and>
         (\<forall>p t. tree w p = Some (Symlink t) \<longrightarrow> tree w' p = Some (Symlink t))"
  using apply_patch_confined [OF assms(1,2)] assms(3)
  by (simp add: confined_def outside_kept_def structure_kept_def)

definition sample_world :: world where
  "sample_world =
     \<lparr>tree = map_of [([], Dir), ([''ws''], Dir), ([''ws'', ''a.txt''], File ''one two two''),
                     ([''ws'', ''out''], Symlink ''../etc''), ([''etc''], Dir),
                     ([''etc'', ''passwd''], File ''root'')],
      cwd = []\<rparr>"

definition patch_edit :: "string \<Rightarrow> string \<Rightarrow> string option \<Rightarrow> string \<Rightarrow> PatchEdit" where
  "patch_edit p operation old new =
     \<lparr>edit_path = p, edit_operation = operation, edit_start_line = None, edit_end_line = None,
      edit_old_text = old, edit_new_text = new, edit_anchor_text = None, edit_reason = None\<rparr>"

definition one_edit :: "PatchEdit \<Rightarrow> PatchApplyParams" where
  "one_edit e = \<lparr>patchApplyP_run_id = ''run_1'', patchApplyP_edits = [e]\<rparr>"

theorem patch_without_create_confined_witness:
  "tree (snd (apply_patch (one_edit (patch_edit ''out/passwd'' ''replace'' (Some ''root'') ''me''))
                ''/ws'' sample_world)) [''etc'', ''passwd''] = Some (File ''root'')"
proof -
  let ?p = "one_edit (patch_edit ''out/passwd'' ''replace'' (Some ''root'') ''me'')"
  obtain res w' where a: "apply_patch ?p ''/ws'' sample_world = (res, w')" by fastforce
  have ops: "\<forall>e \<in> set (patchApplyP_edits ?p). edit_operation e \<noteq> ''create''"
    by (simp add: one_edit_def patch_edit_def)
  have root: "canonicalize sample_world ''/ws'' = Inr [''ws'']" by code_simp
  have old: "tree sample_world [''etc'', ''passwd''] = Some (File ''root'')" by code_simp
  show ?thesis
    using patch_without_create_confined [OF ops root a] a old by simp
qed


text \<open>
  C38: a replace edit by text rewrites one file and only there. If it succeeds, the file the path
  resolves to contained the old text, its first occurrence is replaced by the new text, the rest of
  the file is as before, and every other node of the file system is unchanged.
\<close>

theorem replace_edit_exact:
  assumes "apply_edit root edit c w = (Inr c', w')"
    and "edit_operation edit = ''replace''" "edit_old_text edit = Some old"
  shows "\<exists>q before after.
           canonicalize w (path_join root (edit_path edit)) = Inr q \<and>
           tree w q = Some (File (before @ old @ after)) \<and>
           (\<forall>b' a'. before @ old @ after = b' @ old @ a' \<longrightarrow> length before \<le> length b') \<and>
           w' = w\<lparr>tree := (tree w)(q \<mapsto> File (before @ edit_new_text edit @ after))\<rparr>"
proof -
  obtain r where "apply_replace r (path_join root (edit_path edit)) edit c w = (Inr c', w')"
    using assms by (auto simp: apply_edit_def Let_def split: sum.splits)
  then obtain q content new_content deleted where *:
    "canonicalize w (path_join root (edit_path edit)) = Inr q" "tree w q = Some (File content)"
    "replace_content edit content = Inr (new_content, deleted)"
    "w' = w\<lparr>tree := (tree w)(q \<mapsto> File new_content)\<rparr>"
    by (rule apply_replace_ok) blast
  from *(3) assms(3) have "contains content old"
    by (auto simp: replace_content_def split: if_splits)
  with assms(3) obtain before after where
    "content = before @ old @ after"
    "\<forall>b' a'. content = b' @ old @ a' \<longrightarrow> length before \<le> length b'"
    "replace_content edit content = Inr (before @ edit_new_text edit @ after, 0)"
    using replace_old_text_first by blast
  with * show ?thesis by auto
qed

theorem replace_edit_exact_witness:
  "\<exists>q before after.
     canonicalize sample_world (path_join ''/ws'' ''a.txt'') = Inr q \<and>
     tree sample_world q = Some (File (before @ ''two'' @ after)) \<and>
     (\<forall>b' a'. before @ ''two'' @ after = b' @ ''two'' @ a' \<longrightarrow> length before \<le> length b') \<and>
     snd (apply_edit ''/ws'' (patch_edit ''a.txt'' ''replace'' (Some ''two'') ''2'') (0, 0) sample_world)
       = sample_world\<lparr>tree := (tree sample_world)(q \<mapsto> File (before @ ''2'' @ after))\<rparr>"
proof -
  let ?e = "patch_edit ''a.txt'' ''replace'' (Some ''two'') ''2''"
  let ?r = "apply_edit ''/ws'' ?e (0, 0) sample_world"
  have "fst ?r = Inr (1, 0)" by code_simp
  then have "?r = (Inr (1, 0), snd ?r)" by (metis prod.collapse)
  from replace_edit_exact [OF this] show ?thesis by (simp add: patch_edit_def)
qed


section \<open>Creating files\<close>

definition fs_wf :: "fs \<Rightarrow> bool" where
  "fs_wf fs \<longleftrightarrow> fs [] = Some Dir \<and> (\<forall>p c. fs (p @ [c]) \<noteq> None \<longrightarrow> fs p = Some Dir)"

lemma fs_wf_butlast: "fs_wf fs \<Longrightarrow> fs p = Some n \<Longrightarrow> p \<noteq> [] \<Longrightarrow> fs (butlast p) = Some Dir"
  unfolding fs_wf_def by (metis append_butlast_last_id option.distinct(1))

lemma fs_wf_butlast_dir: "fs_wf fs \<Longrightarrow> fs p = Some Dir \<Longrightarrow> fs (butlast p) = Some Dir"
  by (cases "p = []") (auto dest: fs_wf_butlast)

lemma mkdir_wf: "mkdir fs cs = Inr fs' \<Longrightarrow> fs_wf fs \<Longrightarrow> fs_wf fs'"
  by (auto simp: mkdir_def fs_wf_def split: if_splits sum.splits) blast+

lemma create_dir_all_wf: "create_dir_all fs cs = (r, fs') \<Longrightarrow> fs_wf fs \<Longrightarrow> fs_wf fs'"
proof (induction fs cs arbitrary: r fs' rule: create_dir_all.induct)
  case (1 fs cs)
  obtain r1 fs1 where rec: "create_dir_all fs (butlast cs) = (r1, fs1)" by fastforce
  show ?case
  proof (cases "mkdir fs cs")
    case (Inr fs2)
    with "1.prems" show ?thesis by (auto simp: create_dir_all.simps [of fs cs] intro: mkdir_wf)
  next
    case (Inl e)
    have "fs_wf fs1" if "e = NotFound" "cs \<noteq> []"
      using "1.IH" [OF Inl] that rec "1.prems"(2) by simp
    with "1.prems" Inl rec show ?thesis
      by (auto simp: create_dir_all.simps [of fs cs] split: option.splits sum.splits if_splits
          intro: mkdir_wf)
  qed
qed

lemma walk_step_cases:
  assumes "walk create fs k cur (c # cs) = Inr q"
  obtains (dot) "fs cur = Some Dir" "c = ''.''" "walk create fs k cur cs = Inr q"
  | (up) "fs cur = Some Dir" "c \<noteq> ''.''" "c = ''..''" "walk create fs k (butlast cur) cs = Inr q"
  | (new) "fs cur = Some Dir" "c \<noteq> ''.''" "c \<noteq> ''..''" "fs (cur @ [c]) = None" "create" "cs = []"
      "q = cur @ [c]"
  | (link) target where "fs cur = Some Dir" "c \<noteq> ''.''" "c \<noteq> ''..''"
      "fs (cur @ [c]) = Some (Symlink target)" "k \<noteq> 0"
      "walk create fs (k - 1) (if is_absolute target then [] else cur) (raw_components target @ cs) = Inr q"
  | (down) n where "fs cur = Some Dir" "c \<noteq> ''.''" "c \<noteq> ''..''" "fs (cur @ [c]) = Some n"
      "\<forall>t. n \<noteq> Symlink t" "walk create fs k (cur @ [c]) cs = Inr q"
proof -
  have dir: "fs cur = Some Dir" using assms by (auto split: if_splits)
  show thesis
  proof (cases "fs (cur @ [c])")
    case None
    with assms dir that show thesis by (auto split: if_splits)
  next
    case (Some n)
    with assms dir that show thesis by (cases n) (auto split: if_splits)
  qed
qed

lemma walk_not_symlink:
  "walk create fs k cur cs = Inr q \<Longrightarrow> fs_wf fs \<Longrightarrow> \<forall>t. fs cur \<noteq> Some (Symlink t)
     \<Longrightarrow> fs q \<noteq> Some (Symlink target)"
proof (induction create fs k cur cs rule: walk.induct)
  case (2 create fs k cur c cs)
  from "2.prems"(1) show ?case
  proof (cases rule: walk_step_cases)
    case up
    with "2.IH"(2) "2.prems"(2) show ?thesis by (simp add: fs_wf_butlast_dir)
  next
    case (link target)
    then have "\<forall>t. fs (if is_absolute target then [] else cur) \<noteq> Some (Symlink t)"
      using "2.prems"(2) by (simp add: fs_wf_def)
    with link "2.IH"(5) "2.prems"(2) show ?thesis by auto
  next
    case (down n)
    with "2.IH"(3,4) "2.prems"(2) show ?thesis by (cases n) auto
  qed (use "2.IH"(1) "2.prems"(2,3) in auto)
qed simp

lemma walk_create_resolves:
  "walk create fs k cur cs = Inr q \<Longrightarrow> create \<Longrightarrow> fs_wf fs \<Longrightarrow> fs q \<noteq> Some Dir
     \<Longrightarrow> \<forall>t. fs q \<noteq> Some (Symlink t)
     \<Longrightarrow> walk False (fs(q \<mapsto> File content)) k cur cs = Inr q"
proof (induction create fs k cur cs rule: walk.induct)
  case (2 create fs k cur c cs)
  from "2.prems"(1) show ?case
  proof (cases rule: walk_step_cases)
    case dot
    with "2.IH"(1) "2.prems" show ?thesis by auto
  next
    case up
    with "2.IH"(2) "2.prems" show ?thesis by auto
  next
    case new
    with "2.prems" show ?thesis by auto
  next
    case (link target)
    with "2.IH"(5) "2.prems" show ?thesis by (auto simp: is_absolute_def)
  next
    case (down n)
    show ?thesis
    proof (cases "cs = []")
      case True
      with down "2.prems" show ?thesis by (cases n) auto
    next
      case False
      with down have "fs (cur @ [c]) = Some Dir" by (blast dest: walk_not_dir)
      with down "2.IH"(4) "2.prems" show ?thesis by (cases n) auto
    qed
  qed
qed simp


lemma apply_create_ok:
  assumes "apply_create r fp edit c w = (Inr c', w')"
  obtains t q where
    "\<forall>p. t p = tree w p \<or> tree w p = None \<and> t p = Some Dir" "fs_wf (tree w) \<Longrightarrow> fs_wf t"
    "walk True t LINK_LIMIT (start_dir w fp) (raw_components fp) = Inr q" "t q \<noteq> Some Dir"
    "w' = w\<lparr>tree := t(q \<mapsto> File (edit_new_text edit))\<rparr>"
    "\<exists>q'. canonicalize w' fp = Inr q' \<and> prefix r q'"
proof -
  obtain res t where t: "(if path_components fp = [] then (None, tree w)
      else create_dir_all (tree w) (butlast (start_dir w fp @ path_components fp))) = (res, t)"
    by fastforce
  then have "\<forall>p. t p = tree w p \<or> tree w p = None \<and> t p = Some Dir" "fs_wf (tree w) \<Longrightarrow> fs_wf t"
    by (auto dest: create_dir_all_only_dirs create_dir_all_wf split: if_splits)
  moreover from assms t obtain w1 where
    "write_path (w\<lparr>tree := t\<rparr>) fp (edit_new_text edit) = Inr w1" "w' = w1"
    "\<exists>q'. canonicalize w' fp = Inr q' \<and> prefix r q'"
    by (auto simp: apply_create_def Let_def split: option.splits sum.splits if_splits)
  ultimately show thesis
    using that by (auto simp: write_path_def start_dir_def split: sum.splits if_splits)
qed

text \<open>
  A create edit that succeeds leaves exactly its text at the place its path resolves to, and that
  place is inside the resolved workspace root; the only other change to the file system is that
  missing directories on the way have been made.
\<close>

theorem create_edit_written:
  assumes "apply_edit root edit c w = (Inr c', w')" "edit_operation edit = ''create''"
    and "fs_wf (tree w)" "tree w (cwd w) = Some Dir"
  shows "\<exists>r q. canonicalize w root = Inr r \<and> prefix r q \<and>
           canonicalize w' (path_join root (edit_path edit)) = Inr q \<and>
           tree w' q = Some (File (edit_new_text edit)) \<and>
           (\<forall>p. p \<noteq> q \<longrightarrow> tree w' p = tree w p \<or> tree w p = None \<and> tree w' p = Some Dir)"
proof -
  let ?fp = "path_join root (edit_path edit)"
  obtain r where r: "canonicalize w root = Inr r" "apply_create r ?fp edit c w = (Inr c', w')"
    using assms(1,2) by (auto simp: apply_edit_def Let_def split: sum.splits)
  from r(2) obtain t q where *: "\<forall>p. t p = tree w p \<or> tree w p = None \<and> t p = Some Dir"
    "fs_wf (tree w) \<Longrightarrow> fs_wf t"
    "walk True t LINK_LIMIT (start_dir w ?fp) (raw_components ?fp) = Inr q" "t q \<noteq> Some Dir"
    "w' = w\<lparr>tree := t(q \<mapsto> File (edit_new_text edit))\<rparr>"
    "\<exists>q'. canonicalize w' ?fp = Inr q' \<and> prefix r q'"
    by (rule apply_create_ok) blast
  have wf: "fs_wf t" using *(2) assms(3) .
  have "t (start_dir w ?fp) = Some Dir"
    using *(1) [rule_format, of "start_dir w ?fp"] assms(3,4) by (auto simp: start_dir_def fs_wf_def)
  then have "\<forall>l. t q \<noteq> Some (Symlink l)" using *(3) wf by (auto dest: walk_not_symlink)
  with *(3,4) wf have "walk False (t(q \<mapsto> File (edit_new_text edit))) LINK_LIMIT (start_dir w ?fp)
      (raw_components ?fp) = Inr q" by (auto dest: walk_create_resolves)
  then have "canonicalize w' ?fp = Inr q"
    using *(5,6) by (auto simp: canonicalize_def start_dir_def split: if_splits)
  with r(1) * show ?thesis by auto
qed

theorem create_edit_written_witness:
  "\<exists>r q. canonicalize sample_world ''/ws'' = Inr r \<and> prefix r q \<and>
     canonicalize (snd (apply_edit ''/ws'' (patch_edit ''src/m.rs'' ''create'' None ''x'') (0, 0) sample_world))
       (path_join ''/ws'' ''src/m.rs'') = Inr q \<and>
     tree (snd (apply_edit ''/ws'' (patch_edit ''src/m.rs'' ''create'' None ''x'') (0, 0) sample_world)) q
       = Some (File ''x'')"
proof -
  let ?e = "patch_edit ''src/m.rs'' ''create'' None ''x''"
  let ?r = "apply_edit ''/ws'' ?e (0, 0) sample_world"
  have "fst ?r = Inr (1, 0)" by code_simp
  then have ok: "?r = (Inr (1, 0), snd ?r)" by (metis prod.collapse)
  have wf: "fs_wf (tree sample_world)"
    by (auto simp: fs_wf_def sample_world_def split: if_splits)
  have cwd: "tree sample_world (cwd sample_world) = Some Dir" by code_simp
  from create_edit_written [OF ok _ wf cwd] show ?thesis by (auto simp: patch_edit_def)
qed

text \<open>
  The workspace check of a create edit comes too late. For the path \<open>../evil\<close> the call reports that
  the path escapes the workspace, and the file outside the workspace has been written all the same.
\<close>

theorem create_escape_is_written:
  "fst (apply_patch (one_edit (patch_edit ''../evil'' ''create'' None ''x'')) ''/ws'' sample_world)
     = Inl (Bail ''path escapes workspace: ../evil'') \<and>
   tree sample_world [''evil''] = None \<and>
   tree (snd (apply_patch (one_edit (patch_edit ''../evil'' ''create'' None ''x'')) ''/ws'' sample_world))
     [''evil''] = Some (File ''x'')"
  by code_simp

end
