(* ===== verification/Command_Runner.thy ===== *)
theory Command_Runner
  imports Protocol_Types Workspace_FS
begin

text \<open>
  The screen of \<open>src/codex-rs/deterministic-core/src/command_runner.rs\<close> that every \<open>run.command\<close>
  request passes: the list of allowed programs, the substrings that no part of a request may contain,
  and the bound on the timeout.
\<close>

definition ALLOWED_COMMANDS :: "string list" where
  "ALLOWED_COMMANDS =
     [''cargo'', ''rustc'', ''rustfmt'', ''node'', ''npm'', ''npx'', ''tsc'', ''eslint'', ''prettier'',
      ''python3'', ''python'', ''pip3'', ''flake8'', ''black'', ''mypy'', ''make'', ''cmake'', ''ninja'',
      ''clippy-driver'', ''shellcheck'', ''shfmt'', ''which'', ''true'', ''false'', ''echo'', ''cat'',
      ''head'', ''tail'', ''wc'', ''sort'', ''uniq'', ''grep'', ''find'', ''diff'', ''comm'', ''basename'',
      ''dirname'', ''realpath'', ''readlink'', ''pwd'', ''env'', ''printenv'', ''date'']"

definition FORBIDDEN_SUBSTRINGS :: "string list" where
  "FORBIDDEN_SUBSTRINGS =
     ['';'', ''|'', [CHR 0x60], ''$('', [CHR ''$'', CHR 0x7B], ''>'', ''<'', ''>>'', ''sudo'', ''su '',
      ''curl'', ''wget'', ''nc '', ''telnet'', ''ssh'', ''sed'', ''awk'', ''tee'', ''dd'', ''rm -rf /'',
      ''rm -rf /*'', ''chmod'', ''chown'']"

definition MAX_TIMEOUT_SECS :: nat where "MAX_TIMEOUT_SECS = 300"

definition DEFAULT_TIMEOUT_SECS :: nat where "DEFAULT_TIMEOUT_SECS = 60"

datatype ValidationOutcome = Allowed string | Denied string

definition forbidden_in :: "string \<Rightarrow> string option" where
  "forbidden_in part = find (\<lambda>forbidden. contains part forbidden) FORBIDDEN_SUBSTRINGS"

definition validate_command :: "CommandRunParams \<Rightarrow> ValidationOutcome" where
  "validate_command params =
     (let cmd = trim (commandRunP_command params) in
      if cmd = [] then Denied ''command must not be empty''
      else case find_map forbidden_in (cmd # commandRunP_args params) of
        Some forbidden \<Rightarrow>
          Denied (''command or argument contains forbidden pattern: '' @ debug_str forbidden)
      | None \<Rightarrow>
          (let base = first_token cmd in
           if base \<in> set ALLOWED_COMMANDS then Allowed base
           else case path_file_name base of
               Some name \<Rightarrow>
                 if name \<in> set ALLOWED_COMMANDS then Allowed name
                 else Denied (''command '' @ debug_str cmd
                        @ '' is not on the allowed whitelist. Allowed commands: ''
                        @ join '', '' ALLOWED_COMMANDS)
             | None \<Rightarrow>
                 Denied (''command '' @ debug_str cmd
                   @ '' is not on the allowed whitelist. Allowed commands: ''
                   @ join '', '' ALLOWED_COMMANDS)))"

definition effective_timeout :: "CommandRunParams \<Rightarrow> nat" where
  "effective_timeout params =
     min (unwrap_or DEFAULT_TIMEOUT_SECS (commandRunP_timeout_secs params)) MAX_TIMEOUT_SECS"


section \<open>What passes the screen\<close>

lemma forbidden_in_None_iff:
  "forbidden_in part = None \<longleftrightarrow> (\<forall>f \<in> set FORBIDDEN_SUBSTRINGS. \<not> contains part f)"
  by (auto simp: forbidden_in_def find_None_iff)

lemma validate_command_Allowed_iff:
  "validate_command params = Allowed m \<longleftrightarrow>
     trim (commandRunP_command params) \<noteq> [] \<and>
     (\<forall>part \<in> set (trim (commandRunP_command params) # commandRunP_args params).
        \<forall>f \<in> set FORBIDDEN_SUBSTRINGS. \<not> contains part f) \<and>
     m \<in> set ALLOWED_COMMANDS \<and>
     (let base = first_token (trim (commandRunP_command params)) in
      m = base \<or> base \<notin> set ALLOWED_COMMANDS \<and> path_file_name base = Some m)"
proof -
  let ?cmd = "trim (commandRunP_command params)"
  let ?base = "first_token ?cmd"
  have "find_map forbidden_in (?cmd # commandRunP_args params) = None \<longleftrightarrow>
      (\<forall>part \<in> set (?cmd # commandRunP_args params).
        \<forall>f \<in> set FORBIDDEN_SUBSTRINGS. \<not> contains part f)"
    by (simp only: find_map_None_iff forbidden_in_None_iff)
  then show ?thesis
    unfolding validate_command_def Let_def
    by (cases "find_map forbidden_in (?cmd # commandRunP_args params)"; cases "path_file_name ?base")
       (simp_all del: find_map.simps split: if_splits, blast+)
qed

text \<open>
  A command request passes the screen exactly when its command is not blank, no part of it (the
  trimmed command or an argument) contains a forbidden substring, and the first word of the command,
  or the last component of that word read as a path, is an allowed program; the outcome names it.
\<close>

theorem validate_command_exact:
  "validate_command params = Allowed m \<longleftrightarrow>
     trim (commandRunP_command params) \<noteq> [] \<and>
     list_all (\<lambda>part. \<not> list_ex (contains part) FORBIDDEN_SUBSTRINGS)
       (trim (commandRunP_command params) # commandRunP_args params) \<and>
     m \<in> set ALLOWED_COMMANDS \<and>
     (let base = first_token (trim (commandRunP_command params)) in
      m = base \<or> base \<notin> set ALLOWED_COMMANDS \<and> path_file_name base = Some m)"
  unfolding validate_command_Allowed_iff by (simp add: list_all_iff list_ex_iff)

text \<open>
  The timeout of a command is never above five minutes, and is one minute when none is asked for.
\<close>

theorem effective_timeout_bounded:
  "effective_timeout params \<le> 300 \<and>
   effective_timeout (params\<lparr>commandRunP_timeout_secs := None\<rparr>) = 60"
  by (simp add: effective_timeout_def MAX_TIMEOUT_SECS_def DEFAULT_TIMEOUT_SECS_def)

definition sample_command :: "string \<Rightarrow> string list \<Rightarrow> CommandRunParams" where
  "sample_command program args =
     \<lparr>commandRunP_run_id = ''run_1'', commandRunP_command = program, commandRunP_args = args,
      commandRunP_workdir = None, commandRunP_timeout_secs = None\<rparr>"

text \<open>
  The screen does not keep file changes to patches. The allowed programs \<open>env\<close> and \<open>find\<close> run or
  delete whatever their arguments say, and the arguments pass.
\<close>

theorem command_screen_passes_deletions:
  "validate_command (sample_command ''env'' [''rm'', ''-r'', ''src'']) = Allowed ''env'' \<and>
   validate_command (sample_command ''find'' [''.'', ''-delete'']) = Allowed ''find''"
  by code_simp

end
