(* ===== verification/Handlers.thy ===== *)
theory Handlers
  imports Daemon_State Approval_Policy Run_Lifecycle Run_Metadata Patch_Apply Command_Runner
begin

text \<open>
  The handlers of \<open>src/codex-rs/deterministic-daemon/src/handlers.rs\<close> for one run: preparing,
  refreshing, replanning, the gated actions (patches, test runs, commands), approvals, preflights,
  the life cycle and the metadata operations. Each takes the decoded request and the daemon, and
  gives the outcome with the daemon it leaves behind, also when it fails.
\<close>

section \<open>Preparing, refreshing, replanning\<close>

definition handle_run_prepare ::
  "request_env \<Rightarrow> RunPrepareParams \<Rightarrow> daemon \<Rightarrow> RunPrepareResult handled" where
  "handle_run_prepare env p d =
     (let (result, state) = prepare (rx_uuid env 0) (rx_clock env 0) p;
          s = save_run state (store_of d);
          s = append_event (rx_uuid env 1) (rx_clock env 1) (run_id state)
                (''run_prepared'', ''Run prepared: '' @ user_goal state, None) s
      in (Inr (result, Some state), d\<lparr>store_of := s\<rparr>))"

definition handle_run_refresh ::
  "request_env \<Rightarrow> RunRefreshParams \<Rightarrow> daemon \<Rightarrow> RunRefreshResult handled" where
  "handle_run_refresh env p d =
     (let i = refreshP_run_id p in
      case get_run i (store_of d) of
        None \<Rightarrow> (Inl (unknown_run i), d)
      | Some state \<Rightarrow>
          (let pending = get_pending_approvals i (store_of d);
               (diff, w) = git_diff (rx_exec env)
                 \<lparr>gitDiffP_run_id = i, gitDiffP_paths = [], gitDiffP_format = Some ''summary''\<rparr>
                 (workspace_id state) (world_of d);
               live_diff = (case diff of Inl _ \<Rightarrow> None | Inr r \<Rightarrow> Some (gitDiffR_diff_summary r));
               result = refresh state pending live_diff;
               s = append_event (rx_uuid env 0) (rx_clock env 0) i
                     (''refresh_performed'', ''Refresh performed; status='' @ status state, None)
                     (store_of d)
           in (Inr (result, Some state), d\<lparr>store_of := s, world_of := w\<rparr>)))"

definition handle_run_replan ::
  "request_env \<Rightarrow> RunReplanParams \<Rightarrow> daemon \<Rightarrow> RunReplanResult handled" where
  "handle_run_replan env p d =
     update_run env (replanP_run_id p) (replan (rx_clock env 0) p)
       (\<lambda>_. (''replan_performed'', ''Replan performed: '' @ replanP_reason p, None)) d"


section \<open>Inspecting a workspace\<close>

definition handle_workspace_summary ::
  "request_env \<Rightarrow> WorkspaceSummaryParams \<Rightarrow> daemon \<Rightarrow> WorkspaceSummaryResult handled" where
  "handle_workspace_summary env p d =
     (case workspace_summary (rx_exec env) (rx_read_dir env) p (world_of d) of
        (Inl e, w) \<Rightarrow> (Inl e, d\<lparr>world_of := w\<rparr>)
      | (Inr result, w) \<Rightarrow> (Inr (result, None), d\<lparr>world_of := w\<rparr>))"

definition handle_file_read :: "FileReadParams \<Rightarrow> daemon \<Rightarrow> FileReadResult handled" where
  "handle_file_read p d = inspect_run (fileReadP_run_id p) (\<lambda>ws w. (file_read p ws w, w)) d"

definition handle_git_status ::
  "request_env \<Rightarrow> GitStatusParams \<Rightarrow> daemon \<Rightarrow> GitStatusResult handled" where
  "handle_git_status env p d =
     inspect_run (gitStatusP_run_id p) (git_status (rx_exec env)) d"

definition handle_code_search ::
  "request_env \<Rightarrow> CodeSearchParams \<Rightarrow> daemon \<Rightarrow> CodeSearchResult handled" where
  "handle_code_search env p d = inspect_run (codeSearchP_run_id p) (search (rx_exec env) p) d"

definition handle_git_diff ::
  "request_env \<Rightarrow> GitDiffParams \<Rightarrow> daemon \<Rightarrow> GitDiffResult handled" where
  "handle_git_diff env p d = inspect_run (gitDiffP_run_id p) (git_diff (rx_exec env) p) d"


section \<open>Gated actions\<close>

definition build_retryable_action ::
  "string \<Rightarrow> string \<Rightarrow> string \<Rightarrow> string option \<Rightarrow> string \<Rightarrow> string \<Rightarrow> RetryableAction" where
  "build_retryable_action now kind summary payload_json retryable_reason tool =
     \<lparr>ra_kind = kind, ra_summary = summary, ra_payload = payload_json,
      ra_retryable_reason = retryable_reason, ra_is_valid = True, ra_is_recommended = False,
      ra_invalidation_reason = None, ra_recommended_tool = tool, ra_created_at = now\<rparr>"

definition gate_action ::
  "request_env \<Rightarrow> string \<Rightarrow> string \<Rightarrow> string \<Rightarrow> string \<Rightarrow> string \<Rightarrow> string option \<Rightarrow> string \<Rightarrow> string
     \<Rightarrow> RunState \<Rightarrow> store \<Rightarrow> (PendingApproval \<times> RunState) result \<times> store" where
  "gate_action env i kind action risk rationale payload tool what state s =
     (let (approval, state) = create_approval (rx_clock env 0) (rx_uuid env 0) state action risk rationale;
          state = state\<lparr>retryable_action :=
                    Some (build_retryable_action (rx_clock env 1) kind action payload
                      (''Blocked by approval policy: '' @ rationale) tool)\<rparr>
      in case save_approval approval s of
           Inl e \<Rightarrow> (Inl e, s)
         | Inr s1 \<Rightarrow>
             (Inr (approval, state),
              append_event (rx_uuid env 1) (rx_clock env 2) i
                (''approval_created'', ''Approval required for '' @ what @ '': '' @ action, None)
                (save_run state s1)))"

definition handle_patch_apply ::
  "request_env \<Rightarrow> PatchApplyParams \<Rightarrow> daemon \<Rightarrow> PatchApplyResult handled" where
  "handle_patch_apply env p d =
     (let i = patchApplyP_run_id p in
      case get_run i (store_of d) of
        None \<Rightarrow> (Inl (unknown_run i), d)
      | Some state \<Rightarrow>
      (case evaluate_patch p (policy_profile state) of
        RequiresApproval action risk rationale \<Rightarrow>
          (case gate_action env i ''patch.apply'' action risk rationale (rx_patch_json env p)
                  ''apply_patch'' ''patch'' state (store_of d) of
             (Inl e, s) \<Rightarrow> (Inl e, d\<lparr>store_of := s\<rparr>)
           | (Inr (approval, state), s) \<Rightarrow>
               (Inr (\<lparr>patchApplyR_changed_files = [], patchApplyR_diff_stats = [],
                      patchApplyR_approval_required = Some approval\<rparr>, Some state),
                d\<lparr>store_of := s\<rparr>))
      | Proceed \<Rightarrow>
          (let s = save_run (state\<lparr>retryable_action := None\<rparr>) (store_of d) in
           case apply_patch p (workspace_id state) (world_of d) of
             (Inl e, w) \<Rightarrow> (Inl e, d\<lparr>store_of := s, world_of := w\<rparr>)
           | (Inr result, w) \<Rightarrow>
               (let s = append_event (rx_uuid env 0) (rx_clock env 0) i
                          (''patch_applied'',
                           ''Patch applied: '' @ show_nat (length (patchApplyR_changed_files result))
                             @ '' file(s) changed'', None) s
                in (Inr (result, get_run i s), d\<lparr>store_of := s, world_of := w\<rparr>)))))"

definition handle_tests_run ::
  "request_env \<Rightarrow> TestsRunParams \<Rightarrow> daemon \<Rightarrow> TestsRunResult handled" where
  "handle_tests_run env p d =
     (let i = testsRunP_run_id p in
      case get_run i (store_of d) of
        None \<Rightarrow> (Inl (unknown_run i), d)
      | Some state \<Rightarrow>
      (case evaluate_test_run p (policy_profile state) of
        RequiresApproval action risk rationale \<Rightarrow>
          (case gate_action env i ''tests.run'' action risk rationale (rx_tests_json env p)
                  ''run_tests'' ''tests'' state (store_of d) of
             (Inl e, s) \<Rightarrow> (Inl e, d\<lparr>store_of := s\<rparr>)
           | (Inr (approval, state), s) \<Rightarrow>
               (Inr (\<lparr>testsRunR_resolved_command = [], testsRunR_exit_code = -1,
                      testsRunR_stdout = [], testsRunR_stderr = [],
                      testsRunR_summary = ''Approval required: '' @ action,
                      testsRunR_approval_required = Some approval\<rparr>, Some state),
                d\<lparr>store_of := s\<rparr>))
      | Proceed \<Rightarrow>
          (let s = save_run (state\<lparr>retryable_action := None\<rparr>) (store_of d) in
           case tests_run (rx_exec env) p (workspace_id state) (world_of d) of
             (Inl e, w) \<Rightarrow> (Inl e, d\<lparr>store_of := s, world_of := w\<rparr>)
           | (Inr result, w) \<Rightarrow>
               (let s = append_event (rx_uuid env 0) (rx_clock env 0) i
                          (''tests_run'',
                           ''Tests run: scope='' @ testsRunP_scope p @ '' exit_code=''
                             @ show_int (testsRunR_exit_code result), None) s
                in (Inr (result, get_run i s), d\<lparr>store_of := s, world_of := w\<rparr>)))))"


definition handle_approval_resolve ::
  "request_env \<Rightarrow> ApprovalResolveParams \<Rightarrow> daemon \<Rightarrow> ApprovalResolveResult handled" where
  "handle_approval_resolve env p d =
     (let i = approvalResolveP_run_id p; a = approvalResolveP_approval_id p in
      case get_approval a (store_of d) of
        None \<Rightarrow> (Inl (Bail (''unknown approval: '' @ a)), d)
      | Some approval \<Rightarrow>
      if pa_run_id approval \<noteq> i
      then (Inl (Bail (''approval '' @ a @ '' does not belong to run '' @ i)), d)
      else case get_run i (store_of d) of
        None \<Rightarrow> (Inl (unknown_run i), d)
      | Some state \<Rightarrow>
      (case resolve_approval (rx_clock env 0) a (approvalResolveP_decision p)
              (approvalResolveP_reason p) (store_of d) of
        Inl e \<Rightarrow> (Inl e, d)
      | Inr s \<Rightarrow>
      (let remaining = get_pending_approvals i s in
       case resolve (rx_clock env 1) p state (length remaining) of
        Inl e \<Rightarrow> (Inl e, d\<lparr>store_of := s\<rparr>)
      | Inr (result, state) \<Rightarrow>
          (Inr (result, Some state),
           d\<lparr>store_of := append_event (rx_uuid env 0) (rx_clock env 2) i
                (''approval_resolved'',
                 ''Approval '' @ a @ '' resolved: decision='' @ approvalResolveP_decision p, None)
                (save_run state s)\<rparr>))))"


section \<open>Preflights\<close>

fun map_policy_decision :: "PolicyDecision \<Rightarrow> RunPolicy \<Rightarrow> PreflightResult" where
  "map_policy_decision Proceed policy =
     \<lparr>pf_decision = PreflightProceed, pf_action_summary = None, pf_risk_reason = None,
      pf_policy_rationale = None, pf_effective_policy = policy\<rparr>"
| "map_policy_decision (RequiresApproval action risk rationale) policy =
     \<lparr>pf_decision = PreflightRequiresApproval, pf_action_summary = Some action,
      pf_risk_reason = Some risk, pf_policy_rationale = Some rationale,
      pf_effective_policy = policy\<rparr>"

definition handle_patch_preflight :: "PatchPreflightParams \<Rightarrow> daemon \<Rightarrow> PreflightResult handled" where
  "handle_patch_preflight p d =
     (let i = patchPreflightP_run_id p in
      case get_run i (store_of d) of
        None \<Rightarrow> (Inl (unknown_run i), d)
      | Some state \<Rightarrow>
          (let apply_params = \<lparr>patchApplyP_run_id = i, patchApplyP_edits = patchPreflightP_edits p\<rparr>
           in (Inr (map_policy_decision (evaluate_patch apply_params (policy_profile state))
                      (policy_profile state), None), d)))"

definition handle_tests_preflight :: "TestsPreflightParams \<Rightarrow> daemon \<Rightarrow> PreflightResult handled" where
  "handle_tests_preflight p d =
     (let i = testsPreflightP_run_id p in
      case get_run i (store_of d) of
        None \<Rightarrow> (Inl (unknown_run i), d)
      | Some state \<Rightarrow>
          (let run_params =
                 \<lparr>testsRunP_run_id = i, testsRunP_scope = testsPreflightP_scope p,
                  testsRunP_target = testsPreflightP_target p,
                  testsRunP_reason = unwrap_or [] (testsPreflightP_reason p)\<rparr>
           in (Inr (map_policy_decision (evaluate_test_run run_params (policy_profile state))
                      (policy_profile state), None), d)))"


section \<open>Life cycle\<close>

definition dq :: "string \<Rightarrow> string" where
  "dq s = [CHR 0x22] @ s @ [CHR 0x22]"

definition handle_run_finalize ::
  "request_env \<Rightarrow> RunFinalizeParams \<Rightarrow> daemon \<Rightarrow> RunFinalizeResult handled" where
  "handle_run_finalize env p d =
     update_run env (finalizeP_run_id p) (finalize (rx_clock env 0) p)
       (\<lambda>_. (''run_finalized'',
              ''Run finalized: outcome_kind='' @ finalizeP_outcome_kind p @ '', summary=''
                @ finalizeP_summary p, finalizeP_reason p)) d"

definition handle_run_reopen ::
  "request_env \<Rightarrow> RunReopenParams \<Rightarrow> daemon \<Rightarrow> RunReopenResult handled" where
  "handle_run_reopen env p d =
     update_run env (reopenP_run_id p) (reopen (rx_clock env 0) p)
       (\<lambda>result.
          (''run_reopened'',
           ''Run reopened from '' @ quoted (reopenR_reopened_from_outcome_kind result)
             @ '': reason='' @ reopenP_reason p,
           Some ([CHR 0x7B] @ dq ''reopened_from'' @ '':'' @ dq (reopenR_reopened_from_outcome_kind result)
             @ '','' @ dq ''reopen_count'' @ '':'' @ show_nat (unat (reopenR_reopen_count result))
             @ [CHR 0x7D]))) d"

definition handle_run_supersede ::
  "request_env \<Rightarrow> RunSupersedeParams \<Rightarrow> daemon \<Rightarrow> RunSupersedeResult handled" where
  "handle_run_supersede env p d =
     (let i = supersedeP_run_id p in
      case get_run i (store_of d) of
        None \<Rightarrow> (Inl (unknown_run i), d)
      | Some original \<Rightarrow>
          (let j = make_successor_run_id (rx_millis env) i in
           case supersede (rx_clock env 0) p original j of
             Inl e \<Rightarrow> (Inl e, d)
           | Inr (result, original, successor) \<Rightarrow>
               (let s = save_run successor (save_run original (store_of d));
                    s = append_event (rx_uuid env 0) (rx_clock env 1) i
                          (''run_superseded'',
                           ''Run superseded by '' @ quoted j @ '': reason='' @ supersedeP_reason p,
                           Some ([CHR 0x7B] @ dq ''superseded_by'' @ '':'' @ dq j @ '',''
                             @ dq ''reason'' @ '':'' @ dq (supersedeP_reason p) @ [CHR 0x7D])) s;
                    s = append_event (rx_uuid env 1) (rx_clock env 2) j
                          (''run_created_from_supersession'',
                           ''Successor run created, supersedes '' @ quoted i @ '': reason=''
                             @ supersedeP_reason p,
                           Some ([CHR 0x7B] @ dq ''supersedes'' @ '':'' @ dq i @ '',''
                             @ dq ''reason'' @ '':'' @ dq (supersedeP_reason p) @ [CHR 0x7D])) s
                in (Inr (result, Some successor), d\<lparr>store_of := s\<rparr>))))"

definition handle_run_archive ::
  "request_env \<Rightarrow> RunArchiveParams \<Rightarrow> daemon \<Rightarrow> RunArchiveResult handled" where
  "handle_run_archive env p d =
     update_run env (archiveP_run_id p) (archive (rx_clock env 0) p)
       (\<lambda>_. (''run_archived'', ''Run archived: reason='' @ archiveP_reason p,
              Some (rx_json env (JObj [(''reason'', JStr (archiveP_reason p))])))) d"

definition handle_run_unarchive ::
  "request_env \<Rightarrow> RunUnarchiveParams \<Rightarrow> daemon \<Rightarrow> RunUnarchiveResult handled" where
  "handle_run_unarchive env p d =
     update_run env (unarchiveP_run_id p) (unarchive (rx_clock env 0) p)
       (\<lambda>_. (''run_unarchived'', ''Run unarchived: reason='' @ unarchiveP_reason p,
              Some (rx_json env (JObj [(''reason'', JStr (unarchiveP_reason p))])))) d"


section \<open>Metadata\<close>

definition handle_run_annotate ::
  "request_env \<Rightarrow> RunAnnotateParams \<Rightarrow> daemon \<Rightarrow> RunAnnotateResult handled" where
  "handle_run_annotate env p d =
     update_run env (annotateP_run_id p) (annotate (rx_clock env 0) p)
       (\<lambda>result.
          let labels = JArr (map JStr (ann_labels (annotateR_annotation result)));
              note_updated = (is_some (ann_operator_note (annotateR_annotation result))
                \<or> annotateP_operator_note p = Some [])
          in (''run_annotated'', ''Run annotated: labels='' @ rx_json env labels,
              Some (rx_json env (JObj [(''labels'', labels), (''note_updated'', JBool note_updated)])))) d"

definition handle_run_pin ::
  "request_env \<Rightarrow> RunPinParams \<Rightarrow> daemon \<Rightarrow> RunPinResult handled" where
  "handle_run_pin env p d =
     update_run env (pinP_run_id p) (pin (rx_clock env 0) p)
       (\<lambda>result. (''run_pinned'', ''Run pinned: '' @ pinR_reason result,
          Some (rx_json env (JObj [(''reason'', JStr (pinR_reason result)),
                                   (''pinned_at'', JStr (pinR_pinned_at result))])))) d"

definition handle_run_unpin ::
  "request_env \<Rightarrow> RunUnpinParams \<Rightarrow> daemon \<Rightarrow> RunUnpinResult handled" where
  "handle_run_unpin env p d =
     update_run env (unpinP_run_id p) (unpin (rx_clock env 0) p)
       (\<lambda>_. (''run_unpinned'', ''Run unpinned: '' @ unpinP_reason p,
          Some (rx_json env (JObj [(''reason'', JStr (unpinP_reason p))])))) d"

definition handle_run_snooze ::
  "request_env \<Rightarrow> RunSnoozeParams \<Rightarrow> daemon \<Rightarrow> RunSnoozeResult handled" where
  "handle_run_snooze env p d =
     update_run env (snoozeP_run_id p) (snooze (rx_clock env 0) p)
       (\<lambda>result. (''run_snoozed'', ''Run snoozed: '' @ snoozeR_reason result,
          Some (rx_json env (JObj [(''reason'', JStr (snoozeR_reason result)),
                                   (''snoozed_at'', JStr (snoozeR_snoozed_at result))])))) d"

definition handle_run_unsnooze ::
  "request_env \<Rightarrow> RunUnsnoozeParams \<Rightarrow> daemon \<Rightarrow> RunUnsnoozeResult handled" where
  "handle_run_unsnooze env p d =
     update_run env (unsnoozeP_run_id p) (unsnooze (rx_clock env 0) p)
       (\<lambda>_. (''run_unsnoozed'', ''Run unsnoozed: '' @ unsnoozeP_reason p,
          Some (rx_json env (JObj [(''reason'', JStr (unsnoozeP_reason p))])))) d"

definition handle_run_set_priority ::
  "request_env \<Rightarrow> RunSetPriorityParams \<Rightarrow> daemon \<Rightarrow> RunSetPriorityResult handled" where
  "handle_run_set_priority env p d =
     update_run env (setPriorityP_run_id p) (set_priority (rx_clock env 0) p)
       (\<lambda>result.
          (''run_priority_set'',
           ''Run priority set: '' @ priority_as_str (setPriorityR_previous_priority result) @ '' ''
             @ arrow @ '' '' @ priority_as_str (setPriorityR_priority result) @ '' (''
             @ setPriorityR_reason result @ '')'',
           Some (rx_json env (JObj
             [(''previous_priority'', JStr (priority_as_str (setPriorityR_previous_priority result))),
              (''priority'', JStr (priority_as_str (setPriorityR_priority result))),
              (''reason'', JStr (setPriorityR_reason result)),
              (''set_at'', JStr (setPriorityR_set_at result))])))) d"


definition json_opt :: "string option \<Rightarrow> jval" where
  "json_opt x = (case x of None \<Rightarrow> JNull | Some s \<Rightarrow> JStr s)"

definition handle_run_assign_owner ::
  "request_env \<Rightarrow> RunAssignOwnerParams \<Rightarrow> daemon \<Rightarrow> RunAssignOwnerResult handled" where
  "handle_run_assign_owner env p d =
     update_run env (assignOwnerP_run_id p) (assign_owner (rx_clock env 0) p)
       (\<lambda>result. (''run_owner_assigned'', assignOwnerR_message result,
          Some (rx_json env (JObj
            [(''previous_assignee'', json_opt (assignOwnerR_previous_assignee result)),
             (''assignee'', json_opt (assignOwnerR_assignee result)),
             (''ownership_note_set'', JBool (is_some (assignOwnerR_ownership_note result)))])))) d"

definition handle_run_set_due_date ::
  "request_env \<Rightarrow> RunSetDueDateParams \<Rightarrow> daemon \<Rightarrow> RunSetDueDateResult handled" where
  "handle_run_set_due_date env p d =
     update_run env (setDueDateP_run_id p) (set_due_date (rx_clock env 0) p)
       (\<lambda>result. (''run_due_date_set'', setDueDateR_message result,
          Some (rx_json env (JObj
            [(''previous_due_date'', json_opt (setDueDateR_previous_due_date result)),
             (''due_date'', json_opt (setDueDateR_due_date result)),
             (''updated_at'', JStr (setDueDateR_updated_at result))])))) d"

definition handle_run_set_dependencies ::
  "request_env \<Rightarrow> RunSetDependenciesParams \<Rightarrow> daemon \<Rightarrow> RunSetDependenciesResult handled" where
  "handle_run_set_dependencies env p d =
     (let known_ids = map sum_run_id (list_runs all_runs_query (store_of d)) in
      update_run env (setDependenciesP_run_id p)
        (\<lambda>state. set_dependencies (rx_clock env 0) p state known_ids)
        (\<lambda>result. (''run_dependencies_set'', setDependenciesR_message result,
           Some (rx_json env (JObj
             [(''previous_blocked_by_run_ids'',
               JArr (map JStr (setDependenciesR_previous_blocked_by_run_ids result))),
              (''blocked_by_run_ids'', JArr (map JStr (setDependenciesR_blocked_by_run_ids result))),
              (''updated_at'', JStr (setDependenciesR_updated_at result))])))) d)"

definition handle_run_set_effort ::
  "request_env \<Rightarrow> RunSetEffortParams \<Rightarrow> daemon \<Rightarrow> RunSetEffortResult handled" where
  "handle_run_set_effort env p d =
     update_run env (setEffortP_run_id p) (\<lambda>state. Inr (set_effort (rx_clock env 0) p state))
       (\<lambda>result. (''run_effort_set'', setEffortR_message result,
          Some (rx_json env (JObj
            [(''previous_effort'', json_opt (map_option effort_as_str (setEffortR_previous_effort result))),
             (''effort'', json_opt (map_option effort_as_str (setEffortR_effort result))),
             (''updated_at'', JStr (setEffortR_updated_at result))])))) d"


section \<open>run.command\<close>

text \<open>
  A child process that does not end in time is reported as timed out (a kill signal is sent to it);
  an outcome of the parameter \<open>rx_child\<close> says which of these happened.
\<close>

fun wait_with_timeout :: "child_outcome \<Rightarrow> string + proc_output" where
  "wait_with_timeout (Exited out) = Inr out"
| "wait_with_timeout (WaitFailure e) = Inl (''wait failed: '' @ e)"
| "wait_with_timeout TimedOut = Inl ''timed out''"
| "wait_with_timeout ChannelClosed = Inl ''channel error''"
| "wait_with_timeout (SpawnFailure e) = Inl e"

definition denied_result :: "CommandRunParams \<Rightarrow> string \<Rightarrow> CommandRunResult" where
  "denied_result p reason =
     \<lparr>commandRunR_run_id = commandRunP_run_id p, commandRunR_command = commandRunP_command p,
      commandRunR_stdout = [], commandRunR_stderr = [], commandRunR_exit_code = -1,
      commandRunR_duration_ms = 0, commandRunR_allowed = False,
      commandRunR_denial_reason = Some reason\<rparr>"

definition finished_result :: "CommandRunParams \<Rightarrow> nat \<Rightarrow> string + proc_output \<Rightarrow> CommandRunResult" where
  "finished_result p ms r =
     (case r of
        Inr out \<Rightarrow>
          \<lparr>commandRunR_run_id = commandRunP_run_id p, commandRunR_command = commandRunP_command p,
           commandRunR_stdout = po_stdout out, commandRunR_stderr = po_stderr out,
           commandRunR_exit_code = unwrap_or (-1) (po_code out), commandRunR_duration_ms = ms,
           commandRunR_allowed = True, commandRunR_denial_reason = None\<rparr>
      | Inl msg \<Rightarrow>
          \<lparr>commandRunR_run_id = commandRunP_run_id p, commandRunR_command = commandRunP_command p,
           commandRunR_stdout = [], commandRunR_stderr = ''Command failed: '' @ msg,
           commandRunR_exit_code = -1, commandRunR_duration_ms = ms,
           commandRunR_allowed = True, commandRunR_denial_reason = Some msg\<rparr>)"

definition handle_command_run ::
  "request_env \<Rightarrow> CommandRunParams \<Rightarrow> daemon \<Rightarrow> CommandRunResult handled" where
  "handle_command_run env p d =
     (let i = commandRunP_run_id p in
      case validate_command p of
        Denied reason \<Rightarrow>
          (Inr (denied_result p reason, None),
           d\<lparr>store_of := append_event (rx_uuid env 0) (rx_clock env 0) i
                (''run_command_denied'', reason,
                 Some (rx_json env (JObj [(''command'', JStr (commandRunP_command p)),
                                          (''args'', JArr (map JStr (commandRunP_args p)))])))
                (store_of d)\<rparr>)
      | Allowed _ \<Rightarrow>
      (case get_run i (store_of d) of
        None \<Rightarrow> (Inl (unknown_run i), d)
      | Some state \<Rightarrow>
      (let workdir = (case commandRunP_workdir p of
                        Some sub \<Rightarrow> path_join (workspace_id state) sub
                      | None \<Rightarrow> workspace_id state);
           (outcome, w) = rx_child env
             (make_command (commandRunP_command p) (commandRunP_args p) workdir)
             (effective_timeout p) (world_of d)
       in case outcome of
            SpawnFailure e \<Rightarrow> (Inl (Bail (''failed to spawn command: '' @ e)), d\<lparr>world_of := w\<rparr>)
          | _ \<Rightarrow>
              (let result = finished_result p (rx_elapsed_ms env) (wait_with_timeout outcome);
                   kind = (if commandRunR_allowed result then ''run_command_executed''
                           else ''run_command_denied'')
               in (Inr (result, None),
                   d\<lparr>store_of := append_event (rx_uuid env 0) (rx_clock env 0) i
                        (kind, commandRunR_command result, Some (rx_command_json env result))
                        (store_of d),
                     world_of := w\<rparr>)))))"

end
