(* ===== verification/Queue_Views.thy ===== *)
theory Queue_Views
  imports Daemon_State
begin

text \<open>
  The saved queue views of \<open>src/codex-rs/deterministic-daemon/src/handlers.rs\<close>: a process-wide hash
  map from view identifiers to views, here an association list in the order the map would be
  iterated. The invariant is that no two views have the same name up to case.
\<close>

type_synonym views = "(string \<times> QueueView) list"

definition put_view :: "QueueView \<Rightarrow> views \<Rightarrow> views" where
  "put_view v vs = filter (\<lambda>(i, _). i \<noteq> qv_view_id v) vs @ [(qv_view_id v, v)]"

definition get_view :: "string \<Rightarrow> views \<Rightarrow> QueueView option" where
  "get_view i vs = map_of vs i"

definition handle_queue_view_create ::
  "request_env \<Rightarrow> CreateQueueViewParams \<Rightarrow> daemon \<Rightarrow> CreateQueueViewResult handled" where
  "handle_queue_view_create env p d =
     (let name = trim (createQueueViewP_name p); views = queue_views d in
      if name = []
      then (Inl (Bail ''view name cannot be empty. Provide a non-empty name for the saved view.''), d)
      else case find (\<lambda>v. rx_lower env (qv_name v) = rx_lower env name) (map snd views) of
        Some v \<Rightarrow>
          (Inl (Bail (''a view named '' @ quoted (qv_name v)
             @ '' already exists. Choose a different name, or use update_queue_view to modify the existing view.'')), d)
      | None \<Rightarrow>
          (let now = rx_clock env 0;
               view = \<lparr>qv_view_id = ''qv-'' @ rx_uuid env 0, qv_name = name,
                       qv_description = createQueueViewP_description p,
                       qv_filters = createQueueViewP_filters p, qv_sort = createQueueViewP_sort p,
                       qv_limit = createQueueViewP_limit p, qv_created_at = now, qv_updated_at = now\<rparr>
           in (Inr (\<lparr>createQueueViewR_view = view\<rparr>, None), d\<lparr>queue_views := put_view view views\<rparr>)))"

definition rename_error :: "(string \<Rightarrow> string) \<Rightarrow> UpdateQueueViewParams \<Rightarrow> views \<Rightarrow> error option" where
  "rename_error lower p views =
     (case updateQueueViewP_name p of
        None \<Rightarrow> None
      | Some name \<Rightarrow>
          (let trimmed = trim name in
           if trimmed = []
           then Some (Bail ''view name cannot be empty. Provide a non-empty name for the saved view.'')
           else map_option (\<lambda>v. Bail (''a view named '' @ quoted (qv_name v)
                  @ '' already exists. Choose a different name.''))
                (find (\<lambda>v. qv_view_id v \<noteq> updateQueueViewP_view_id p
                         \<and> lower (qv_name v) = lower trimmed) (map snd views))))"

definition updated_view :: "string \<Rightarrow> UpdateQueueViewParams \<Rightarrow> QueueView \<Rightarrow> QueueView" where
  "updated_view now p v =
     \<lparr>qv_view_id = qv_view_id v,
      qv_name = (case updateQueueViewP_name p of Some n \<Rightarrow> trim n | None \<Rightarrow> qv_name v),
      qv_description = (case updateQueueViewP_description p of Some x \<Rightarrow> x | None \<Rightarrow> qv_description v),
      qv_filters = unwrap_or (qv_filters v) (updateQueueViewP_filters p),
      qv_sort = unwrap_or (qv_sort v) (updateQueueViewP_sort p),
      qv_limit = (case updateQueueViewP_limit p of Some x \<Rightarrow> x | None \<Rightarrow> qv_limit v),
      qv_created_at = qv_created_at v, qv_updated_at = now\<rparr>"

definition handle_queue_view_update ::
  "request_env \<Rightarrow> UpdateQueueViewParams \<Rightarrow> daemon \<Rightarrow> UpdateQueueViewResult handled" where
  "handle_queue_view_update env p d =
     (let i = updateQueueViewP_view_id p; views = queue_views d in
      case get_view i views of
        None \<Rightarrow>
          (Inl (Bail (''view not found: '' @ i @ ''. Use list_queue_views to see available views.'')), d)
      | Some v \<Rightarrow>
          (case rename_error (rx_lower env) p views of
             Some e \<Rightarrow> (Inl e, d)
           | None \<Rightarrow>
               (let view = updated_view (rx_clock env 0) p v
                in (Inr (\<lparr>updateQueueViewR_view = view\<rparr>, None),
                    d\<lparr>queue_views := map (\<lambda>(j, x). if j = i then (j, view) else (j, x)) views\<rparr>))))"

definition handle_queue_view_delete ::
  "DeleteQueueViewParams \<Rightarrow> daemon \<Rightarrow> DeleteQueueViewResult handled" where
  "handle_queue_view_delete p d =
     (let i = deleteQueueViewP_view_id p in
      if get_view i (queue_views d) = None then (Inl (Bail (''view not found: '' @ i)), d)
      else (Inr (\<lparr>deleteQueueViewR_deleted_view_id = i\<rparr>, None),
            d\<lparr>queue_views := filter (\<lambda>(j, _). j \<noteq> i) (queue_views d)\<rparr>))"

definition handle_queue_view_get :: "GetQueueViewParams \<Rightarrow> daemon \<Rightarrow> QueueView handled" where
  "handle_queue_view_get p d =
     (case get_view (getQueueViewP_view_id p) (queue_views d) of
        None \<Rightarrow> (Inl (Bail (''view not found: '' @ getQueueViewP_view_id p)), d)
      | Some v \<Rightarrow> (Inr (v, None), d))"

definition handle_queue_view_list ::
  "request_env \<Rightarrow> ListQueueViewsParams \<Rightarrow> daemon \<Rightarrow> ListQueueViewsResult handled" where
  "handle_queue_view_list env p d =
     (let all = map snd (queue_views d);
          kept = (case listQueueViewsP_name_contains p of
                    None \<Rightarrow> all
                  | Some part \<Rightarrow>
                      filter (\<lambda>v. contains (rx_lower env (qv_name v)) (rx_lower env part)) all);
          sorted = sort_key qv_name kept
      in (Inr (\<lparr>listQueueViewsR_views = sorted, listQueueViewsR_count = length sorted\<rparr>, None), d))"

end
