(* ===== verification/Queue_Listing.thy ===== *)
theory Queue_Listing
  imports Daemon_State "HOL-Library.Option_ord"
begin

text \<open>
  The read-only queue handlers of \<open>src/codex-rs/deterministic-daemon/src/handlers.rs\<close>: listing runs
  with their filters and sorts, the view of one run, its history, and the queue overview. A Rust
  \<open>sort_by\<close> is stable and so is \<open>sort_key\<close>; a comparison that puts a missing value last is the order
  of the pair of a flag and the value.
\<close>

section \<open>runs.list\<close>

definition flag :: "bool option \<Rightarrow> bool" where
  "flag b = unwrap_or False b"

definition apply_if :: "bool \<Rightarrow> ('a \<Rightarrow> 'a) \<Rightarrow> 'a \<Rightarrow> 'a" where
  "apply_if b f x = (if b then f x else x)"

definition keep_if :: "'b option \<Rightarrow> ('b \<Rightarrow> 'a \<Rightarrow> bool) \<Rightarrow> 'a list \<Rightarrow> 'a list" where
  "keep_if x P rs = (case x of None \<Rightarrow> rs | Some v \<Rightarrow> filter (P v) rs)"

definition missing_last :: "'a::linorder option \<Rightarrow> bool \<times> 'a option" where
  "missing_last x = (x = None, x)"

definition list_query :: "RunsListParams \<Rightarrow> ListQuery" where
  "list_query p =
     \<lparr>lq_limit = min (unwrap_or 20 (runsListP_limit p)) 100, lq_workspace = runsListP_workspace_id p,
      lq_status = runsListP_status p, lq_include_archived = flag (runsListP_include_archived p),
      lq_archived_only = flag (runsListP_archived_only p),
      lq_label = map_option (\<lambda>l. to_lowercase (trim l)) (runsListP_label p),
      lq_pinned_only = flag (runsListP_pinned_only p),
      lq_include_snoozed = flag (runsListP_include_snoozed p),
      lq_snoozed_only = flag (runsListP_snoozed_only p)\<rparr>"

definition blocking_fields :: "nat \<Rightarrow> RunSummary \<Rightarrow> RunSummary" where
  "blocking_fields n r =
     r\<lparr>sum_is_blocking := Some (n > 0), sum_blocking_run_count := Some n,
       sum_blocking_reason := (if n > 0 then Some (''blocking '' @ show_nat n @ '' run(s)'') else None)\<rparr>"

definition staleness_fields :: "date_parser \<Rightarrow> string \<Rightarrow> RunSummary \<Rightarrow> RunSummary" where
  "staleness_fields parse_date reference_date r =
     (let st = derive_staleness parse_date (sum_updated_at r) reference_date in
      r\<lparr>sum_age_days := Some (word_of_nat (stal_age_days st)), sum_is_stale := Some (stal_is_stale st),
        sum_staleness_reason := Some (stal_reason st), sum_staleness_bucket := Some (stal_bucket st)\<rparr>)"

definition triage_fields :: "date_parser \<Rightarrow> string \<Rightarrow> RunSummary \<Rightarrow> RunSummary" where
  "triage_fields parse_date reference_date r =
     (let t = derive_triage parse_date (sum_status r) (flag (sum_is_archived r))
                (flag (sum_is_snoozed r)) (flag (sum_is_blocked r)) (priority_as_str (sum_priority r))
                (sum_due_date r) (sum_staleness_bucket r) reference_date
      in r\<lparr>sum_triage_bucket := Some (tri_bucket t), sum_triage_reason := Some (tri_reason t)\<rparr>)"

definition filter_and_sort_stored ::
  "RunsListParams \<Rightarrow> store \<Rightarrow> RunSummary list \<Rightarrow> RunSummary list" where
  "filter_and_sort_stored p s rs =
     (let rs = keep_if (runsListP_priority_filter p) (\<lambda>x r. sum_priority r = x) rs;
          rs = apply_if (flag (runsListP_sort_by_priority p))
                 (sort_key_desc (\<lambda>r. priority_sort_key (sum_priority r))) rs;
          rs = keep_if (runsListP_assignee p) (\<lambda>x r. sum_assignee r = Some x) rs;
          rs = keep_if (runsListP_due_on_or_before p)
                 (\<lambda>x r. case sum_due_date r of None \<Rightarrow> False | Some due \<Rightarrow> due \<le> x) rs;
          rs = apply_if (flag (runsListP_sort_by_due_date p))
                 (sort_key (\<lambda>r. missing_last (sum_due_date r))) rs;
          rs = apply_if (flag (runsListP_blocked_only p)) (filter (\<lambda>r. flag (sum_is_blocked r))) rs
      in keep_if (runsListP_blocked_by_run_id p)
           (\<lambda>x r. flag (sum_is_blocked r) \<and>
              (case get_run (sum_run_id r) s of
                 None \<Rightarrow> False | Some state \<Rightarrow> x \<in> set (blocked_by_run_ids state))) rs)"

definition filter_and_sort_derived ::
  "RunsListParams \<Rightarrow> date_parser \<Rightarrow> string \<Rightarrow> RunSummary list \<Rightarrow> RunSummary list" where
  "filter_and_sort_derived p parse_date reference_date rs =
     (let rs = apply_if (flag (runsListP_blocking_only p)) (filter (\<lambda>r. flag (sum_is_blocking r))) rs;
          rs = keep_if (runsListP_blocking_run_count_at_least p)
                 (\<lambda>n r. unwrap_or 0 (sum_blocking_run_count r) \<ge> n) rs;
          rs = keep_if (runsListP_effort_filter p) (\<lambda>x r. sum_effort r = Some x) rs;
          rs = apply_if (flag (runsListP_sort_by_effort p)) (sort_key (\<lambda>r. missing_last (sum_effort r))) rs;
          rs = map (triage_fields parse_date reference_date)
                 (map (staleness_fields parse_date reference_date) rs);
          rs = keep_if (runsListP_triage_bucket_filter p) (\<lambda>x r. sum_triage_bucket r = Some x) rs;
          rs = apply_if (flag (runsListP_stale_only p)) (filter (\<lambda>r. flag (sum_is_stale r))) rs;
          rs = apply_if (flag (runsListP_fresh_only p))
                 (filter (\<lambda>r. \<not> unwrap_or True (sum_is_stale r))) rs;
          rs = apply_if (flag (runsListP_sort_by_triage p))
                 (sort_key (\<lambda>r. unwrap_or 999 (map_option triage_sort_key (sum_triage_bucket r)))) rs
      in apply_if (flag (runsListP_sort_by_staleness p))
           (sort_key_desc (\<lambda>r. map_option unat (sum_age_days r))) rs)"

definition handle_runs_list :: "request_env \<Rightarrow> RunsListParams \<Rightarrow> daemon \<Rightarrow> RunsListResult handled" where
  "handle_runs_list env p d =
     (let s = store_of d;
          rs = filter_and_sort_stored p s (list_runs (list_query p) s);
          rs = map (\<lambda>r. blocking_fields (blocker_impact s (sum_run_id r)) r) rs;
          rs = filter_and_sort_derived p (rx_parse_date env) (rx_today env) rs
      in (Inr (\<lparr>runsListR_runs = rs, runsListR_count = length rs\<rparr>, None), d))"


section \<open>run.get and run.history\<close>

definition handle_run_get :: "request_env \<Rightarrow> RunGetParams \<Rightarrow> daemon \<Rightarrow> RunGetResult handled" where
  "handle_run_get env p d =
     (let i = getP_run_id p in
      case get_run i (store_of d) of
        None \<Rightarrow> (Inl (unknown_run i), d)
      | Some r \<Rightarrow>
          (let pending = get_pending_approvals i (store_of d);
               n = blocker_impact (store_of d) i;
               staleness = derive_staleness (rx_parse_date env) (updated_at r) (rx_today env);
               triage = derive_triage (rx_parse_date env) (status r) (is_some (archive_metadata r))
                          (is_some (snooze_metadata r)) (blocked_by_run_ids r \<noteq> [])
                          (priority_as_str (priority r)) (due_date r) (Some (stal_bucket staleness))
                          (rx_today env);
               result =
                 \<lparr>getR_run_state = r, getR_pending_approvals = pending,
                  getR_retryable_action = retryable_action r,
                  getR_latest_diff_summary = latest_diff_summary r,
                  getR_latest_test_result = latest_test_result r,
                  getR_recommended_next_action = recommended_next_action r,
                  getR_recommended_tool = recommended_tool r, getR_warnings = warnings r,
                  getR_effective_policy = policy_profile r,
                  getR_finalized_outcome = finalized_outcome r,
                  getR_reopen_metadata = reopen_metadata r,
                  getR_supersedes_run_id = supersedes_run_id r,
                  getR_superseded_by_run_id = superseded_by_run_id r,
                  getR_supersession_reason = supersession_reason r,
                  getR_superseded_at = superseded_at r, getR_archive_metadata = archive_metadata r,
                  getR_unarchive_metadata = unarchive_metadata r, getR_annotation = annotation r,
                  getR_pin_metadata = pin_metadata r, getR_priority = priority r,
                  getR_due_date = due_date r, getR_blocked_by_run_ids = blocked_by_run_ids r,
                  getR_is_blocking = Some (n > 0), getR_blocking_run_count = Some n,
                  getR_blocking_reason =
                    (if n > 0 then Some (''blocking '' @ show_nat n @ '' run(s)'') else None),
                  getR_effort = effort r, getR_triage_bucket = Some (tri_bucket triage),
                  getR_triage_reason = Some (tri_reason triage)\<rparr>
           in (Inr (result, Some r), d)))"

definition handle_run_history :: "RunHistoryParams \<Rightarrow> daemon \<Rightarrow> RunHistoryResult handled" where
  "handle_run_history p d =
     (let i = historyP_run_id p in
      case get_run i (store_of d) of
        None \<Rightarrow> (Inl (unknown_run i), d)
      | Some _ \<Rightarrow>
          (let limit = min (unwrap_or 50 (historyP_limit p)) 200;
               entries = get_audit_entries i limit (store_of d)
           in (Inr (\<lparr>historyR_run_id = i, historyR_entries = entries,
                     historyR_count = length entries\<rparr>, None), d)))"



section \<open>runs.overview\<close>

definition overview_query :: "RunsQueueOverviewParams \<Rightarrow> ListQuery" where
  "overview_query p =
     \<lparr>lq_limit = 10000, lq_workspace = runsQueueOverviewP_workspace_id p, lq_status = None,
      lq_include_archived = flag (runsQueueOverviewP_include_archived p), lq_archived_only = False,
      lq_label = None, lq_pinned_only = False,
      lq_include_snoozed = flag (runsQueueOverviewP_include_snoozed p), lq_snoozed_only = False\<rparr>"

definition readiness_of :: "string option \<Rightarrow> RunSummary \<Rightarrow> RunReadinessSummary" where
  "readiness_of today r =
     derive_readiness (sum_status r) (flag (sum_is_archived r)) (flag (sum_is_snoozed r))
       (unwrap_or 0 (sum_blocked_by_count r)) (sum_priority r) (sum_due_date r)
       (flag (sum_is_pinned r)) today"

definition is_overdue :: "string option \<Rightarrow> RunSummary \<Rightarrow> bool" where
  "is_overdue today r =
     (case today of
        None \<Rightarrow> False
      | Some t \<Rightarrow> (case sum_due_date r of None \<Rightarrow> False | Some due \<Rightarrow> due < t))"

definition status_prefix :: "string \<Rightarrow> string" where
  "status_prefix st =
     (if starts_with st ''finalized:'' then ''finalized''
      else if starts_with st ''awaiting_approval:'' then ''awaiting_approval''
      else if starts_with st ''pending:'' then ''pending''
      else st)"

definition count_where :: "('a \<Rightarrow> bool) \<Rightarrow> 'a list \<Rightarrow> nat" where
  "count_where P xs = length (filter P xs)"

definition count_by :: "('a \<Rightarrow> string) \<Rightarrow> 'a list \<Rightarrow> string \<rightharpoonup> nat" where
  "count_by f xs k = (let n = count_list (map f xs) k in if n = 0 then None else Some n)"

definition handle_runs_queue_overview ::
  "RunsQueueOverviewParams \<Rightarrow> daemon \<Rightarrow> RunQueueOverview handled" where
  "handle_runs_queue_overview p d =
     (let today = runsQueueOverviewP_today p;
          rs = filter (\<lambda>r. \<not> (flag (sum_is_snoozed r) \<and> \<not> flag (runsQueueOverviewP_include_snoozed p)))
                 (list_runs (overview_query p) (store_of d));
          by_priority = count_by (\<lambda>r. priority_as_str (sum_priority r)) rs;
          result =
            \<lparr>ov_total_visible = length rs,
             ov_ready_count = count_where (\<lambda>r. is_ready (readiness_of today r)) rs,
             ov_blocked_count = count_where (\<lambda>r. unwrap_or 0 (sum_blocked_by_count r) > 0) rs,
             ov_needs_attention_count = count_where (\<lambda>r. needs_attention (readiness_of today r)) rs,
             ov_pinned_count = count_where (\<lambda>r. flag (sum_is_pinned r)) rs,
             ov_snoozed_count = count_where (\<lambda>r. flag (sum_is_snoozed r)) rs,
             ov_overdue_count =
               (if is_some today then Some (count_where (is_overdue today) rs) else None),
             ov_archived_count =
               (if flag (runsQueueOverviewP_include_archived p) then Some 0 else None),
             ov_by_priority =
               \<lparr>pc_low = unwrap_or 0 (by_priority ''low''),
                pc_normal = unwrap_or 0 (by_priority ''normal''),
                pc_high = unwrap_or 0 (by_priority ''high''),
                pc_urgent = unwrap_or 0 (by_priority ''urgent'')\<rparr>,
             ov_by_assignee = count_by (\<lambda>r. unwrap_or ''unassigned'' (sum_assignee r)) rs,
             ov_by_status = count_by (\<lambda>r. status_prefix (sum_status r)) rs\<rparr>
      in (Inr (result, None), d))"

end
