(* ===== verification/Daemon.thy ===== *)
theory Daemon
  imports Protocol_Methods Handlers Queue_Views Queue_Listing
begin

text \<open>
  The daemon as a whole: \<open>dispatch\<close> of \<open>src/codex-rs/deterministic-daemon/src/handlers.rs\<close>, on requests
  whose parameters are decoded, and the \<open>/rpc\<close> endpoint of \<open>router.rs\<close> around it. The JSON decoder and
  encoder are serde's and are parameters, as are the texts of operating-system errors. A handler that
  panics gives no response.
\<close>

section \<open>Dispatch\<close>

datatype request =
    ReqRunPrepare RunPrepareParams
  | ReqRunRefresh RunRefreshParams
  | ReqRunReplan RunReplanParams
  | ReqWorkspaceSummary WorkspaceSummaryParams
  | ReqFileRead FileReadParams
  | ReqGitStatus GitStatusParams
  | ReqCodeSearch CodeSearchParams
  | ReqPatchApply PatchApplyParams
  | ReqTestsRun TestsRunParams
  | ReqGitDiff GitDiffParams
  | ReqApprovalResolve ApprovalResolveParams
  | ReqRunsList RunsListParams
  | ReqRunGet RunGetParams
  | ReqRunHistory RunHistoryParams
  | ReqPatchPreflight PatchPreflightParams
  | ReqTestsPreflight TestsPreflightParams
  | ReqRunFinalize RunFinalizeParams
  | ReqRunReopen RunReopenParams
  | ReqRunSupersede RunSupersedeParams
  | ReqRunArchive RunArchiveParams
  | ReqRunUnarchive RunUnarchiveParams
  | ReqRunAnnotate RunAnnotateParams
  | ReqRunPin RunPinParams
  | ReqRunUnpin RunUnpinParams
  | ReqRunSnooze RunSnoozeParams
  | ReqRunUnsnooze RunUnsnoozeParams
  | ReqRunSetPriority RunSetPriorityParams
  | ReqRunAssignOwner RunAssignOwnerParams
  | ReqRunSetDueDate RunSetDueDateParams
  | ReqRunSetDependencies RunSetDependenciesParams
  | ReqRunsQueueOverview RunsQueueOverviewParams
  | ReqRunSetEffort RunSetEffortParams
  | ReqCommandRun CommandRunParams
  | ReqQueueViewCreate CreateQueueViewParams
  | ReqQueueViewUpdate UpdateQueueViewParams
  | ReqQueueViewDelete DeleteQueueViewParams
  | ReqQueueViewGet GetQueueViewParams
  | ReqQueueViewList ListQueueViewsParams

datatype response =
    RespRunPrepare RunPrepareResult
  | RespRunRefresh RunRefreshResult
  | RespRunReplan RunReplanResult
  | RespWorkspaceSummary WorkspaceSummaryResult
  | RespFileRead FileReadResult
  | RespGitStatus GitStatusResult
  | RespCodeSearch CodeSearchResult
  | RespPatchApply PatchApplyResult
  | RespTestsRun TestsRunResult
  | RespGitDiff GitDiffResult
  | RespApprovalResolve ApprovalResolveResult
  | RespRunsList RunsListResult
  | RespRunGet RunGetResult
  | RespRunHistory RunHistoryResult
  | RespPatchPreflight PreflightResult
  | RespTestsPreflight PreflightResult
  | RespRunFinalize RunFinalizeResult
  | RespRunReopen RunReopenResult
  | RespRunSupersede RunSupersedeResult
  | RespRunArchive RunArchiveResult
  | RespRunUnarchive RunUnarchiveResult
  | RespRunAnnotate RunAnnotateResult
  | RespRunPin RunPinResult
  | RespRunUnpin RunUnpinResult
  | RespRunSnooze RunSnoozeResult
  | RespRunUnsnooze RunUnsnoozeResult
  | RespRunSetPriority RunSetPriorityResult
  | RespRunAssignOwner RunAssignOwnerResult
  | RespRunSetDueDate RunSetDueDateResult
  | RespRunSetDependencies RunSetDependenciesResult
  | RespRunsQueueOverview RunQueueOverview
  | RespRunSetEffort RunSetEffortResult
  | RespCommandRun CommandRunResult
  | RespQueueViewCreate CreateQueueViewResult
  | RespQueueViewUpdate UpdateQueueViewResult
  | RespQueueViewDelete DeleteQueueViewResult
  | RespQueueViewGet QueueView
  | RespQueueViewList ListQueueViewsResult

fun request_method :: "request \<Rightarrow> Method" where
  "request_method (ReqRunPrepare p) = RunPrepare"
| "request_method (ReqRunRefresh p) = RunRefresh"
| "request_method (ReqRunReplan p) = RunReplan"
| "request_method (ReqWorkspaceSummary p) = WorkspaceSummary"
| "request_method (ReqFileRead p) = FileRead"
| "request_method (ReqGitStatus p) = GitStatus"
| "request_method (ReqCodeSearch p) = CodeSearch"
| "request_method (ReqPatchApply p) = PatchApply"
| "request_method (ReqTestsRun p) = TestsRun"
| "request_method (ReqGitDiff p) = GitDiff"
| "request_method (ReqApprovalResolve p) = ApprovalResolve"
| "request_method (ReqRunsList p) = RunsList"
| "request_method (ReqRunGet p) = RunGet"
| "request_method (ReqRunHistory p) = RunHistory"
| "request_method (ReqPatchPreflight p) = PatchPreflight"
| "request_method (ReqTestsPreflight p) = TestsPreflight"
| "request_method (ReqRunFinalize p) = RunFinalize"
| "request_method (ReqRunReopen p) = RunReopen"
| "request_method (ReqRunSupersede p) = RunSupersede"
| "request_method (ReqRunArchive p) = RunArchive"
| "request_method (ReqRunUnarchive p) = RunUnarchive"
| "request_method (ReqRunAnnotate p) = RunAnnotate"
| "request_method (ReqRunPin p) = RunPin"
| "request_method (ReqRunUnpin p) = RunUnpin"
| "request_method (ReqRunSnooze p) = RunSnooze"
| "request_method (ReqRunUnsnooze p) = RunUnsnooze"
| "request_method (ReqRunSetPriority p) = RunSetPriority"
| "request_method (ReqRunAssignOwner p) = RunAssignOwner"
| "request_method (ReqRunSetDueDate p) = RunSetDueDate"
| "request_method (ReqRunSetDependencies p) = RunSetDependencies"
| "request_method (ReqRunsQueueOverview p) = RunsQueueOverview"
| "request_method (ReqRunSetEffort p) = RunSetEffort"
| "request_method (ReqCommandRun p) = CommandRun"
| "request_method (ReqQueueViewCreate p) = QueueViewCreate"
| "request_method (ReqQueueViewUpdate p) = QueueViewUpdate"
| "request_method (ReqQueueViewDelete p) = QueueViewDelete"
| "request_method (ReqQueueViewGet p) = QueueViewGet"
| "request_method (ReqQueueViewList p) = QueueViewList"

definition respond :: "('a \<Rightarrow> 'b) \<Rightarrow> 'a handled \<Rightarrow> 'b handled" where
  "respond f h = (case h of (Inl e, d) \<Rightarrow> (Inl e, d) | (Inr (r, st), d) \<Rightarrow> (Inr (f r, st), d))"

fun dispatch :: "request_env \<Rightarrow> request \<Rightarrow> daemon \<Rightarrow> response handled" where
  "dispatch env (ReqRunPrepare p) d = respond RespRunPrepare (handle_run_prepare env p d)"
| "dispatch env (ReqRunRefresh p) d = respond RespRunRefresh (handle_run_refresh env p d)"
| "dispatch env (ReqRunReplan p) d = respond RespRunReplan (handle_run_replan env p d)"
| "dispatch env (ReqWorkspaceSummary p) d = respond RespWorkspaceSummary (handle_workspace_summary env p d)"
| "dispatch env (ReqFileRead p) d = respond RespFileRead (handle_file_read p d)"
| "dispatch env (ReqGitStatus p) d = respond RespGitStatus (handle_git_status env p d)"
| "dispatch env (ReqCodeSearch p) d = respond RespCodeSearch (handle_code_search env p d)"
| "dispatch env (ReqPatchApply p) d = respond RespPatchApply (handle_patch_apply env p d)"
| "dispatch env (ReqTestsRun p) d = respond RespTestsRun (handle_tests_run env p d)"
| "dispatch env (ReqGitDiff p) d = respond RespGitDiff (handle_git_diff env p d)"
| "dispatch env (ReqApprovalResolve p) d = respond RespApprovalResolve (handle_approval_resolve env p d)"
| "dispatch env (ReqRunsList p) d = respond RespRunsList (handle_runs_list env p d)"
| "dispatch env (ReqRunGet p) d = respond RespRunGet (handle_run_get env p d)"
| "dispatch env (ReqRunHistory p) d = respond RespRunHistory (handle_run_history p d)"
| "dispatch env (ReqPatchPreflight p) d = respond RespPatchPreflight (handle_patch_preflight p d)"
| "dispatch env (ReqTestsPreflight p) d = respond RespTestsPreflight (handle_tests_preflight p d)"
| "dispatch env (ReqRunFinalize p) d = respond RespRunFinalize (handle_run_finalize env p d)"
| "dispatch env (ReqRunReopen p) d = respond RespRunReopen (handle_run_reopen env p d)"
| "dispatch env (ReqRunSupersede p) d = respond RespRunSupersede (handle_run_supersede env p d)"
| "dispatch env (ReqRunArchive p) d = respond RespRunArchive (handle_run_archive env p d)"
| "dispatch env (ReqRunUnarchive p) d = respond RespRunUnarchive (handle_run_unarchive env p d)"
| "dispatch env (ReqRunAnnotate p) d = respond RespRunAnnotate (handle_run_annotate env p d)"
| "dispatch env (ReqRunPin p) d = respond RespRunPin (handle_run_pin env p d)"
| "dispatch env (ReqRunUnpin p) d = respond RespRunUnpin (handle_run_unpin env p d)"
| "dispatch env (ReqRunSnooze p) d = respond RespRunSnooze (handle_run_snooze env p d)"
| "dispatch env (ReqRunUnsnooze p) d = respond RespRunUnsnooze (handle_run_unsnooze env p d)"
| "dispatch env (ReqRunSetPriority p) d = respond RespRunSetPriority (handle_run_set_priority env p d)"
| "dispatch env (ReqRunAssignOwner p) d = respond RespRunAssignOwner (handle_run_assign_owner env p d)"
| "dispatch env (ReqRunSetDueDate p) d = respond RespRunSetDueDate (handle_run_set_due_date env p d)"
| "dispatch env (ReqRunSetDependencies p) d = respond RespRunSetDependencies (handle_run_set_dependencies env p d)"
| "dispatch env (ReqRunsQueueOverview p) d = respond RespRunsQueueOverview (handle_runs_queue_overview p d)"
| "dispatch env (ReqRunSetEffort p) d = respond RespRunSetEffort (handle_run_set_effort env p d)"
| "dispatch env (ReqCommandRun p) d = respond RespCommandRun (handle_command_run env p d)"
| "dispatch env (ReqQueueViewCreate p) d = respond RespQueueViewCreate (handle_queue_view_create env p d)"
| "dispatch env (ReqQueueViewUpdate p) d = respond RespQueueViewUpdate (handle_queue_view_update env p d)"
| "dispatch env (ReqQueueViewDelete p) d = respond RespQueueViewDelete (handle_queue_view_delete p d)"
| "dispatch env (ReqQueueViewGet p) d = respond RespQueueViewGet (handle_queue_view_get p d)"
| "dispatch env (ReqQueueViewList p) d = respond RespQueueViewList (handle_queue_view_list env p d)"


section \<open>The endpoint\<close>

fun error_text :: "(io_error \<Rightarrow> string) \<Rightarrow> error \<Rightarrow> string option" where
  "error_text io_text (Bail m) = Some m"
| "error_text io_text (Caused context_text e) = Some (context_text @ '': '' @ io_text e)"
| "error_text io_text (Io e) = Some (io_text e)"
| "error_text io_text (Panic m) = None"

record 'j codec =
  cd_decode :: "Method \<Rightarrow> 'j \<Rightarrow> string + request"
  cd_result :: "response \<Rightarrow> string + 'j"
  cd_envelope :: "'j ResponseEnvelope \<Rightarrow> string + 'j"
  cd_io_text :: "io_error \<Rightarrow> string"

definition rpc_error :: "'j \<Rightarrow> int \<Rightarrow> string \<Rightarrow> 'j JsonRpcResponse" where
  "rpc_error i code message =
     \<lparr>rs_jsonrpc = ''2.0'', rs_id = i, rs_result = None,
      rs_error = Some \<lparr>je_code = code, je_message = message, je_data = None\<rparr>\<rparr>"

definition rpc_ok :: "'j \<Rightarrow> 'j \<Rightarrow> 'j JsonRpcResponse" where
  "rpc_ok i v = \<lparr>rs_jsonrpc = ''2.0'', rs_id = i, rs_result = Some v, rs_error = None\<rparr>"

definition rpc_success ::
  "'j codec \<Rightarrow> request_env \<Rightarrow> 'j \<Rightarrow> 'j \<Rightarrow> RunState option \<Rightarrow> 'j JsonRpcResponse" where
  "rpc_success c env i v state =
     (let envelope = \<lparr>env_ok = True, env_result = v, env_run_state = state, env_warnings = [],
                      env_audit_id = ''aud_'' @ rx_uuid env 2\<rparr>
      in case cd_envelope c envelope of
           Inr w \<Rightarrow> rpc_ok i w
         | Inl e \<Rightarrow> rpc_error i (-32603) (''internal error: failed to serialize response: '' @ e))"

definition rpc_handler ::
  "'j codec \<Rightarrow> request_env \<Rightarrow> 'j JsonRpcRequest \<Rightarrow> daemon \<Rightarrow> 'j JsonRpcResponse option \<times> daemon" where
  "rpc_handler c env req d =
     (if rq_jsonrpc req \<noteq> ''2.0''
      then (Some (rpc_error (rq_id req) (-32600) ''invalid jsonrpc version''), d)
      else case parse_method (rq_method req) of
        None \<Rightarrow>
          (Some (rpc_error (rq_id req) (-32601) (''method not found: '' @ rq_method req)), d)
      | Some m \<Rightarrow>
      (case cd_decode c m (rq_params req) of
        Inl e \<Rightarrow> (Some (rpc_error (rq_id req) (-32000) e), d)
      | Inr r \<Rightarrow>
      (case dispatch env r d of
        (Inl e, d') \<Rightarrow>
          (map_option (rpc_error (rq_id req) (-32000)) (error_text (cd_io_text c) e), d')
      | (Inr (resp, state), d') \<Rightarrow>
          (case cd_result c resp of
             Inl e \<Rightarrow> (Some (rpc_error (rq_id req) (-32000) e), d')
           | Inr v \<Rightarrow> (Some (rpc_success c env (rq_id req) v state), d')))))"

end
