(* ===== verification/Run_Invariants.thy ===== *)
theory Run_Invariants
  imports Run_Lifecycle Run_Metadata
begin

text \<open>
  The well-formedness of a stored run, and that every core operation keeps it together with the
  identity of the run (its identifier, workspace, goal, plan, policy and creation time). The contract
  of an operation that reads a run and writes it back is the locale \<open>run_operation\<close>; it is interpreted
  for each of the operations of \<open>deterministic-core\<close>.
\<close>

section \<open>Well-formed runs\<close>

definition OPEN_STATUSES :: "string list" where
  "OPEN_STATUSES = [''prepared'', ''active'', ''awaiting_approval'', ''blocked'', ''done'']"

definition status_ok :: "string \<Rightarrow> bool" where
  "status_ok st \<longleftrightarrow>
     st \<in> set OPEN_STATUSES \<or> st \<in> (\<lambda>k. ''finalized:'' @ k) ` set VALID_OUTCOME_KINDS"

definition retry_ok :: "RetryableAction option \<Rightarrow> bool" where
  "retry_ok = pred_option (\<lambda>ra. ra_is_recommended ra \<longrightarrow> ra_is_valid ra)"

text \<open>The outcome of a finalized run agrees with its status.\<close>

definition outcome_ok :: "string \<Rightarrow> RunOutcome option \<Rightarrow> bool" where
  "outcome_ok st outcome =
     (case outcome of
        None \<Rightarrow> \<not> is_finalized_status st
      | Some out \<Rightarrow>
          out_outcome_kind out \<in> set VALID_OUTCOME_KINDS \<and>
          (is_finalized_status st \<longrightarrow> st = ''finalized:'' @ out_outcome_kind out))"

definition work_wf :: "RunState \<Rightarrow> bool" where
  "work_wf s \<longleftrightarrow>
     status_ok (status s) \<and>
     outcome_ok (status s) (finalized_outcome s) \<and>
     retry_ok (retryable_action s) \<and>
     current_step s = 0 \<and> completed_steps s = []"

definition text_ok :: "nat \<Rightarrow> string \<Rightarrow> bool" where
  "text_ok n t \<longleftrightarrow> t \<noteq> [] \<and> length t \<le> n"

definition annotation_ok :: "RunAnnotation \<Rightarrow> bool" where
  "annotation_ok a \<longleftrightarrow>
     labels_ok (ann_labels a) \<and> pred_option (text_ok OPERATOR_NOTE_MAX_LEN) (ann_operator_note a)"

definition meta_wf :: "RunState \<Rightarrow> bool" where
  "meta_wf s \<longleftrightarrow>
     (unarchive_metadata s \<noteq> None \<longrightarrow> archive_metadata s \<noteq> None) \<and>
     pred_option annotation_ok (annotation s) \<and>
     pred_option (\<lambda>m. text_ok PIN_REASON_MAX_LEN (pinM_reason m)) (pin_metadata s) \<and>
     pred_option (\<lambda>m. text_ok SNOOZE_REASON_MAX_LEN (snoozeM_reason m)) (snooze_metadata s) \<and>
     pred_option assignee_ok (assignee s) \<and>
     pred_option (text_ok OWNERSHIP_NOTE_MAX_LEN) (ownership_note s) \<and>
     pred_option due_date_ok (due_date s) \<and>
     dependencies_ok (run_id s) (blocked_by_run_ids s)"

definition run_wf :: "RunState \<Rightarrow> bool" where
  "run_wf s \<longleftrightarrow> work_wf s \<and> meta_wf s"

definition same_run :: "RunState \<Rightarrow> RunState \<Rightarrow> bool" where
  "same_run s s' \<longleftrightarrow>
     run_id s' = run_id s \<and> workspace_id s' = workspace_id s \<and> user_goal s' = user_goal s \<and>
     plan s' = plan s \<and> focus_paths s' = focus_paths s \<and> policy_profile s' = policy_profile s \<and>
     created_at s' = created_at s"

lemma same_run_refl [simp]: "same_run s s"
  by (simp add: same_run_def)

lemma same_run_trans: "same_run a b \<Longrightarrow> same_run b c \<Longrightarrow> same_run a c"
  by (simp add: same_run_def)

lemma progress_same_run: "progress_only s s' \<Longrightarrow> same_run s s'"
  by (simp add: same_run_def progress_onlyD)

lemma meta_wf_progress: "progress_only s s' \<Longrightarrow> meta_wf s' = meta_wf s"
  by (simp add: meta_wf_def progress_onlyD)

lemma run_wf_progress:
  assumes "progress_only s s'" "run_wf s" "status_ok (status s')"
    and "is_finalized_status (status s') \<Longrightarrow> status s' = status s"
    and "retry_ok (retryable_action s')"
  shows "run_wf s'"
  using assms meta_wf_progress [OF assms(1)]
  by (auto simp: run_wf_def work_wf_def outcome_ok_def progress_onlyD [OF assms(1)]
      split: option.splits)

lemma open_status_facts:
  "status_ok ''prepared''" "status_ok ''active''" "status_ok ''awaiting_approval''"
  "status_ok ''blocked''" "status_ok ''done''"
  "\<not> is_finalized_status ''prepared''" "\<not> is_finalized_status ''active''"
  "\<not> is_finalized_status ''awaiting_approval''" "\<not> is_finalized_status ''blocked''"
  "\<not> is_finalized_status ''done''"
  by code_simp+

lemma finalized_status_ok:
  "k \<in> set VALID_OUTCOME_KINDS \<Longrightarrow> status_ok (''finalized:'' @ k)"
  by (simp add: status_ok_def)

lemma finalized_outcome_ok:
  "out_outcome_kind out \<in> set VALID_OUTCOME_KINDS \<Longrightarrow>
     outcome_ok (''finalized:'' @ out_outcome_kind out) (Some out)"
  by (simp add: outcome_ok_def)

lemma open_outcome_ok: "\<not> is_finalized_status st \<Longrightarrow> outcome_ok st None"
  by (simp add: outcome_ok_def)

lemma work_wf_frame [simp]:
  "work_wf (s\<lparr>updated_at := t\<rparr>) = work_wf s"
  "work_wf (s\<lparr>archive_metadata := am\<rparr>) = work_wf s"
  "work_wf (s\<lparr>unarchive_metadata := um\<rparr>) = work_wf s"
  "work_wf (s\<lparr>annotation := an\<rparr>) = work_wf s"
  "work_wf (s\<lparr>pin_metadata := pm\<rparr>) = work_wf s"
  "work_wf (s\<lparr>snooze_metadata := sm\<rparr>) = work_wf s"
  "work_wf (s\<lparr>priority := pr\<rparr>) = work_wf s"
  "work_wf (s\<lparr>assignee := as\<rparr>) = work_wf s"
  "work_wf (s\<lparr>ownership_note := no\<rparr>) = work_wf s"
  "work_wf (s\<lparr>due_date := du\<rparr>) = work_wf s"
  "work_wf (s\<lparr>blocked_by_run_ids := bl\<rparr>) = work_wf s"
  "work_wf (s\<lparr>effort := ef\<rparr>) = work_wf s"
  "work_wf (s\<lparr>superseded_by_run_id := sb\<rparr>) = work_wf s"
  "work_wf (s\<lparr>supersession_reason := sr\<rparr>) = work_wf s"
  "work_wf (s\<lparr>superseded_at := sa\<rparr>) = work_wf s"
  by (simp_all add: work_wf_def)

lemma run_wf_status: "run_wf s \<Longrightarrow> status_ok (status s)"
  by (simp add: run_wf_def work_wf_def)

lemma run_wf_retry: "run_wf s \<Longrightarrow> retry_ok (retryable_action s)"
  by (simp add: run_wf_def work_wf_def)

lemma retry_ok_simps [simp]:
  "retry_ok None" "retry_ok (Some ra) \<longleftrightarrow> (ra_is_recommended ra \<longrightarrow> ra_is_valid ra)"
  by (simp_all add: retry_ok_def)


section \<open>The contract of an operation on a run\<close>

text \<open>
  What the handlers rely on when they load the run \<open>i\<close>, apply an operation of the core and save the
  result: \<open>known\<close> lists the runs it may add as blockers.
\<close>

locale run_operation =
  fixes core :: "RunState \<Rightarrow> ('r \<times> RunState) result"
    and i :: string
    and known :: "string list"
  assumes keeps_wf: "core s = Inr (r, s') \<Longrightarrow> run_id s = i \<Longrightarrow> run_wf s \<Longrightarrow> run_wf s'"
    and keeps_identity: "core s = Inr (r, s') \<Longrightarrow> same_run s s'"
    and never_gates: "core s = Inr (r, s') \<Longrightarrow> status s' = ''awaiting_approval'' \<Longrightarrow>
      status s = ''awaiting_approval''"
    and blockers_known: "core s = Inr (r, s') \<Longrightarrow>
      set (blocked_by_run_ids s') \<subseteq> set (blocked_by_run_ids s) \<union> set known"
    and keeps_stuck: "core s = Inr (r, s') \<Longrightarrow> stuck s \<Longrightarrow> stuck s'"

interpretation finalize_op: run_operation "finalize now p" i "[]" for now p i
proof unfold_locales
  fix s r s'
  assume f: "finalize now p s = Inr (r, s')"
  show "run_wf s \<Longrightarrow> run_wf s'"
    using finalize_ok [OF f] finalized_status_ok [of "finalizeP_outcome_kind p"]
    by (simp add: run_wf_def work_wf_def meta_wf_def outcome_ok_def)
  show "same_run s s'" "set (blocked_by_run_ids s') \<subseteq> set (blocked_by_run_ids s) \<union> set []"
    "status s' = ''awaiting_approval'' \<Longrightarrow> status s = ''awaiting_approval''"
    using finalize_ok(3) [OF f] by (simp_all add: same_run_def)
  show "stuck s \<Longrightarrow> stuck s'" using f stuck_rejects(1) [of s now p] by simp
qed

interpretation reopen_op: run_operation "reopen now p" i "[]" for now p i
proof unfold_locales
  fix s r s'
  assume f: "reopen now p s = Inr (r, s')"
  show "run_wf s \<Longrightarrow> run_wf s'"
    using reopen_ok [OF f]
    by (simp add: run_wf_def work_wf_def meta_wf_def open_status_facts open_outcome_ok)
  show "same_run s s'" "set (blocked_by_run_ids s') \<subseteq> set (blocked_by_run_ids s) \<union> set []"
    "status s' = ''awaiting_approval'' \<Longrightarrow> status s = ''awaiting_approval''"
    using reopen_ok(2) [OF f] by (simp_all add: same_run_def)
  show "stuck s \<Longrightarrow> stuck s'" using f stuck_rejects(2) [of s now p] by simp
qed

interpretation archive_op: run_operation "archive now p" i "[]" for now p i
  by unfold_locales (auto dest!: archive_ok(3) simp: run_wf_def meta_wf_def same_run_def stuck_def)

interpretation unarchive_op: run_operation "unarchive now p" i "[]" for now p i
proof unfold_locales
  fix s r s'
  assume f: "unarchive now p s = Inr (r, s')"
  show "run_wf s \<Longrightarrow> run_wf s'" "same_run s s'"
    "set (blocked_by_run_ids s') \<subseteq> set (blocked_by_run_ids s) \<union> set []"
    "status s' = ''awaiting_approval'' \<Longrightarrow> status s = ''awaiting_approval''"
    "stuck s \<Longrightarrow> stuck s'"
    using unarchive_ok [OF f] by (simp_all add: run_wf_def meta_wf_def same_run_def stuck_def)
qed


section \<open>What the metadata operations write\<close>

lemma pin_ok:
  "pin now p s = Inr (r, s') \<Longrightarrow>
     text_ok PIN_REASON_MAX_LEN (trim (pinP_reason p)) \<and>
     s' = s\<lparr>pin_metadata := Some \<lparr>pinM_reason = trim (pinP_reason p), pinM_pinned_at = now\<rparr>, updated_at := now\<rparr>"
  by (auto simp: pin_def text_ok_def Let_def split: if_splits)

lemma unpin_ok:
  "unpin now p s = Inr (r, s') \<Longrightarrow>
     pin_metadata s \<noteq> None \<and> s' = s\<lparr>pin_metadata := None, updated_at := now\<rparr>"
  by (auto simp: unpin_def Let_def is_some_iff split: if_splits)

lemma snooze_ok:
  "snooze now p s = Inr (r, s') \<Longrightarrow>
     text_ok SNOOZE_REASON_MAX_LEN (trim (snoozeP_reason p)) \<and>
     s' = s\<lparr>snooze_metadata := Some \<lparr>snoozeM_reason = trim (snoozeP_reason p), snoozeM_snoozed_at = now\<rparr>,
            updated_at := now\<rparr>"
  by (auto simp: snooze_def text_ok_def Let_def split: if_splits)

lemma unsnooze_ok:
  "unsnooze now p s = Inr (r, s') \<Longrightarrow>
     snooze_metadata s \<noteq> None \<and> s' = s\<lparr>snooze_metadata := None, updated_at := now\<rparr>"
  by (auto simp: unsnooze_def Let_def is_some_iff split: if_splits)

lemma annotate_ok:
  assumes "annotate now p s = Inr (r, s')"
  obtains a where "s' = s\<lparr>annotation := Some a, updated_at := now\<rparr>"
    "pred_option annotation_ok (annotation s) \<Longrightarrow> annotation_ok a"
proof -
  let ?a = "unwrap_or default_annotation (annotation s)"
  obtain a1 a2 where
    1: "(case annotateP_labels p of
           None \<Rightarrow> Inr ?a
         | Some raw \<Rightarrow> and_then (normalize_labels raw) (\<lambda>ls. Inr (?a\<lparr>ann_labels := ls\<rparr>))) = Inr a1"
    and 2: "(case annotateP_operator_note p of
           None \<Rightarrow> Inr a1
         | Some note \<Rightarrow>
             if length note > OPERATOR_NOTE_MAX_LEN
             then Inl (Bail (''operator note exceeds maximum length of ''
                    @ show_nat OPERATOR_NOTE_MAX_LEN @ '' characters''))
             else Inr (a1\<lparr>ann_operator_note := if note = [] then None else Some note\<rparr>)) = Inr a2"
    and 3: "s' = s\<lparr>annotation := Some a2, updated_at := now\<rparr>"
    using assms unfolding annotate_def Let_def by (simp add: and_then_eq_Inr split: if_splits) blast
  have "annotation_ok ?a" if "pred_option annotation_ok (annotation s)"
    using that by (cases "annotation s")
      (simp_all add: annotation_ok_def default_annotation_def labels_ok_def)
  then have "annotation_ok a1" if "pred_option annotation_ok (annotation s)"
    using 1 that
    by (auto simp: annotation_ok_def and_then_eq_Inr split: option.splits dest: normalize_labels_ok)
  then have "annotation_ok a2" if "pred_option annotation_ok (annotation s)"
    using 2 that by (auto simp: annotation_ok_def text_ok_def split: option.splits if_splits)
  with 3 that show ?thesis by blast
qed

lemma set_priority_ok:
  "set_priority now p s = Inr (r, s') \<Longrightarrow>
     s' = s\<lparr>priority := setPriorityP_priority p, updated_at := now\<rparr>"
  by (auto simp: set_priority_def Let_def split: if_splits)

lemma assign_owner_ok:
  assumes "assign_owner now p s = Inr (r, s')"
  shows "s' = s\<lparr>assignee := assignee s', ownership_note := ownership_note s'\<rparr>"
    "pred_option assignee_ok (assignee s) \<Longrightarrow> pred_option assignee_ok (assignee s')"
    "pred_option (text_ok OWNERSHIP_NOTE_MAX_LEN) (ownership_note s) \<Longrightarrow>
       pred_option (text_ok OWNERSHIP_NOTE_MAX_LEN) (ownership_note s')"
  using assms
  by (auto simp: assign_owner_def Let_def and_then_eq_Inr text_ok_def
      split: if_splits option.splits dest: normalize_assignee_ok)

lemma set_due_date_ok:
  assumes "set_due_date now p s = Inr (r, s')"
  shows "s' = s\<lparr>due_date := due_date s'\<rparr>"
    "pred_option due_date_ok (due_date s) \<Longrightarrow> pred_option due_date_ok (due_date s')"
  using assms
  by (auto simp: set_due_date_def Let_def and_then_eq_Inr validate_due_date_iff
      split: option.splits)

lemma set_effort_ok:
  "set_effort now p s = (r, s') \<Longrightarrow> \<exists>e. s' = s\<lparr>effort := e, updated_at := now\<rparr>"
  by (auto simp: set_effort_def Let_def)

text \<open>A change of metadata only: no field of work, identity or blockers is touched.\<close>

lemma metadata_operation:
  assumes "\<And>s r s'. core s = Inr (r, s') \<Longrightarrow>
      (meta_wf s \<longrightarrow> meta_wf s') \<and> (work_wf s \<longrightarrow> work_wf s') \<and> same_run s s' \<and>
      status s' = status s \<and> finalized_outcome s' = finalized_outcome s \<and>
      blocked_by_run_ids s' = blocked_by_run_ids s"
  shows "run_operation core i known"
  by unfold_locales (use assms in \<open>auto simp: run_wf_def stuck_def\<close>)

interpretation pin_op: run_operation "pin now p" i "[]" for now p i
  by (rule metadata_operation, drule pin_ok) (simp add: meta_wf_def same_run_def)

interpretation unpin_op: run_operation "unpin now p" i "[]" for now p i
  by (rule metadata_operation, drule unpin_ok) (simp add: meta_wf_def same_run_def)

interpretation snooze_op: run_operation "snooze now p" i "[]" for now p i
  by (rule metadata_operation, drule snooze_ok) (simp add: meta_wf_def same_run_def)

interpretation unsnooze_op: run_operation "unsnooze now p" i "[]" for now p i
  by (rule metadata_operation, drule unsnooze_ok) (simp add: meta_wf_def same_run_def)

interpretation annotate_op: run_operation "annotate now p" i "[]" for now p i
  by (rule metadata_operation, erule annotate_ok) (simp add: meta_wf_def same_run_def)

interpretation set_priority_op: run_operation "set_priority now p" i "[]" for now p i
  by (rule metadata_operation, drule set_priority_ok) (simp add: meta_wf_def same_run_def)

interpretation set_effort_op: run_operation "\<lambda>s. Inr (set_effort now p s)" i "[]" for now p i
  by (rule metadata_operation) (auto dest!: set_effort_ok simp: meta_wf_def same_run_def)

interpretation assign_owner_op: run_operation "assign_owner now p" i "[]" for now p i
proof (rule metadata_operation)
  fix s r s'
  assume "assign_owner now p s = Inr (r, s')"
  note ok = assign_owner_ok [OF this]
  then obtain a n where s': "s' = s\<lparr>assignee := a, ownership_note := n\<rparr>" by blast
  show "(meta_wf s \<longrightarrow> meta_wf s') \<and> (work_wf s \<longrightarrow> work_wf s') \<and> same_run s s' \<and>
      status s' = status s \<and> finalized_outcome s' = finalized_outcome s \<and>
      blocked_by_run_ids s' = blocked_by_run_ids s"
    using ok(2,3) by (simp add: s' meta_wf_def same_run_def)
qed

interpretation set_due_date_op: run_operation "set_due_date now p" i "[]" for now p i
proof (rule metadata_operation)
  fix s r s'
  assume "set_due_date now p s = Inr (r, s')"
  note ok = set_due_date_ok [OF this]
  then obtain d where s': "s' = s\<lparr>due_date := d\<rparr>" by blast
  show "(meta_wf s \<longrightarrow> meta_wf s') \<and> (work_wf s \<longrightarrow> work_wf s') \<and> same_run s s' \<and>
      status s' = status s \<and> finalized_outcome s' = finalized_outcome s \<and>
      blocked_by_run_ids s' = blocked_by_run_ids s"
    using ok(2) by (simp add: s' meta_wf_def same_run_def)
qed

interpretation set_dependencies_op:
  run_operation "\<lambda>s. set_dependencies now p s known" "setDependenciesP_run_id p" known
  for now p known
proof unfold_locales
  fix s r s'
  assume d: "set_dependencies now p s known = Inr (r, s')"
  obtain bs where s': "s' = s\<lparr>blocked_by_run_ids := bs\<rparr>"
    and bs: "dependencies_ok (setDependenciesP_run_id p) bs" "set bs \<subseteq> set known"
    using set_dependencies_ok [OF d] by auto
  show "run_id s = setDependenciesP_run_id p \<Longrightarrow> run_wf s \<Longrightarrow> run_wf s'"
    using bs(1) by (simp add: s' run_wf_def meta_wf_def)
  show "same_run s s'" "set (blocked_by_run_ids s') \<subseteq> set (blocked_by_run_ids s) \<union> set known"
    "status s' = ''awaiting_approval'' \<Longrightarrow> status s = ''awaiting_approval''"
    "stuck s \<Longrightarrow> stuck s'"
    using bs(2) by (auto simp: s' same_run_def stuck_def)
qed


section \<open>Replanning, gating and resolving\<close>

lemma replan_retry_ok:
  assumes "replan now p s = Inr (r, s')" "retry_ok (retryable_action s)"
  shows "retry_ok (retryable_action s')"
  using assms(1)
proof (rule replan_steps)
  fix s1 d1 s2 d2 action tool
  assume *: "(case replanP_failure_context p of
      Some f \<Rightarrow> replan_failure f (replan_evidence p s)
    | None \<Rightarrow> Inr (replan_without_failure (replan_evidence p s))) = Inr (s1, d1)"
    "replan_recommend (s1, d1) = Inr ((action, tool), s2, d2)"
    "s' = s2\<lparr>status := (if status s2 = ''prepared'' then ''active'' else status s2),
             recommended_next_action := Some action, recommended_tool := Some tool,
             updated_at := now\<rparr>"
  obtain se de where e: "replan_evidence p s = (se, de)" by fastforce
  then have "retry_ok (retryable_action se)" using replan_evidence_keeps(3) [of p s] assms(2) by simp
  then have "retry_ok (retryable_action s1)"
    using *(1) e
    by (auto simp: replan_failure_def replan_without_failure_def Let_def and_then_eq_Inr
        split: option.splits if_splits)
  then show "retry_ok (retryable_action s')"
    using *(3) replan_recommend_effect(3) [OF *(2)] by simp
qed

lemma stuck_progress:
  assumes "progress_only s s'" "\<not> is_finalized_status (status s')" "stuck s"
  shows "stuck s'"
  using assms by (simp add: stuck_def progress_onlyD)

interpretation replan_op: run_operation "replan now p" i "[]" for now p i
proof unfold_locales
  fix s r s'
  assume rp: "replan now p s = Inr (r, s')"
  note prog = replan_progress [OF rp] and eff = replan_effect(2) [OF rp]
  show "run_wf s'" if wf: "run_wf s"
    using wf run_wf_status [OF wf] replan_retry_ok [OF rp run_wf_retry [OF wf]]
    by (intro run_wf_progress [OF prog])
       (auto simp: eff replanned_status_def open_status_facts split: if_splits)
  show "same_run s s'" "set (blocked_by_run_ids s') \<subseteq> set (blocked_by_run_ids s) \<union> set []"
    using progress_same_run [OF prog] by (simp_all add: progress_onlyD [OF prog])
  show "status s' = ''awaiting_approval'' \<Longrightarrow> status s = ''awaiting_approval''"
    by (auto simp: eff replanned_status_def split: if_splits)
  show "stuck s \<Longrightarrow> stuck s'"
    by (rule stuck_progress [OF prog])
       (auto simp: eff replanned_status_def open_status_facts stuck_def split: if_splits)
qed

lemma resolve_status:
  assumes "resolve now p s n = Inr (r, s')"
  shows "status s' = (if approvalResolveP_decision p = ''deny'' then ''blocked''
                      else if n = 0 then ''active'' else status s)"
  using assms
  by (cases rule: resolve_ok_cases)
     (simp_all add: resolve_approve_def resolve_deny_def Let_def split: option.splits prod.splits)

lemma resolve_retry_ok:
  assumes "resolve now p s n = Inr (r, s')" "retry_ok (retryable_action s)"
  shows "retry_ok (retryable_action s')"
  using assms
  by (cases rule: resolve_ok_cases)
     (auto simp: resolve_approve_def resolve_deny_def Let_def split: option.splits prod.splits)

lemma resolve_keeps:
  assumes rs: "resolve now p s n = Inr (r, s')"
  shows "run_wf s \<Longrightarrow> run_wf s'" "same_run s s'" "blocked_by_run_ids s' = blocked_by_run_ids s"
    "stuck s \<Longrightarrow> stuck s'"
proof -
  note prog = resolve_progress [OF rs] and st = resolve_status [OF rs]
  show "run_wf s'" if wf: "run_wf s"
    using wf run_wf_status [OF wf] resolve_retry_ok [OF rs run_wf_retry [OF wf]]
    by (intro run_wf_progress [OF prog]) (auto simp: st open_status_facts split: if_splits)
  show "same_run s s'" "blocked_by_run_ids s' = blocked_by_run_ids s"
    using progress_same_run [OF prog] by (simp_all add: progress_onlyD [OF prog])
  show "stuck s \<Longrightarrow> stuck s'"
    by (rule stuck_progress [OF prog]) (auto simp: st open_status_facts stuck_def split: if_splits)
qed

lemma clear_retry_keeps:
  "run_wf s \<Longrightarrow> run_wf (s\<lparr>retryable_action := None\<rparr>)" "same_run s (s\<lparr>retryable_action := None\<rparr>)"
  "stuck (s\<lparr>retryable_action := None\<rparr>) = stuck s"
  by (simp_all add: run_wf_def work_wf_def meta_wf_def same_run_def stuck_def)

lemma create_approval_eq:
  "create_approval now uuid s action risk rationale = (a, s') \<Longrightarrow>
     status s' = ''awaiting_approval'' \<and> progress_only s s' \<and> retryable_action s' = retryable_action s \<and>
     pa_approval_id a = ''appr_'' @ uuid \<and> pa_run_id a = run_id s \<and> pa_status a = ''pending''"
  by (auto simp: create_approval_def Let_def)

lemma prepared_wf:
  assumes "prepare uuid now p = (r, s)"
  shows "run_wf s" "run_id s = uuid" "blocked_by_run_ids s = []" "status s = ''prepared''"
  using assms open_status_facts
  by (auto simp: prepare_def Let_def run_wf_def work_wf_def meta_wf_def outcome_ok_def
      dependencies_ok_def)

lemma supersede_keeps:
  assumes sp: "supersede now p s j = Inr (r, s', n)"
  shows "run_wf s \<Longrightarrow> run_wf s'" "same_run s s'" "blocked_by_run_ids s' = blocked_by_run_ids s"
    "status s' = status s" "run_wf n" "blocked_by_run_ids n = []" "\<not> stuck s"
proof -
  note ok = supersede_ok [OF sp]
  show "run_wf s \<Longrightarrow> run_wf s'" "same_run s s'" "blocked_by_run_ids s' = blocked_by_run_ids s"
    "status s' = status s" "\<not> stuck s"
    using ok(1,2) by (simp_all add: run_wf_def meta_wf_def same_run_def stuck_def)
  show "run_wf n" "blocked_by_run_ids n = []"
    using sp open_status_facts
    by (auto simp: supersede_def Let_def run_wf_def work_wf_def meta_wf_def outcome_ok_def
        dependencies_ok_def split: if_splits)
qed

end
