(* ===== verification/Store_Invariants.thy ===== *)
theory Store_Invariants
  imports Daemon_State Run_Invariants
begin

text \<open>
  The invariant of the run store and how a store may change. \<open>store_wf\<close> says that keys are unique,
  every run is well formed, approvals, audit entries and blockers refer to stored runs, and a run
  that awaits an approval has one pending. \<open>store_le\<close> is the order in which stores evolve: runs stay and
  keep their identity and policy, decisions are never revised, the audit trail only grows.
\<close>

section \<open>Invariant\<close>

definition ids :: "store \<Rightarrow> string set" where
  "ids s = run_id ` set (runs s)"

definition pending_for :: "string \<Rightarrow> store \<Rightarrow> bool" where
  "pending_for i s \<longleftrightarrow> get_pending_approvals i s \<noteq> []"

definition row_ok :: "ApprovalRow \<Rightarrow> bool" where
  "row_ok row \<longleftrightarrow>
     (pa_status (ar_approval row), ar_decision row) \<in>
       {(''pending'', None), (''approved'', Some ''approve''), (''denied'', Some ''deny'')} \<and>
     (ar_resolved_at row = None \<longleftrightarrow> is_pending row)"

definition tables_wf :: "store \<Rightarrow> bool" where
  "tables_wf s \<longleftrightarrow>
     distinct (map run_id (runs s)) \<and> list_all run_wf (runs s) \<and>
     list_all (\<lambda>r. set (blocked_by_run_ids r) \<subseteq> ids s) (runs s) \<and>
     distinct (map approval_key (approvals s)) \<and> list_all row_ok (approvals s) \<and>
     list_all (\<lambda>row. pa_run_id (ar_approval row) \<in> ids s) (approvals s) \<and>
     distinct (map hist_entry_id (audit s)) \<and> list_all (\<lambda>e. hist_run_id e \<in> ids s) (audit s) \<and>
     foreign_keys s"

definition awaiting_ok :: "store \<Rightarrow> bool" where
  "awaiting_ok s \<longleftrightarrow>
     list_all (\<lambda>r. status r = ''awaiting_approval'' \<longrightarrow> pending_for (run_id r) s) (runs s)"

definition store_wf :: "store \<Rightarrow> bool" where
  "store_wf s \<longleftrightarrow> tables_wf s \<and> awaiting_ok s"

lemma empty_store_wf: "store_wf empty_store"
  by (simp add: store_wf_def tables_wf_def awaiting_ok_def empty_store_def)


section \<open>Reading and writing\<close>

lemma get_run_in: "get_run i s = Some r \<Longrightarrow> r \<in> set (runs s) \<and> run_id r = i"
  by (auto simp: get_run_def dest: lookup_SomeD)

lemma get_run_ids: "get_run i s = Some r \<Longrightarrow> i \<in> ids s"
  by (auto simp: ids_def dest: get_run_in)

lemma ids_iff: "i \<in> ids s \<longleftrightarrow> (\<exists>r. get_run i s = Some r)"
  by (auto simp: ids_def get_run_def dest: lookup_SomeD)
     (metis lookup_None_iff not_None_eq)

lemma run_exists_ids: "run_exists i s \<longleftrightarrow> i \<in> ids s"
  by (auto simp: run_exists_iff ids_iff)

lemma get_run_wf: "tables_wf s \<Longrightarrow> get_run i s = Some r \<Longrightarrow> run_wf r"
  by (auto simp: tables_wf_def list_all_iff dest: get_run_in)

lemma get_run_blockers: "tables_wf s \<Longrightarrow> get_run i s = Some r \<Longrightarrow> set (blocked_by_run_ids r) \<subseteq> ids s"
  unfolding tables_wf_def list_all_iff by (auto dest: get_run_in)

lemma get_run_awaiting:
  "awaiting_ok s \<Longrightarrow> get_run i s = Some r \<Longrightarrow> status r = ''awaiting_approval'' \<Longrightarrow> pending_for i s"
  by (auto simp: awaiting_ok_def list_all_iff dest: get_run_in)

lemma ids_save_run [simp]: "ids (save_run r s) = insert (run_id r) (ids s)"
  by (auto simp: ids_def save_run_def upsert_def)

lemma ids_append_event [simp]: "ids (append_event e now i ev s) = ids s"
  by (simp add: ids_def)

lemma pending_for_kept [simp]:
  "pending_for i (save_run r s) = pending_for i s"
  "pending_for i (append_event e now j ev s) = pending_for i s"
  by (simp_all add: pending_for_def get_pending_approvals_def)

lemma runs_save_run: "set (runs (save_run r s)) = insert r {x \<in> set (runs s). run_id x \<noteq> run_id r}"
  by (auto simp: save_run_def upsert_def)

lemma distinct_upsert:
  "distinct (map key xs) \<Longrightarrow> distinct (map key (upsert key x xs))"
  by (auto simp: upsert_def distinct_map inj_on_def)

lemma tables_wf_save_run:
  assumes "tables_wf s" "run_wf r" "set (blocked_by_run_ids r) \<subseteq> insert (run_id r) (ids s)"
  shows "tables_wf (save_run r s)"
proof -
  have "distinct (map run_id (runs (save_run r s)))"
    using assms(1) by (simp add: save_run_def tables_wf_def distinct_upsert)
  moreover have "set (blocked_by_run_ids x) \<subseteq> ids (save_run r s)" if "x \<in> set (runs (save_run r s))" for x
    using that assms(1,3) by (auto simp: runs_save_run tables_wf_def list_all_iff)
  ultimately show ?thesis
    using assms(1,2) by (auto simp: tables_wf_def list_all_iff runs_save_run)
qed

lemma awaiting_ok_save_run:
  assumes "awaiting_ok s" "status r = ''awaiting_approval'' \<Longrightarrow> pending_for (run_id r) s"
  shows "awaiting_ok (save_run r s)"
  using assms by (auto simp: awaiting_ok_def list_all_iff runs_save_run)

lemma store_wf_save_run:
  assumes "store_wf s" "run_wf r" "set (blocked_by_run_ids r) \<subseteq> insert (run_id r) (ids s)"
    and "status r = ''awaiting_approval'' \<Longrightarrow> pending_for (run_id r) s"
  shows "store_wf (save_run r s)"
  using assms by (auto simp: store_wf_def intro: tables_wf_save_run awaiting_ok_save_run)

lemma audit_append_event:
  assumes "foreign_keys s"
  shows "audit (append_event e now i ev s) = audit s \<or>
   (e \<notin> hist_entry_id ` set (audit s) \<and> i \<in> ids s \<and>
    (\<exists>x. audit (append_event e now i ev s) = audit s @ [x] \<and> hist_entry_id x = e \<and> hist_run_id x = i))"
  using assms
  by (auto simp: append_event_def append_audit_entry_def is_some_iff lookup_None_iff run_exists_ids
      split: prod.splits)

lemma store_wf_append_event [intro]:
  assumes "store_wf s"
  shows "store_wf (append_event e now i ev s)"
proof -
  have "foreign_keys s" using assms by (simp add: store_wf_def tables_wf_def)
  from audit_append_event [OF this, of e now i ev] assms show ?thesis
    by (auto simp: store_wf_def tables_wf_def awaiting_ok_def)
qed


section \<open>Approvals\<close>

lemma lookup_distinct:
  assumes "distinct (map key xs)" "x \<in> set xs"
  shows "lookup key (key x) xs = Some x"
proof (cases "lookup key (key x) xs")
  case None
  then show ?thesis using assms(2) by (auto simp: lookup_None_iff)
next
  case (Some y)
  then have "key y = key x" "y \<in> set xs" by (auto dest: lookup_SomeD)
  then have "y = x" using assms by (auto simp: distinct_map inj_on_def)
  with Some show ?thesis by simp
qed

lemma save_approval_fresh:
  assumes "pa_approval_id a \<notin> approval_key ` set (approvals s)" "pa_run_id a \<in> ids s"
  shows "save_approval a s =
    Inr (s\<lparr>approvals := approvals s @
      [\<lparr>ar_approval = a, ar_decision = None, ar_decision_reason = None, ar_resolved_at = None\<rparr>]\<rparr>)"
proof -
  have "filter (\<lambda>y. approval_key y \<noteq> pa_approval_id a) (approvals s) = approvals s"
    using assms(1) by (intro filter_True ballI) (metis image_eqI)
  with assms(2) show ?thesis
    by (simp add: save_approval_def run_exists_ids upsert_def approval_key_def)
qed

lemma save_approval_wf:
  assumes "store_wf s" "pa_approval_id a \<notin> approval_key ` set (approvals s)" "pa_run_id a \<in> ids s"
    and "pa_status a = ''pending''" "save_approval a s = Inr s'"
  shows "store_wf s'" "pending_for (pa_run_id a) s'" "ids s' = ids s" "audit s' = audit s"
    "runs s' = runs s" "\<And>row. row \<in> set (approvals s) \<Longrightarrow> row \<in> set (approvals s')"
proof -
  have s': "s' = s\<lparr>approvals := approvals s @
      [\<lparr>ar_approval = a, ar_decision = None, ar_decision_reason = None, ar_resolved_at = None\<rparr>]\<rparr>"
    using assms(5) save_approval_fresh [OF assms(2,3)] by simp
  show i: "ids s' = ids s" and "audit s' = audit s" "runs s' = runs s"
    and "\<And>row. row \<in> set (approvals s) \<Longrightarrow> row \<in> set (approvals s')"
    by (simp_all add: s' ids_def)
  show "pending_for (pa_run_id a) s'"
    using assms(4) by (simp add: s' pending_for_def get_pending_approvals_def is_pending_def)
  have "pending_for j s \<Longrightarrow> pending_for j s'" for j
    by (auto simp: s' pending_for_def get_pending_approvals_def)
  then show "store_wf s'"
    using assms(1-4) i
    by (auto simp: store_wf_def tables_wf_def awaiting_ok_def list_all_iff s' approval_key_def
        row_ok_def is_pending_def)
qed

lemma resolve_approval_spec:
  assumes "resolve_approval now a decision reason s = Inr s'"
  obtains st where "(decision, st) \<in> {(''approve'', ''approved''), (''deny'', ''denied'')}"
    "s' = s\<lparr>approvals := map (\<lambda>row. if approval_key row = a \<and> is_pending row
                                   then decided_row now st decision reason row else row) (approvals s)\<rparr>"
    "\<exists>row \<in> set (approvals s). approval_key row = a \<and> is_pending row"
  using assms
  by (auto simp: resolve_approval_def and_then_eq_Inr Let_def list_ex_iff split: if_splits)

lemma decided_row_facts [simp]:
  "approval_key (decided_row now st decision reason row) = approval_key row"
  "pa_run_id (ar_approval (decided_row now st decision reason row)) = pa_run_id (ar_approval row)"
  by (simp_all add: decided_row_def approval_key_def)

lemma filter_map_outside:
  assumes "\<forall>x \<in> set xs. f x = x \<or> \<not> P x \<and> \<not> P (f x)"
  shows "filter P (map f xs) = filter P xs"
  using assms by (induction xs) (simp, fastforce)

lemma resolve_approval_wf:
  assumes "tables_wf s" "resolve_approval now a decision reason s = Inr s'"
    and "get_approval a s = Some ap"
  shows "tables_wf s'" "runs s' = runs s" "audit s' = audit s"
    "j \<noteq> pa_run_id ap \<Longrightarrow> pending_for j s' = pending_for j s"
proof -
  obtain st where st: "(decision, st) \<in> {(''approve'', ''approved''), (''deny'', ''denied'')}"
    and s': "s' = s\<lparr>approvals := map (\<lambda>row. if approval_key row = a \<and> is_pending row
                                   then decided_row now st decision reason row else row) (approvals s)\<rparr>"
    using assms(2) by (rule resolve_approval_spec)
  show "runs s' = runs s" "audit s' = audit s" by (simp_all add: s')
  define f where "f row = (if approval_key row = a \<and> is_pending row
    then decided_row now st decision reason row else row)" for row
  have s'': "s' = s\<lparr>approvals := map f (approvals s)\<rparr>"
    unfolding s' by (simp add: f_def [abs_def])
  have f: "approval_key (f row) = approval_key row"
    "pa_run_id (ar_approval (f row)) = pa_run_id (ar_approval row)"
    "row_ok row \<Longrightarrow> row_ok (f row)" for row
    using st by (auto simp: f_def row_ok_def decided_row_def is_pending_def approval_key_def)
  show "tables_wf s'"
    using assms(1) f by (auto simp: tables_wf_def list_all_iff s'' ids_def o_def)
  have "pa_run_id (ar_approval row) = pa_run_id ap" if "row \<in> set (approvals s)" "approval_key row = a" for row
  proof -
    have "distinct (map approval_key (approvals s))" using assms(1) by (simp add: tables_wf_def)
    then show ?thesis
      using that assms(3) lookup_distinct [of approval_key "approvals s" row]
      by (simp add: get_approval_def)
  qed
  then have "filter (\<lambda>row. pa_run_id (ar_approval row) = j \<and> is_pending row) (map f (approvals s)) =
     filter (\<lambda>row. pa_run_id (ar_approval row) = j \<and> is_pending row) (approvals s)"
    if "j \<noteq> pa_run_id ap"
    using that f(2) by (intro filter_map_outside) (auto simp: f_def)
  then show "j \<noteq> pa_run_id ap \<Longrightarrow> pending_for j s' = pending_for j s"
    by (simp add: pending_for_def get_pending_approvals_def s'')
qed


section \<open>How stores evolve\<close>

definition run_le :: "RunState \<Rightarrow> RunState \<Rightarrow> bool" where
  "run_le r r' \<longleftrightarrow> same_run r r' \<and> (stuck r \<longrightarrow> stuck r')"

definition row_le :: "ApprovalRow \<Rightarrow> ApprovalRow \<Rightarrow> bool" where
  "row_le row row' \<longleftrightarrow>
     row' = row \<or>
     is_pending row \<and> \<not> is_pending row' \<and>
     ar_approval row' = (ar_approval row)\<lparr>pa_status := pa_status (ar_approval row')\<rparr>"

definition store_le :: "store \<Rightarrow> store \<Rightarrow> bool" where
  "store_le s s' \<longleftrightarrow>
     prefix (audit s) (audit s') \<and>
     (\<forall>i r. get_run i s = Some r \<longrightarrow> (\<exists>r'. get_run i s' = Some r' \<and> run_le r r')) \<and>
     (\<forall>row \<in> set (approvals s). \<exists>row' \<in> set (approvals s'). row_le row row')"

lemma run_le_refl [simp]: "run_le r r"
  by (simp add: run_le_def)

lemma run_le_trans: "run_le a b \<Longrightarrow> run_le b c \<Longrightarrow> run_le a c"
  by (auto simp: run_le_def intro: same_run_trans)

lemma row_le_refl [simp]: "row_le row row"
  by (simp add: row_le_def)

lemma row_le_trans: "row_le a b \<Longrightarrow> row_le b c \<Longrightarrow> row_le a c"
  by (auto simp: row_le_def)

lemma store_le_refl [simp]: "store_le s s"
  by (force simp: store_le_def)

lemma store_le_trans: "store_le a b \<Longrightarrow> store_le b c \<Longrightarrow> store_le a c"
  unfolding store_le_def
  by (meson prefix_order.trans run_le_trans row_le_trans)

lemma store_le_save_run:
  assumes "get_run (run_id r') s = Some r" "run_le r r'"
  shows "store_le s (save_run r' s)"
  using assms by (force simp: store_le_def run_table.get_put)

lemma store_le_new_run:
  assumes "run_id n \<notin> ids s"
  shows "store_le s (save_run n s)"
  using assms by (force simp: store_le_def run_table.get_put ids_iff)

lemma store_le_append_event: "store_le s (append_event e now i ev s)"
  using audit_append_event_prefix [of s e now i ev] by (force simp: store_le_def)

lemma store_le_append_eventI: "store_le s s' \<Longrightarrow> store_le s (append_event e now i ev s')"
  using store_le_append_event store_le_trans by blast

lemma store_le_approvals:
  assumes "audit s' = audit s" "runs s' = runs s"
    and "\<And>row. row \<in> set (approvals s) \<Longrightarrow> \<exists>row' \<in> set (approvals s'). row_le row row'"
  shows "store_le s s'"
  using assms by (auto simp: store_le_def get_run_def)

lemma resolve_approval_le:
  assumes "resolve_approval now a decision reason s = Inr s'"
  shows "store_le s s'"
proof -
  obtain st where st: "(decision, st) \<in> {(''approve'', ''approved''), (''deny'', ''denied'')}"
    and s': "s' = s\<lparr>approvals := map (\<lambda>row. if approval_key row = a \<and> is_pending row
                                   then decided_row now st decision reason row else row) (approvals s)\<rparr>"
    using assms by (rule resolve_approval_spec)
  define f where "f row = (if approval_key row = a \<and> is_pending row
    then decided_row now st decision reason row else row)" for row
  have s'': "s' = s\<lparr>approvals := map f (approvals s)\<rparr>"
    unfolding s' by (simp add: f_def [abs_def])
  have "row_le row (f row)" for row
    using st by (auto simp: f_def row_le_def decided_row_def is_pending_def)
  then show ?thesis
    by (intro store_le_approvals) (auto simp: s'')
qed


section \<open>Requests that load, change and save one run\<close>

context run_operation
begin

lemma update_run_cases:
  obtains (failed) e where "update_run env i core event d = (Inl e, d)"
  | (saved) r r' res where "get_run i (store_of d) = Some r" "core r = Inr (res, r')"
      "update_run env i core event d =
         (Inr (res, Some r'),
          d\<lparr>store_of := append_event (rx_uuid env 0) (rx_clock env 1) i (event res)
                          (save_run r' (store_of d))\<rparr>)"
  by (cases "get_run i (store_of d)"; cases "core (the (get_run i (store_of d)))")
     (auto simp: update_run_def)

lemma update_run_sound:
  assumes "store_wf (store_of d)" "set known \<subseteq> ids (store_of d)"
  shows "store_wf (store_of (snd (update_run env i core event d))) \<and>
         store_le (store_of d) (store_of (snd (update_run env i core event d)))"
proof (cases rule: update_run_cases [of env event d])
  case (saved r r' res)
  let ?s = "store_of d"
  have tw: "tables_wf ?s" and aw: "awaiting_ok ?s" using assms(1) by (simp_all add: store_wf_def)
  have i: "run_id r = i" using saved(1) by (rule run_table.get_key)
  have same: "same_run r r'" using saved(2) by (rule keeps_identity)
  then have i': "run_id r' = i" using i by (simp add: same_run_def)
  have "run_wf r'" using keeps_wf [OF saved(2) i] get_run_wf [OF tw saved(1)] by simp
  moreover have "set (blocked_by_run_ids r') \<subseteq> insert (run_id r') (ids ?s)"
    using blockers_known [OF saved(2)] get_run_blockers [OF tw saved(1)] assms(2) by auto
  moreover have "pending_for (run_id r') ?s" if "status r' = ''awaiting_approval''"
    using get_run_awaiting [OF aw saved(1) never_gates [OF saved(2) that]] i' by simp
  ultimately have "store_wf (save_run r' ?s)" by (rule store_wf_save_run [OF assms(1)])
  moreover have "store_le ?s (save_run r' ?s)"
    using saved(1) i' same keeps_stuck [OF saved(2)] by (intro store_le_save_run) (auto simp: run_le_def)
  ultimately show ?thesis
    using saved(3) by (auto intro: store_le_append_eventI)
qed (use assms in simp)

end

lemma update_run_frame [simp]:
  "world_of (snd (update_run env i core event d)) = world_of d"
  "queue_views (snd (update_run env i core event d)) = queue_views d"
  by (simp_all add: update_run_def split: option.splits sum.splits prod.splits)

lemma inspect_run_frame [simp]:
  "store_of (snd (inspect_run i tool d)) = store_of d"
  "queue_views (snd (inspect_run i tool d)) = queue_views d"
  by (simp_all add: inspect_run_def split: option.splits sum.splits prod.splits)

end
