(* ===== verification/Handler_Invariants.thy ===== *)
theory Handler_Invariants
  imports Store_Invariants Handlers Queue_Views Queue_Listing
begin

text \<open>
  Every handler keeps the invariant of the store and moves it forward in the order \<open>store_le\<close>
  (\<open>sound\<close>), provided the identifiers it draws are new. The handlers that load, change and save one
  run get this from the locale \<open>run_operation\<close>; the gated actions, the resolution of approvals,
  preparing and superseding are done here.
\<close>

named_theorems handler_sound

definition sound :: "daemon \<Rightarrow> daemon \<Rightarrow> bool" where
  "sound d d' \<longleftrightarrow>
     (store_wf (store_of d) \<longrightarrow>
        store_wf (store_of d') \<and> store_le (store_of d) (store_of d'))"

lemma soundI:
  "(store_wf (store_of d) \<Longrightarrow> store_wf (store_of d') \<and> store_le (store_of d) (store_of d')) \<Longrightarrow> sound d d'"
  by (simp add: sound_def)

lemma sound_same_store: "store_of d' = store_of d \<Longrightarrow> sound d d'"
  by (simp add: sound_def)

lemma sound_event:
  "store_of d' = append_event e now i ev (store_of d) \<Longrightarrow> sound d d'"
  by (auto simp: sound_def intro: store_le_append_eventI)

context run_operation
begin

lemma update_sound: "known = [] \<Longrightarrow> sound d (snd (update_run env i core event d))"
  by (simp add: sound_def update_run_sound)

end

lemmas update_sounds =
  finalize_op.update_sound reopen_op.update_sound archive_op.update_sound
  unarchive_op.update_sound replan_op.update_sound pin_op.update_sound unpin_op.update_sound
  snooze_op.update_sound unsnooze_op.update_sound annotate_op.update_sound
  set_priority_op.update_sound assign_owner_op.update_sound set_due_date_op.update_sound
  set_effort_op.update_sound

lemma update_handlers_sound [handler_sound]:
  "sound d (snd (handle_run_finalize env p1 d))" "sound d (snd (handle_run_reopen env p2 d))"
  "sound d (snd (handle_run_archive env p3 d))" "sound d (snd (handle_run_unarchive env p4 d))"
  "sound d (snd (handle_run_replan env p5 d))" "sound d (snd (handle_run_pin env p6 d))"
  "sound d (snd (handle_run_unpin env p7 d))" "sound d (snd (handle_run_snooze env p8 d))"
  "sound d (snd (handle_run_unsnooze env p9 d))" "sound d (snd (handle_run_annotate env p10 d))"
  "sound d (snd (handle_run_set_priority env p11 d))"
  "sound d (snd (handle_run_assign_owner env p12 d))"
  "sound d (snd (handle_run_set_due_date env p13 d))"
  "sound d (snd (handle_run_set_effort env p14 d))"
  unfolding handle_run_finalize_def handle_run_reopen_def handle_run_archive_def
    handle_run_unarchive_def handle_run_replan_def handle_run_pin_def handle_run_unpin_def
    handle_run_snooze_def handle_run_unsnooze_def handle_run_annotate_def
    handle_run_set_priority_def handle_run_assign_owner_def handle_run_set_due_date_def
    handle_run_set_effort_def
  by (rule update_sounds, rule refl)+

lemma list_order_set [simp]: "set (list_order rs) = set rs"
  by (simp add: list_order_def sort_key_desc_def)

lemma sql_limit_subset: "set (sql_limit n xs) \<subseteq> set xs"
  by (auto simp: sql_limit_def Let_def dest: in_set_takeD)

lemma list_runs_ids: "sum_run_id ` set (list_runs q s) \<subseteq> ids s"
  using sql_limit_subset
  by (fastforce simp: list_runs_def ids_def summary_of_def)

lemma set_dependencies_sound [handler_sound]:
  "sound d (snd (handle_run_set_dependencies env p d))"
  using list_runs_ids [of all_runs_query "store_of d"]
  by (auto simp: sound_def handle_run_set_dependencies_def Let_def
      intro!: set_dependencies_op.update_run_sound)

lemma read_only_sound [handler_sound]:
  "sound d (snd (handle_workspace_summary env q1 d))" "sound d (snd (handle_file_read q2 d))"
  "sound d (snd (handle_git_status env q3 d))" "sound d (snd (handle_code_search env q4 d))"
  "sound d (snd (handle_git_diff env q5 d))" "sound d (snd (handle_runs_list env q6 d))"
  "sound d (snd (handle_run_get env q7 d))" "sound d (snd (handle_run_history q8 d))"
  "sound d (snd (handle_patch_preflight q9 d))" "sound d (snd (handle_tests_preflight q10 d))"
  "sound d (snd (handle_runs_queue_overview q11 d))"
  "sound d (snd (handle_queue_view_create env q12 d))"
  "sound d (snd (handle_queue_view_update env q13 d))"
  "sound d (snd (handle_queue_view_delete q14 d))" "sound d (snd (handle_queue_view_get q15 d))"
  "sound d (snd (handle_queue_view_list env q16 d))"
  by (rule sound_same_store,
      simp add: handle_workspace_summary_def handle_file_read_def handle_git_status_def
        handle_code_search_def handle_git_diff_def handle_runs_list_def handle_run_get_def
        handle_run_history_def handle_patch_preflight_def handle_tests_preflight_def
        handle_runs_queue_overview_def handle_queue_view_create_def handle_queue_view_update_def
        handle_queue_view_delete_def handle_queue_view_get_def handle_queue_view_list_def Let_def
        split: option.splits prod.splits sum.splits)+

lemma refresh_sound [handler_sound]: "sound d (snd (handle_run_refresh env p d))"
  by (cases "get_run (refreshP_run_id p) (store_of d)")
     (auto simp: handle_run_refresh_def Let_def split: prod.splits
       intro: sound_same_store sound_event)

definition logged :: "store \<Rightarrow> store \<Rightarrow> bool" where
  "logged s s' \<longleftrightarrow> s' = s \<or> (\<exists>e now i ev. s' = append_event e now i ev s)"

lemma logged_intros [simp]: "logged s s" "logged s (append_event e now i ev s)"
  unfolding logged_def by blast+

lemma command_run_store: "logged (store_of d) (store_of (snd (handle_command_run env p d)))"
proof (cases "validate_command p")
  case (Denied reason)
  then show ?thesis by (simp add: handle_command_run_def Let_def)
next
  case (Allowed x)
  show ?thesis
  proof (cases "get_run (commandRunP_run_id p) (store_of d)")
    case (Some state)
    let ?c = "make_command (commandRunP_command p) (commandRunP_args p)
      (case commandRunP_workdir p of
         Some sub \<Rightarrow> path_join (workspace_id state) sub | None \<Rightarrow> workspace_id state)"
    obtain out w where "rx_child env ?c (effective_timeout p) (world_of d) = (out, w)" by fastforce
    with Allowed Some show ?thesis
      by (cases out) (simp_all add: handle_command_run_def Let_def)
  qed (use Allowed in \<open>simp add: handle_command_run_def\<close>)
qed

lemma command_run_sound [handler_sound]: "sound d (snd (handle_command_run env p d))"
  using command_run_store [of d env p] by (auto simp: logged_def intro: sound_same_store sound_event)


section \<open>Handlers that draw identifiers\<close>

definition approval_fresh :: "request_env \<Rightarrow> daemon \<Rightarrow> bool" where
  "approval_fresh env d \<longleftrightarrow> ''appr_'' @ rx_uuid env 0 \<notin> approval_key ` set (approvals (store_of d))"

lemma prepare_sound:
  assumes "rx_uuid env 0 \<notin> ids (store_of d)"
  shows "sound d (snd (handle_run_prepare env p d))"
proof (rule soundI)
  assume wf: "store_wf (store_of d)"
  obtain r st where pr: "prepare (rx_uuid env 0) (rx_clock env 0) p = (r, st)" by fastforce
  note ok = prepared_wf [OF pr]
  have "store_wf (save_run st (store_of d))"
    by (rule store_wf_save_run [OF wf]) (simp_all add: ok)
  moreover have "store_le (store_of d) (save_run st (store_of d))"
    using assms ok(2) by (intro store_le_new_run) simp
  ultimately show "store_wf (store_of (snd (handle_run_prepare env p d))) \<and>
      store_le (store_of d) (store_of (snd (handle_run_prepare env p d)))"
    using pr by (auto simp: handle_run_prepare_def Let_def intro: store_le_append_eventI)
qed

lemma supersede_sound:
  assumes fresh: "make_successor_run_id (rx_millis env) (supersedeP_run_id p) \<notin> ids (store_of d)"
  shows "sound d (snd (handle_run_supersede env p d))"
proof (rule soundI)
  let ?i = "supersedeP_run_id p" and ?s = "store_of d"
  let ?j = "make_successor_run_id (rx_millis env) ?i"
  assume wf: "store_wf ?s"
  then have tw: "tables_wf ?s" and aw: "awaiting_ok ?s" by (simp_all add: store_wf_def)
  show "store_wf (store_of (snd (handle_run_supersede env p d))) \<and>
      store_le ?s (store_of (snd (handle_run_supersede env p d)))"
  proof (cases "get_run ?i ?s")
    case None
    then show ?thesis using wf by (simp add: handle_run_supersede_def)
  next
    case (Some r)
    show ?thesis
    proof (cases "supersede (rx_clock env 0) p r ?j")
      case (Inl e)
      then show ?thesis using wf Some by (simp add: handle_run_supersede_def Let_def)
    next
      case (Inr x)
      then obtain res r' n where sp: "supersede (rx_clock env 0) p r ?j = Inr (res, r', n)"
        by (cases x) auto
      note k = supersede_keeps [OF sp] and n = supersede_ok [OF sp]
      have i: "run_id r' = ?i" using k(2) run_table.get_key [OF Some] by (simp add: same_run_def)
      have 1: "store_wf (save_run r' ?s)"
        using k(1) get_run_wf [OF tw Some] get_run_blockers [OF tw Some] get_run_awaiting [OF aw Some]
        by (intro store_wf_save_run [OF wf]) (auto simp: k(3,4) i)
      have 2: "store_le ?s (save_run r' ?s)"
        using Some k(2,7) i by (intro store_le_save_run) (auto simp: run_le_def)
      have 3: "store_wf (save_run n (save_run r' ?s))"
        using k(5,6) n(7) by (intro store_wf_save_run [OF 1]) auto
      have 4: "store_le (save_run r' ?s) (save_run n (save_run r' ?s))"
        using fresh n(3) i get_run_ids [OF Some] by (intro store_le_new_run) auto
      show ?thesis
        using Some sp 3 store_le_trans [OF 2 4]
        by (auto simp: handle_run_supersede_def Let_def intro: store_le_append_eventI)
    qed
  qed
qed

lemma gate_action_effect:
  assumes wf: "store_wf s" and r: "get_run i s = Some r"
    and fresh: "''appr_'' @ rx_uuid env 0 \<notin> approval_key ` set (approvals s)"
  obtains a r' s' where
    "gate_action env i kind action risk rationale payload tool what r s = (Inr (a, r'), s')"
    "store_wf s'" "store_le s s'" "get_run i s' = Some r'" "status r' = ''awaiting_approval''"
    "pa_run_id a = i" "pa_approval_id a = ''appr_'' @ rx_uuid env 0" "pa_status a = ''pending''"
    "pa_action_description a = action" "pa_risk_reason a = risk" "pa_policy_rationale a = rationale"
    "get_pending_approvals i s' = get_pending_approvals i s @ [a]"
proof -
  obtain a r0 where ca: "create_approval (rx_clock env 0) (rx_uuid env 0) r action risk rationale = (a, r0)"
    by fastforce
  note c = create_approval_eq [OF ca]
  let ?ra = "build_retryable_action (rx_clock env 1) kind action payload
    (''Blocked by approval policy: '' @ rationale) tool"
  let ?r = "r0\<lparr>retryable_action := Some ?ra\<rparr>"
  have texts: "pa_action_description a = action" "pa_risk_reason a = risk" "pa_policy_rationale a = rationale"
    using ca by (auto simp: create_approval_def Let_def)
  have prog: "progress_only r ?r" using c by simp
  have i: "run_id r = i" using r by (rule run_table.get_key)
  then have ai: "pa_run_id a \<in> ids s" "pa_run_id a = i" "run_id ?r = i"
    using c get_run_ids [OF r] progress_onlyD(1) [OF prog] by simp_all
  have fr: "pa_approval_id a \<notin> approval_key ` set (approvals s)" using fresh c by simp
  obtain s1 where sa: "save_approval a s = Inr s1" using save_approval_fresh [OF fr ai(1)] by blast
  have ps: "pa_status a = ''pending''" using c by simp
  note s1 = save_approval_wf [OF wf fr ai(1) ps sa]
  have tw: "tables_wf s" using wf by (simp add: store_wf_def)
  have "run_wf ?r"
    using get_run_wf [OF tw r] c by (intro run_wf_progress [OF prog])
      (simp_all add: open_status_facts build_retryable_action_def)
  then have 1: "store_wf (save_run ?r s1)"
    using get_run_blockers [OF tw r] s1(2,3) ai progress_onlyD(19) [OF prog]
    by (intro store_wf_save_run [OF s1(1)]) auto
  have "store_le s s1"
    using s1(4-6) by (intro store_le_approvals) (auto intro: row_le_refl)
  moreover have g1: "get_run i s1 = Some r" using r s1(5) by (simp add: get_run_def)
  have "store_le s1 (save_run ?r s1)"
    using g1 ai(3) progress_same_run [OF prog] stuck_progress [OF prog] c
    by (intro store_le_save_run) (auto simp: run_le_def open_status_facts)
  ultimately have 2: "store_le s (save_run ?r s1)" by (rule store_le_trans)
  have pend: "get_pending_approvals i s1 = get_pending_approvals i s @ [a]"
    using sa save_approval_fresh [OF fr ai(1)] ps ai(2)
    by (auto simp: get_pending_approvals_def is_pending_def)
  let ?s = "append_event (rx_uuid env 1) (rx_clock env 2) i
    (''approval_created'', ''Approval required for '' @ what @ '': '' @ action, None) (save_run ?r s1)"
  show ?thesis
  proof (rule that [of a ?r ?s])
    show "gate_action env i kind action risk rationale payload tool what r s = (Inr (a, ?r), ?s)"
      by (simp add: gate_action_def ca sa Let_def)
    show "store_wf ?s" "store_le s ?s" using 1 2 by (auto intro: store_le_append_eventI)
    show "get_run i ?s = Some ?r" using ai(3) by (simp add: run_table.get_put)
    show "get_pending_approvals i ?s = get_pending_approvals i s @ [a]"
      using pend by (simp add: get_pending_approvals_def)
  qed (use c texts ai(2) in simp_all)
qed

text \<open>What a gated action leaves behind, to the last field: the approval, the run and the store.\<close>

lemma gate_action_eq:
  assumes r: "get_run i s = Some r"
    and fresh: "''appr_'' @ rx_uuid env 0 \<notin> approval_key ` set (approvals s)"
    and a: "a = \<lparr>pa_approval_id = ''appr_'' @ rx_uuid env 0, pa_run_id = i, pa_action_description = action,
                pa_risk_reason = risk, pa_policy_rationale = rationale, pa_status = ''pending'',
                pa_created_at = rx_clock env 0\<rparr>"
    and r': "r' = r\<lparr>status := ''awaiting_approval'',
                recommended_next_action := Some (''Approval required: '' @ action
                  @ ''. Use approve_action to approve or deny.''),
                recommended_tool := Some ''approve_action'', updated_at := rx_clock env 0,
                retryable_action := Some \<lparr>ra_kind = kind, ra_summary = action, ra_payload = payload,
                  ra_retryable_reason = ''Blocked by approval policy: '' @ rationale, ra_is_valid = True,
                  ra_is_recommended = False, ra_invalidation_reason = None, ra_recommended_tool = tool,
                  ra_created_at = rx_clock env 1\<rparr>\<rparr>"
  shows "gate_action env i kind action risk rationale payload tool what r s =
    (Inr (a, r'),
     append_event (rx_uuid env 1) (rx_clock env 2) i
       (''approval_created'', ''Approval required for '' @ what @ '': '' @ action, None)
       (save_run r' (s\<lparr>approvals := approvals s @
          [\<lparr>ar_approval = a, ar_decision = None, ar_decision_reason = None, ar_resolved_at = None\<rparr>]\<rparr>)))"
proof -
  have i: "run_id r = i" using r by (rule run_table.get_key)
  have ca: "create_approval (rx_clock env 0) (rx_uuid env 0) r action risk rationale =
      (a, r\<lparr>status := ''awaiting_approval'',
         recommended_next_action := Some (''Approval required: '' @ action
           @ ''. Use approve_action to approve or deny.''),
         recommended_tool := Some ''approve_action'', updated_at := rx_clock env 0\<rparr>)"
    by (simp add: create_approval_def a i)
  have "save_approval a s = Inr (s\<lparr>approvals := approvals s @
      [\<lparr>ar_approval = a, ar_decision = None, ar_decision_reason = None, ar_resolved_at = None\<rparr>]\<rparr>)"
    using fresh get_run_ids [OF r] by (intro save_approval_fresh) (simp_all add: a)
  then show ?thesis
    by (simp only: gate_action_def ca build_retryable_action_def Let_def prod.case sum.case r')
qed

lemma append_event_tables:
  "runs (append_event e now i ev s) = runs s" "approvals (append_event e now i ev s) = approvals s"
  "get_run i s = Some r \<Longrightarrow>
     audit (append_event e now i (kind, summary, metadata) s) = audit s @
       (if e \<in> hist_entry_id ` set (audit s) then []
        else [\<lparr>hist_entry_id = e, hist_run_id = i, hist_event_kind = kind, hist_summary = summary,
               hist_metadata = metadata, hist_occurred_at = now\<rparr>])"
  using get_run_ids [of i s r]
  by (auto simp: append_event_def append_audit_entry_def run_exists_ids is_some_iff lookup_None_iff split: prod.splits)

lemma clear_retry_store:
  assumes wf: "store_wf s" and r: "get_run i s = Some r"
  shows "store_wf (save_run (r\<lparr>retryable_action := None\<rparr>) s)"
    "store_le s (save_run (r\<lparr>retryable_action := None\<rparr>) s)"
proof -
  have tw: "tables_wf s" and aw: "awaiting_ok s" using wf by (simp_all add: store_wf_def)
  have i: "run_id r = i" using r by (rule run_table.get_key)
  show "store_wf (save_run (r\<lparr>retryable_action := None\<rparr>) s)"
    using get_run_wf [OF tw r] get_run_blockers [OF tw r] get_run_awaiting [OF aw r] i
    by (intro store_wf_save_run [OF wf]) (auto intro: clear_retry_keeps)
  show "store_le s (save_run (r\<lparr>retryable_action := None\<rparr>) s)"
    using r i clear_retry_keeps(2,3) by (intro store_le_save_run [of _ _ r]) (auto simp: run_le_def)
qed

lemma patch_apply_sound:
  assumes "approval_fresh env d"
  shows "sound d (snd (handle_patch_apply env p d))"
proof (rule soundI)
  let ?i = "patchApplyP_run_id p" and ?s = "store_of d"
  assume wf: "store_wf ?s"
  show "store_wf (store_of (snd (handle_patch_apply env p d))) \<and>
      store_le ?s (store_of (snd (handle_patch_apply env p d)))"
  proof (cases "get_run ?i ?s")
    case (Some r)
    show ?thesis
    proof (cases "evaluate_patch p (policy_profile r)")
      case Proceed
      then show ?thesis
        using Some clear_retry_store [OF wf Some]
        by (auto simp: handle_patch_apply_def Let_def split: prod.splits sum.splits
            intro: store_le_append_eventI)
    next
      case (RequiresApproval action risk rationale)
      obtain a r' s' where g: "gate_action env ?i ''patch.apply'' action risk rationale (rx_patch_json env p)
          ''apply_patch'' ''patch'' r ?s = (Inr (a, r'), s')" "store_wf s'" "store_le ?s s'"
        by (rule gate_action_effect [OF wf Some assms [unfolded approval_fresh_def]])
      with RequiresApproval Some show ?thesis by (simp add: handle_patch_apply_def Let_def)
    qed
  qed (use wf in \<open>simp add: handle_patch_apply_def\<close>)
qed

lemma tests_run_sound:
  assumes "approval_fresh env d"
  shows "sound d (snd (handle_tests_run env p d))"
proof (rule soundI)
  let ?i = "testsRunP_run_id p" and ?s = "store_of d"
  assume wf: "store_wf ?s"
  show "store_wf (store_of (snd (handle_tests_run env p d))) \<and>
      store_le ?s (store_of (snd (handle_tests_run env p d)))"
  proof (cases "get_run ?i ?s")
    case (Some r)
    show ?thesis
    proof (cases "evaluate_test_run p (policy_profile r)")
      case Proceed
      then show ?thesis
        using Some clear_retry_store [OF wf Some]
        by (auto simp: handle_tests_run_def Let_def split: prod.splits sum.splits
            intro: store_le_append_eventI)
    next
      case (RequiresApproval action risk rationale)
      obtain a r' s' where g: "gate_action env ?i ''tests.run'' action risk rationale (rx_tests_json env p)
          ''run_tests'' ''tests'' r ?s = (Inr (a, r'), s')" "store_wf s'" "store_le ?s s'"
        by (rule gate_action_effect [OF wf Some assms [unfolded approval_fresh_def]])
      with RequiresApproval Some show ?thesis by (simp add: handle_tests_run_def Let_def)
    qed
  qed (use wf in \<open>simp add: handle_tests_run_def\<close>)
qed

lemma resolve_total:
  assumes "approvalResolveP_decision p \<in> {''approve'', ''deny''}"
  obtains r s' where "resolve now p s n = Inr (r, s')"
proof -
  have "\<exists>r s'. resolve now p s n = Inr (r, s')"
    using assms by (auto simp: resolve_def split: prod.split)
  then show ?thesis using that by blast
qed

lemma resolved_run_store:
  assumes wf: "store_wf s" and ap: "get_approval a s = Some ap"
    and ri: "pa_run_id ap = i" and r: "get_run i s = Some r"
    and ra: "resolve_approval now a decision reason s = Inr s'"
    and rs: "resolve now' p r (length (get_pending_approvals i s')) = Inr (res, r')"
  shows "store_wf (save_run r' s')" "store_le s (save_run r' s')"
proof -
  have tw: "tables_wf s" and aw: "awaiting_ok s" using wf by (simp_all add: store_wf_def)
  note s' = resolve_approval_wf [OF tw ra ap] and k = resolve_keeps [OF rs]
  have i: "run_id r' = i" using k(2) run_table.get_key [OF r] by (simp add: same_run_def)
  have r': "get_run i s' = Some r" using r s'(2) by (simp add: get_run_def)
  have "tables_wf (save_run r' s')"
    using k(1) get_run_wf [OF tw r] get_run_blockers [OF tw r] s'(2)
    by (intro tables_wf_save_run [OF s'(1)]) (auto simp: k(3) ids_def)
  moreover have "pending_for i s'" if "status r' = ''awaiting_approval''"
    using that resolve_status [OF rs] by (auto simp: pending_for_def split: if_splits)
  then have "awaiting_ok (save_run r' s')"
    using aw s'(2,4) i ri by (auto simp: awaiting_ok_def list_all_iff runs_save_run)
  ultimately show "store_wf (save_run r' s')" by (simp add: store_wf_def)
  show "store_le s (save_run r' s')"
    using r' i k(2,4) resolve_approval_le [OF ra]
    by (intro store_le_trans [OF _ store_le_save_run]) (auto simp: run_le_def)
qed

lemma approval_resolve_cases:
  obtains (rejected) e where "handle_approval_resolve env p d = (Inl e, d)"
  | (resolved) ap r s' res r' where
      "get_approval (approvalResolveP_approval_id p) (store_of d) = Some ap"
      "pa_run_id ap = approvalResolveP_run_id p"
      "get_run (approvalResolveP_run_id p) (store_of d) = Some r"
      "resolve_approval (rx_clock env 0) (approvalResolveP_approval_id p) (approvalResolveP_decision p)
         (approvalResolveP_reason p) (store_of d) = Inr s'"
      "resolve (rx_clock env 1) p r (length (get_pending_approvals (approvalResolveP_run_id p) s')) = Inr (res, r')"
      "handle_approval_resolve env p d =
         (Inr (res, Some r'),
          d\<lparr>store_of := append_event (rx_uuid env 0) (rx_clock env 2) (approvalResolveP_run_id p)
             (''approval_resolved'',
              ''Approval '' @ approvalResolveP_approval_id p @ '' resolved: decision=''
                @ approvalResolveP_decision p, None) (save_run r' s')\<rparr>)"
proof (cases "\<exists>e. handle_approval_resolve env p d = (Inl e, d)")
  case False
  then obtain ap r s' where *: "get_approval (approvalResolveP_approval_id p) (store_of d) = Some ap"
      "pa_run_id ap = approvalResolveP_run_id p"
      "get_run (approvalResolveP_run_id p) (store_of d) = Some r"
      "resolve_approval (rx_clock env 0) (approvalResolveP_approval_id p) (approvalResolveP_decision p)
         (approvalResolveP_reason p) (store_of d) = Inr s'"
    by (auto simp: handle_approval_resolve_def Let_def split: option.splits sum.splits if_splits)
  from *(4) have "approvalResolveP_decision p \<in> {''approve'', ''deny''}"
    by (rule resolve_approval_spec) auto
  then obtain res r' where
    "resolve (rx_clock env 1) p r (length (get_pending_approvals (approvalResolveP_run_id p) s')) = Inr (res, r')"
    by (rule resolve_total)
  with * show ?thesis by (intro resolved) (simp_all add: handle_approval_resolve_def Let_def)
qed (use rejected in blast)

lemma approval_resolve_sound [handler_sound]: "sound d (snd (handle_approval_resolve env p d))"
proof (cases rule: approval_resolve_cases [of env p d])
  case (resolved ap r s' res r')
  then show ?thesis
    using resolved_run_store [OF _ resolved(1-5)]
    by (auto simp: sound_def intro: store_le_append_eventI)
qed (simp add: sound_same_store)

end
