(* ===== verification/Daemon_Machine.thy ===== *)
theory Daemon_Machine
  imports Daemon Handler_Invariants
begin

text \<open>
  The daemon as a state machine: a step serves one request, with the identifiers it draws new to the
  store (they are random UUIDs and millisecond time stamps in the source). The properties of this
  theory hold after every sequence of requests.
\<close>

section \<open>Steps\<close>

fun fresh_request :: "request_env \<Rightarrow> request \<Rightarrow> daemon \<Rightarrow> bool" where
  "fresh_request env (ReqRunPrepare p) d \<longleftrightarrow> rx_uuid env 0 \<notin> ids (store_of d)"
| "fresh_request env (ReqRunSupersede p) d \<longleftrightarrow>
     make_successor_run_id (rx_millis env) (supersedeP_run_id p) \<notin> ids (store_of d)"
| "fresh_request env (ReqPatchApply p) d \<longleftrightarrow> approval_fresh env d"
| "fresh_request env (ReqTestsRun p) d \<longleftrightarrow> approval_fresh env d"
| "fresh_request env _ d \<longleftrightarrow> True"

inductive serves :: "daemon \<Rightarrow> request \<Rightarrow> daemon \<Rightarrow> bool" where
  serve: "fresh_request env req d \<Longrightarrow> dispatch env req d = (res, d') \<Longrightarrow> serves d req d'"

inductive runs_to :: "daemon \<Rightarrow> daemon \<Rightarrow> bool" where
  start: "runs_to d d"
| step: "runs_to d d' \<Longrightarrow> serves d' req d'' \<Longrightarrow> runs_to d d''"

inductive_cases servesE: "serves d req d'"

definition initial :: "world \<Rightarrow> daemon" where
  "initial w = \<lparr>store_of = empty_store, queue_views = [], world_of = w\<rparr>"

lemma snd_respond [simp]: "snd (respond f h) = snd h"
  by (simp add: respond_def split: prod.splits sum.splits)

lemma dispatch_sound:
  assumes "fresh_request env req d"
  shows "sound d (snd (dispatch env req d))"
  using assms
  by (cases req) (simp_all add: handler_sound prepare_sound supersede_sound patch_apply_sound tests_run_sound)

lemma serves_sound: "serves d req d' \<Longrightarrow> sound d d'"
  by (elim servesE) (metis dispatch_sound snd_conv)

lemma runs_to_sound: "runs_to d d' \<Longrightarrow> sound d d'"
proof (induction rule: runs_to.induct)
  case (step d d' req d'')
  then show ?case using serves_sound [OF step(2)] by (auto simp: sound_def intro: store_le_trans)
qed (simp add: sound_same_store)

lemma runs_to_wf: "runs_to (initial w) d \<Longrightarrow> store_wf (store_of d)"
  using runs_to_sound [of "initial w" d] empty_store_wf by (simp add: sound_def initial_def)


section \<open>Sample sessions\<close>

fun session :: "(string \<times> request) list \<Rightarrow> daemon \<Rightarrow> daemon" where
  "session [] d = d"
| "session ((tag, req) # rest) d = session rest (snd (dispatch (sample_env tag) req d))"

fun session_fresh :: "(string \<times> request) list \<Rightarrow> daemon \<Rightarrow> bool" where
  "session_fresh [] d = True"
| "session_fresh ((tag, req) # rest) d =
     (fresh_request (sample_env tag) req d \<and> session_fresh rest (snd (dispatch (sample_env tag) req d)))"

lemma runs_to_trans: "runs_to b c \<Longrightarrow> runs_to a b \<Longrightarrow> runs_to a c"
  by (induction rule: runs_to.induct) (auto intro: runs_to.step)

lemma session_runs_to: "session_fresh xs d \<Longrightarrow> runs_to d (session xs d)"
proof (induction xs d rule: session.induct)
  case (2 tag req rest d)
  let ?d = "snd (dispatch (sample_env tag) req d)"
  have "serves d req ?d"
    using 2(2) by (auto intro: serve [of "sample_env tag" _ _ "fst (dispatch (sample_env tag) req d)"])
  then have "runs_to d ?d" by (rule runs_to.step [OF runs_to.start])
  then show ?case using 2 by (auto intro: runs_to_trans)
qed (simp add: runs_to.start)

definition deletion :: PatchApplyParams where
  "deletion = one_edit (patch_edit ''a.txt'' ''delete'' None [])"

definition prepared_session :: "(string \<times> request) list" where
  "prepared_session = [(''run_'', ReqRunPrepare sample_prepare)]"

definition stuck_session :: "(string \<times> request) list" where
  "stuck_session =
     [(''run_'', ReqRunPrepare sample_prepare), (''b'', ReqRunFinalize sample_finalize),
      (''c'', ReqPatchApply deletion)]"

lemma prepared_session_run:
  "runs_to (initial w) (session prepared_session (initial w))"
  by (rule session_runs_to)
     (simp add: prepared_session_def initial_def empty_store_def ids_def)


abbreviation sample_daemon :: daemon where
  "sample_daemon \<equiv> session prepared_session (initial sample_world)"

lemma sample_daemon_run:
  obtains r where "get_run ''run_1'' (store_of sample_daemon) = Some r"
    "evaluate_patch deletion (policy_profile r) \<noteq> Proceed"
proof -
  have "map_option (\<lambda>r. evaluate_patch deletion (policy_profile r) = Proceed)
      (get_run ''run_1'' (store_of sample_daemon)) = Some False" by code_simp
  then show ?thesis using that by auto
qed

lemma deletion_run [simp]: "patchApplyP_run_id deletion = ''run_1''"
  by (simp add: deletion_def one_edit_def)

definition sample_decision :: "string \<Rightarrow> ApprovalResolveParams" where
  "sample_decision decision =
     \<lparr>approvalResolveP_run_id = ''run_1'', approvalResolveP_approval_id = ''appr_c1'',
      approvalResolveP_decision = decision, approvalResolveP_reason = None\<rparr>"

definition approved_session :: "(string \<times> request) list" where
  "approved_session =
     [(''c'', ReqPatchApply deletion), (''d'', ReqApprovalResolve (sample_decision ''approve''))]"


section \<open>Properties of every session\<close>

text \<open>
  C2: the store is well formed after every sequence of requests to a new daemon: run, approval and audit
  identifiers are unique; every run has one of the documented statuses, an outcome that agrees with
  it, and metadata in normal form; approvals, audit entries and blockers refer to stored runs; an
  approval carries a decision exactly when it is resolved; and a run that awaits an approval has
  one pending.
\<close>

theorem reachable_store_wf:
  assumes "runs_to (initial w) d"
  shows "store_wf (store_of d)"
  using assms by (rule runs_to_wf)

theorem reachable_store_wf_witness:
  "store_wf (store_of (session prepared_session (initial sample_world)))"
  by (rule reachable_store_wf [OF prepared_session_run])

text \<open>
  C12: no sequence of requests rewrites history. The audit trail only grows at its end; every run stays,
  with its identifier, workspace, goal, plan, creation time and policy; every approval stays
  with its identifier, run, action, reasons and creation time, only its status may change, and one that has
  been decided stays as it is.
\<close>

theorem history_is_kept:
  assumes "runs_to d d'" "store_wf (store_of d)"
  shows "prefix (audit (store_of d)) (audit (store_of d')) \<and>
    (\<forall>i r. get_run i (store_of d) = Some r \<longrightarrow>
       (\<exists>r'. get_run i (store_of d') = Some r' \<and> same_run r r')) \<and>
    (\<forall>row \<in> set (approvals (store_of d)). \<exists>row' \<in> set (approvals (store_of d')).
       ar_approval row' = (ar_approval row)\<lparr>pa_status := pa_status (ar_approval row')\<rparr>) \<and>
    {row \<in> set (approvals (store_of d)). \<not> is_pending row} \<subseteq> set (approvals (store_of d'))"
proof -
  have "store_le (store_of d) (store_of d')"
    using runs_to_sound [OF assms(1)] assms(2) by (simp add: sound_def)
  then have audit: "prefix (audit (store_of d)) (audit (store_of d'))"
    and runs: "\<forall>i r. get_run i (store_of d) = Some r \<longrightarrow>
       (\<exists>r'. get_run i (store_of d') = Some r' \<and> same_run r r')"
    and rows: "\<forall>row \<in> set (approvals (store_of d)). \<exists>row' \<in> set (approvals (store_of d')). row_le row row'"
    by (fastforce simp: store_le_def run_le_def)+
  have "row_le row row' \<Longrightarrow>
      ar_approval row' = (ar_approval row)\<lparr>pa_status := pa_status (ar_approval row')\<rparr> \<and> (is_pending row \<or> row' = row)"
    for row row' by (auto simp: row_le_def)
  with audit runs rows show ?thesis by blast
qed

theorem history_is_kept_witness:
  "prefix (audit (store_of (initial sample_world)))
     (audit (store_of (session prepared_session (initial sample_world))))"
  using history_is_kept [OF prepared_session_run, of sample_world] empty_store_wf
  by (simp add: initial_def)

lemma gated_patch:
  assumes wf: "store_wf (store_of d)" and fresh: "approval_fresh env d"
    and r: "get_run (patchApplyP_run_id p) (store_of d) = Some r"
    and gate: "evaluate_patch p (policy_profile r) = RequiresApproval action risk rationale"
  obtains a r' d' where
    "handle_patch_apply env p d =
       (Inr (\<lparr>patchApplyR_changed_files = [], patchApplyR_diff_stats = [],
              patchApplyR_approval_required = Some a\<rparr>, Some r'), d')"
    "world_of d' = world_of d" "get_run (patchApplyP_run_id p) (store_of d') = Some r'"
    "status r' = ''awaiting_approval''" "pa_action_description a = action" "pa_risk_reason a = risk"
    "pa_policy_rationale a = rationale"
    "get_pending_approvals (patchApplyP_run_id p) (store_of d') =
       get_pending_approvals (patchApplyP_run_id p) (store_of d) @ [a]"
proof (rule gate_action_effect [OF wf r fresh [unfolded approval_fresh_def],
    of "''patch.apply''" action risk rationale "rx_patch_json env p" "''apply_patch''" "''patch''"])
  fix a r' s'
  assume "gate_action env (patchApplyP_run_id p) ''patch.apply'' action risk rationale
      (rx_patch_json env p) ''apply_patch'' ''patch'' r (store_of d) = (Inr (a, r'), s')"
    and "get_run (patchApplyP_run_id p) s' = Some r'" "status r' = ''awaiting_approval''"
    "pa_action_description a = action" "pa_risk_reason a = risk" "pa_policy_rationale a = rationale"
    "get_pending_approvals (patchApplyP_run_id p) s' =
       get_pending_approvals (patchApplyP_run_id p) (store_of d) @ [a]"
  then show ?thesis
    using r gate by (intro that [of a r' "d\<lparr>store_of := s'\<rparr>"]) (simp_all add: handle_patch_apply_def)
qed

text \<open>
  C7: a patch that the policy of its run gates is not applied. Nothing of the daemon changes but its store:
  there the run awaits approval, points to \<open>approve_action\<close> and keeps the patch as an action to retry with
  \<open>apply_patch\<close>; every other run is as before; a new pending approval, which is also the answer and carries
  the reasons of the policy, joins the approvals; and the event is recorded in the audit trail, unless
  the identifier drawn for the entry is already taken.
\<close>

theorem gated_patch_waits:
  assumes fresh: "approval_fresh env d"
    and r: "get_run (patchApplyP_run_id p) (store_of d) = Some r"
    and policy: "evaluate_patch p (policy_profile r) = RequiresApproval action risk rationale"
  shows "\<exists>a r' s'. handle_patch_apply env p d =
       (Inr (\<lparr>patchApplyR_changed_files = [], patchApplyR_diff_stats = [],
              patchApplyR_approval_required = Some a\<rparr>, Some r'), d\<lparr>store_of := s'\<rparr>) \<and>
     a = \<lparr>pa_approval_id = ''appr_'' @ rx_uuid env 0, pa_run_id = patchApplyP_run_id p,
          pa_action_description = action, pa_risk_reason = risk, pa_policy_rationale = rationale,
          pa_status = ''pending'', pa_created_at = rx_clock env 0\<rparr> \<and>
     r' = r\<lparr>status := ''awaiting_approval'',
            recommended_next_action := Some (''Approval required: '' @ action
              @ ''. Use approve_action to approve or deny.''),
            recommended_tool := Some ''approve_action'', updated_at := rx_clock env 0,
            retryable_action := Some \<lparr>ra_kind = ''patch.apply'', ra_summary = action,
              ra_payload = rx_patch_json env p,
              ra_retryable_reason = ''Blocked by approval policy: '' @ rationale, ra_is_valid = True,
              ra_is_recommended = False, ra_invalidation_reason = None,
              ra_recommended_tool = ''apply_patch'', ra_created_at = rx_clock env 1\<rparr>\<rparr> \<and>
     (\<forall>i. get_run i s' = (if i = patchApplyP_run_id p then Some r' else get_run i (store_of d))) \<and>
     approvals s' = approvals (store_of d) @
       [\<lparr>ar_approval = a, ar_decision = None, ar_decision_reason = None, ar_resolved_at = None\<rparr>] \<and>
     get_pending_approvals (patchApplyP_run_id p) s' =
       get_pending_approvals (patchApplyP_run_id p) (store_of d) @ [a] \<and>
     audit s' = audit (store_of d) @
       (if rx_uuid env 1 \<in> hist_entry_id ` set (audit (store_of d)) then []
        else [\<lparr>hist_entry_id = rx_uuid env 1, hist_run_id = patchApplyP_run_id p,
               hist_event_kind = ''approval_created'',
               hist_summary = ''Approval required for patch: '' @ action, hist_metadata = None,
               hist_occurred_at = rx_clock env 2\<rparr>])"
proof -
  let ?i = "patchApplyP_run_id p" and ?s = "store_of d"
  obtain a where a: "a = \<lparr>pa_approval_id = ''appr_'' @ rx_uuid env 0, pa_run_id = ?i,
      pa_action_description = action, pa_risk_reason = risk, pa_policy_rationale = rationale,
      pa_status = ''pending'', pa_created_at = rx_clock env 0\<rparr>" by blast
  obtain r' where r': "r' = r\<lparr>status := ''awaiting_approval'',
      recommended_next_action := Some (''Approval required: '' @ action
        @ ''. Use approve_action to approve or deny.''),
      recommended_tool := Some ''approve_action'', updated_at := rx_clock env 0,
      retryable_action := Some \<lparr>ra_kind = ''patch.apply'', ra_summary = action,
        ra_payload = rx_patch_json env p,
        ra_retryable_reason = ''Blocked by approval policy: '' @ rationale, ra_is_valid = True,
        ra_is_recommended = False, ra_invalidation_reason = None,
        ra_recommended_tool = ''apply_patch'', ra_created_at = rx_clock env 1\<rparr>\<rparr>" by blast
  note gate = gate_action_eq [OF r fresh [unfolded approval_fresh_def] a r']
  let ?row = "\<lparr>ar_approval = a, ar_decision = None, ar_decision_reason = None, ar_resolved_at = None\<rparr>"
  define s0 where "s0 = save_run r' (?s\<lparr>approvals := approvals ?s @ [?row]\<rparr>)"
  define s' where "s' = append_event (rx_uuid env 1) (rx_clock env 2) ?i
    (''approval_created'', ''Approval required for '' @ ''patch'' @ '': '' @ action, None) s0"
  have h: "handle_patch_apply env p d = (Inr (\<lparr>patchApplyR_changed_files = [], patchApplyR_diff_stats = [],
      patchApplyR_approval_required = Some a\<rparr>, Some r'), d\<lparr>store_of := s'\<rparr>)"
    using r policy by (simp only: handle_patch_apply_def gate s'_def s0_def Let_def option.case
        PolicyDecision.case prod.case sum.case)
  have "run_id r' = ?i" using run_table.get_key [OF r] by (simp add: r')
  then have runs: "get_run j s0 = (if j = ?i then Some r' else get_run j ?s)" for j
    by (simp add: s0_def get_run_def save_run_def lookup_upsert)
  then have runs': "get_run j s' = (if j = ?i then Some r' else get_run j ?s)" for j by (simp add: s'_def)
  have rows: "approvals s' = approvals ?s @ [?row]"
    by (simp add: s'_def s0_def append_event_tables save_run_def)
  then have pending: "get_pending_approvals ?i s' = get_pending_approvals ?i ?s @ [a]"
    by (simp add: get_pending_approvals_def is_pending_def a)
  have events: "audit s' = audit ?s @ (if rx_uuid env 1 \<in> hist_entry_id ` set (audit ?s) then []
      else [\<lparr>hist_entry_id = rx_uuid env 1, hist_run_id = ?i, hist_event_kind = ''approval_created'',
             hist_summary = ''Approval required for patch: '' @ action, hist_metadata = None,
             hist_occurred_at = rx_clock env 2\<rparr>])"
    using runs [of ?i] by (simp add: s'_def append_event_tables(3)) (simp add: s0_def save_run_def)
  show ?thesis
    by (intro exI [of _ a] exI [of _ r'] exI [of _ s'] conjI allI h a r' runs' rows pending events)
qed

theorem gated_patch_waits_witness:
  "\<exists>a r' d'. handle_patch_apply (sample_env ''c'') deletion sample_daemon =
       (Inr (\<lparr>patchApplyR_changed_files = [], patchApplyR_diff_stats = [],
              patchApplyR_approval_required = Some a\<rparr>, Some r'), d') \<and>
     world_of d' = world_of sample_daemon \<and> status r' = ''awaiting_approval''"
proof -
  obtain r where r: "get_run ''run_1'' (store_of sample_daemon) = Some r"
    and "evaluate_patch deletion (policy_profile r) \<noteq> Proceed" by (rule sample_daemon_run)
  then obtain action risk rationale
    where gate: "evaluate_patch deletion (policy_profile r) = RequiresApproval action risk rationale"
    by (cases "evaluate_patch deletion (policy_profile r)") auto
  have fresh: "approval_fresh (sample_env ''c'') sample_daemon" by code_simp
  from gated_patch_waits [OF fresh _ gate] r show ?thesis by auto
qed

text \<open>
  An approval never lets the approved action through. Once the policy of a run gates a patch, no
  sequence of later requests, granted approvals included, makes the daemon apply that patch: each
  further attempt is gated again and changes no file.
\<close>

theorem gated_patch_stays_gated:
  assumes "runs_to d d'" "store_wf (store_of d)" "approval_fresh env d'"
    and "get_run (patchApplyP_run_id p) (store_of d) = Some r"
    and "evaluate_patch p (policy_profile r) \<noteq> Proceed"
  shows "\<exists>a r' d''. handle_patch_apply env p d' =
       (Inr (\<lparr>patchApplyR_changed_files = [], patchApplyR_diff_stats = [],
              patchApplyR_approval_required = Some a\<rparr>, Some r'), d'') \<and>
     world_of d'' = world_of d' \<and> status r' = ''awaiting_approval''"
proof -
  have le: "store_le (store_of d) (store_of d')" and wf: "store_wf (store_of d')"
    using runs_to_sound [OF assms(1)] assms(2) by (simp_all add: sound_def)
  then obtain r' where r': "get_run (patchApplyP_run_id p) (store_of d') = Some r'"
    and "policy_profile r' = policy_profile r"
    using assms(4) by (fastforce simp: store_le_def run_le_def same_run_def)
  then obtain action risk rationale
    where "evaluate_patch p (policy_profile r') = RequiresApproval action risk rationale"
    using assms(5) by (cases "evaluate_patch p (policy_profile r')") auto
  from gated_patch [OF wf assms(3) r' this] show ?thesis by metis
qed

theorem gated_patch_stays_gated_witness:
  "\<exists>a r' d''. handle_patch_apply (sample_env ''e'') deletion (session approved_session sample_daemon) =
       (Inr (\<lparr>patchApplyR_changed_files = [], patchApplyR_diff_stats = [],
              patchApplyR_approval_required = Some a\<rparr>, Some r'), d'') \<and>
     world_of d'' = world_of (session approved_session sample_daemon)"
proof -
  obtain r where r: "get_run ''run_1'' (store_of sample_daemon) = Some r"
    and gate: "evaluate_patch deletion (policy_profile r) \<noteq> Proceed" by (rule sample_daemon_run)
  have "session_fresh approved_session sample_daemon" by code_simp
  then have run: "runs_to sample_daemon (session approved_session sample_daemon)"
    by (rule session_runs_to)
  have wf: "store_wf (store_of sample_daemon)" by (rule runs_to_wf [OF prepared_session_run])
  have fresh: "approval_fresh (sample_env ''e'') (session approved_session sample_daemon)" by code_simp
  from gated_patch_stays_gated [OF run wf fresh _ gate] r show ?thesis by auto
qed

lemma stuck_kept:
  assumes "runs_to d d'" "store_wf (store_of d)" "get_run i (store_of d) = Some r" "stuck r"
  obtains r' where "get_run i (store_of d') = Some r'" "stuck r'"
proof -
  have "store_le (store_of d) (store_of d')"
    using runs_to_sound [OF assms(1)] assms(2) by (simp add: sound_def)
  then show ?thesis using assms(3,4) that by (fastforce simp: store_le_def run_le_def)
qed

text \<open>
  C33: a run can be locked out of its life cycle for good. If a finalized run leaves its finalized status
  (a gated patch or a replan does that), it is never finalized, reopened, superseded or archived
  again: after every sequence of requests it is still there, with an outcome and without a finalized
  status, and all four requests fail.
\<close>

theorem stuck_run_stays_stuck:
  assumes "runs_to d d'" "store_wf (store_of d)"
    and "get_run i (store_of d) = Some r" "finalized_outcome r \<noteq> None"
    and "\<not> starts_with (status r) ''finalized:''"
  shows "\<exists>r'. get_run i (store_of d') = Some r' \<and>
    \<not> is_ok (finalize t p1 r') \<and> \<not> is_ok (reopen t p2 r') \<and> \<not> is_ok (supersede t p3 r' j) \<and>
    \<not> is_ok (archive t p4 r')"
proof -
  have "stuck r" using assms(4,5) by (simp add: stuck_def is_finalized_status_def)
  with assms(1-3) obtain r' where "get_run i (store_of d') = Some r'" "stuck r'" by (rule stuck_kept)
  then show ?thesis using stuck_rejects [of r'] by blast
qed

theorem stuck_run_stays_stuck_witness:
  "\<exists>r'. get_run ''run_1'' (store_of (session stuck_session (initial sample_world))) = Some r' \<and>
     \<not> is_ok (reopen ''t'' sample_reopen r') \<and> \<not> is_ok (finalize ''t'' sample_finalize r')"
proof -
  let ?d = "session stuck_session (initial sample_world)"
  have "session_fresh stuck_session (initial sample_world)" by code_simp
  then have wf: "store_wf (store_of ?d)" by (rule runs_to_wf [OF session_runs_to])
  have "map_option (\<lambda>r. finalized_outcome r = None \<or> starts_with (status r) ''finalized:'')
      (get_run ''run_1'' (store_of ?d)) = Some False" by code_simp
  then obtain r where "get_run ''run_1'' (store_of ?d) = Some r" "finalized_outcome r \<noteq> None"
    "\<not> starts_with (status r) ''finalized:''" by auto
  from stuck_run_stays_stuck [OF runs_to.start wf this] show ?thesis by blast
qed

end
