(* ===== verification/Daemon_Properties.thy ===== *)
theory Daemon_Properties
  imports Daemon_Machine
begin

text \<open>
  Properties of single requests to the daemon: refusals, failures, what a request can touch,
  preflights, approvals, and the answers of the endpoint.
\<close>

section \<open>Refusals and failures\<close>

text \<open>The run a request is about, for the requests that start by looking it up.\<close>

fun looked_up :: "request \<Rightarrow> string option" where
  "looked_up (ReqRunRefresh p) = Some (refreshP_run_id p)"
| "looked_up (ReqRunReplan p) = Some (replanP_run_id p)"
| "looked_up (ReqFileRead p) = Some (fileReadP_run_id p)"
| "looked_up (ReqGitStatus p) = Some (gitStatusP_run_id p)"
| "looked_up (ReqCodeSearch p) = Some (codeSearchP_run_id p)"
| "looked_up (ReqPatchApply p) = Some (patchApplyP_run_id p)"
| "looked_up (ReqTestsRun p) = Some (testsRunP_run_id p)"
| "looked_up (ReqGitDiff p) = Some (gitDiffP_run_id p)"
| "looked_up (ReqRunGet p) = Some (getP_run_id p)"
| "looked_up (ReqRunHistory p) = Some (historyP_run_id p)"
| "looked_up (ReqPatchPreflight p) = Some (patchPreflightP_run_id p)"
| "looked_up (ReqTestsPreflight p) = Some (testsPreflightP_run_id p)"
| "looked_up (ReqRunFinalize p) = Some (finalizeP_run_id p)"
| "looked_up (ReqRunReopen p) = Some (reopenP_run_id p)"
| "looked_up (ReqRunSupersede p) = Some (supersedeP_run_id p)"
| "looked_up (ReqRunArchive p) = Some (archiveP_run_id p)"
| "looked_up (ReqRunUnarchive p) = Some (unarchiveP_run_id p)"
| "looked_up (ReqRunAnnotate p) = Some (annotateP_run_id p)"
| "looked_up (ReqRunPin p) = Some (pinP_run_id p)"
| "looked_up (ReqRunUnpin p) = Some (unpinP_run_id p)"
| "looked_up (ReqRunSnooze p) = Some (snoozeP_run_id p)"
| "looked_up (ReqRunUnsnooze p) = Some (unsnoozeP_run_id p)"
| "looked_up (ReqRunSetPriority p) = Some (setPriorityP_run_id p)"
| "looked_up (ReqRunAssignOwner p) = Some (assignOwnerP_run_id p)"
| "looked_up (ReqRunSetDueDate p) = Some (setDueDateP_run_id p)"
| "looked_up (ReqRunSetDependencies p) = Some (setDependenciesP_run_id p)"
| "looked_up (ReqRunSetEffort p) = Some (setEffortP_run_id p)"
| "looked_up _ = None"

lemma update_run_unknown:
  "get_run i (store_of d) = None \<Longrightarrow> update_run env i core event d = (Inl (unknown_run i), d)"
  by (simp add: update_run_def)

lemma inspect_run_unknown:
  "get_run i (store_of d) = None \<Longrightarrow> inspect_run i tool d = (Inl (unknown_run i), d)"
  by (simp add: inspect_run_def workspace_for_run_def)

lemmas handler_defs =
  handle_run_refresh_def handle_run_replan_def handle_file_read_def handle_git_status_def
  handle_code_search_def handle_patch_apply_def handle_tests_run_def handle_git_diff_def
  handle_run_get_def handle_run_history_def handle_patch_preflight_def handle_tests_preflight_def
  handle_run_finalize_def handle_run_reopen_def handle_run_supersede_def handle_run_archive_def
  handle_run_unarchive_def handle_run_annotate_def handle_run_pin_def handle_run_unpin_def
  handle_run_snooze_def handle_run_unsnooze_def handle_run_set_priority_def
  handle_run_assign_owner_def handle_run_set_due_date_def handle_run_set_dependencies_def
  handle_run_set_effort_def

text \<open>
  A request about a run the store does not have is refused with the error that names the run, and
  changes nothing: no file, no table, no audit entry.
\<close>

theorem unknown_run_refused:
  assumes "looked_up req = Some i" "get_run i (store_of d) = None"
  shows "dispatch env req d = (Inl (unknown_run i), d)"
  using assms
  by (cases req)
     (simp_all add: handler_defs respond_def Let_def update_run_unknown inspect_run_unknown)

theorem unknown_run_refused_witness:
  "dispatch (sample_env ''a'') (ReqRunPin \<lparr>pinP_run_id = ''nope'', pinP_reason = ''x''\<rparr>)
       (initial sample_world) = (Inl (unknown_run ''nope''), initial sample_world)"
  by (rule unknown_run_refused) (simp_all add: initial_def empty_store_def get_run_def lookup_def)

lemma update_run_failed: "update_run env i core event d = (Inl e, d') \<Longrightarrow> d' = d"
  by (auto simp: update_run_def split: option.splits sum.splits)

lemma respond_failed: "respond f h = (Inl e, d') \<longleftrightarrow> h = (Inl e, d')"
  by (auto simp: respond_def split: prod.splits sum.splits)

lemma inspect_run_failed: "inspect_run i tool d = (Inl e, d') \<Longrightarrow> store_of d' = store_of d"
  by (auto simp: inspect_run_def split: option.splits sum.splits prod.splits)

lemma gate_action_failed: "gate_action env i kind action risk rationale payload tool what r s = (Inl e, s') \<Longrightarrow> s' = s"
  by (auto simp: gate_action_def Let_def split: prod.splits sum.splits)

lemma approval_resolve_failed: "handle_approval_resolve env p d = (Inl e, d') \<Longrightarrow> d' = d"
  by (cases rule: approval_resolve_cases [of env p d]) auto

lemma command_run_failed: "handle_command_run env p d = (Inl e, d') \<Longrightarrow> store_of d' = store_of d"
  by (auto simp: handle_command_run_def Let_def
      split: ValidationOutcome.splits option.splits prod.splits child_outcome.splits)

lemma query_handlers_failed:
  "handle_run_prepare env q1 d = (Inl e, d') \<Longrightarrow> store_of d' = store_of d"
  "handle_run_refresh env q2 d = (Inl e, d') \<Longrightarrow> store_of d' = store_of d"
  "handle_workspace_summary env q3 d = (Inl e, d') \<Longrightarrow> store_of d' = store_of d"
  "handle_runs_list env q4 d = (Inl e, d') \<Longrightarrow> store_of d' = store_of d"
  "handle_run_get env q5 d = (Inl e, d') \<Longrightarrow> store_of d' = store_of d"
  "handle_run_history q6 d = (Inl e, d') \<Longrightarrow> store_of d' = store_of d"
  "handle_patch_preflight q7 d = (Inl e, d') \<Longrightarrow> store_of d' = store_of d"
  "handle_tests_preflight q8 d = (Inl e, d') \<Longrightarrow> store_of d' = store_of d"
  "handle_runs_queue_overview q9 d = (Inl e, d') \<Longrightarrow> store_of d' = store_of d"
  "handle_run_supersede env q10 d = (Inl e, d') \<Longrightarrow> store_of d' = store_of d"
  by (auto simp: handle_run_prepare_def handle_run_refresh_def handle_workspace_summary_def
      handle_runs_list_def handle_run_get_def handle_run_history_def handle_patch_preflight_def
      handle_tests_preflight_def handle_runs_queue_overview_def handle_run_supersede_def Let_def
      split: option.splits sum.splits prod.splits)

lemma view_handlers_failed:
  "handle_queue_view_create env q1 d = (Inl e, d') \<Longrightarrow> d' = d"
  "handle_queue_view_update env q2 d = (Inl e, d') \<Longrightarrow> d' = d"
  "handle_queue_view_delete q3 d = (Inl e, d') \<Longrightarrow> d' = d"
  "handle_queue_view_get q4 d = (Inl e, d') \<Longrightarrow> d' = d"
  "handle_queue_view_list env q5 d = (Inl e, d') \<Longrightarrow> d' = d"
  by (auto simp: handle_queue_view_create_def handle_queue_view_update_def handle_queue_view_delete_def
      handle_queue_view_get_def handle_queue_view_list_def Let_def
      split: option.splits sum.splits prod.splits if_splits)

definition clears_retry :: "daemon \<Rightarrow> daemon \<Rightarrow> bool" where
  "clears_retry d d' \<longleftrightarrow>
     store_of d' = store_of d \<or>
     (\<exists>i r. get_run i (store_of d) = Some r \<and>
        store_of d' = save_run (r\<lparr>retryable_action := None\<rparr>) (store_of d))"

lemma clears_retryI:
  "store_of d' = store_of d \<Longrightarrow> clears_retry d d'"
  "get_run i (store_of d) = Some r \<Longrightarrow>
     store_of d' = save_run (r\<lparr>retryable_action := None\<rparr>) (store_of d) \<Longrightarrow> clears_retry d d'"
  by (auto simp: clears_retry_def)

lemma gated_handlers_failed:
  "handle_patch_apply env p d = (Inl e, d') \<Longrightarrow> clears_retry d d'"
  "handle_tests_run env q d = (Inl e, d') \<Longrightarrow> clears_retry d d'"
  by (auto simp: handle_patch_apply_def handle_tests_run_def Let_def dest!: gate_action_failed
      split: option.splits sum.splits prod.splits PolicyDecision.splits intro: clears_retryI)

fun is_view_request :: "request \<Rightarrow> bool" where
  "is_view_request (ReqQueueViewCreate p) = True"
| "is_view_request (ReqQueueViewUpdate p) = True"
| "is_view_request (ReqQueueViewDelete p) = True"
| "is_view_request _ = False"

lemma command_run_views [simp]: "queue_views (snd (handle_command_run env p d)) = queue_views d"
  by (auto simp: handle_command_run_def Let_def
      split: ValidationOutcome.splits option.splits prod.splits child_outcome.splits)

lemma approval_resolve_frame [simp]:
  "queue_views (snd (handle_approval_resolve env p d)) = queue_views d"
  "world_of (snd (handle_approval_resolve env p d)) = world_of d"
  by (cases rule: approval_resolve_cases [of env p d]; simp)+

lemma gated_handlers_views [simp]:
  "queue_views (snd (handle_patch_apply env p d)) = queue_views d"
  "queue_views (snd (handle_tests_run env q d)) = queue_views d"
  by (auto simp: handle_patch_apply_def handle_tests_run_def Let_def
      split: option.splits sum.splits prod.splits PolicyDecision.splits)

lemmas remaining_defs =
  handle_run_prepare_def handle_workspace_summary_def handle_runs_list_def
  handle_runs_queue_overview_def handle_queue_view_create_def handle_queue_view_update_def
  handle_queue_view_delete_def handle_queue_view_get_def handle_queue_view_list_def

lemma dispatch_views:
  "\<not> is_view_request req \<Longrightarrow> queue_views (snd (dispatch env req d)) = queue_views d"
proof (cases req)
  case (ReqPatchApply p)
  then show ?thesis by simp
next
  case (ReqTestsRun p)
  then show ?thesis by simp
qed (simp_all add: handler_defs remaining_defs Let_def
    split: option.splits prod.splits sum.splits)

text \<open>
  C10: a request that fails leaves no trace in the store, whatever the request and the failure: no run,
  approval, audit entry or view is changed. The one exception is a patch or a test run that passed its
  gate and then failed, which has already forgotten the action recorded for a retry.
\<close>

theorem failure_keeps_store:
  assumes "dispatch env req d = (Inl e, d')"
  shows "queue_views d' = queue_views d \<and>
    (store_of d' = store_of d \<or>
     (\<exists>p. req = ReqPatchApply p \<or> (\<exists>q. req = ReqTestsRun q)) \<and>
     (\<exists>i r. get_run i (store_of d) = Some r \<and>
        store_of d' = save_run (r\<lparr>retryable_action := None\<rparr>) (store_of d)))"
proof -
  have "queue_views d' = queue_views d"
    using assms dispatch_views [of req env d]
    by (cases req) (auto simp: respond_failed dest: view_handlers_failed)
  moreover have "store_of d' = store_of d \<or>
     (\<exists>p. req = ReqPatchApply p \<or> (\<exists>q. req = ReqTestsRun q)) \<and> clears_retry d d'"
    using assms
    by (cases req)
       (auto simp: respond_failed handle_run_replan_def handle_run_finalize_def handle_run_reopen_def
         handle_run_archive_def handle_run_unarchive_def handle_run_annotate_def handle_run_pin_def
         handle_run_unpin_def handle_run_snooze_def handle_run_unsnooze_def
         handle_run_set_priority_def handle_run_assign_owner_def handle_run_set_due_date_def
         handle_run_set_dependencies_def handle_run_set_effort_def Let_def
         handle_file_read_def handle_git_status_def handle_code_search_def handle_git_diff_def
         dest: update_run_failed inspect_run_failed approval_resolve_failed command_run_failed
           query_handlers_failed view_handlers_failed gated_handlers_failed)
  ultimately show ?thesis by (auto simp: clears_retry_def)
qed

theorem failure_keeps_store_witness:
  "store_of (snd (dispatch (sample_env ''x'') (ReqRunReopen sample_reopen) sample_daemon)) =
     store_of sample_daemon \<and>
   \<not> is_ok (fst (dispatch (sample_env ''x'') (ReqRunReopen sample_reopen) sample_daemon))"
proof -
  let ?r = "dispatch (sample_env ''x'') (ReqRunReopen sample_reopen) sample_daemon"
  have no: "\<not> is_ok (fst ?r)" by code_simp
  then obtain e where "?r = (Inl e, snd ?r)" by (cases "fst ?r") (auto simp: prod_eq_iff)
  from failure_keeps_store [OF this] no show ?thesis by blast
qed


section \<open>What a request can touch\<close>

text \<open>The requests that write files or start a program.\<close>

fun works_outside :: "request \<Rightarrow> bool" where
  "works_outside (ReqPatchApply p) = True"
| "works_outside (ReqTestsRun p) = True"
| "works_outside (ReqCommandRun p) = True"
| "works_outside (ReqRunRefresh p) = True"
| "works_outside (ReqGitStatus p) = True"
| "works_outside (ReqGitDiff p) = True"
| "works_outside (ReqCodeSearch p) = True"
| "works_outside (ReqWorkspaceSummary p) = True"
| "works_outside _ = False"

fun only_reads :: "request \<Rightarrow> bool" where
  "only_reads (ReqWorkspaceSummary p) = True"
| "only_reads (ReqFileRead p) = True"
| "only_reads (ReqGitStatus p) = True"
| "only_reads (ReqGitDiff p) = True"
| "only_reads (ReqCodeSearch p) = True"
| "only_reads (ReqRunsList p) = True"
| "only_reads (ReqRunGet p) = True"
| "only_reads (ReqRunHistory p) = True"
| "only_reads (ReqPatchPreflight p) = True"
| "only_reads (ReqTestsPreflight p) = True"
| "only_reads (ReqRunsQueueOverview p) = True"
| "only_reads (ReqQueueViewGet p) = True"
| "only_reads (ReqQueueViewList p) = True"
| "only_reads _ = False"

lemma inspect_file_read: "world_of (snd (inspect_run i (\<lambda>ws w. (f ws w, w)) d)) = world_of d"
  by (simp add: inspect_run_def split: option.splits sum.splits prod.splits)

lemma dispatch_world:
  "\<not> works_outside req \<Longrightarrow> world_of (snd (dispatch env req d)) = world_of d"
  by (cases req)
     (simp_all add: handler_defs remaining_defs Let_def inspect_file_read
       split: option.splits prod.splits sum.splits)

lemma dispatch_reads:
  "only_reads req \<Longrightarrow> store_of (snd (dispatch env req d)) = store_of d \<and>
     queue_views (snd (dispatch env req d)) = queue_views d"
  by (cases req)
     (simp_all add: handler_defs remaining_defs Let_def split: option.splits prod.splits sum.splits)

text \<open>
  C34: the requests do what their names say. Apart from patches, test runs, commands and the five
  requests that ask git or grep, no request changes a file or starts a program, whatever its
  parameters; and the thirteen reading requests change neither a table nor a saved view.
\<close>

theorem requests_keep_to_their_part:
  "(works_outside req \<or> world_of (snd (dispatch env req d)) = world_of d) \<and>
   (only_reads req \<longrightarrow> store_of (snd (dispatch env req d)) = store_of d \<and>
      queue_views (snd (dispatch env req d)) = queue_views d)"
  using dispatch_world dispatch_reads by blast

theorem requests_keep_to_their_part_witness:
  "store_of (snd (dispatch (sample_env ''x'') (ReqRunGet \<lparr>getP_run_id = ''run_1''\<rparr>) sample_daemon)) =
     store_of sample_daemon"
  using requests_keep_to_their_part [of "ReqRunGet \<lparr>getP_run_id = ''run_1''\<rparr>" "sample_env ''x''" sample_daemon]
  by simp


section \<open>Preflights and approvals\<close>

definition approval_of :: "PatchApplyResult handled \<Rightarrow> PendingApproval option" where
  "approval_of h =
     (case fst h of Inl _ \<Rightarrow> None | Inr (result, _) \<Rightarrow> patchApplyR_approval_required result)"

lemma applied_patch_not_gated:
  "apply_patch p root w = (Inr result, w') \<Longrightarrow> patchApplyR_approval_required result = None"
  by (auto simp: apply_patch_def Let_def split: if_splits prod.splits sum.splits)

lemma same_edits [simp]:
  "\<lparr>patchApplyP_run_id = patchApplyP_run_id p, patchApplyP_edits = patchApplyP_edits p\<rparr> = p"
  by (cases p) simp

text \<open>
  C29: a preflight tells what the patch would meet. It changes nothing, and it says that the patch may
  proceed exactly when applying the same edits would not create an approval; when it says that
  approval is required, the approval the patch then gets carries the action, the risk and the rationale
  the preflight gave.
\<close>

theorem preflight_predicts_patch:
  assumes "store_wf (store_of d)" "approval_fresh env d"
    and "get_run (patchApplyP_run_id p) (store_of d) = Some r"
  shows "\<exists>pf. handle_patch_preflight
       \<lparr>patchPreflightP_run_id = patchApplyP_run_id p, patchPreflightP_edits = patchApplyP_edits p\<rparr> d =
         (Inr (pf, None), d) \<and>
     (case approval_of (handle_patch_apply env p d) of
        None \<Rightarrow> pf_decision pf = PreflightProceed
      | Some a \<Rightarrow>
          pf_decision pf = PreflightRequiresApproval \<and>
          pf_action_summary pf = Some (pa_action_description a) \<and>
          pf_risk_reason pf = Some (pa_risk_reason a) \<and>
          pf_policy_rationale pf = Some (pa_policy_rationale a))"
proof (cases "evaluate_patch p (policy_profile r)")
  case Proceed
  then have "approval_of (handle_patch_apply env p d) = None"
    using assms(3)
    by (auto simp: approval_of_def handle_patch_apply_def Let_def dest: applied_patch_not_gated
        split: prod.splits sum.splits)
  with Proceed assms(3) show ?thesis by (simp add: handle_patch_preflight_def Let_def)
next
  case (RequiresApproval action risk rationale)
  with assms obtain a r' d' where
    "handle_patch_apply env p d =
       (Inr (\<lparr>patchApplyR_changed_files = [], patchApplyR_diff_stats = [],
              patchApplyR_approval_required = Some a\<rparr>, Some r'), d')"
    "pa_action_description a = action" "pa_risk_reason a = risk" "pa_policy_rationale a = rationale"
    by (metis gated_patch)
  with RequiresApproval assms(3) show ?thesis
    by (simp add: handle_patch_preflight_def approval_of_def Let_def)
qed

theorem preflight_predicts_patch_witness:
  "\<exists>pf a. handle_patch_preflight \<lparr>patchPreflightP_run_id = ''run_1'',
       patchPreflightP_edits = patchApplyP_edits deletion\<rparr> sample_daemon = (Inr (pf, None), sample_daemon) \<and>
     approval_of (handle_patch_apply (sample_env ''c'') deletion sample_daemon) = Some a \<and>
     pf_risk_reason pf = Some (pa_risk_reason a)"
proof -
  obtain r where r: "get_run ''run_1'' (store_of sample_daemon) = Some r"
    by (rule sample_daemon_run)
  have wf: "store_wf (store_of sample_daemon)" by (rule runs_to_wf [OF prepared_session_run])
  have fresh: "approval_fresh (sample_env ''c'') sample_daemon" by code_simp
  have "is_some (approval_of (handle_patch_apply (sample_env ''c'') deletion sample_daemon))"
    by code_simp
  then obtain a where "approval_of (handle_patch_apply (sample_env ''c'') deletion sample_daemon) = Some a"
    by (auto simp: is_some_iff)
  with preflight_predicts_patch [OF wf fresh, of deletion r] r show ?thesis by auto
qed

lemma decided_row_found:
  assumes "store_wf s" "row \<in> set (approvals s)" "approval_key row = a" "\<not> is_pending row"
  shows "\<not> is_ok (resolve_approval now a decision reason s)"
proof
  assume "is_ok (resolve_approval now a decision reason s)"
  then obtain s' where "resolve_approval now a decision reason s = Inr s'" by (auto simp: is_ok_iff)
  then obtain row' where "row' \<in> set (approvals s)" "approval_key row' = a" "is_pending row'"
    by (auto elim: resolve_approval_spec)
  moreover have "distinct (map approval_key (approvals s))"
    using assms(1) by (simp add: store_wf_def tables_wf_def)
  ultimately have "row' = row" using assms(2,3) by (auto simp: distinct_map inj_on_def)
  with assms(4) \<open>is_pending row'\<close> show False by simp
qed

lemma resolved_row:
  assumes "resolve_approval now a decision reason s = Inr s'"
  obtains row where "row \<in> set (approvals s')" "approval_key row = a" "\<not> is_pending row"
    "ar_decision row = Some decision" "ar_decision_reason row = reason"
proof (rule resolve_approval_spec [OF assms])
  fix st
  assume st: "(decision, st) \<in> {(''approve'', ''approved''), (''deny'', ''denied'')}"
    and s': "s' = s\<lparr>approvals := map (\<lambda>row. if approval_key row = a \<and> is_pending row
                   then decided_row now st decision reason row else row) (approvals s)\<rparr>"
    and "\<exists>row \<in> set (approvals s). approval_key row = a \<and> is_pending row"
  then obtain row where "row \<in> set (approvals s)" "approval_key row = a" "is_pending row" by blast
  then show ?thesis
    using st by (intro that [of "decided_row now st decision reason row"])
      (auto simp: s' image_iff decided_row_def is_pending_def approval_key_def)
qed

text \<open>
  C30: an approval is decided once. After a successful \<open>approval.resolve\<close> the approval is stored with that
  decision, and whatever requests follow, it still is, and every later attempt to resolve it again,
  either way, fails and changes nothing.
\<close>

theorem approval_decided_once:
  assumes "store_wf (store_of d)" "handle_approval_resolve env p d = (Inr res, d')" "runs_to d' d''"
    and "approvalResolveP_approval_id q = approvalResolveP_approval_id p"
  shows "(\<exists>row \<in> set (approvals (store_of d'')). approval_key row = approvalResolveP_approval_id p \<and>
            ar_decision row = Some (approvalResolveP_decision p) \<and>
            ar_decision_reason row = approvalResolveP_reason p) \<and>
         (\<exists>e. handle_approval_resolve env' q d'' = (Inl e, d''))"
proof -
  let ?a = "approvalResolveP_approval_id p"
  obtain row where row: "row \<in> set (approvals (store_of d'))" "approval_key row = ?a" "\<not> is_pending row"
    "ar_decision row = Some (approvalResolveP_decision p)" "ar_decision_reason row = approvalResolveP_reason p"
  proof (cases rule: approval_resolve_cases [of env p d])
    case (resolved ap r s' res' r')
    from resolved(4) obtain row where "row \<in> set (approvals s')" "approval_key row = ?a" "\<not> is_pending row"
      "ar_decision row = Some (approvalResolveP_decision p)"
      "ar_decision_reason row = approvalResolveP_reason p" by (rule resolved_row)
    then show ?thesis using that [of row] resolved(6) assms(2) by auto
  qed (use assms(2) in simp)
  have "store_wf (store_of d')"
    using approval_resolve_sound [of d env p] assms(1,2) by (simp add: sound_def)
  then have wf: "store_wf (store_of d'')" and "store_le (store_of d') (store_of d'')"
    using runs_to_sound [OF assms(3)] by (simp_all add: sound_def)
  then have row'': "row \<in> set (approvals (store_of d''))"
    using row(1,3) by (fastforce simp: store_le_def row_le_def)
  have "\<exists>e. handle_approval_resolve env' q d'' = (Inl e, d'')"
  proof (cases rule: approval_resolve_cases [of env' q d''])
    case (resolved ap r s' res' r')
    then show ?thesis using decided_row_found [OF wf row'' row(2,3)] assms(4) by (metis is_ok_iff)
  qed blast
  with row'' row(2,4,5) show ?thesis by blast
qed

definition gated_session :: "(string \<times> request) list" where
  "gated_session = [(''c'', ReqPatchApply deletion)]"

theorem approval_decided_once_witness:
  "\<exists>e. handle_approval_resolve (sample_env ''y'') (sample_decision ''deny'')
          (snd (handle_approval_resolve (sample_env ''x'') (sample_decision ''approve'')
                  (session gated_session sample_daemon))) =
        (Inl e, snd (handle_approval_resolve (sample_env ''x'') (sample_decision ''approve'')
                  (session gated_session sample_daemon)))"
proof -
  let ?d = "session gated_session sample_daemon"
  let ?h = "handle_approval_resolve (sample_env ''x'') (sample_decision ''approve'') ?d"
  have "session_fresh gated_session sample_daemon" by code_simp
  then have wf: "store_wf (store_of ?d)"
    by (rule runs_to_wf [OF runs_to_trans [OF session_runs_to prepared_session_run]])
  have "is_ok (fst ?h)" by code_simp
  then obtain r where "?h = (Inr r, snd ?h)" by (cases "fst ?h") (auto simp: prod_eq_iff)
  from approval_decided_once [OF wf this runs_to.start, of "sample_decision ''deny''" "sample_env ''y''"]
  show ?thesis by (simp add: sample_decision_def)
qed


section \<open>The endpoint\<close>

text \<open>
  The endpoint serves the protocol's methods and nothing else. A request with another protocol
  version gets the error -32600; one whose method is not exactly the name of one of the methods gets
  the error -32601; neither touches the daemon. No name on the list of forbidden methods is the name of
  a method, so a forbidden method is always refused.
\<close>

theorem endpoint_refuses_other_methods:
  "(rq_jsonrpc req \<noteq> ''2.0'' \<longrightarrow>
      rpc_handler c env req d = (Some (rpc_error (rq_id req) (-32600) ''invalid jsonrpc version''), d)) \<and>
   (rq_jsonrpc req = ''2.0'' \<and> rq_method req \<notin> range method_as_str \<longrightarrow>
      rpc_handler c env req d =
        (Some (rpc_error (rq_id req) (-32601) (''method not found: '' @ rq_method req)), d)) \<and>
   set FORBIDDEN_METHODS \<inter> range method_as_str = {}"
proof -
  have "rq_method req \<notin> range method_as_str \<Longrightarrow> parse_method (rq_method req) = None"
    by (metis not_None_eq parse_method_iff rangeI)
  moreover have "set FORBIDDEN_METHODS \<inter> range method_as_str = {}"
    using forbidden_not_method parse_method_as_str by fastforce
  ultimately show ?thesis by (simp add: rpc_handler_def)
qed

definition sample_codec :: "nat codec" where
  "sample_codec =
     \<lparr>cd_decode = (\<lambda>_ _. Inl ''not decoded''), cd_result = (\<lambda>_. Inr 0), cd_envelope = (\<lambda>_. Inr 0),
      cd_io_text = (\<lambda>_. ''error'')\<rparr>"

definition turn_start :: "nat JsonRpcRequest" where
  "turn_start = \<lparr>rq_jsonrpc = ''2.0'', rq_id = 7, rq_method = ''turn.start'', rq_params = 0\<rparr>"

theorem endpoint_refuses_other_methods_witness:
  "rpc_handler sample_codec (sample_env ''x'') turn_start sample_daemon =
     (Some (rpc_error 7 (-32601) ''method not found: turn.start''), sample_daemon)"
proof -
  have "''turn.start'' \<in> set FORBIDDEN_METHODS" by code_simp
  then show ?thesis
    using endpoint_refuses_other_methods [of turn_start sample_codec "sample_env ''x''" sample_daemon]
    by (auto simp: turn_start_def)
qed

end
