(* ===== verification/View_Properties.thy ===== *)
theory View_Properties
  imports Daemon_Properties
begin

text \<open>
  The saved queue views under the requests of the daemon: identifiers and names stay unique, and
  creating, reading, changing and deleting a view agree with each other.
\<close>

section \<open>The invariant\<close>

definition views_wf :: "(string \<Rightarrow> string) \<Rightarrow> views \<Rightarrow> bool" where
  "views_wf lower vs \<longleftrightarrow>
     distinct (map fst vs) \<and> distinct (map (\<lambda>(_, v). lower (qv_name v)) vs) \<and>
     list_all (\<lambda>(i, v). qv_view_id v = i \<and> qv_name v \<noteq> []) vs"

lemma views_wf_filter: "views_wf lower vs \<Longrightarrow> views_wf lower (filter P vs)"
  by (auto simp: views_wf_def list_all_iff distinct_map inj_on_def)

lemma get_view_put: "get_view k (put_view v vs) = (if k = qv_view_id v then Some v else get_view k vs)"
proof -
  have "map_of (filter (\<lambda>(i, _). i \<noteq> qv_view_id v) vs) k = (if k = qv_view_id v then None else map_of vs k)"
    by (induction vs) auto
  then show ?thesis by (auto simp: get_view_def put_view_def map_add_def split: option.splits)
qed

lemma get_view_filter: "get_view k (filter (\<lambda>(j, _). j \<noteq> i) vs) = (if k = i then None else get_view k vs)"
  unfolding get_view_def by (induction vs) auto

lemma get_view_map:
  "get_view k (map (\<lambda>(j, x). if j = i then (j, v) else (j, x)) vs) =
     (if k = i \<and> get_view i vs \<noteq> None then Some v else get_view k vs)"
  unfolding get_view_def by (induction vs) auto

lemma views_wf_put:
  assumes "views_wf lower vs" "qv_name v \<noteq> []"
    and "find (\<lambda>u. lower (qv_name u) = lower (qv_name v)) (map snd vs) = None"
  shows "views_wf lower (put_view v vs)"
proof -
  have "lower (qv_name v) \<notin> (\<lambda>(_, u). lower (qv_name u)) ` set vs"
    using assms(3) by (fastforce simp: find_None_iff)
  with views_wf_filter [OF assms(1), of "\<lambda>(i, _). i \<noteq> qv_view_id v"] assms(2) show ?thesis
    by (simp add: views_wf_def put_view_def image_iff)
qed

lemma views_wf_Cons:
  "views_wf lower ((j, u) # vs) \<longleftrightarrow>
     (\<forall>(k, x) \<in> set vs. k \<noteq> j \<and> lower (qv_name x) \<noteq> lower (qv_name u)) \<and>
     qv_view_id u = j \<and> qv_name u \<noteq> [] \<and> views_wf lower vs"
proof -
  have "j \<notin> fst ` set vs \<longleftrightarrow> (\<forall>a \<in> set vs. fst a \<noteq> j)" by blast
  moreover have "lower (qv_name u) \<notin> (\<lambda>(_, v). lower (qv_name v)) ` set vs \<longleftrightarrow>
      (\<forall>a \<in> set vs. lower (qv_name (snd a)) \<noteq> lower (qv_name u))"
    by (auto simp: case_prod_beta image_iff)
  ultimately show ?thesis by (auto simp: views_wf_def case_prod_beta)
qed

lemma views_wf_map:
  assumes wf: "views_wf lower vs" and v: "qv_view_id v = i" "qv_name v \<noteq> []"
    and fresh: "\<forall>(j, u) \<in> set vs. j \<noteq> i \<longrightarrow> lower (qv_name u) \<noteq> lower (qv_name v)"
  shows "views_wf lower (map (\<lambda>(j, x). if j = i then (j, v) else (j, x)) vs)"
  using wf fresh
proof (induction vs)
  case (Cons a vs)
  obtain j u where a: "a = (j, u)" by fastforce
  from Cons have "views_wf lower (map (\<lambda>(j, x). if j = i then (j, v) else (j, x)) vs)"
    by (simp add: a views_wf_Cons)
  with Cons(2,3) v show ?case
    by (cases "j = i") (auto simp: a views_wf_Cons split: if_splits)
qed (simp add: views_wf_def)


section \<open>The requests\<close>

lemma create_views:
  "views_wf (rx_lower env) (queue_views d) \<Longrightarrow>
     views_wf (rx_lower env) (queue_views (snd (handle_queue_view_create env p d)))"
  by (auto simp: handle_queue_view_create_def Let_def intro!: views_wf_put split: option.splits)

lemma rename_fresh:
  assumes "rename_error lower p vs = None" "views_wf lower vs" "get_view (updateQueueViewP_view_id p) vs = Some v"
    and "(j, u) \<in> set vs" "j \<noteq> updateQueueViewP_view_id p"
  shows "lower (qv_name u) \<noteq> lower (qv_name (updated_view now p v))"
proof (cases "updateQueueViewP_name p")
  case None
  have "(updateQueueViewP_view_id p, v) \<in> set vs" using assms(3) by (simp add: get_view_def map_of_SomeD)
  moreover have "inj_on (\<lambda>(_, v). lower (qv_name v)) (set vs)" using assms(2) by (simp add: views_wf_def distinct_map)
  ultimately show ?thesis
    using assms(4,5) None inj_onD [of "\<lambda>(_, v). lower (qv_name v)" "set vs" "(j, u)" "(updateQueueViewP_view_id p, v)"]
    by (auto simp: updated_view_def)
next
  case (Some name)
  have "qv_view_id u = j" using assms(2,4) by (auto simp: views_wf_def list_all_iff)
  with Some assms(1,4,5) show ?thesis
    by (force simp: rename_error_def updated_view_def Let_def find_None_iff split: if_splits)
qed

lemma update_views:
  assumes "views_wf (rx_lower env) (queue_views d)"
  shows "views_wf (rx_lower env) (queue_views (snd (handle_queue_view_update env p d)))"
proof (cases "get_view (updateQueueViewP_view_id p) (queue_views d)")
  case (Some v)
  then have "(updateQueueViewP_view_id p, v) \<in> set (queue_views d)" by (simp add: get_view_def map_of_SomeD)
  then have v: "qv_view_id v = updateQueueViewP_view_id p" "qv_name v \<noteq> []"
    using assms by (auto simp: views_wf_def list_all_iff)
  show ?thesis
  proof (cases "rename_error (rx_lower env) p (queue_views d)")
    case None
    then have "qv_name (updated_view now p v) \<noteq> []" for now
      using v(2) by (auto simp: updated_view_def rename_error_def Let_def split: option.splits if_splits)
    with None Some v assms show ?thesis
      by (simp add: handle_queue_view_update_def Let_def)
         (rule views_wf_map, auto simp: rename_fresh, simp add: updated_view_def)
  qed (use Some assms in \<open>simp add: handle_queue_view_update_def Let_def\<close>)
qed (use assms in \<open>simp add: handle_queue_view_update_def Let_def\<close>)

lemma delete_views:
  "views_wf lower (queue_views d) \<Longrightarrow> views_wf lower (queue_views (snd (handle_queue_view_delete p d)))"
  by (simp add: handle_queue_view_delete_def Let_def views_wf_filter)

lemma dispatch_views_wf:
  assumes "views_wf (rx_lower env) (queue_views d)"
  shows "views_wf (rx_lower env) (queue_views (snd (dispatch env req d)))"
proof (cases "is_view_request req")
  case True
  with assms show ?thesis by (cases req) (simp_all add: create_views update_views delete_views)
next
  case False
  with assms show ?thesis by (simp add: dispatch_views)
qed

text \<open>
  C35: saved views keep unique names. From a state in which every view is filed under its identifier, has
  a name and shares it with no other view up to case, which holds of an empty table, every request of
  the daemon leads to such a state again, renaming included.
\<close>

theorem view_names_stay_unique:
  "views_wf lower [] \<and>
   (views_wf (rx_lower env) (queue_views d) \<longrightarrow>
     views_wf (rx_lower env) (queue_views (snd (dispatch env req d))))"
  using dispatch_views_wf by (simp add: views_wf_def)

definition new_view :: "string \<Rightarrow> CreateQueueViewParams" where
  "new_view name =
     \<lparr>createQueueViewP_name = name, createQueueViewP_description = None,
      createQueueViewP_filters =
        \<lparr>qf_workspace_id = None, qf_status = None, qf_label = None, qf_assignee = None,
         qf_include_archived = False, qf_include_snoozed = False, qf_pinned_only = False,
         qf_snoozed_only = False, qf_archived_only = False, qf_priority_filter = None,
         qf_effort_filter = None, qf_blocked_only = False, qf_blocked_by_run_id = None,
         qf_due_on_or_before = None, qf_triage_bucket_filter = None, qf_stale_only = False,
         qf_fresh_only = False, qf_blocking_run_count_at_least = None, qf_today = None\<rparr>,
      createQueueViewP_sort =
        \<lparr>qs_sort_by_priority = True, qs_sort_by_due_date = False, qs_sort_by_effort = False,
         qs_sort_by_triage = False, qs_sort_by_staleness = False\<rparr>,
      createQueueViewP_limit = None\<rparr>"

theorem view_names_stay_unique_witness:
  "let d = snd (dispatch (sample_env ''a'') (ReqQueueViewCreate (new_view '' Mine '')) (initial sample_world));
       d' = snd (dispatch (sample_env ''b'') (ReqQueueViewCreate (new_view ''MINE'')) d)
   in views_wf to_lowercase (queue_views d') \<and> map (qv_name \<circ> snd) (queue_views d') = [''Mine'']"
proof -
  let ?d = "snd (dispatch (sample_env ''a'') (ReqQueueViewCreate (new_view '' Mine '')) (initial sample_world))"
  let ?d' = "snd (dispatch (sample_env ''b'') (ReqQueueViewCreate (new_view ''MINE'')) ?d)"
  have l: "rx_lower (sample_env t) = to_lowercase" for t by (simp add: sample_env_def)
  have "views_wf to_lowercase (queue_views ?d)" by code_simp
  with view_names_stay_unique [of _ "sample_env ''b''" ?d "ReqQueueViewCreate (new_view ''MINE'')"]
  have "views_wf to_lowercase (queue_views ?d')" unfolding l by blast
  moreover have "map (qv_name \<circ> snd) (queue_views ?d') = [''Mine'']" by code_simp
  ultimately show ?thesis by (simp only: Let_def)
qed

text \<open>
  What is saved is what is read. A view that was created is answered by \<open>queueView.get\<close> under its new
  identifier, with the trimmed name and the parameters it was created with, while every other view is
  answered as before; and once it is deleted its identifier is unknown to get, update and delete.
\<close>

theorem saved_view_round_trip:
  assumes "handle_queue_view_create env p d = (Inr (res, st), d')"
    and "qv_view_id (createQueueViewR_view res) = i"
    and "handle_queue_view_delete \<lparr>deleteQueueViewP_view_id = i\<rparr> d' = (del, d'')"
  shows "handle_queue_view_get \<lparr>getQueueViewP_view_id = i\<rparr> d' = (Inr (createQueueViewR_view res, None), d') \<and>
    qv_name (createQueueViewR_view res) = trim (createQueueViewP_name p) \<and>
    qv_filters (createQueueViewR_view res) = createQueueViewP_filters p \<and>
    qv_sort (createQueueViewR_view res) = createQueueViewP_sort p \<and>
    qv_limit (createQueueViewR_view res) = createQueueViewP_limit p \<and>
    (\<forall>k. k \<noteq> i \<longrightarrow> get_view k (queue_views d') = get_view k (queue_views d) \<and>
                 get_view k (queue_views d'') = get_view k (queue_views d)) \<and>
    (\<exists>res. del = Inr res) \<and>
    handle_queue_view_get \<lparr>getQueueViewP_view_id = i\<rparr> d'' = (Inl (Bail (''view not found: '' @ i)), d'') \<and>
    handle_queue_view_delete \<lparr>deleteQueueViewP_view_id = i\<rparr> d'' = (Inl (Bail (''view not found: '' @ i)), d'')"
proof -
  let ?v = "createQueueViewR_view res"
  have c: "queue_views d' = put_view ?v (queue_views d)" "qv_name ?v = trim (createQueueViewP_name p)"
    "qv_filters ?v = createQueueViewP_filters p" "qv_sort ?v = createQueueViewP_sort p"
    "qv_limit ?v = createQueueViewP_limit p"
    using assms(1) by (auto simp: handle_queue_view_create_def Let_def split: if_splits option.splits)
  then have g: "get_view k (queue_views d') = (if k = i then Some ?v else get_view k (queue_views d))" for k
    using assms(2) by (simp add: get_view_put)
  then have del: "del = Inr (\<lparr>deleteQueueViewR_deleted_view_id = i\<rparr>, None)"
    "queue_views d'' = filter (\<lambda>(j, _). j \<noteq> i) (queue_views d')"
    using assms(3) by (auto simp: handle_queue_view_delete_def Let_def)
  then have g': "get_view k (queue_views d'') = (if k = i then None else get_view k (queue_views d))" for k
    by (simp add: get_view_filter g)
  show ?thesis
    using c(2-) del(1) by (simp add: g g' handle_queue_view_get_def handle_queue_view_delete_def Let_def)
qed

theorem saved_view_round_trip_witness:
  "\<exists>res st d'. handle_queue_view_create (sample_env ''a'') (new_view ''mine'') (initial sample_world) = (Inr (res, st), d') \<and>
     handle_queue_view_get \<lparr>getQueueViewP_view_id = qv_view_id (createQueueViewR_view res)\<rparr> d' =
       (Inr (createQueueViewR_view res, None), d')"
proof -
  let ?h = "handle_queue_view_create (sample_env ''a'') (new_view ''mine'') (initial sample_world)"
  have "(case fst ?h of Inl _ \<Rightarrow> False | Inr _ \<Rightarrow> True)" by code_simp
  then obtain res st where "fst ?h = Inr (res, st)" by (auto split: sum.splits)
  then have h: "?h = (Inr (res, st), snd ?h)" by (simp add: prod_eq_iff)
  from saved_view_round_trip [OF h refl surjective_pairing] h show ?thesis by blast
qed

end
