(* ===== verification/Queue_Properties.thy ===== *)
theory Queue_Properties
  imports Handler_Invariants "HOL-Library.Multiset"
begin

text \<open>
  What the queue requests answer: the listing of runs (filters, order, limit), the history of a run and
  the overview. The order lemmas are about stable sorting by several keys in turn.
\<close>

section \<open>Stable sorting\<close>

definition lex_by :: "('a \<Rightarrow> 'b::linorder) \<Rightarrow> ('a \<Rightarrow> 'a \<Rightarrow> bool) \<Rightarrow> 'a \<Rightarrow> 'a \<Rightarrow> bool" where
  "lex_by f R a b \<longleftrightarrow> f a < f b \<or> f a = f b \<and> R a b"

lemma sorted_wrt_insort_key:
  assumes "sorted_wrt (lex_by f R) ys" "\<forall>y \<in> set ys. R x y"
  shows "sorted_wrt (lex_by f R) (insort_key f x ys)"
  using assms
proof (induction ys)
  case (Cons y ys)
  show ?case
  proof (cases "f x \<le> f y")
    case True
    then have "lex_by f R x z" if "z \<in> set (y # ys)" for z
      using that Cons.prems by (auto simp: lex_by_def)
    then show ?thesis using True Cons.prems(1) by auto
  next
    case False
    then show ?thesis using Cons by (auto simp: set_insort_key lex_by_def)
  qed
qed simp

lemma sorted_wrt_sort_key:
  "sorted_wrt R xs \<Longrightarrow> sorted_wrt (lex_by f R) (sort_key f xs)"
  by (induction xs) (auto intro: sorted_wrt_insort_key)

lemma sorted_wrt_sort_key_desc: "sorted_wrt (\<lambda>a b. f b \<le> f a) (sort_key_desc f xs)"
proof -
  have "sorted_wrt (\<lambda>a b. f a \<le> f b) (sort_key f (rev xs))"
    using sorted_sort_key [of f "rev xs"] by (simp add: sorted_map)
  then show ?thesis by (simp add: sort_key_desc_def sorted_wrt_rev)
qed















lemma sorted_key_split:
  "sorted (map f xs) \<Longrightarrow> \<exists>k. list_all (\<lambda>x. f x \<le> c) (take k xs) \<and> list_all (\<lambda>x. \<not> f x \<le> c) (drop k xs)"
proof (induction xs)
  case (Cons x xs)
  then obtain k where k: "list_all (\<lambda>x. f x \<le> c) (take k xs)" "list_all (\<lambda>x. \<not> f x \<le> c) (drop k xs)"
    by auto
  show ?case
  proof (cases "f x \<le> c")
    case True
    with k show ?thesis by (intro exI [of _ "Suc k"]) simp
  next
    case False
    with Cons.prems show ?thesis by (intro exI [of _ 0]) (fastforce simp: list_all_iff)
  qed
qed simp

lemma mset_sort_key_desc [simp]: "mset (sort_key_desc f xs) = mset xs"
  by (simp add: sort_key_desc_def)

lemma set_sort_key_desc [simp]: "set (sort_key_desc f xs) = set xs"
  by (simp add: sort_key_desc_def)

lemma length_sort_key_desc [simp]: "length (sort_key_desc f xs) = length xs"
  by (simp add: sort_key_desc_def)

lemma sql_limit_small: "n < 2 ^ 63 \<Longrightarrow> sql_limit n xs = take n xs"
proof -
  assume "n < 2 ^ 63"
  then have "sint (word_of_nat n :: 64 word) = int n"
    using sint_sbintrunc' [of "int n", where 'a = 64]
    by (simp add: signed_take_bit_int_eq_self)
  then show ?thesis by (simp add: sql_limit_def usize_as_i64_def)
qed


section \<open>runs.list\<close>

definition list_before :: "RunSummary \<Rightarrow> RunSummary \<Rightarrow> bool" where
  "list_before a b \<longleftrightarrow>
     sum_is_pinned a = Some True \<and> sum_is_pinned b \<noteq> Some True \<or>
     (sum_is_pinned a = Some True \<longleftrightarrow> sum_is_pinned b = Some True) \<and>
     sum_updated_at b \<le> sum_updated_at a"

lemma list_order_sorted:
  "sorted_wrt (lex_by (\<lambda>r. if is_some (pin_metadata r) then 0 else 1 :: nat)
     (\<lambda>a b. updated_at b \<le> updated_at a)) (list_order rs)"
  by (simp add: list_order_def sorted_wrt_sort_key sorted_wrt_sort_key_desc)

lemma list_before_summary:
  "lex_by (\<lambda>r. if is_some (pin_metadata r) then 0 else 1 :: nat)
     (\<lambda>a b. updated_at b \<le> updated_at a) a b \<Longrightarrow> list_before (summary_of a) (summary_of b)"
  by (auto simp: lex_by_def list_before_def summary_of_def some_if_def split: if_splits)

lemma list_order_mset: "mset (list_order rs) = mset rs"
  by (simp add: list_order_def)

lemma list_order_length [simp]: "length (list_order rs) = length rs"
  by (metis list_order_mset size_mset)

lemma list_runs_where:
  assumes "lq_limit q < 2 ^ 63"
  shows "set (list_runs q s) \<subseteq>
           {x. list_post q x \<and> (\<exists>r \<in> set (runs s). x = summary_of r \<and> list_where q r)} \<and>
         sorted_wrt list_before (list_runs q s) \<and>
         length (list_runs q s) \<le> lq_limit q \<and>
         (length (filter (list_where q) (runs s)) \<le> lq_limit q \<longrightarrow>
            set (list_runs q s) =
              {x. list_post q x \<and> (\<exists>r \<in> set (runs s). x = summary_of r \<and> list_where q r)})"
proof -
  let ?rs = "list_order (filter (list_where q) (runs s))"
  have l: "list_runs q s = filter (list_post q) (map summary_of (take (lq_limit q) ?rs))"
    by (simp add: list_runs_def sql_limit_small [OF assms])
  have "sorted_wrt list_before (map summary_of (take (lq_limit q) ?rs))"
    using sorted_wrt_take [OF list_order_sorted [of "filter (list_where q) (runs s)"], of "lq_limit q"]
    by (auto simp: sorted_wrt_map intro: sorted_wrt_mono_rel [rotated] list_before_summary)
  then have "sorted_wrt list_before (list_runs q s)" unfolding l by (rule sorted_wrt_filter)
  moreover have "length (list_runs q s) \<le> lq_limit q"
    unfolding l by (rule order_trans [OF length_filter_le]) simp
  moreover have "set (list_runs q s) \<subseteq>
      {x. list_post q x \<and> (\<exists>r \<in> set (runs s). x = summary_of r \<and> list_where q r)}"
    unfolding l by (auto dest!: in_set_takeD)
  moreover have "set (list_runs q s) =
      {x. list_post q x \<and> (\<exists>r \<in> set (runs s). x = summary_of r \<and> list_where q r)}"
    if "length (filter (list_where q) (runs s)) \<le> lq_limit q"
    using that unfolding l by auto
  ultimately show ?thesis by blast
qed

text \<open>The conditions of a query, on a stored run: those the statement has, and those checked on its rows.\<close>

definition asks_stored :: "ListQuery \<Rightarrow> RunState \<Rightarrow> bool" where
  "asks_stored q r \<longleftrightarrow>
     lq_workspace q \<in> {None, Some (workspace_id r)} \<and> lq_status q \<in> {None, Some (status r)} \<and>
     (archive_metadata r \<noteq> None \<and> unarchive_metadata r = None \<longrightarrow> lq_archived_only q \<or> lq_include_archived q) \<and>
     (lq_archived_only q \<longrightarrow> archive_metadata r \<noteq> None \<and> unarchive_metadata r = None) \<and>
     (snooze_metadata r \<noteq> None \<longrightarrow> lq_snoozed_only q \<or> lq_include_snoozed q) \<and>
     (lq_snoozed_only q \<longrightarrow> snooze_metadata r \<noteq> None)"

definition asks_rows :: "ListQuery \<Rightarrow> RunState \<Rightarrow> bool" where
  "asks_rows q r \<longleftrightarrow>
     (\<forall>l. lq_label q = Some l \<longrightarrow> (\<exists>a. annotation r = Some a \<and> l \<in> set (ann_labels a))) \<and>
     (lq_pinned_only q \<longrightarrow> pin_metadata r \<noteq> None)"

lemma asks_stored_where: "asks_stored q r = list_where q r"
  by (auto simp: asks_stored_def list_where_def is_archived_run_def is_snoozed_run_def is_some_iff
      split: option.splits)

lemma asks_rows_post: "asks_rows q r = list_post q (summary_of r)"
  by (cases "annotation r")
     (auto simp: asks_rows_def list_post_def summary_of_def some_if_def is_some_iff split: option.splits)

text \<open>
  C31: what a listing query returns (with a limit below 2^63). Its entries are summaries of stored runs
  that meet every condition of the query; they come pinned ones first and in each group from the
  latest update to the oldest; there are at most as many as the limit; and when the runs that meet
  the stored conditions are no more than the limit, none that meets all conditions is missing.
\<close>

theorem list_runs_correct:
  assumes "lq_limit q < 2 ^ 63"
  shows "set (list_runs q s) \<subseteq> summary_of ` {r \<in> set (runs s). asks_stored q r \<and> asks_rows q r} \<and>
         sorted_wrt list_before (list_runs q s) \<and>
         length (list_runs q s) \<le> lq_limit q \<and>
         (length (filter (asks_stored q) (runs s)) \<le> lq_limit q \<longrightarrow>
            set (list_runs q s) = summary_of ` {r \<in> set (runs s). asks_stored q r \<and> asks_rows q r})"
proof -
  have "summary_of ` {r \<in> set (runs s). asks_stored q r \<and> asks_rows q r} =
      {x. list_post q x \<and> (\<exists>r \<in> set (runs s). x = summary_of r \<and> list_where q r)}"
    by (auto simp: asks_stored_where asks_rows_post)
  moreover have "asks_stored q = list_where q" by (simp add: fun_eq_iff asks_stored_where)
  ultimately show ?thesis using list_runs_where [OF assms, of s] by simp
qed

definition sample_query :: ListQuery where
  "sample_query = all_runs_query\<lparr>lq_limit := 20\<rparr>"

theorem list_runs_correct_witness:
  "set (list_runs sample_query (save_run sample_run empty_store)) = {summary_of sample_run}"
proof -
  let ?s = "save_run sample_run empty_store"
  have runs: "runs ?s = [sample_run]" by (simp add: save_run_def empty_store_def upsert_def)
  have limit: "lq_limit sample_query < 2 ^ 63" by (simp add: sample_query_def)
  have "list_where sample_query sample_run" "list_post sample_query (summary_of sample_run)"
    by (simp_all add: list_where_def list_post_def sample_query_def all_runs_query_def)
  then show ?thesis
    using list_runs_correct [OF limit, of ?s]
    by (auto simp: runs sample_query_def asks_stored_where [symmetric] asks_rows_post [symmetric])
qed



lemma set_apply_if_sort [simp]:
  "set (apply_if b (sort_key f) rs) = set rs" "set (apply_if b (sort_key_desc g) rs) = set rs"
  by (simp_all add: apply_if_def)

lemma apply_if_flag: "apply_if True f x = f x" "apply_if False f x = x"
  by (simp_all add: apply_if_def)




















text \<open>
  Sorted by triage, finished work comes first. A listing sorted by triage (and not also by staleness)
  puts every run in the bucket \<open>done\<close> before all others, critical ones included, although the order is
  announced as running from critical to done.
\<close>

theorem triage_sort_puts_done_first:
  assumes "flag (runsListP_sort_by_triage p)" "\<not> flag (runsListP_sort_by_staleness p)"
    and "handle_runs_list env p d = (Inr (res, st), d')"
  shows "\<exists>k. list_all (\<lambda>x. sum_triage_bucket x = Some Done) (take k (runsListR_runs res)) \<and>
             list_all (\<lambda>x. sum_triage_bucket x \<noteq> Some Done) (drop k (runsListR_runs res))"
proof -
  let ?key = "\<lambda>r. unwrap_or 999 (map_option triage_sort_key (sum_triage_bucket r))"
  let ?done = "\<lambda>x. sum_triage_bucket x = Some Done" and ?rs = "runsListR_runs res"
  obtain l where "?rs = filter_and_sort_derived p (rx_parse_date env) (rx_today env) l"
    using assms(3) by (auto simp: handle_runs_list_def Let_def)
  then obtain rs where r: "?rs = sort_key ?key rs"
    using assms(1,2) by (simp only: filter_and_sort_derived_def apply_if_flag Let_def)
  have done_iff: "?done x \<longleftrightarrow> ?key x \<le> 0" for x
    by (cases "sum_triage_bucket x"; cases "the (sum_triage_bucket x)") (auto simp: unwrap_or_def)
  have "sorted (map ?key ?rs)" unfolding r by (rule sorted_sort_key)
  from sorted_key_split [OF this, of 0] show ?thesis by (simp only: done_iff)
qed

definition triage_listing :: RunsListParams where
  "triage_listing =
     \<lparr>runsListP_limit = None, runsListP_workspace_id = None, runsListP_status = None,
      runsListP_include_archived = None, runsListP_archived_only = None, runsListP_label = None,
      runsListP_pinned_only = None, runsListP_include_snoozed = None, runsListP_snoozed_only = None,
      runsListP_priority_filter = None, runsListP_sort_by_priority = None, runsListP_assignee = None,
      runsListP_due_on_or_before = None, runsListP_sort_by_due_date = None,
      runsListP_blocked_only = None, runsListP_blocked_by_run_id = None,
      runsListP_blocking_only = None, runsListP_blocking_run_count_at_least = None,
      runsListP_effort_filter = None, runsListP_sort_by_effort = None, runsListP_stale_only = None,
      runsListP_fresh_only = None, runsListP_sort_by_staleness = None, runsListP_today = None,
      runsListP_triage_bucket_filter = None, runsListP_sort_by_triage = Some True\<rparr>"

definition two_runs :: daemon where
  "two_runs =
     \<lparr>store_of = save_run (sample_run\<lparr>run_id := ''run_2'', status := ''finalized:failed''\<rparr>)
                   (save_run (sample_run\<lparr>priority := Urgent\<rparr>) empty_store),
      queue_views = [], world_of = sample_world\<rparr>"

theorem triage_sort_puts_done_first_witness:
  "\<exists>res st d' k. handle_runs_list (sample_env ''a'') triage_listing two_runs = (Inr (res, st), d') \<and>
     length (runsListR_runs res) = 2 \<and>
     list_all (\<lambda>x. sum_triage_bucket x = Some Done) (take k (runsListR_runs res)) \<and>
     list_all (\<lambda>x. sum_triage_bucket x \<noteq> Some Done) (drop k (runsListR_runs res))"
proof -
  let ?h = "handle_runs_list (sample_env ''a'') triage_listing two_runs"
  have "(case fst ?h of Inl _ \<Rightarrow> False | Inr (r, _) \<Rightarrow> length (runsListR_runs r) = 2)" by code_simp
  then obtain res st where "fst ?h = Inr (res, st)" and n: "length (runsListR_runs res) = 2"
    by (auto split: sum.splits)
  then have h: "?h = (Inr (res, st), snd ?h)" by (simp add: prod_eq_iff)
  have f: "flag (runsListP_sort_by_triage triage_listing)" "\<not> flag (runsListP_sort_by_staleness triage_listing)"
    by (simp_all add: triage_listing_def flag_def unwrap_or_def)
  from triage_sort_puts_done_first [OF f h] h n show ?thesis by blast
qed


section \<open>run.history and runs.overview\<close>

text \<open>
  The history of a run is answered newest first. The entries are entries of the audit trail about
  that run, from the latest time stamp to the oldest, at most as many as asked for and never more than
  two hundred; if the trail has no more, all of them are there.
\<close>

theorem history_newest_first:
  assumes "handle_run_history p d = (Inr (res, st), d')"
  shows "set (historyR_entries res) \<subseteq> {e \<in> set (audit (store_of d)). hist_run_id e = historyP_run_id p} \<and>
    sorted_wrt (\<lambda>a b. hist_occurred_at b \<le> hist_occurred_at a) (historyR_entries res) \<and>
    length (historyR_entries res) \<le> min (unwrap_or 50 (historyP_limit p)) 200 \<and>
    (length (filter (\<lambda>e. hist_run_id e = historyP_run_id p) (audit (store_of d)))
       \<le> min (unwrap_or 50 (historyP_limit p)) 200 \<longrightarrow>
     mset (historyR_entries res) =
       mset (filter (\<lambda>e. hist_run_id e = historyP_run_id p) (audit (store_of d)))) \<and> d' = d"
proof -
  let ?n = "min (unwrap_or 50 (historyP_limit p)) 200"
  let ?l = "filter (\<lambda>e. hist_run_id e = historyP_run_id p) (audit (store_of d))"
  have "?n < 2 ^ 63" by (rule le_less_trans [of _ 200]) simp_all
  then have r: "historyR_entries res = take ?n (sort_key_desc hist_occurred_at (rev ?l))" "d' = d"
    using assms by (auto simp: handle_run_history_def get_audit_entries_def sql_limit_small Let_def
        split: option.splits)
  have "sorted_wrt (\<lambda>a b. hist_occurred_at b \<le> hist_occurred_at a) (historyR_entries res)"
    unfolding r by (rule sorted_wrt_take [OF sorted_wrt_sort_key_desc])
  moreover have "mset (historyR_entries res) = mset ?l" if "length ?l \<le> ?n"
    using that unfolding r by simp
  moreover have "set (historyR_entries res) \<subseteq> {e \<in> set (audit (store_of d)). hist_run_id e = historyP_run_id p}"
    unfolding r by (auto dest!: in_set_takeD)
  moreover have "length (historyR_entries res) \<le> ?n" unfolding r by (simp add: min_le_iff_disj)
  ultimately show ?thesis using r(2) by blast
qed

theorem history_newest_first_witness:
  "let pin = handle_run_pin (sample_env ''a'') \<lparr>pinP_run_id = ''run_1'', pinP_reason = ''first''\<rparr>;
       unpin = handle_run_unpin (sample_env ''b'') \<lparr>unpinP_run_id = ''run_1'', unpinP_reason = ''done''\<rparr>;
       d = snd (unpin (snd (pin two_runs)));
       h = handle_run_history \<lparr>historyP_run_id = ''run_1'', historyP_limit = None\<rparr> d
   in case fst h of
        Inl _ \<Rightarrow> False
      | Inr (res, _) \<Rightarrow> length (historyR_entries res) = 2 \<and>
          sorted_wrt (\<lambda>a b. hist_occurred_at b \<le> hist_occurred_at a) (historyR_entries res)"
proof -
  define pin where "pin = handle_run_pin (sample_env ''a'') \<lparr>pinP_run_id = ''run_1'', pinP_reason = ''first''\<rparr>"
  define unpin where "unpin = handle_run_unpin (sample_env ''b'') \<lparr>unpinP_run_id = ''run_1'', unpinP_reason = ''done''\<rparr>"
  define d where "d = snd (unpin (snd (pin two_runs)))"
  let ?p = "\<lparr>historyP_run_id = ''run_1'', historyP_limit = None\<rparr>"
  have "case fst (handle_run_history ?p d) of Inl _ \<Rightarrow> False | Inr (res, _) \<Rightarrow> length (historyR_entries res) = 2"
    unfolding d_def pin_def unpin_def by code_simp
  then obtain res st where r: "fst (handle_run_history ?p d) = Inr (res, st)" "length (historyR_entries res) = 2"
    by (auto split: sum.splits)
  then have "handle_run_history ?p d = (Inr (res, st), snd (handle_run_history ?p d))" by (simp add: prod_eq_iff)
  from history_newest_first [OF this] r show ?thesis by (simp add: pin_def [symmetric] unpin_def [symmetric] d_def [symmetric] Let_def)
qed

lemma priority_counts:
  "count_list (map (\<lambda>r. priority_as_str (sum_priority r)) rs) ''low''
     + count_list (map (\<lambda>r. priority_as_str (sum_priority r)) rs) ''normal''
     + count_list (map (\<lambda>r. priority_as_str (sum_priority r)) rs) ''high''
     + count_list (map (\<lambda>r. priority_as_str (sum_priority r)) rs) ''urgent'' = length rs"
proof (induction rs)
  case (Cons r rs)
  then show ?case by (cases "sum_priority r") simp_all
qed simp

lemma unwrap_count_by: "unwrap_or 0 (count_by f xs k) = count_list (map f xs) k"
  by (simp add: count_by_def Let_def unwrap_or_def)

lemma dom_count_by: "dom (count_by f xs) = f ` set xs"
  by (auto simp: count_by_def Let_def count_list_0_iff dom_def)

lemma sum_count_by: "(\<Sum>k \<in> dom (count_by f xs). the (count_by f xs k)) = length xs"
proof -
  have "(\<Sum>k \<in> f ` set xs. the (count_by f xs k)) = (\<Sum>k \<in> set (map f xs). count_list (map f xs) k)"
    by (rule sum.cong) (auto simp: count_by_def Let_def count_list_0_iff)
  also have "\<dots> = length (map f xs)" by (rule sum_count_set) auto
  finally show ?thesis by (simp add: dom_count_by)
qed

text \<open>
  The figures of the overview add up. Each visible run is counted once by priority, once by status
  and once by assignee; ready and blocked runs are disjoint and among the visible ones; and the number
  of archived runs, when asked for, is always given as zero, however many there are.
\<close>

theorem overview_adds_up:
  assumes "handle_runs_queue_overview p d = (Inr (ov, st), d')"
  shows "pc_low (ov_by_priority ov) + pc_normal (ov_by_priority ov) + pc_high (ov_by_priority ov)
           + pc_urgent (ov_by_priority ov) = ov_total_visible ov \<and>
         (\<Sum>k \<in> dom (ov_by_status ov). the (ov_by_status ov k)) = ov_total_visible ov \<and>
         (\<Sum>k \<in> dom (ov_by_assignee ov). the (ov_by_assignee ov k)) = ov_total_visible ov \<and>
         ov_ready_count ov + ov_blocked_count ov \<le> ov_total_visible ov \<and>
         ov_archived_count ov = (if flag (runsQueueOverviewP_include_archived p) then Some 0 else None)"
proof -
  obtain rs where
    "ov_total_visible ov = length rs"
    "ov_ready_count ov = count_where (\<lambda>r. is_ready (readiness_of (runsQueueOverviewP_today p) r)) rs"
    "ov_blocked_count ov = count_where (\<lambda>r. unwrap_or 0 (sum_blocked_by_count r) > 0) rs"
    "ov_archived_count ov = (if flag (runsQueueOverviewP_include_archived p) then Some 0 else None)"
    "ov_by_priority ov =
       (let by_priority = count_by (\<lambda>r. priority_as_str (sum_priority r)) rs in
        \<lparr>pc_low = unwrap_or 0 (by_priority ''low''), pc_normal = unwrap_or 0 (by_priority ''normal''),
         pc_high = unwrap_or 0 (by_priority ''high''), pc_urgent = unwrap_or 0 (by_priority ''urgent'')\<rparr>)"
    "ov_by_assignee ov = count_by (\<lambda>r. unwrap_or ''unassigned'' (sum_assignee r)) rs"
    "ov_by_status ov = count_by (\<lambda>r. status_prefix (sum_status r)) rs"
    using assms by (auto simp: handle_runs_queue_overview_def Let_def)
  moreover have "count_where (\<lambda>r. is_ready (readiness_of today r)) rs
      + count_where (\<lambda>r. unwrap_or 0 (sum_blocked_by_count r) > 0) rs \<le> length rs" for today
    by (induction rs) (auto simp: count_where_def readiness_of_def derive_readiness_def
        ready_and_reason_def Let_def split: if_splits)
  ultimately show ?thesis
    using priority_counts [of rs] by (simp add: sum_count_by unwrap_count_by Let_def)
qed

theorem overview_adds_up_witness:
  "let h = handle_runs_queue_overview
       \<lparr>runsQueueOverviewP_workspace_id = None, runsQueueOverviewP_include_archived = Some True,
         runsQueueOverviewP_include_snoozed = None, runsQueueOverviewP_today = None\<rparr> two_runs
   in case fst h of
        Inl _ \<Rightarrow> False
      | Inr (ov, _) \<Rightarrow> ov_total_visible ov = 2 \<and>
          (\<Sum>k \<in> dom (ov_by_status ov). the (ov_by_status ov k)) = 2 \<and> ov_archived_count ov = Some 0"
proof -
  let ?p = "\<lparr>runsQueueOverviewP_workspace_id = None, runsQueueOverviewP_include_archived = Some True,
         runsQueueOverviewP_include_snoozed = None, runsQueueOverviewP_today = None\<rparr>"
  let ?h = "handle_runs_queue_overview ?p two_runs"
  have "case fst ?h of Inl _ \<Rightarrow> False | Inr (ov, _) \<Rightarrow> ov_total_visible ov = 2" by code_simp
  then obtain ov st where r: "fst ?h = Inr (ov, st)" "ov_total_visible ov = 2" by (auto split: sum.splits)
  then have "?h = (Inr (ov, st), snd ?h)" by (simp add: prod_eq_iff)
  from overview_adds_up [OF this] r show ?thesis by (simp add: flag_def unwrap_or_def)
qed

end
