(* ===== verification/Persistence.thy ===== *)
theory Persistence
  imports Daemon_State
begin

text \<open>
  The SQLite tables under the store of \<open>src/codex-rs/deterministic-daemon/src/persistence.rs\<close>: the
  schema and its migrations, and the table of runs with its text and integer columns. A table has its
  column names and rows that give each column a value; SQLite itself is modelled as far as the
  statements of the source use it (missing and duplicate columns, defaults of added columns, \<open>NULL\<close> in
  comparisons, replacement by primary key, the order of values). The JSON texts of the columns are
  written and read by serde, which is a parameter. Reading a run back and listing runs refine the
  operations of the theory \<open>Run_Store\<close>. Approvals and audit entries have only plain text columns and are
  rows of that theory directly.
\<close>

section \<open>Values, rows and tables\<close>

datatype sql_value = Null | SInt int | SText string

text \<open>The order of SQLite: \<open>NULL\<close>, then integers, then texts byte by byte.\<close>

instantiation sql_value :: linorder
begin

fun less_eq_sql_value :: "sql_value \<Rightarrow> sql_value \<Rightarrow> bool" where
  "Null \<le> v \<longleftrightarrow> True"
| "SInt i \<le> Null \<longleftrightarrow> False"
| "SInt i \<le> SInt j \<longleftrightarrow> i \<le> j"
| "SInt i \<le> SText t \<longleftrightarrow> True"
| "SText s \<le> SText t \<longleftrightarrow> s \<le> t"
| "SText s \<le> v \<longleftrightarrow> False"

definition less_sql_value :: "sql_value \<Rightarrow> sql_value \<Rightarrow> bool" where
  "less_sql_value (a :: sql_value) b \<longleftrightarrow> a \<le> b \<and> \<not> b \<le> a"

instance
proof
  fix x y z :: sql_value
  show "x \<le> x" by (cases x) simp_all
  show "x \<le> z" if "x \<le> y" "y \<le> z" using that by (cases x; cases y; cases z) simp_all
  show "x = y" if "x \<le> y" "y \<le> x" using that by (cases x; cases y) simp_all
  show "x \<le> y \<or> y \<le> x" by (cases x; cases y) auto
qed (simp add: less_sql_value_def)

end

type_synonym row = "(string \<times> sql_value) list"

record sql_table =
  tb_columns :: "string list"
  tb_rows :: "row list"

type_synonym database = "string \<Rightarrow> sql_table option"

datatype db_error =
    NoSuchTable string
  | NoSuchColumn string
  | ToSqlFailure string
  | Serialise string
  | InvalidColumnType nat
  | FromSqlFailure nat

type_synonym 'a db_result = "db_error + 'a"

definition col :: "string \<Rightarrow> row \<Rightarrow> sql_value" where
  "col n r = (case map_of r n of Some v \<Rightarrow> v | None \<Rightarrow> Null)"


section \<open>Migrations\<close>

definition create_table :: "string \<Rightarrow> string list \<Rightarrow> database \<Rightarrow> database" where
  "create_table name columns db =
     (case db name of
        Some _ \<Rightarrow> db
      | None \<Rightarrow> db(name \<mapsto> \<lparr>tb_columns = columns, tb_rows = []\<rparr>))"

definition add_column :: "string \<times> string \<times> sql_value \<Rightarrow> database \<Rightarrow> database db_result" where
  "add_column m db =
     (case m of (table, column, def) \<Rightarrow>
        case db table of
          None \<Rightarrow> Inl (NoSuchTable table)
        | Some t \<Rightarrow>
            if column \<in> set (tb_columns t) then Inr db
            else Inr (db(table \<mapsto> \<lparr>tb_columns = tb_columns t @ [column],
                                  tb_rows = map (\<lambda>r. r @ [(column, def)]) (tb_rows t)\<rparr>)))"

fun add_columns :: "(string \<times> string \<times> sql_value) list \<Rightarrow> database \<Rightarrow> database db_result" where
  "add_columns [] db = Inr db"
| "add_columns (m # ms) db = (case add_column m db of Inl e \<Rightarrow> Inl e | Inr db' \<Rightarrow> add_columns ms db')"

definition RUNS_BASE :: "string list" where
  "RUNS_BASE =
     [''run_id'', ''workspace_id'', ''user_goal'', ''status'', ''plan'', ''current_step'',
      ''completed_steps'', ''pending_steps'', ''last_action'', ''last_observation'',
      ''recommended_next_action'', ''recommended_tool'', ''latest_diff_summary'',
      ''latest_test_result'', ''focus_paths'', ''warnings'', ''created_at'', ''updated_at'']"

definition APPROVALS_BASE :: "string list" where
  "APPROVALS_BASE =
     [''approval_id'', ''run_id'', ''action_description'', ''risk_reason'', ''policy_rationale'',
      ''status'', ''decision'', ''decision_reason'', ''created_at'', ''resolved_at'']"

definition AUDIT_BASE :: "string list" where
  "AUDIT_BASE = [''entry_id'', ''run_id'', ''event_kind'', ''summary'', ''metadata'', ''occurred_at'']"

definition MIGRATIONS :: "(string \<times> string \<times> sql_value) list" where
  "MIGRATIONS =
     [(''runs'', ''completed_steps'', SText ''[]''), (''runs'', ''pending_steps'', SText ''[]''),
      (''runs'', ''last_action'', Null), (''runs'', ''last_observation'', Null),
      (''runs'', ''recommended_next_action'', Null), (''runs'', ''recommended_tool'', Null),
      (''runs'', ''latest_diff_summary'', Null), (''runs'', ''latest_test_result'', Null),
      (''runs'', ''warnings'', SText ''[]''),
      (''runs'', ''focus_paths'', SText ''[]''), (''approvals'', ''policy_rationale'', SText []),
      (''runs'', ''retryable_action'', Null),
      (''runs'', ''policy_profile'', SText ''{}''),
      (''runs'', ''outcome_kind'', Null), (''runs'', ''finalized_outcome'', Null),
      (''runs'', ''reopen_metadata'', Null),
      (''runs'', ''supersedes_run_id'', Null), (''runs'', ''superseded_by_run_id'', Null),
      (''runs'', ''supersession_reason'', Null), (''runs'', ''superseded_at'', Null),
      (''runs'', ''is_archived'', SInt 0), (''runs'', ''archive_metadata'', Null),
      (''runs'', ''unarchive_metadata'', Null), (''runs'', ''annotation'', Null),
      (''runs'', ''pin_metadata'', Null), (''runs'', ''is_snoozed'', SInt 0),
      (''runs'', ''snooze_metadata'', Null), (''runs'', ''priority'', SText ''normal''),
      (''runs'', ''assignee'', Null), (''runs'', ''ownership_note'', Null),
      (''runs'', ''due_date'', Null), (''runs'', ''blocked_by_run_ids'', SText ''[]''),
      (''runs'', ''effort'', Null)]"

definition migrate :: "database \<Rightarrow> database db_result" where
  "migrate db =
     (let db1 = create_table ''audit_trail'' AUDIT_BASE
                  (create_table ''approvals'' APPROVALS_BASE (create_table ''runs'' RUNS_BASE db))
      in case add_columns MIGRATIONS db1 of
           Inl e \<Rightarrow> Inl e
         | Inr db2 \<Rightarrow> Inr (create_table ''audit_trail'' AUDIT_BASE db2))"


section \<open>Writing a run\<close>

record 'a json =
  to_json :: "'a \<Rightarrow> string option"
  from_json :: "string \<Rightarrow> 'a option"

record codecs =
  jc_strings :: "string list json"
  jc_retryable_action :: "RetryableAction json"
  jc_policy :: "RunPolicy json"
  jc_outcome :: "RunOutcome json"
  jc_reopen :: "ReopenMetadata json"
  jc_archive :: "ArchiveMetadata json"
  jc_unarchive :: "UnarchiveMetadata json"
  jc_annotation :: "RunAnnotation json"
  jc_pin :: "PinMetadata json"
  jc_snooze :: "SnoozeMetadata json"

definition db_then :: "'a db_result \<Rightarrow> ('a \<Rightarrow> 'b db_result) \<Rightarrow> 'b db_result" where
  "db_then r f = (case r of Inl e \<Rightarrow> Inl e | Inr x \<Rightarrow> f x)"

definition serialise :: "'a json \<Rightarrow> string \<Rightarrow> 'a \<Rightarrow> string db_result" where
  "serialise j what x = (case to_json j x of None \<Rightarrow> Inl (Serialise what) | Some t \<Rightarrow> Inr t)"

definition serialise_opt :: "'a json \<Rightarrow> string \<Rightarrow> 'a option \<Rightarrow> string option db_result" where
  "serialise_opt j what x =
     (case x of None \<Rightarrow> Inr None | Some y \<Rightarrow> map_sum id Some (serialise j what y))"

definition opt_text :: "string option \<Rightarrow> sql_value" where
  "opt_text x = (case x of None \<Rightarrow> Null | Some t \<Rightarrow> SText t)"

definition bind_usize :: "nat \<Rightarrow> sql_value db_result" where
  "bind_usize n = (if n < 2 ^ 63 then Inr (SInt (int n)) else Inl (ToSqlFailure ''current_step''))"

definition run_row :: "codecs \<Rightarrow> RunState \<Rightarrow> row db_result" where
  "run_row c state =
     db_then (serialise (jc_strings c) ''plan'' (plan state)) (\<lambda>plan_json.
     db_then (serialise (jc_strings c) ''completed_steps'' (completed_steps state)) (\<lambda>completed_json.
     db_then (serialise (jc_strings c) ''pending_steps'' (pending_steps state)) (\<lambda>pending_json.
     db_then (serialise (jc_strings c) ''focus_paths'' (focus_paths state)) (\<lambda>focus_paths_json.
     db_then (serialise (jc_strings c) ''warnings'' (warnings state)) (\<lambda>warnings_json.
     db_then (serialise_opt (jc_retryable_action c) ''retryable_action'' (retryable_action state)) (\<lambda>retryable_action_json.
     db_then (serialise (jc_policy c) ''policy_profile'' (policy_profile state)) (\<lambda>policy_profile_json.
     db_then (serialise_opt (jc_outcome c) ''finalized_outcome'' (finalized_outcome state)) (\<lambda>finalized_outcome_json.
     db_then (serialise_opt (jc_reopen c) ''reopen_metadata'' (reopen_metadata state)) (\<lambda>reopen_metadata_json.
     db_then (serialise_opt (jc_archive c) ''archive_metadata'' (archive_metadata state)) (\<lambda>archive_metadata_json.
     db_then (serialise_opt (jc_unarchive c) ''unarchive_metadata'' (unarchive_metadata state)) (\<lambda>unarchive_metadata_json.
     db_then (serialise_opt (jc_annotation c) ''annotation'' (annotation state)) (\<lambda>annotation_json.
     db_then (serialise_opt (jc_pin c) ''pin_metadata'' (pin_metadata state)) (\<lambda>pin_metadata_json.
     db_then (serialise_opt (jc_snooze c) ''snooze_metadata'' (snooze_metadata state)) (\<lambda>snooze_metadata_json.
     db_then (serialise (jc_strings c) ''blocked_by_run_ids'' (blocked_by_run_ids state)) (\<lambda>blocked_by_run_ids_json.
     db_then (bind_usize (current_step state)) (\<lambda>current_step_value.
     Inr [(''run_id'', SText (run_id state)), (''workspace_id'', SText (workspace_id state)),
          (''user_goal'', SText (user_goal state)), (''status'', SText (status state)),
          (''plan'', SText plan_json), (''current_step'', current_step_value),
          (''completed_steps'', SText completed_json), (''pending_steps'', SText pending_json),
          (''last_action'', opt_text (last_action state)),
          (''last_observation'', opt_text (last_observation state)),
          (''recommended_next_action'', opt_text (recommended_next_action state)),
          (''recommended_tool'', opt_text (recommended_tool state)),
          (''latest_diff_summary'', opt_text (latest_diff_summary state)),
          (''latest_test_result'', opt_text (latest_test_result state)),
          (''focus_paths'', SText focus_paths_json), (''warnings'', SText warnings_json),
          (''retryable_action'', opt_text retryable_action_json),
          (''policy_profile'', SText policy_profile_json),
          (''outcome_kind'', opt_text (map_option out_outcome_kind (finalized_outcome state))),
          (''finalized_outcome'', opt_text finalized_outcome_json),
          (''reopen_metadata'', opt_text reopen_metadata_json),
          (''supersedes_run_id'', opt_text (supersedes_run_id state)),
          (''superseded_by_run_id'', opt_text (superseded_by_run_id state)),
          (''supersession_reason'', opt_text (supersession_reason state)),
          (''superseded_at'', opt_text (superseded_at state)),
          (''is_archived'', SInt (if is_archived_run state then 1 else 0)),
          (''archive_metadata'', opt_text archive_metadata_json),
          (''unarchive_metadata'', opt_text unarchive_metadata_json),
          (''annotation'', opt_text annotation_json), (''pin_metadata'', opt_text pin_metadata_json),
          (''is_snoozed'', SInt (if is_snoozed_run state then 1 else 0)),
          (''snooze_metadata'', opt_text snooze_metadata_json),
          (''priority'', SText (priority_as_str (priority state))),
          (''assignee'', opt_text (assignee state)),
          (''ownership_note'', opt_text (ownership_note state)),
          (''due_date'', opt_text (due_date state)),
          (''blocked_by_run_ids'', SText blocked_by_run_ids_json),
          (''effort'', opt_text (map_option effort_as_str (effort state))),
          (''created_at'', SText (created_at state)), (''updated_at'', SText (updated_at state))]))))))))))))))))"

definition require_columns :: "string list \<Rightarrow> sql_table \<Rightarrow> unit db_result" where
  "require_columns names t =
     (case find (\<lambda>n. n \<notin> set (tb_columns t)) names of
        Some n \<Rightarrow> Inl (NoSuchColumn n)
      | None \<Rightarrow> Inr ())"

definition insert_or_replace :: "string \<Rightarrow> row \<Rightarrow> sql_table \<Rightarrow> sql_table db_result" where
  "insert_or_replace key r t =
     db_then (require_columns (map fst r) t) (\<lambda>_.
     Inr (t\<lparr>tb_rows := filter (\<lambda>r'. col key r' \<noteq> col key r) (tb_rows t) @ [r]\<rparr>))"

definition save_run_sql :: "codecs \<Rightarrow> RunState \<Rightarrow> sql_table \<Rightarrow> sql_table db_result" where
  "save_run_sql c state t = db_then (run_row c state) (\<lambda>r. insert_or_replace ''run_id'' r t)"


section \<open>Reading a run\<close>

definition get_text :: "nat \<Rightarrow> string \<Rightarrow> row \<Rightarrow> string db_result" where
  "get_text k n r = (case col n r of SText t \<Rightarrow> Inr t | _ \<Rightarrow> Inl (InvalidColumnType k))"

definition get_opt :: "nat \<Rightarrow> string \<Rightarrow> row \<Rightarrow> string option db_result" where
  "get_opt k n r =
     (case col n r of Null \<Rightarrow> Inr None | SText t \<Rightarrow> Inr (Some t) | SInt _ \<Rightarrow> Inl (InvalidColumnType k))"

definition get_i64 :: "nat \<Rightarrow> string \<Rightarrow> row \<Rightarrow> int db_result" where
  "get_i64 k n r = (case col n r of SInt i \<Rightarrow> Inr i | _ \<Rightarrow> Inl (InvalidColumnType k))"

definition i64_as_usize :: "int \<Rightarrow> nat" where
  "i64_as_usize i = nat (i mod 2 ^ 64)"

definition parse_json :: "'a json \<Rightarrow> nat \<Rightarrow> string \<Rightarrow> 'a db_result" where
  "parse_json j k t = (case from_json j t of None \<Rightarrow> Inl (FromSqlFailure k) | Some x \<Rightarrow> Inr x)"

definition get_json :: "'a json \<Rightarrow> nat \<Rightarrow> string \<Rightarrow> row \<Rightarrow> 'a option db_result" where
  "get_json j k n r =
     db_then (get_opt k n r) (\<lambda>t. case t of None \<Rightarrow> Inr None | Some t \<Rightarrow> map_sum id Some (parse_json j k t))"

definition get_policy :: "codecs \<Rightarrow> row \<Rightarrow> RunPolicy db_result" where
  "get_policy c r =
     db_then (get_opt 17 ''policy_profile'' r) (\<lambda>t.
     case t of
       Some t \<Rightarrow> if t \<noteq> [] \<and> t \<noteq> ''{}'' then parse_json (jc_policy c) 17 t else Inr default_policy
     | None \<Rightarrow> Inr default_policy)"

definition get_priority :: "nat \<Rightarrow> row \<Rightarrow> RunPriority db_result" where
  "get_priority k r =
     db_then (get_text k ''priority'' r) (\<lambda>t.
     case priority_parse t of None \<Rightarrow> Inl (FromSqlFailure k) | Some p \<Rightarrow> Inr p)"

definition text_or :: "string \<Rightarrow> string db_result \<Rightarrow> string" where
  "text_or d x = (case x of Inl _ \<Rightarrow> d | Inr t \<Rightarrow> t)"

definition read_run :: "codecs \<Rightarrow> row \<Rightarrow> RunState db_result" where
  "read_run c r =
     db_then (get_text 4 ''plan'' r) (\<lambda>plan_json.
     db_then (get_text 6 ''completed_steps'' r) (\<lambda>completed_json.
     db_then (get_text 7 ''pending_steps'' r) (\<lambda>pending_json.
     db_then (get_text 14 ''focus_paths'' r) (\<lambda>focus_paths_json.
     db_then (get_text 15 ''warnings'' r) (\<lambda>warnings_json.
     db_then (parse_json (jc_strings c) 4 plan_json) (\<lambda>plan.
     db_then (parse_json (jc_strings c) 6 completed_json) (\<lambda>completed_steps.
     db_then (parse_json (jc_strings c) 7 pending_json) (\<lambda>pending_steps.
     db_then (parse_json (jc_strings c) 14 focus_paths_json) (\<lambda>focus_paths.
     db_then (parse_json (jc_strings c) 15 warnings_json) (\<lambda>warnings.
     db_then (get_json (jc_retryable_action c) 16 ''retryable_action'' r) (\<lambda>retryable_action.
     db_then (get_policy c r) (\<lambda>policy_profile.
     db_then (get_json (jc_outcome c) 18 ''finalized_outcome'' r) (\<lambda>finalized_outcome.
     db_then (get_json (jc_reopen c) 19 ''reopen_metadata'' r) (\<lambda>reopen_metadata.
     db_then (get_opt 20 ''supersedes_run_id'' r) (\<lambda>supersedes_run_id.
     db_then (get_opt 21 ''superseded_by_run_id'' r) (\<lambda>superseded_by_run_id.
     db_then (get_opt 22 ''supersession_reason'' r) (\<lambda>supersession_reason.
     db_then (get_opt 23 ''superseded_at'' r) (\<lambda>superseded_at.
     db_then (get_json (jc_archive c) 24 ''archive_metadata'' r) (\<lambda>archive_metadata.
     db_then (get_json (jc_unarchive c) 25 ''unarchive_metadata'' r) (\<lambda>unarchive_metadata.
     db_then (get_json (jc_annotation c) 26 ''annotation'' r) (\<lambda>annotation.
     db_then (get_json (jc_pin c) 27 ''pin_metadata'' r) (\<lambda>pin_metadata.
     db_then (get_json (jc_snooze c) 28 ''snooze_metadata'' r) (\<lambda>snooze_metadata.
     db_then (get_priority 29 r) (\<lambda>priority.
     db_then (get_opt 30 ''assignee'' r) (\<lambda>assignee.
     db_then (get_opt 31 ''ownership_note'' r) (\<lambda>ownership_note.
     db_then (get_opt 32 ''due_date'' r) (\<lambda>due_date.
     db_then (parse_json (jc_strings c) 33 (text_or ''[]'' (get_text 33 ''blocked_by_run_ids'' r))) (\<lambda>blocked_by_run_ids.
     db_then (get_opt 34 ''effort'' r) (\<lambda>effort_str.
     db_then (get_text 0 ''run_id'' r) (\<lambda>run_id.
     db_then (get_text 1 ''workspace_id'' r) (\<lambda>workspace_id.
     db_then (get_text 2 ''user_goal'' r) (\<lambda>user_goal.
     db_then (get_text 3 ''status'' r) (\<lambda>status.
     db_then (get_i64 5 ''current_step'' r) (\<lambda>current_step.
     db_then (get_opt 8 ''last_action'' r) (\<lambda>last_action.
     db_then (get_opt 9 ''last_observation'' r) (\<lambda>last_observation.
     db_then (get_opt 10 ''recommended_next_action'' r) (\<lambda>recommended_next_action.
     db_then (get_opt 11 ''recommended_tool'' r) (\<lambda>recommended_tool.
     db_then (get_opt 12 ''latest_diff_summary'' r) (\<lambda>latest_diff_summary.
     db_then (get_opt 13 ''latest_test_result'' r) (\<lambda>latest_test_result.
     db_then (get_text 35 ''created_at'' r) (\<lambda>created_at.
     db_then (get_text 36 ''updated_at'' r) (\<lambda>updated_at.
     Inr \<lparr>run_id = run_id, workspace_id = workspace_id, user_goal = user_goal, status = status,
          plan = plan, current_step = i64_as_usize current_step, completed_steps = completed_steps,
          pending_steps = pending_steps, last_action = last_action,
          last_observation = last_observation, recommended_next_action = recommended_next_action,
          recommended_tool = recommended_tool, latest_diff_summary = latest_diff_summary,
          latest_test_result = latest_test_result, focus_paths = focus_paths, warnings = warnings,
          retryable_action = retryable_action, policy_profile = policy_profile,
          finalized_outcome = finalized_outcome, reopen_metadata = reopen_metadata,
          supersedes_run_id = supersedes_run_id, superseded_by_run_id = superseded_by_run_id,
          supersession_reason = supersession_reason, superseded_at = superseded_at,
          archive_metadata = archive_metadata, unarchive_metadata = unarchive_metadata,
          annotation = annotation, pin_metadata = pin_metadata, snooze_metadata = snooze_metadata,
          priority = priority, assignee = assignee, ownership_note = ownership_note,
          due_date = due_date, blocked_by_run_ids = blocked_by_run_ids,
          effort = Option.bind effort_str effort_parse, created_at = created_at,
          updated_at = updated_at\<rparr>))))))))))))))))))))))))))))))))))))))))))"

definition GET_COLUMNS :: "string list" where
  "GET_COLUMNS =
     [''run_id'', ''workspace_id'', ''user_goal'', ''status'', ''plan'', ''current_step'',
      ''completed_steps'', ''pending_steps'', ''last_action'', ''last_observation'',
      ''recommended_next_action'', ''recommended_tool'', ''latest_diff_summary'',
      ''latest_test_result'', ''focus_paths'', ''warnings'', ''retryable_action'',
      ''policy_profile'', ''finalized_outcome'', ''reopen_metadata'', ''supersedes_run_id'',
      ''superseded_by_run_id'', ''supersession_reason'', ''superseded_at'', ''archive_metadata'',
      ''unarchive_metadata'', ''annotation'', ''pin_metadata'', ''snooze_metadata'', ''priority'',
      ''assignee'', ''ownership_note'', ''due_date'', ''blocked_by_run_ids'', ''effort'',
      ''created_at'', ''updated_at'']"

definition get_run_sql :: "codecs \<Rightarrow> string \<Rightarrow> sql_table \<Rightarrow> RunState option db_result" where
  "get_run_sql c i t =
     db_then (require_columns GET_COLUMNS t) (\<lambda>_.
     case filter (\<lambda>r. col ''run_id'' r = SText i) (tb_rows t) of
       [] \<Rightarrow> Inr None
     | r # _ \<Rightarrow> map_sum id Some (read_run c r))"


section \<open>Listing runs\<close>

definition LIST_COLUMNS :: "string list" where
  "LIST_COLUMNS =
     [''run_id'', ''workspace_id'', ''user_goal'', ''status'', ''current_step'', ''plan'',
      ''created_at'', ''updated_at'', ''outcome_kind'', ''reopen_metadata'', ''supersedes_run_id'',
      ''superseded_by_run_id'', ''is_archived'', ''archive_metadata'', ''unarchive_metadata'',
      ''annotation'', ''pin_metadata'', ''snooze_metadata'', ''priority'', ''assignee'', ''due_date'',
      ''blocked_by_run_ids'', ''effort'']"

definition read_summary :: "codecs \<Rightarrow> row \<Rightarrow> RunSummary db_result" where
  "read_summary c r =
     db_then (get_text 5 ''plan'' r) (\<lambda>plan_json.
     db_then (get_opt 9 ''reopen_metadata'' r) (\<lambda>reopen_json.
     db_then (get_i64 12 ''is_archived'' r) (\<lambda>is_archived_int.
     db_then (get_opt 13 ''archive_metadata'' r) (\<lambda>archive_json.
     db_then (get_opt 14 ''unarchive_metadata'' r) (\<lambda>unarchive_json.
     db_then (get_opt 15 ''annotation'' r) (\<lambda>annotation_json.
     db_then (get_opt 16 ''pin_metadata'' r) (\<lambda>pin_json.
     db_then (get_opt 17 ''snooze_metadata'' r) (\<lambda>snooze_json.
     db_then (get_priority 18 r) (\<lambda>priority.
     let blocked = unwrap_or [] (from_json (jc_strings c) (text_or ''[]'' (get_text 21 ''blocked_by_run_ids'' r)));
         effort_str = (case get_opt 22 ''effort'' r of Inl _ \<Rightarrow> None | Inr x \<Rightarrow> x);
         reopen = Option.bind reopen_json (from_json (jc_reopen c));
         archive = Option.bind archive_json (from_json (jc_archive c));
         unarchive = Option.bind unarchive_json (from_json (jc_unarchive c));
         annotation = Option.bind annotation_json (from_json (jc_annotation c));
         pin = Option.bind pin_json (from_json (jc_pin c));
         snooze = Option.bind snooze_json (from_json (jc_snooze c)) in
     db_then (get_text 0 ''run_id'' r) (\<lambda>run_id.
     db_then (get_text 1 ''workspace_id'' r) (\<lambda>workspace_id.
     db_then (get_text 2 ''user_goal'' r) (\<lambda>user_goal.
     db_then (get_text 3 ''status'' r) (\<lambda>status.
     db_then (get_i64 4 ''current_step'' r) (\<lambda>current_step.
     db_then (get_opt 8 ''outcome_kind'' r) (\<lambda>outcome_kind.
     db_then (get_opt 10 ''supersedes_run_id'' r) (\<lambda>supersedes.
     db_then (get_opt 11 ''superseded_by_run_id'' r) (\<lambda>superseded_by.
     db_then (get_opt 19 ''assignee'' r) (\<lambda>assignee.
     db_then (get_opt 20 ''due_date'' r) (\<lambda>due_date.
     db_then (get_text 6 ''created_at'' r) (\<lambda>created_at.
     db_then (get_text 7 ''updated_at'' r) (\<lambda>updated_at.
     Inr \<lparr>sum_run_id = run_id, sum_workspace_id = workspace_id, sum_user_goal = user_goal,
          sum_status = status, sum_current_step = i64_as_usize current_step,
          sum_total_steps = unwrap_or 0 (map_option length (from_json (jc_strings c) plan_json)),
          sum_outcome_kind = outcome_kind, sum_reopen_count = map_option reopenM_reopen_count reopen,
          sum_supersedes_run_id = supersedes, sum_superseded_by_run_id = superseded_by,
          sum_is_archived = some_if (is_archived_int \<noteq> 0),
          sum_archive_reason = map_option archiveM_reason archive,
          sum_archived_at = map_option archiveM_archived_at archive,
          sum_unarchive_reason = map_option unarchiveM_reason unarchive,
          sum_unarchived_at = map_option unarchiveM_unarchived_at unarchive,
          sum_labels = (case annotation of None \<Rightarrow> [] | Some a \<Rightarrow> ann_labels a),
          sum_operator_note = (case annotation of None \<Rightarrow> None | Some a \<Rightarrow> ann_operator_note a),
          sum_is_pinned = some_if (is_some pin), sum_pin_reason = map_option pinM_reason pin,
          sum_pinned_at = map_option pinM_pinned_at pin, sum_is_snoozed = some_if (is_some snooze),
          sum_snooze_reason = map_option snoozeM_reason snooze,
          sum_snoozed_at = map_option snoozeM_snoozed_at snooze, sum_priority = priority,
          sum_assignee = assignee, sum_due_date = due_date, sum_is_blocked = Some (blocked \<noteq> []),
          sum_blocked_by_count = Some (length blocked), sum_is_blocking = None,
          sum_blocking_run_count = None, sum_blocking_reason = None,
          sum_effort = Option.bind effort_str effort_parse, sum_age_days = None, sum_is_stale = None,
          sum_staleness_reason = None, sum_staleness_bucket = None, sum_triage_bucket = None,
          sum_triage_reason = None, sum_created_at = created_at, sum_updated_at = updated_at\<rparr>)))))))))))))))))))))"

definition row_where :: "ListQuery \<Rightarrow> row \<Rightarrow> bool" where
  "row_where q r \<longleftrightarrow>
     (case lq_workspace q of None \<Rightarrow> True | Some ws \<Rightarrow> col ''workspace_id'' r = SText ws) \<and>
     (case lq_status q of None \<Rightarrow> True | Some st \<Rightarrow> col ''status'' r = SText st) \<and>
     (if lq_archived_only q then col ''is_archived'' r = SInt 1
      else if \<not> lq_include_archived q then col ''is_archived'' r = SInt 0 else True) \<and>
     (if lq_snoozed_only q then col ''is_snoozed'' r = SInt 1
      else if \<not> lq_include_snoozed q then col ''is_snoozed'' r = SInt 0 else True)"

definition row_order :: "row list \<Rightarrow> row list" where
  "row_order rs =
     sort_key (\<lambda>r. if col ''pin_metadata'' r \<noteq> Null then 0 else 1 :: nat) (sort_key_desc (col ''updated_at'') rs)"

fun collect_rows :: "('a \<Rightarrow> 'b db_result) \<Rightarrow> 'a list \<Rightarrow> 'b list db_result" where
  "collect_rows f [] = Inr []"
| "collect_rows f (x # xs) = db_then (f x) (\<lambda>y. map_sum id (Cons y) (collect_rows f xs))"

definition list_runs_sql :: "codecs \<Rightarrow> ListQuery \<Rightarrow> sql_table \<Rightarrow> RunSummary list db_result" where
  "list_runs_sql c q t =
     db_then (require_columns
       (LIST_COLUMNS @ (if lq_snoozed_only q \<or> \<not> lq_include_snoozed q then [''is_snoozed''] else [])) t) (\<lambda>_.
     map_sum id (filter (list_post q))
       (collect_rows (read_summary c)
         (sql_limit (lq_limit q) (row_order (filter (row_where q) (tb_rows t))))))"

definition blocker_impact_sql :: "codecs \<Rightarrow> sql_table \<Rightarrow> (string \<Rightarrow> nat) db_result" where
  "blocker_impact_sql c t =
     db_then (require_columns [''blocked_by_run_ids''] t) (\<lambda>_.
     db_then (collect_rows (get_text 0 ''blocked_by_run_ids'')
       (filter (\<lambda>r. col ''blocked_by_run_ids'' r \<noteq> Null \<and> col ''blocked_by_run_ids'' r \<noteq> SText ''[]'') (tb_rows t)))
       (\<lambda>jsons. Inr (\<lambda>i. \<Sum>json \<leftarrow> jsons. count_list (unwrap_or [] (from_json (jc_strings c) json)) i)))"

end
