(* ===== verification/Store_Refinement.thy ===== *)
theory Store_Refinement
  imports Persistence Run_Lifecycle
begin

text \<open>
  The table of runs implements the runs of the abstract store: what is written is read back, a lookup
  and a listing on the rows answer what the abstract operations answer, and the migrations bring every
  older table to the columns the statements use.
\<close>

section \<open>Texts and values\<close>

definition rt :: "'a json \<Rightarrow> 'a \<Rightarrow> bool" where
  "rt j x \<longleftrightarrow> (case to_json j x of None \<Rightarrow> False | Some t \<Rightarrow> from_json j t = Some x)"

definition rt_opt :: "'a json \<Rightarrow> 'a option \<Rightarrow> bool" where
  "rt_opt j x \<longleftrightarrow> (case x of None \<Rightarrow> True | Some y \<Rightarrow> rt j y)"

text \<open>
  What is asked of serde for one run: each text it writes for a part of this run reads back as that part,
  the text of a policy is not one of the two that stand for the default, and the empty array is \<open>[]\<close>.
\<close>

definition texts_ok :: "codecs \<Rightarrow> RunState \<Rightarrow> bool" where
  "texts_ok c r \<longleftrightarrow>
     list_all (rt (jc_strings c))
       [plan r, completed_steps r, pending_steps r, focus_paths r, warnings r, blocked_by_run_ids r] \<and>
     rt_opt (jc_retryable_action c) (retryable_action r) \<and> rt (jc_policy c) (policy_profile r) \<and>
     to_json (jc_policy c) (policy_profile r) \<notin> {Some [], Some ''{}''} \<and>
     rt_opt (jc_outcome c) (finalized_outcome r) \<and> rt_opt (jc_reopen c) (reopen_metadata r) \<and>
     rt_opt (jc_archive c) (archive_metadata r) \<and> rt_opt (jc_unarchive c) (unarchive_metadata r) \<and>
     rt_opt (jc_annotation c) (annotation r) \<and> rt_opt (jc_pin c) (pin_metadata r) \<and>
     rt_opt (jc_snooze c) (snooze_metadata r) \<and>
     from_json (jc_strings c) ''[]'' = Some []"

definition codec_ok :: "codecs \<Rightarrow> RunState \<Rightarrow> bool" where
  "codec_ok c r \<longleftrightarrow> texts_ok c r \<and> current_step r < 2 ^ 63"

definition json_of :: "'a json \<Rightarrow> 'a \<Rightarrow> string" where
  "json_of j x = (case to_json j x of None \<Rightarrow> [] | Some t \<Rightarrow> t)"

lemma serialise_rt: "rt j x \<Longrightarrow> serialise j w x = Inr (json_of j x)"
  by (auto simp: rt_def serialise_def json_of_def split: option.splits)

lemma from_json_rt: "rt j x \<Longrightarrow> from_json j (json_of j x) = Some x"
  by (auto simp: rt_def json_of_def split: option.splits)

lemma parse_rt: "rt j x \<Longrightarrow> parse_json j k (json_of j x) = Inr x"
  by (simp add: parse_json_def from_json_rt)

lemma serialise_opt_rt: "rt_opt j x \<Longrightarrow> serialise_opt j w x = Inr (map_option (json_of j) x)"
  by (auto simp: rt_opt_def serialise_opt_def serialise_rt split: option.splits)

lemma bind_rt: "rt_opt j x \<Longrightarrow> Option.bind (map_option (json_of j) x) (from_json j) = x"
  by (cases x) (auto simp: rt_opt_def from_json_rt)

definition as_opt :: "nat \<Rightarrow> sql_value \<Rightarrow> string option db_result" where
  "as_opt k v = (case v of Null \<Rightarrow> Inr None | SText t \<Rightarrow> Inr (Some t) | SInt _ \<Rightarrow> Inl (InvalidColumnType k))"

lemma get_opt_as: "get_opt k n r = as_opt k (col n r)"
  by (simp add: get_opt_def as_opt_def)

lemma as_opt_text [simp]: "as_opt k (opt_text x) = Inr x"
  by (cases x) (simp_all add: as_opt_def opt_text_def)

lemma as_opt_SText [simp]: "as_opt k (SText t) = Inr (Some t)"
  by (simp add: as_opt_def)

definition as_json :: "'a json \<Rightarrow> nat \<Rightarrow> string option \<Rightarrow> 'a option db_result" where
  "as_json j k x = (case x of None \<Rightarrow> Inr None | Some t \<Rightarrow> map_sum id Some (parse_json j k t))"

lemma get_json_as: "get_json j k n r = db_then (as_opt k (col n r)) (as_json j k)"
  unfolding get_json_def as_json_def get_opt_as ..

lemma as_json_rt: "rt_opt j x \<Longrightarrow> as_json j k (map_option (json_of j) x) = Inr x"
  by (cases x) (auto simp: rt_opt_def parse_rt as_json_def)

lemma col_Nil [simp]: "col n [] = Null"
  by (simp add: col_def)

lemma col_Cons [simp]: "col n ((m, v) # r) = (if m = n then v else col n r)"
  by (simp add: col_def)

lemma db_then_Inr [simp]: "db_then (Inr x) f = f x"
  by (simp add: db_then_def)

lemma db_then_Inl [simp]: "db_then (Inl e) f = Inl e"
  by (simp add: db_then_def)

lemma opt_text_Null [simp]: "opt_text x = Null \<longleftrightarrow> x = None"
  by (cases x) (simp_all add: opt_text_def)

lemma effort_text [simp]: "Option.bind (map_option effort_as_str e) effort_parse = e"
proof (cases e)
  case (Some x)
  then show ?thesis by (cases x) (simp_all add: effort_parse_def)
qed simp

lemma priority_text [simp]: "priority_parse (priority_as_str p) = Some p"
  by (cases p) (simp_all add: priority_parse_def)

lemma usize_column: "n < 2 ^ 63 \<Longrightarrow> bind_usize n = Inr (SInt (int n))" "n < 2 ^ 63 \<Longrightarrow> i64_as_usize (int n) = n"
  by (simp_all add: bind_usize_def i64_as_usize_def)


section \<open>One row\<close>

definition row_of :: "codecs \<Rightarrow> RunState \<Rightarrow> row" where
  "row_of c r = (case run_row c r of Inl _ \<Rightarrow> [] | Inr row \<Rightarrow> row)"

definition RUN_COLUMNS :: "string list" where
  "RUN_COLUMNS =
     [''run_id'', ''workspace_id'', ''user_goal'', ''status'', ''plan'', ''current_step'',
      ''completed_steps'', ''pending_steps'', ''last_action'', ''last_observation'',
      ''recommended_next_action'', ''recommended_tool'', ''latest_diff_summary'',
      ''latest_test_result'', ''focus_paths'', ''warnings'', ''retryable_action'',
      ''policy_profile'', ''outcome_kind'', ''finalized_outcome'', ''reopen_metadata'',
      ''supersedes_run_id'', ''superseded_by_run_id'', ''supersession_reason'', ''superseded_at'',
      ''is_archived'', ''archive_metadata'', ''unarchive_metadata'', ''annotation'', ''pin_metadata'',
      ''is_snoozed'', ''snooze_metadata'', ''priority'', ''assignee'', ''ownership_note'', ''due_date'',
      ''blocked_by_run_ids'', ''effort'', ''created_at'', ''updated_at'']"

lemma columns_used:
  "set GET_COLUMNS \<subseteq> set RUN_COLUMNS" "set LIST_COLUMNS \<subseteq> set RUN_COLUMNS"
  "''is_snoozed'' \<in> set RUN_COLUMNS" "''blocked_by_run_ids'' \<in> set RUN_COLUMNS"
  by code_simp+

lemma codec_okD:
  assumes "codec_ok c r"
  shows "rt (jc_strings c) (plan r)" "rt (jc_strings c) (completed_steps r)"
    "rt (jc_strings c) (pending_steps r)" "rt (jc_strings c) (focus_paths r)"
    "rt (jc_strings c) (warnings r)" "rt (jc_strings c) (blocked_by_run_ids r)"
    "rt_opt (jc_retryable_action c) (retryable_action r)" "rt (jc_policy c) (policy_profile r)"
    "rt_opt (jc_outcome c) (finalized_outcome r)" "rt_opt (jc_reopen c) (reopen_metadata r)"
    "rt_opt (jc_archive c) (archive_metadata r)" "rt_opt (jc_unarchive c) (unarchive_metadata r)"
    "rt_opt (jc_annotation c) (annotation r)" "rt_opt (jc_pin c) (pin_metadata r)"
    "rt_opt (jc_snooze c) (snooze_metadata r)" "current_step r < 2 ^ 63"
    "json_of (jc_policy c) (policy_profile r) \<noteq> []" "json_of (jc_policy c) (policy_profile r) \<noteq> ''{}''"
    "from_json (jc_strings c) ''[]'' = Some []"
  using assms by (auto simp: codec_ok_def texts_ok_def json_of_def rt_def split: option.splits)

lemma run_row_ok:
  assumes "codec_ok c r"
  shows "run_row c r = Inr (row_of c r)"
  using codec_okD [OF assms]
  by (simp add: row_of_def run_row_def serialise_rt serialise_opt_rt usize_column)

lemma read_run_row:
  assumes "codec_ok c r"
  shows "read_run c (row_of c r) = Inr r"
  using codec_okD [OF assms]
  by (simp add: row_of_def run_row_def serialise_rt serialise_opt_rt usize_column read_run_def
      get_text_def get_opt_as get_i64_def get_json_as get_policy_def get_priority_def text_or_def
      parse_rt as_json_rt)

lemma read_summary_row:
  assumes "codec_ok c r"
  shows "read_summary c (row_of c r) = Inr (summary_of r)"
  using codec_okD [OF assms]
  by (simp add: row_of_def run_row_def serialise_rt serialise_opt_rt usize_column read_summary_def
      get_text_def get_opt_as get_i64_def get_priority_def text_or_def from_json_rt bind_rt
      summary_of_def unwrap_or_def Let_def is_snoozed_run_def)

lemma row_columns:
  assumes "codec_ok c r"
  shows "col ''run_id'' (row_of c r) = SText (run_id r)"
    "col ''workspace_id'' (row_of c r) = SText (workspace_id r)"
    "col ''status'' (row_of c r) = SText (status r)"
    "col ''updated_at'' (row_of c r) = SText (updated_at r)"
    "col ''is_archived'' (row_of c r) = SInt (if is_archived_run r then 1 else 0)"
    "col ''is_snoozed'' (row_of c r) = SInt (if is_snoozed_run r then 1 else 0)"
    "col ''pin_metadata'' (row_of c r) = opt_text (map_option (json_of (jc_pin c)) (pin_metadata r))"
    "col ''blocked_by_run_ids'' (row_of c r) = SText (json_of (jc_strings c) (blocked_by_run_ids r))"
    "map fst (row_of c r) = RUN_COLUMNS"
  using codec_okD [OF assms]
  by (simp_all add: row_of_def run_row_def serialise_rt serialise_opt_rt usize_column RUN_COLUMNS_def)


section \<open>The table\<close>

definition implements :: "codecs \<Rightarrow> sql_table \<Rightarrow> RunState list \<Rightarrow> bool" where
  "implements c t rs \<longleftrightarrow>
     set RUN_COLUMNS \<subseteq> set (tb_columns t) \<and> tb_rows t = map (row_of c) rs \<and> list_all (codec_ok c) rs"

lemma require_present: "set ns \<subseteq> set (tb_columns t) \<Longrightarrow> require_columns ns t = Inr ()"
  by (auto simp: require_columns_def find_Some_iff split: option.splits)

lemma collect_rows_map: "(\<forall>x \<in> set xs. f (g x) = Inr (h x)) \<Longrightarrow> collect_rows f (map g xs) = Inr (map h xs)"
  by (induction xs) simp_all

lemma sort_key_map: "sort_key f (map g xs) = map g (sort_key (\<lambda>x. f (g x)) xs)"
proof -
  have "insort_key f (g x) (map g ys) = map g (insort_key (\<lambda>x. f (g x)) x ys)" for x ys
    by (induction ys) simp_all
  then show ?thesis by (induction xs) simp_all
qed

lemma sort_key_order_cong:
  assumes "\<And>x y. x \<in> set xs \<Longrightarrow> y \<in> set xs \<Longrightarrow> f x \<le> f y \<longleftrightarrow> g x \<le> g y"
  shows "sort_key f xs = sort_key g xs"
  using assms
proof (induction xs)
  case (Cons a xs)
  have "insort_key f a ys = insort_key g a ys" if "set ys \<subseteq> set xs" for ys
    using that by (induction ys) (auto simp: Cons.prems)
  with Cons show ?case by simp
qed simp

lemma row_order_map:
  assumes "list_all (codec_ok c) rs"
  shows "row_order (map (row_of c) rs) = map (row_of c) (list_order rs)"
proof -
  have ok: "codec_ok c r" if "r \<in> set rs" for r using assms that by (simp add: list_all_iff)
  have "sort_key (\<lambda>r. col ''updated_at'' (row_of c r)) (rev rs) = sort_key updated_at (rev rs)"
    by (rule sort_key_order_cong) (simp add: row_columns ok)
  then have "sort_key_desc (col ''updated_at'') (map (row_of c) rs) = map (row_of c) (sort_key_desc updated_at rs)"
    by (simp add: sort_key_desc_def sort_key_map rev_map)
  moreover have "sort_key (\<lambda>r. if col ''pin_metadata'' (row_of c r) \<noteq> Null then 0 else 1 :: nat) (sort_key_desc updated_at rs)
      = sort_key (\<lambda>r. if is_some (pin_metadata r) then 0 else 1 :: nat) (sort_key_desc updated_at rs)"
    by (rule sort_key_order_cong)
       (auto simp: row_columns ok is_some_iff sort_key_desc_def)
  ultimately show ?thesis by (simp add: row_order_def list_order_def sort_key_map)
qed

lemma row_where_row: "codec_ok c r \<Longrightarrow> row_where q (row_of c r) = list_where q r"
  by (simp add: row_where_def list_where_def row_columns split: option.splits)

lemma sql_limit_map: "sql_limit n (map f xs) = map f (sql_limit n xs)"
  by (simp add: sql_limit_def Let_def take_map)

lemma sql_limit_sub: "set (sql_limit n xs) \<subseteq> set xs"
  by (auto simp: sql_limit_def Let_def dest: in_set_takeD)

lemma save_run_refines:
  assumes "implements c t (runs s)" "codec_ok c r"
  shows "\<exists>t'. save_run_sql c r t = Inr t' \<and> implements c t' (runs (save_run r s))"
proof -
  have "filter (\<lambda>r'. col ''run_id'' r' \<noteq> col ''run_id'' (row_of c r)) (map (row_of c) (runs s)) =
      map (row_of c) (filter (\<lambda>r'. run_id r' \<noteq> run_id r) (runs s))"
    using assms by (auto simp: implements_def list_all_iff filter_map row_columns intro!: arg_cong [of _ _ "map _"] filter_cong)
  with assms show ?thesis
    by (auto simp: save_run_sql_def run_row_ok insert_or_replace_def require_present row_columns
        implements_def save_run_def upsert_def list_all_iff)
qed

lemma get_run_refines:
  assumes "implements c t (runs s)"
  shows "get_run_sql c i t = Inr (get_run i s)"
proof -
  have ok: "list_all (codec_ok c) (runs s)" and rows: "tb_rows t = map (row_of c) (runs s)"
    and cols: "require_columns GET_COLUMNS t = Inr ()"
    using assms columns_used(1) by (auto simp: implements_def intro!: require_present)
  have "(case filter (\<lambda>r. col ''run_id'' r = SText i) (map (row_of c) rs) of
           [] \<Rightarrow> Inr None | r # _ \<Rightarrow> map_sum id Some (read_run c r)) = Inr (lookup run_id i rs)"
    if "list_all (codec_ok c) rs" for rs
    using that by (induction rs) (simp_all add: lookup_def row_columns read_run_row)
  with ok show ?thesis by (simp add: get_run_sql_def cols rows get_run_def)
qed

lemma list_runs_refines:
  assumes "implements c t (runs s)"
  shows "list_runs_sql c q t = Inr (list_runs q s)"
proof -
  have ok: "list_all (codec_ok c) (runs s)" and rows: "tb_rows t = map (row_of c) (runs s)"
    and cols: "set RUN_COLUMNS \<subseteq> set (tb_columns t)"
    using assms by (auto simp: implements_def)
  let ?kept = "filter (list_where q) (runs s)"
  have kept: "filter (row_where q) (map (row_of c) (runs s)) = map (row_of c) ?kept"
    using ok by (auto simp: filter_map list_all_iff row_where_row intro!: arg_cong [of _ _ "map _"] filter_cong)
  have "list_all (codec_ok c) ?kept" using ok by (simp add: list_all_iff)
  then have "sql_limit n (row_order (map (row_of c) ?kept)) = map (row_of c) (sql_limit n (list_order ?kept))" for n
    by (simp add: row_order_map sql_limit_map)
  moreover have "set (sql_limit n (list_order ?kept)) \<subseteq> set (runs s)" for n
    using sql_limit_sub [of n "list_order ?kept"] by (auto simp: list_order_def sort_key_desc_def)
  then have "collect_rows (read_summary c) (map (row_of c) (sql_limit n (list_order ?kept))) =
      Inr (map summary_of (sql_limit n (list_order ?kept)))" for n
    using ok read_summary_row unfolding list_all_iff by (intro collect_rows_map) blast
  moreover have "require_columns
      (LIST_COLUMNS @ (if lq_snoozed_only q \<or> \<not> lq_include_snoozed q then [''is_snoozed''] else [])) t = Inr ()"
    using cols columns_used(2,3) by (intro require_present) auto
  ultimately show ?thesis
    by (simp add: list_runs_sql_def rows kept list_runs_def)
qed

lemma blocker_impact_refines:
  assumes "implements c t (runs s)"
  shows "blocker_impact_sql c t = Inr (blocker_impact s)"
proof -
  have rows: "tb_rows t = map (row_of c) (runs s)" and cols: "require_columns [''blocked_by_run_ids''] t = Inr ()"
    using assms columns_used(4) by (auto simp: implements_def intro!: require_present)
  let ?json = "\<lambda>r. json_of (jc_strings c) (blocked_by_run_ids r)"
  let ?listed = "filter (\<lambda>r. ?json r \<noteq> ''[]'') (runs s)"
  have ok: "codec_ok c r" if "r \<in> set (runs s)" for r using assms that by (simp add: implements_def list_all_iff)
  have reads: "from_json (jc_strings c) (?json r) = Some (blocked_by_run_ids r)" if "r \<in> set (runs s)" for r
    using codec_okD(6) [OF ok [OF that]] by (rule from_json_rt)
  have "filter (\<lambda>r. col ''blocked_by_run_ids'' r \<noteq> Null \<and> col ''blocked_by_run_ids'' r \<noteq> SText ''[]'')
      (map (row_of c) (runs s)) = map (row_of c) ?listed"
    by (auto simp: filter_map row_columns ok intro!: arg_cong [of _ _ "map _"] filter_cong)
  moreover have "collect_rows (get_text 0 ''blocked_by_run_ids'') (map (row_of c) ?listed) = Inr (map ?json ?listed)"
    by (rule collect_rows_map) (simp add: get_text_def row_columns ok)
  moreover have "(\<Sum>r \<leftarrow> ?listed. count_list (unwrap_or [] (from_json (jc_strings c) (?json r))) i) =
      (\<Sum>r \<leftarrow> runs s. count_list (blocked_by_run_ids r) i)" for i
  proof -
    have "count_list (blocked_by_run_ids r) i = 0" if "r \<in> set (runs s)" "?json r = ''[]''" for r
      using reads [OF that(1)] codec_okD(19) [OF ok [OF that(1)]] that(2) by auto
    then have "(\<Sum>r \<leftarrow> ?listed. count_list (blocked_by_run_ids r) i) = (\<Sum>r \<leftarrow> runs s. count_list (blocked_by_run_ids r) i)"
      by (intro sum_list_map_filter) auto
    moreover have "map (\<lambda>r. count_list (unwrap_or [] (from_json (jc_strings c) (?json r))) i) ?listed =
        map (\<lambda>r. count_list (blocked_by_run_ids r) i) ?listed"
      by (auto simp: reads unwrap_or_def)
    ultimately show ?thesis by (simp only:)
  qed
  ultimately show ?thesis
    by (simp add: blocker_impact_sql_def cols rows blocker_impact_def fun_eq_iff comp_def)
qed


section \<open>The table as a keyed table\<close>

definition full_table :: "row list \<Rightarrow> sql_table" where
  "full_table rows = \<lparr>tb_columns = RUN_COLUMNS, tb_rows = rows\<rparr>"

definition put_run :: "codecs \<Rightarrow> RunState \<Rightarrow> row list \<Rightarrow> row list" where
  "put_run c r rows = (case save_run_sql c r (full_table rows) of Inl _ \<Rightarrow> rows | Inr t \<Rightarrow> tb_rows t)"

definition fetch_run :: "codecs \<Rightarrow> string \<Rightarrow> row list \<Rightarrow> RunState option" where
  "fetch_run c i rows = (case get_run_sql c i (full_table rows) of Inl _ \<Rightarrow> None | Inr x \<Rightarrow> x)"

lemma db_then_InrE:
  assumes "db_then x f = Inr y"
  obtains z where "x = Inr z" "f z = Inr y"
  using assms by (cases x) simp_all

lemma get_text_Inr: "get_text k n r = Inr t \<longleftrightarrow> col n r = SText t"
  by (simp add: get_text_def split: sql_value.splits)

lemma read_run_id: "read_run c r = Inr state \<Longrightarrow> col ''run_id'' r = SText (run_id state)"
  unfolding read_run_def by (elim db_then_InrE) (auto simp only: get_text_Inr sum.inject RunState.select_convs)

lemma fetch_run_eq:
  "fetch_run c i rows =
     (case find (\<lambda>r. col ''run_id'' r = SText i) rows of
        None \<Rightarrow> None
      | Some r \<Rightarrow> (case read_run c r of Inl _ \<Rightarrow> None | Inr x \<Rightarrow> Some x))"
proof -
  have "require_columns GET_COLUMNS (full_table rows) = Inr ()"
    using columns_used(1) by (intro require_present) (simp add: full_table_def)
  moreover have "(case filter P rows of [] \<Rightarrow> Inr None | r # _ \<Rightarrow> map_sum id Some (read_run c r)) =
      (case find P rows of None \<Rightarrow> Inr None | Some r \<Rightarrow> map_sum id Some (read_run c r))" for P
    by (induction rows) auto
  ultimately show ?thesis
    by (simp add: fetch_run_def get_run_sql_def full_table_def split: option.splits sum.splits)
qed

lemma put_run_eq:
  assumes "codec_ok c r"
  shows "put_run c r rows = filter (\<lambda>r'. col ''run_id'' r' \<noteq> SText (run_id r)) rows @ [row_of c r]"
  using assms
  by (simp add: put_run_def save_run_sql_def run_row_ok insert_or_replace_def require_present row_columns
      full_table_def)

lemma find_filter_key:
  "find P (filter Q xs @ ys) = (case find (\<lambda>x. P x \<and> Q x) xs of None \<Rightarrow> find P ys | Some x \<Rightarrow> Some x)"
  by (induction xs) auto

interpretation sql_runs: keyed_table "put_run c" "fetch_run c" run_id "codec_ok c" for c
proof
  fix k rows and v :: RunState
  assume v: "codec_ok c v"
  have "find (\<lambda>r. col ''run_id'' r = SText k \<and> col ''run_id'' r \<noteq> SText (run_id v)) rows =
      (if k = run_id v then None else find (\<lambda>r. col ''run_id'' r = SText k) rows)"
    by (auto simp: find_None_iff intro!: arg_cong2 [of _ _ _ _ find])
  then show "fetch_run c k (put_run c v rows) = (if k = run_id v then Some v else fetch_run c k rows)"
    using v by (auto simp: put_run_eq fetch_run_eq find_filter_key row_columns read_run_row split: option.splits)
next
  fix k rows and v :: RunState
  assume "fetch_run c k rows = Some v"
  then show "run_id v = k"
    by (auto simp: fetch_run_eq find_Some_iff split: option.splits sum.splits dest!: read_run_id)
qed

text \<open>
  C9: the table of runs implements the store. If its rows are the runs of the store, written by a JSON
  codec that reads back what it wrote, then saving a run leads to the rows of the store after the save,
  and looking a run up, listing runs with any query and counting blockers answer exactly what the store
  answers; none of them fails.
\<close>

theorem runs_table_refines_store:
  assumes "implements c t (runs s)"
  shows "(codec_ok c r \<longrightarrow> (\<exists>t'. save_run_sql c r t = Inr t' \<and> implements c t' (runs (save_run r s)))) \<and>
    get_run_sql c i t = Inr (get_run i s) \<and> list_runs_sql c q t = Inr (list_runs q s) \<and>
    blocker_impact_sql c t = Inr (blocker_impact s)"
  using assms save_run_refines get_run_refines list_runs_refines blocker_impact_refines by blast

text \<open>A codec that writes lists one item a line and has a fixed text for a policy.\<close>

definition sample_codecs :: codecs where
  "sample_codecs =
     \<lparr>jc_strings =
         \<lparr>to_json = (\<lambda>xs. Some (if xs = [] then ''[]'' else concat (map (\<lambda>x. x @ [newline]) xs))),
          from_json = (\<lambda>t. Some (if t = ''[]'' then [] else str_lines t))\<rparr>,
       jc_retryable_action = \<lparr>to_json = (\<lambda>_. None), from_json = (\<lambda>_. None)\<rparr>,
       jc_policy = \<lparr>to_json = (\<lambda>_. Some ''default''), from_json = (\<lambda>_. Some default_policy)\<rparr>,
       jc_outcome = \<lparr>to_json = (\<lambda>_. None), from_json = (\<lambda>_. None)\<rparr>,
       jc_reopen = \<lparr>to_json = (\<lambda>_. None), from_json = (\<lambda>_. None)\<rparr>,
       jc_archive = \<lparr>to_json = (\<lambda>_. None), from_json = (\<lambda>_. None)\<rparr>,
       jc_unarchive = \<lparr>to_json = (\<lambda>_. None), from_json = (\<lambda>_. None)\<rparr>,
       jc_annotation = \<lparr>to_json = (\<lambda>_. None), from_json = (\<lambda>_. None)\<rparr>,
       jc_pin = \<lparr>to_json = (\<lambda>m. Some (pinM_reason m @ [newline] @ pinM_pinned_at m)),
                 from_json = (\<lambda>t. case str_lines t of [a, b] \<Rightarrow> Some \<lparr>pinM_reason = a, pinM_pinned_at = b\<rparr> | _ \<Rightarrow> None)\<rparr>,
       jc_snooze = \<lparr>to_json = (\<lambda>_. None), from_json = (\<lambda>_. None)\<rparr>\<rparr>"

definition pinned_run :: RunState where
  "pinned_run = sample_run\<lparr>policy_profile := default_policy,
     pin_metadata := Some \<lparr>pinM_reason = ''release'', pinM_pinned_at = ''t0''\<rparr>\<rparr>"

theorem runs_table_refines_store_witness:
  "\<exists>t. save_run_sql sample_codecs pinned_run (full_table []) = Inr t \<and>
     get_run_sql sample_codecs ''run_1'' t = Inr (Some pinned_run)"
proof -
  let ?s = "save_run pinned_run empty_store"
  have "current_step pinned_run = 0" by code_simp
  moreover have "texts_ok sample_codecs pinned_run" by code_simp
  ultimately have r: "codec_ok sample_codecs pinned_run" by (simp add: codec_ok_def)
  have "implements sample_codecs (full_table []) (runs empty_store)"
    by (simp add: implements_def full_table_def empty_store_def)
  from runs_table_refines_store [OF this, of pinned_run] r obtain t
    where t: "save_run_sql sample_codecs pinned_run (full_table []) = Inr t"
      "implements sample_codecs t (runs ?s)" by blast
  have "get_run ''run_1'' ?s = Some pinned_run" by code_simp
  with runs_table_refines_store [OF t(2), of pinned_run "''run_1''"] t(1) show ?thesis by simp
qed


text \<open>
  C36: rows keep what is saved. After any sequence of saves into an empty table of the full schema, a run
  is read back as it was last saved under its identifier, and an identifier that was never saved is
  unknown.
\<close>

theorem sql_saves_read_back:
  assumes "list_all (codec_ok c) rs"
  shows "fetch_run c i (fold (put_run c) rs []) = find (\<lambda>r. run_id r = i) (rev rs)"
proof -
  have "fetch_run c i [] = None" by (simp add: fetch_run_eq)
  with sql_runs.get_puts [of rs c i "[]"] assms show ?thesis
    by (simp add: list_all_iff split: option.splits)
qed

theorem sql_saves_read_back_witness:
  "fetch_run sample_codecs ''run_1''
     (fold (put_run sample_codecs) [pinned_run\<lparr>status := ''active''\<rparr>, pinned_run\<lparr>run_id := ''run_2''\<rparr>, pinned_run] []) =
   Some pinned_run"
proof -
  have "current_step pinned_run = 0" by code_simp
  moreover have "texts_ok sample_codecs pinned_run" "texts_ok sample_codecs (pinned_run\<lparr>status := ''active''\<rparr>)"
    "texts_ok sample_codecs (pinned_run\<lparr>run_id := ''run_2''\<rparr>)" by code_simp+
  ultimately have "list_all (codec_ok sample_codecs)
      [pinned_run\<lparr>status := ''active''\<rparr>, pinned_run\<lparr>run_id := ''run_2''\<rparr>, pinned_run]"
    by (simp add: codec_ok_def)
  from sql_saves_read_back [OF this, of "''run_1''"] show ?thesis
    by (simp add: pinned_run_def sample_run_def prepare_def Let_def)
qed


section \<open>Migrations\<close>

fun added :: "string \<Rightarrow> (string \<times> string \<times> sql_value) list \<Rightarrow> string list \<Rightarrow> row" where
  "added name [] cs = []"
| "added name ((table, column, def) # ms) cs =
     (if table = name \<and> column \<notin> set cs then (column, def) # added name ms (cs @ [column])
      else added name ms cs)"

definition widened :: "row \<Rightarrow> sql_table \<Rightarrow> sql_table" where
  "widened new t = \<lparr>tb_columns = tb_columns t @ map fst new, tb_rows = map (\<lambda>r. r @ new) (tb_rows t)\<rparr>"

lemma widened_Nil [simp]: "widened [] t = t"
  by (simp add: widened_def)

lemma widened_Cons: "widened (x # new) t = widened new (widened [x] t)"
  by (simp add: widened_def)

lemma add_columns_eq:
  assumes "\<forall>m \<in> set ms. db (fst m) \<noteq> None"
  shows "add_columns ms db = Inr (\<lambda>name. map_option (\<lambda>t. widened (added name ms (tb_columns t)) t) (db name))"
  using assms
proof (induction ms arbitrary: db)
  case Nil
  then show ?case by (simp add: option.map_ident)
next
  case (Cons m ms)
  obtain table column def where m: "m = (table, column, def)" by (cases m) auto
  from Cons.prems obtain t where t: "db table = Some t" by (auto simp: m)
  let ?db = "if column \<in> set (tb_columns t) then db else db(table \<mapsto> widened [(column, def)] t)"
  have step: "add_column m db = Inr ?db" by (simp add: add_column_def m t widened_def)
  have "\<forall>m \<in> set ms. ?db (fst m) \<noteq> None" using Cons.prems by simp
  note IH = Cons.IH [OF this]
  have "map_option (\<lambda>t. widened (added name ms (tb_columns t)) t) (?db name) =
      map_option (\<lambda>t. widened (added name (m # ms) (tb_columns t)) t) (db name)" for name
    using t by (cases "name = table") (simp_all add: m widened_def option.map_comp)
  with IH show ?case unfolding add_columns.simps step by simp
qed

lemma added_columns: "map fst (added name ms cs) = [] \<longleftrightarrow> (\<forall>(t, c, _) \<in> set ms. t = name \<longrightarrow> c \<in> set cs)"
  by (induction name ms cs rule: added.induct) auto

lemma added_covers: "(name, c, d) \<in> set ms \<Longrightarrow> c \<in> set cs \<union> fst ` set (added name ms cs)"
  by (induction name ms cs rule: added.induct) auto

lemma added_fresh: "(c, d) \<in> set (added name ms cs) \<Longrightarrow> c \<notin> set cs"
  by (induction name ms cs rule: added.induct) (auto split: if_splits)

lemma added_twice: "added name ms (cs @ map fst (added name ms cs)) = []"
proof -
  have "\<forall>(t, c, _) \<in> set ms. t = name \<longrightarrow> c \<in> set (cs @ map fst (added name ms cs))"
    using added_covers by fastforce
  then show ?thesis using added_columns [of name ms] by auto
qed

definition created :: "database \<Rightarrow> database" where
  "created db =
     create_table ''audit_trail'' AUDIT_BASE
       (create_table ''approvals'' APPROVALS_BASE (create_table ''runs'' RUNS_BASE db))"

lemma create_keeps: "db name = Some t \<Longrightarrow> create_table n cs db name = Some t"
  by (auto simp: create_table_def split: option.splits)

lemma create_exists: "create_table n cs db n \<noteq> None"
  by (auto simp: create_table_def split: option.splits)

lemma create_same: "db n \<noteq> None \<Longrightarrow> create_table n cs db = db"
  by (auto simp: create_table_def)

lemma created_keeps: "db name = Some t \<Longrightarrow> created db name = Some t"
  by (simp add: created_def create_keeps)

lemma created_tables: "created db ''runs'' \<noteq> None" "created db ''approvals'' \<noteq> None" "created db ''audit_trail'' \<noteq> None"
proof -
  have stays: "create_table n cs db' name \<noteq> None" if "db' name \<noteq> None" for n cs db' name
    using that create_keeps [of db' name] by auto
  show "created db ''runs'' \<noteq> None" unfolding created_def by (intro stays create_exists)
  show "created db ''approvals'' \<noteq> None" unfolding created_def by (intro stays create_exists)
  show "created db ''audit_trail'' \<noteq> None" unfolding created_def by (rule create_exists)
qed

lemma created_again:
  "db ''runs'' \<noteq> None \<Longrightarrow> db ''approvals'' \<noteq> None \<Longrightarrow> db ''audit_trail'' \<noteq> None \<Longrightarrow> created db = db"
  by (simp add: created_def create_same)

lemma created_runs:
  "created db ''runs'' = Some (case db ''runs'' of None \<Rightarrow> \<lparr>tb_columns = RUNS_BASE, tb_rows = []\<rparr> | Some t \<Rightarrow> t)"
proof -
  have "create_table ''runs'' RUNS_BASE db ''runs'' =
      Some (case db ''runs'' of None \<Rightarrow> \<lparr>tb_columns = RUNS_BASE, tb_rows = []\<rparr> | Some t \<Rightarrow> t)"
    by (simp add: create_table_def split: option.splits)
  then show ?thesis unfolding created_def by (rule create_keeps [OF create_keeps])
qed

lemma migrations_tables: "\<forall>m \<in> set MIGRATIONS. fst m = ''runs'' \<or> fst m = ''approvals''"
  by (simp add: MIGRATIONS_def)

lemma migrate_eq:
  "migrate db = Inr (\<lambda>name. map_option (\<lambda>t. widened (added name MIGRATIONS (tb_columns t)) t) (created db name))"
proof -
  have "\<forall>m \<in> set MIGRATIONS. created db (fst m) \<noteq> None"
    using migrations_tables created_tables by metis
  note add_columns_eq [OF this]
  moreover obtain t where "created db ''audit_trail'' = Some t" using created_tables(3) by blast
  ultimately show ?thesis
    by (simp add: migrate_def created_def [symmetric] Let_def create_same)
qed

definition OLDEST_COLUMNS :: "string list" where
  "OLDEST_COLUMNS =
     [''run_id'', ''workspace_id'', ''user_goal'', ''status'', ''plan'', ''current_step'', ''created_at'',
      ''updated_at'']"

lemma columns_migrated:
  "set RUN_COLUMNS \<subseteq> set OLDEST_COLUMNS \<union> (fst \<circ> snd) ` set (filter (\<lambda>m. fst m = ''runs'') MIGRATIONS)"
  "set OLDEST_COLUMNS \<subseteq> set RUNS_BASE"
  by code_simp+

lemma widened_columns:
  assumes "set OLDEST_COLUMNS \<subseteq> set (tb_columns t)"
  shows "set RUN_COLUMNS \<subseteq> set (tb_columns (widened (added ''runs'' MIGRATIONS (tb_columns t)) t))"
proof
  fix n assume "n \<in> set RUN_COLUMNS"
  then have "n \<in> set OLDEST_COLUMNS \<union> (fst \<circ> snd) ` set (filter (\<lambda>m. fst m = ''runs'') MIGRATIONS)"
    using columns_migrated(1) by (rule subsetD [rotated])
  then consider "n \<in> set OLDEST_COLUMNS" | d where "(''runs'', n, d) \<in> set MIGRATIONS" by auto
  then show "n \<in> set (tb_columns (widened (added ''runs'' MIGRATIONS (tb_columns t)) t))"
  proof cases
    case 2
    from added_covers [OF this, of "tb_columns t"] show ?thesis by (auto simp: widened_def)
  qed (use assms in \<open>auto simp: widened_def\<close>)
qed

text \<open>
  C37: every database opens. The migrations succeed on any set of tables and doing them again changes
  nothing; each table that was there keeps its columns and the values of its rows, getting only columns
  it did not have; and the table of runs, if it is new or has the eight columns of the oldest schema,
  has every column that saving, reading and listing use.
\<close>

theorem database_opens:
  "\<exists>db'. migrate db = Inr db' \<and> migrate db' = Inr db' \<and>
     (\<forall>name t. db name = Some t \<longrightarrow>
        (\<exists>new. db' name = Some (widened new t) \<and> fst ` set new \<inter> set (tb_columns t) = {})) \<and>
     (\<exists>t. db' ''runs'' = Some t \<and>
        ((case db ''runs'' of None \<Rightarrow> True | Some t \<Rightarrow> set OLDEST_COLUMNS \<subseteq> set (tb_columns t)) \<longrightarrow>
         set RUN_COLUMNS \<subseteq> set (tb_columns t)))"
proof -
  define db' where "db' = (\<lambda>name. map_option (\<lambda>t. widened (added name MIGRATIONS (tb_columns t)) t) (created db name))"
  have m: "migrate db = Inr db'" by (simp add: migrate_eq db'_def)
  have "created db' = db'"
    by (rule created_again) (use created_tables [of db] in \<open>simp_all add: db'_def\<close>)
  then have "migrate db' = Inr db'"
    unfolding migrate_eq by (simp add: db'_def option.map_comp comp_def widened_def added_twice)
  moreover have "\<exists>new. db' name = Some (widened new t) \<and> fst ` set new \<inter> set (tb_columns t) = {}"
    if "db name = Some t" for name t
  proof (intro exI conjI)
    show "db' name = Some (widened (added name MIGRATIONS (tb_columns t)) t)"
      using created_keeps [of db name t] that by (simp add: db'_def)
    show "fst ` set (added name MIGRATIONS (tb_columns t)) \<inter> set (tb_columns t) = {}"
      using added_fresh by fastforce
  qed
  moreover have "\<exists>t. db' ''runs'' = Some t \<and>
      ((case db ''runs'' of None \<Rightarrow> True | Some t \<Rightarrow> set OLDEST_COLUMNS \<subseteq> set (tb_columns t)) \<longrightarrow>
       set RUN_COLUMNS \<subseteq> set (tb_columns t))"
    using columns_migrated(2) widened_columns [of "\<lparr>tb_columns = RUNS_BASE, tb_rows = []\<rparr>"] widened_columns
    by (simp add: db'_def created_runs split: option.splits)
  ultimately show ?thesis using m by blast
qed

theorem database_opens_witness:
  "\<exists>db' t. migrate (\<lambda>_. None) = Inr db' \<and> db' ''runs'' = Some t \<and> set RUN_COLUMNS \<subseteq> set (tb_columns t)"
  using database_opens [of "\<lambda>_. None"] by auto

definition oldest_row :: row where
  "oldest_row =
     [(''run_id'', SText ''r_old''), (''workspace_id'', SText ''/tmp/ws''), (''user_goal'', SText ''fix bug''),
      (''status'', SText ''prepared''), (''plan'', SText (''step 1'' @ [newline])),
      (''current_step'', SInt (int 0)), (''created_at'', SText ''2024-01-01''),
      (''updated_at'', SText ''2024-01-01'')]"

definition oldest_database :: database where
  "oldest_database = [''runs'' \<mapsto> \<lparr>tb_columns = OLDEST_COLUMNS, tb_rows = [oldest_row]\<rparr>]"

lemma oldest_added:
  "added ''runs'' MIGRATIONS OLDEST_COLUMNS =
     [(''completed_steps'', SText ''[]''), (''pending_steps'', SText ''[]''), (''last_action'', Null),
      (''last_observation'', Null), (''recommended_next_action'', Null), (''recommended_tool'', Null),
      (''latest_diff_summary'', Null), (''latest_test_result'', Null), (''warnings'', SText ''[]''),
      (''focus_paths'', SText ''[]''), (''retryable_action'', Null), (''policy_profile'', SText ''{}''),
      (''outcome_kind'', Null), (''finalized_outcome'', Null), (''reopen_metadata'', Null),
      (''supersedes_run_id'', Null), (''superseded_by_run_id'', Null), (''supersession_reason'', Null),
      (''superseded_at'', Null), (''is_archived'', SInt 0), (''archive_metadata'', Null),
      (''unarchive_metadata'', Null), (''annotation'', Null), (''pin_metadata'', Null),
      (''is_snoozed'', SInt 0), (''snooze_metadata'', Null), (''priority'', SText ''normal''),
      (''assignee'', Null), (''ownership_note'', Null), (''due_date'', Null),
      (''blocked_by_run_ids'', SText ''[]''), (''effort'', Null)]"
  by code_simp

lemma as_opt_Null [simp]: "as_opt k Null = Inr None"
  by (simp add: as_opt_def)

lemma as_json_None [simp]: "as_json j k None = Inr None"
  by (simp add: as_json_def)

text \<open>
  Runs of the oldest schema stay readable. After the migrations a row that has only the eight columns
  of the oldest schema reads back as that run, with the default policy, normal priority, no steps done or
  pending, no dependencies and everything else absent.
\<close>

theorem oldest_run_readable:
  assumes "db ''runs'' = Some \<lparr>tb_columns = OLDEST_COLUMNS, tb_rows = [row]\<rparr>"
    and "row = [(''run_id'', SText i), (''workspace_id'', SText ws), (''user_goal'', SText goal),
                (''status'', SText st), (''plan'', SText plan_json), (''current_step'', SInt (int n)),
                (''created_at'', SText cr), (''updated_at'', SText up)]"
    and "n < 2 ^ 63" "from_json (jc_strings c) plan_json = Some steps" "from_json (jc_strings c) ''[]'' = Some []"
  shows "\<exists>db' t. migrate db = Inr db' \<and> db' ''runs'' = Some t \<and> get_run_sql c i t = Inr (Some
     \<lparr>run_id = i, workspace_id = ws, user_goal = goal, status = st, plan = steps, current_step = n,
      completed_steps = [], pending_steps = [], last_action = None, last_observation = None,
      recommended_next_action = None, recommended_tool = None, latest_diff_summary = None,
      latest_test_result = None, focus_paths = [], warnings = [], retryable_action = None,
      policy_profile = default_policy, finalized_outcome = None, reopen_metadata = None,
      supersedes_run_id = None, superseded_by_run_id = None, supersession_reason = None,
      superseded_at = None, archive_metadata = None, unarchive_metadata = None, annotation = None,
      pin_metadata = None, snooze_metadata = None, priority = Normal, assignee = None,
      ownership_note = None, due_date = None, blocked_by_run_ids = [], effort = None,
      created_at = cr, updated_at = up\<rparr>)"
    (is "\<exists>db' t. _ \<and> _ \<and> _ = Inr (Some ?r)")
proof -
  let ?t = "\<lparr>tb_columns = OLDEST_COLUMNS, tb_rows = [row]\<rparr>"
  let ?new = "added ''runs'' MIGRATIONS OLDEST_COLUMNS"
  have "require_columns GET_COLUMNS (widened ?new ?t) = Inr ()"
    using widened_columns [of ?t] columns_used(1) by (intro require_present) auto
  moreover have "created db ''runs'' = Some ?t" by (rule created_keeps) (rule assms(1))
  moreover have "tb_rows (widened ?new ?t) = [row @ ?new]" by (simp add: widened_def)
  moreover have "col ''run_id'' (row @ ?new) = SText i" by (simp add: assms(2))
  moreover have "read_run c (row @ ?new) = Inr ?r"
    using assms(3-5) unfolding assms(2) oldest_added
    by (simp add: read_run_def get_text_def get_opt_as get_i64_def get_json_as get_policy_def get_priority_def
        text_or_def parse_json_def usize_column priority_parse_def)
  ultimately have "get_run_sql c i (widened ?new ?t) = Inr (Some ?r)" by (simp add: get_run_sql_def)
  with \<open>created db ''runs'' = Some ?t\<close> show ?thesis by (simp add: migrate_eq)
qed

theorem oldest_run_readable_witness:
  "\<exists>db' t r. migrate oldest_database = Inr db' \<and> db' ''runs'' = Some t \<and>
     get_run_sql sample_codecs ''r_old'' t = Inr (Some r) \<and> plan r = [''step 1''] \<and> priority r = Normal"
proof -
  have p: "from_json (jc_strings sample_codecs) (''step 1'' @ [newline]) = Some [''step 1'']" by code_simp
  have e: "from_json (jc_strings sample_codecs) ''[]'' = Some []" by code_simp
  have d: "oldest_database ''runs'' = Some \<lparr>tb_columns = OLDEST_COLUMNS, tb_rows = [oldest_row]\<rparr>"
    by (simp add: oldest_database_def)
  from oldest_run_readable [of oldest_database, OF d oldest_row_def _ p e] show ?thesis by fastforce
qed

end
