(* ===== verification/Patch_Format.thy ===== *)
theory Patch_Format
  imports Harness_Prelude
begin

text \<open>
  The textual patch format of \<open>src/codex-rs/apply-patch/src/parser.rs\<close>: the hunks a patch is made of and
  the parser that reads them from the lines of a patch, in the strict and in the lenient mode. Paths
  are kept as the texts the patch has. A parser returns what it read and the number of lines it used;
  the loops end because that number is never zero.
\<close>

section \<open>Hunks\<close>

definition BEGIN_PATCH_MARKER :: string where "BEGIN_PATCH_MARKER = ''*** Begin Patch''"
definition ENVIRONMENT_ID_MARKER :: string where "ENVIRONMENT_ID_MARKER = ''*** Environment ID: ''"
definition END_PATCH_MARKER :: string where "END_PATCH_MARKER = ''*** End Patch''"
definition ADD_FILE_MARKER :: string where "ADD_FILE_MARKER = ''*** Add File: ''"
definition DELETE_FILE_MARKER :: string where "DELETE_FILE_MARKER = ''*** Delete File: ''"
definition UPDATE_FILE_MARKER :: string where "UPDATE_FILE_MARKER = ''*** Update File: ''"
definition MOVE_TO_MARKER :: string where "MOVE_TO_MARKER = ''*** Move to: ''"
definition EOF_MARKER :: string where "EOF_MARKER = ''*** End of File''"
definition CHANGE_CONTEXT_MARKER :: string where "CHANGE_CONTEXT_MARKER = ''@@ ''"
definition EMPTY_CHANGE_CONTEXT_MARKER :: string where "EMPTY_CHANGE_CONTEXT_MARKER = ''@@''"

datatype ParseError = InvalidPatchError string | InvalidHunkError string nat

type_synonym 'a parsed = "ParseError + 'a"

record UpdateFileChunk =
  ch_change_context :: "string option"
  ch_old_lines :: "string list"
  ch_new_lines :: "string list"
  ch_is_end_of_file :: bool

datatype Hunk =
    AddFile string string
  | DeleteFile string
  | UpdateFile string "string option" "UpdateFileChunk list"

fun hunk_path :: "Hunk \<Rightarrow> string" where
  "hunk_path (AddFile p _) = p"
| "hunk_path (DeleteFile p) = p"
| "hunk_path (UpdateFile _ (Some p) _) = p"
| "hunk_path (UpdateFile p None _) = p"

fun hunk_source :: "Hunk \<Rightarrow> string" where
  "hunk_source (UpdateFile p _ _) = p"
| "hunk_source h = hunk_path h"

record ApplyPatchArgs =
  apa_patch :: string
  apa_hunks :: "Hunk list"
  apa_workdir :: "string option"
  apa_environment_id :: "string option"

datatype ParseMode = Strict | Lenient

definition parsed_then :: "'a parsed \<Rightarrow> ('a \<Rightarrow> 'b parsed) \<Rightarrow> 'b parsed" where
  "parsed_then r f = (case r of Inl e \<Rightarrow> Inl e | Inr x \<Rightarrow> f x)"

lemma parsed_then_simps [simp]: "parsed_then (Inl e) f = Inl e" "parsed_then (Inr x) f = f x"
  by (simp_all add: parsed_then_def)

lemma parsed_then_InrE:
  assumes "parsed_then r f = Inr y"
  obtains x where "r = Inr x" "f x = Inr y"
  using assms by (cases r) simp_all


text \<open>The \<open>?\<close> operator: go on with the state that was left, unless there was an error.\<close>

definition step_then ::
  "('e option \<times> 'p) \<Rightarrow> ('p \<Rightarrow> 'e option \<times> 'p) \<Rightarrow> 'e option \<times> 'p" where
  "step_then r f = (case fst r of Some e \<Rightarrow> r | None \<Rightarrow> f (snd r))"

lemma step_then_simps [simp]: "step_then (Some e, p) f = (Some e, p)" "step_then (None, p) f = f p"
  by (simp_all add: step_then_def)


section \<open>Update chunks\<close>

definition no_lines :: string where
  "no_lines = ''Update hunk does not contain any lines''"

definition unexpected_line :: "string \<Rightarrow> string" where
  "unexpected_line l =
     ''Unexpected line found in update hunk: '' @ quoted l @ ''. Every line should start with ''
     @ quoted '' '' @ '' (context line), '' @ quoted ''+'' @ '' (added line), or '' @ quoted ''-''
     @ '' (removed line)''"

definition push_old :: "string \<Rightarrow> UpdateFileChunk \<Rightarrow> UpdateFileChunk" where
  "push_old l c = c\<lparr>ch_old_lines := ch_old_lines c @ [l]\<rparr>"

definition push_new :: "string \<Rightarrow> UpdateFileChunk \<Rightarrow> UpdateFileChunk" where
  "push_new l c = c\<lparr>ch_new_lines := ch_new_lines c @ [l]\<rparr>"

text \<open>The loop over the lines of a chunk: \<open>n\<close> lines have been read into \<open>c\<close>.\<close>

fun chunk_lines :: "nat \<Rightarrow> string list \<Rightarrow> nat \<Rightarrow> UpdateFileChunk \<Rightarrow> (UpdateFileChunk \<times> nat) parsed" where
  "chunk_lines line_number [] n c = Inr (c, n)"
| "chunk_lines line_number (l # ls) n c =
     (if l = EOF_MARKER
      then if n = 0 then Inl (InvalidHunkError no_lines (line_number + 1))
           else Inr (c\<lparr>ch_is_end_of_file := True\<rparr>, n + 1)
      else case l of
          [] \<Rightarrow> chunk_lines line_number ls (n + 1) (push_new [] (push_old [] c))
        | ch # rest \<Rightarrow>
            if ch = CHR '' '' then chunk_lines line_number ls (n + 1) (push_new rest (push_old rest c))
            else if ch = CHR ''+'' then chunk_lines line_number ls (n + 1) (push_new rest c)
            else if ch = CHR ''-'' then chunk_lines line_number ls (n + 1) (push_old rest c)
            else if n = 0 then Inl (InvalidHunkError (unexpected_line l) (line_number + 1))
            else Inr (c, n))"

definition chunk_header :: "string list \<Rightarrow> nat \<Rightarrow> bool \<Rightarrow> (string option \<times> nat) parsed" where
  "chunk_header lines line_number allow_missing_context =
     (if hd lines = EMPTY_CHANGE_CONTEXT_MARKER then Inr (None, 1)
      else case strip_prefix CHANGE_CONTEXT_MARKER (hd lines) of
          Some context_line \<Rightarrow> Inr (Some context_line, 1)
        | None \<Rightarrow>
            if \<not> allow_missing_context
            then Inl (InvalidHunkError
                   (''Expected update hunk to start with a @@ context marker, got: '' @ quoted (hd lines))
                   line_number)
            else Inr (None, 0))"

definition parse_update_file_chunk ::
  "string list \<Rightarrow> nat \<Rightarrow> bool \<Rightarrow> (UpdateFileChunk \<times> nat) parsed" where
  "parse_update_file_chunk lines line_number allow_missing_context =
     (if lines = [] then Inl (InvalidHunkError no_lines line_number)
      else parsed_then (chunk_header lines line_number allow_missing_context) (\<lambda>(change_context, start_index).
        if start_index \<ge> length lines then Inl (InvalidHunkError no_lines (line_number + 1))
        else parsed_then
          (chunk_lines line_number (drop start_index lines) 0
            \<lparr>ch_change_context = change_context, ch_old_lines = [], ch_new_lines = [],
             ch_is_end_of_file = False\<rparr>) (\<lambda>(chunk, parsed_lines).
          Inr (chunk, parsed_lines + start_index))))"

lemma chunk_lines_used:
  "chunk_lines k ls n c = Inr (c', m) \<Longrightarrow> ls \<noteq> [] \<or> 0 < n \<Longrightarrow> 0 < m"
  by (induction k ls n c rule: chunk_lines.induct) (auto split: if_splits list.splits)

lemma chunk_lines_bound: "chunk_lines k ls n c = Inr (c', m) \<Longrightarrow> n \<le> m \<and> m \<le> n + length ls"
  by (induction k ls n c rule: chunk_lines.induct) (fastforce split: if_splits list.splits)+

lemma parse_chunk_used:
  assumes "parse_update_file_chunk lines k a = Inr (c, m)"
  shows "0 < m" "m \<le> length lines"
proof -
  from assms obtain ctx i n where *: "lines \<noteq> []" "chunk_header lines k a = Inr (ctx, i)" "i < length lines"
    "chunk_lines k (drop i lines) 0 \<lparr>ch_change_context = ctx, ch_old_lines = [], ch_new_lines = [],
       ch_is_end_of_file = False\<rparr> = Inr (c, n)" "m = n + i"
    by (auto simp: parse_update_file_chunk_def not_le elim!: parsed_then_InrE split: if_splits)
  from chunk_lines_used [OF *(4)] *(3,5) show "0 < m" by simp
  from chunk_lines_bound [OF *(4)] *(3,5) show "m \<le> length lines" by simp
qed


section \<open>Hunks of a patch\<close>

text \<open>
  The loop of an update hunk: \<open>parsed_lines\<close> lines of the hunk have been read into \<open>chunks\<close>, and
  \<open>line_number\<close> is the line of its header.
\<close>

function update_chunks ::
  "nat \<Rightarrow> string list \<Rightarrow> nat \<Rightarrow> UpdateFileChunk list \<Rightarrow> (UpdateFileChunk list \<times> nat) parsed" where
  "update_chunks line_number remaining parsed_lines chunks =
     (if remaining = [] then Inr (chunks, parsed_lines)
      else if trim (hd remaining) = []
      then update_chunks line_number (tl remaining) (parsed_lines + 1) chunks
      else if starts_with (hd remaining) ''*'' then Inr (chunks, parsed_lines)
      else case parse_update_file_chunk remaining (line_number + parsed_lines) (chunks = []) of
          Inl e \<Rightarrow> Inl e
        | Inr (chunk, n) \<Rightarrow>
            update_chunks line_number (drop n remaining) (parsed_lines + n) (chunks @ [chunk]))"
  by pat_completeness auto
termination
  by (relation "measure (\<lambda>(k, remaining, n, chunks). length remaining)")
     (auto dest: parse_chunk_used(1))

declare update_chunks.simps [simp del]

lemma update_chunks_Nil [simp]: "update_chunks k [] n cs = Inr (cs, n)"
  by (simp add: update_chunks.simps)

lemma update_chunks_blank: "trim l = [] \<Longrightarrow> update_chunks k (l # ls) n cs = update_chunks k ls (n + 1) cs"
  by (simp add: update_chunks.simps [of k "l # ls"])

lemma update_chunks_star:
  "trim l \<noteq> [] \<Longrightarrow> starts_with l ''*'' \<Longrightarrow> update_chunks k (l # ls) n cs = Inr (cs, n)"
  by (simp add: update_chunks.simps [of k "l # ls"])

lemma update_chunks_chunk:
  "trim l \<noteq> [] \<Longrightarrow> \<not> starts_with l ''*'' \<Longrightarrow>
     update_chunks k (l # ls) n cs =
       parsed_then (parse_update_file_chunk (l # ls) (k + n) (cs = [])) (\<lambda>(chunk, m).
         update_chunks k (drop m (l # ls)) (n + m) (cs @ [chunk]))"
  by (subst update_chunks.simps) (simp add: parsed_then_def)

lemma update_chunks_bound:
  "update_chunks k ls n cs = Inr (cs', m) \<Longrightarrow> n \<le> m \<and> m \<le> n + length ls"
proof (induction "length ls" arbitrary: ls n cs rule: less_induct)
  case less
  show ?case
  proof (cases ls)
    case (Cons l rest)
    consider "trim l = []" | "trim l \<noteq> []" "starts_with l ''*''" | "trim l \<noteq> []" "\<not> starts_with l ''*''" by blast
    then show ?thesis
    proof cases
      case 1
      with less.prems less.hyps [of rest "n + 1" cs] Cons show ?thesis by (simp add: update_chunks_blank)
    next
      case 2
      with less.prems Cons show ?thesis by (simp add: update_chunks_star)
    next
      case 3
      with less.prems Cons obtain c i where c: "parse_update_file_chunk ls (k + n) (cs = []) = Inr (c, i)"
        "update_chunks k (drop i ls) (n + i) (cs @ [c]) = Inr (cs', m)"
        by (auto simp: update_chunks_chunk elim!: parsed_then_InrE)
      from parse_chunk_used [OF c(1)] less.hyps [OF _ c(2)] show ?thesis by fastforce
    qed
  qed (use less.prems in simp)
qed

definition bad_header :: "string \<Rightarrow> string" where
  "bad_header l =
     quoted l @ '' is not a valid hunk header. Valid hunk headers: '' @ quoted ''*** Add File: {path}''
     @ '', '' @ quoted ''*** Delete File: {path}'' @ '', '' @ quoted ''*** Update File: {path}''"

definition empty_update :: "string \<Rightarrow> string" where
  "empty_update path = ''Update file hunk for path '' @ quoted path @ '' is empty''"

definition parse_add_file :: "string \<Rightarrow> string list \<Rightarrow> Hunk \<times> nat" where
  "parse_add_file path ls =
     (let added = takeWhile (\<lambda>l. starts_with l ''+'') ls in
      (AddFile path (concat (map (\<lambda>l. drop 1 l @ [newline]) added)), 1 + length added))"

definition parse_update_file :: "nat \<Rightarrow> string \<Rightarrow> string list \<Rightarrow> (Hunk \<times> nat) parsed" where
  "parse_update_file line_number path ls =
     (let move_path = (case ls of [] \<Rightarrow> None | l # _ \<Rightarrow> strip_prefix MOVE_TO_MARKER l);
          moved = (if is_some move_path then 1 else 0)
      in parsed_then (update_chunks line_number (drop moved ls) (1 + moved) []) (\<lambda>(chunks, parsed_lines).
           if chunks = [] then Inl (InvalidHunkError (empty_update path) line_number)
           else Inr (UpdateFile path move_path chunks, parsed_lines)))"

definition parse_one_hunk :: "string list \<Rightarrow> nat \<Rightarrow> (Hunk \<times> nat) parsed" where
  "parse_one_hunk lines line_number =
     (let first_line = trim (hd lines) in
      case strip_prefix ADD_FILE_MARKER first_line of
        Some path \<Rightarrow> Inr (parse_add_file path (tl lines))
      | None \<Rightarrow>
      (case strip_prefix DELETE_FILE_MARKER first_line of
        Some path \<Rightarrow> Inr (DeleteFile path, 1)
      | None \<Rightarrow>
      (case strip_prefix UPDATE_FILE_MARKER first_line of
        Some path \<Rightarrow> parse_update_file line_number path (tl lines)
      | None \<Rightarrow> Inl (InvalidHunkError (bad_header first_line) line_number))))"

lemma parse_one_hunk_used:
  assumes "parse_one_hunk lines k = Inr (h, n)"
  shows "0 < n" "lines \<noteq> [] \<Longrightarrow> n \<le> length lines"
proof -
  have update: "0 < n \<and> n \<le> Suc (length ls)" if u: "parse_update_file k path ls = Inr (h, n)" for path ls
    using u by (cases ls)
      (auto simp: parse_update_file_def Let_def is_some_iff elim!: parsed_then_InrE split: if_splits
        dest!: update_chunks_bound)
  have add: "0 < snd (parse_add_file p ls) \<and> snd (parse_add_file p ls) \<le> Suc (length ls)" for p ls
    by (simp add: parse_add_file_def Let_def length_takeWhile_le)
  from assms update [of _ "tl lines"] add [of _ "tl lines"] show "0 < n"
    by (auto simp: parse_one_hunk_def Let_def split: option.splits) (metis snd_conv)+
  from assms update [of _ "tl lines"] add [of _ "tl lines"] show "n \<le> length lines" if "lines \<noteq> []"
    using that by (cases lines) (auto simp: parse_one_hunk_def Let_def split: option.splits, (metis snd_conv)+)
qed

function parse_hunks :: "string list \<Rightarrow> nat \<Rightarrow> Hunk list parsed" where
  "parse_hunks remaining line_number =
     (if remaining = [] then Inr []
      else case parse_one_hunk remaining line_number of
          Inl e \<Rightarrow> Inl e
        | Inr (hunk, n) \<Rightarrow>
            parsed_then (parse_hunks (drop n remaining) (line_number + n)) (\<lambda>hunks. Inr (hunk # hunks)))"
  by pat_completeness auto
termination
  by (relation "measure (\<lambda>(remaining, k). length remaining)") (auto dest: parse_one_hunk_used(1))

declare parse_hunks.simps [simp del]


section \<open>Patches\<close>

definition check_start_and_end_lines_strict :: "string option \<Rightarrow> string option \<Rightarrow> unit parsed" where
  "check_start_and_end_lines_strict first_line last_line =
     (let first_line = map_option trim first_line; last_line = map_option trim last_line in
      if first_line = Some BEGIN_PATCH_MARKER \<and> last_line = Some END_PATCH_MARKER then Inr ()
      else if first_line \<noteq> None \<and> first_line \<noteq> Some BEGIN_PATCH_MARKER
      then Inl (InvalidPatchError (''The first line of the patch must be '' @ quoted ''*** Begin Patch''))
      else Inl (InvalidPatchError (''The last line of the patch must be '' @ quoted ''*** End Patch'')))"

definition check_patch_boundaries_strict :: "string list \<Rightarrow> (string list \<times> string list) parsed" where
  "check_patch_boundaries_strict lines =
     (let (first_line, last_line) =
        (if lines = [] then (None, None) else (Some (hd lines), Some (last lines)))
      in parsed_then (check_start_and_end_lines_strict first_line last_line) (\<lambda>_.
           Inr (lines, butlast (tl lines))))"

definition HEREDOC_MARKERS :: "string list" where
  "HEREDOC_MARKERS = [''<<EOF'', ''<<'' @ quoted ''EOF'', ''<<'' @ [CHR 0x22] @ ''EOF'' @ [CHR 0x22]]"

definition check_patch_boundaries_lenient :: "string list \<Rightarrow> (string list \<times> string list) parsed" where
  "check_patch_boundaries_lenient original_lines =
     (case check_patch_boundaries_strict original_lines of
        Inr lines \<Rightarrow> Inr lines
      | Inl e \<Rightarrow>
          if length original_lines \<ge> 4 \<and> hd original_lines \<in> set HEREDOC_MARKERS
             \<and> suffix ''EOF'' (last original_lines)
          then check_patch_boundaries_strict (butlast (tl original_lines))
          else Inl e)"

definition parse_environment_id_preamble ::
  "string list \<Rightarrow> (string option \<times> string list \<times> nat) parsed" where
  "parse_environment_id_preamble hunk_lines =
     (case hunk_lines of
        [] \<Rightarrow> Inr (None, hunk_lines, 2)
      | first_line # rest \<Rightarrow>
          (case strip_prefix ENVIRONMENT_ID_MARKER (trim_start first_line) of
             None \<Rightarrow> Inr (None, hunk_lines, 2)
           | Some environment_id \<Rightarrow>
               (let environment_id = trim environment_id in
                if environment_id = []
                then Inl (InvalidPatchError ''apply_patch environment_id cannot be empty'')
                else Inr (Some environment_id, rest, 3))))"

definition parse_patch_text :: "string \<Rightarrow> ParseMode \<Rightarrow> ApplyPatchArgs parsed" where
  "parse_patch_text patch mode =
     (let lines = str_lines (trim patch) in
      parsed_then
        (case mode of
           Strict \<Rightarrow> check_patch_boundaries_strict lines
         | Lenient \<Rightarrow> check_patch_boundaries_lenient lines) (\<lambda>(patch_lines, hunk_lines).
      parsed_then (parse_environment_id_preamble hunk_lines) (\<lambda>(environment_id, remaining_lines, line_number).
      parsed_then (parse_hunks remaining_lines line_number) (\<lambda>hunks.
      Inr \<lparr>apa_patch = join [newline] patch_lines, apa_hunks = hunks, apa_workdir = None,
           apa_environment_id = environment_id\<rparr>))))"

definition PARSE_IN_STRICT_MODE :: bool where "PARSE_IN_STRICT_MODE = False"

definition parse_patch :: "string \<Rightarrow> ApplyPatchArgs parsed" where
  "parse_patch patch = parse_patch_text patch (if PARSE_IN_STRICT_MODE then Strict else Lenient)"


section \<open>The loops of the parser\<close>

lemma parse_hunks_count: "parse_hunks lines k = Inr hs \<Longrightarrow> length hs \<le> length lines"
proof (induction lines k arbitrary: hs rule: parse_hunks.induct)
  case (1 remaining k)
  show ?case
  proof (cases "remaining = []")
    case False
    with "1.prems" obtain h n where one: "parse_one_hunk remaining k = Inr (h, n)"
      by (subst (asm) parse_hunks.simps) (auto split: sum.splits)
    with False "1.prems" obtain hs' where rest: "parse_hunks (drop n remaining) (k + n) = Inr hs'" "hs = h # hs'"
      by (subst (asm) parse_hunks.simps) (auto elim: parsed_then_InrE)
    have "length hs' \<le> length (drop n remaining)" using "1.IH" [OF False one] one rest by simp
    with parse_one_hunk_used [OF one] False rest show ?thesis by simp
  qed (use "1.prems" in \<open>simp add: parse_hunks.simps\<close>)
qed

text \<open>
  C23: the loops of the parser make progress. Every chunk and every hunk that is read uses at least one of the
  remaining lines and never more than there are, so the slices the loops take are in range, both loops
  end, and a patch has no more hunks than lines.
\<close>

theorem hunk_uses_its_lines:
  "(lines \<noteq> [] \<and> parse_one_hunk lines k = Inr (h, n) \<longrightarrow> 0 < n \<and> n \<le> length lines) \<and>
   (parse_update_file_chunk lines k first_chunk = Inr (c, m) \<longrightarrow> 0 < m \<and> m \<le> length lines) \<and>
   (parse_hunks lines k = Inr hs \<longrightarrow> length hs \<le> length lines)"
  using parse_one_hunk_used [of lines k h n] parse_chunk_used [of lines k first_chunk c m] parse_hunks_count [of lines k hs]
  by blast

theorem hunk_uses_its_lines_witness:
  "parse_one_hunk [''*** Add File: a'', ''+x'', ''*** Delete File: b''] 2 = Inr (AddFile ''a'' (''x'' @ [newline]), 2) \<and>
   (0::nat) < 2 \<and> 2 \<le> length [''*** Add File: a'', ''+x'', ''*** Delete File: b'']"
proof -
  have e: "parse_one_hunk [''*** Add File: a'', ''+x'', ''*** Delete File: b''] 2 = Inr (AddFile ''a'' (''x'' @ [newline]), 2)"
    by code_simp
  show ?thesis
    using hunk_uses_its_lines [where lines = "[''*** Add File: a'', ''+x'', ''*** Delete File: b'']" and k = 2
        and h = "AddFile ''a'' (''x'' @ [newline])" and n = 2] e by blast
qed

end
