(* ===== verification/Patch_Stream.thy ===== *)
theory Patch_Stream
  imports Patch_Format
begin

text \<open>
  The streaming parser of \<open>src/codex-rs/apply-patch/src/streaming_parser.rs\<close>: it is fed a patch piece by
  piece, as a model produces it, and returns after each piece the hunks seen so far. An operation returns
  its result together with the parser it leaves, since an error does not undo what was read before.
\<close>

section \<open>The parser\<close>

datatype StreamingParserMode = NotStarted | StartedPatch | AddFileMode | DeleteFileMode
  | UpdateFileMode nat | EndedPatch

record StreamingParserState =
  sp_mode :: StreamingParserMode
  sp_hunks :: "Hunk list"

record StreamingPatchParser =
  sp_line_buffer :: string
  sp_state :: StreamingParserState
  sp_line_number :: nat

definition default_parser :: StreamingPatchParser where
  "default_parser = \<lparr>sp_line_buffer = [], sp_state = \<lparr>sp_mode = NotStarted, sp_hunks = []\<rparr>, sp_line_number = 0\<rparr>"

definition set_mode :: "StreamingParserMode \<Rightarrow> StreamingPatchParser \<Rightarrow> StreamingPatchParser" where
  "set_mode m p = p\<lparr>sp_state := (sp_state p)\<lparr>sp_mode := m\<rparr>\<rparr>"

definition set_hunks :: "Hunk list \<Rightarrow> StreamingPatchParser \<Rightarrow> StreamingPatchParser" where
  "set_hunks hs p = p\<lparr>sp_state := (sp_state p)\<lparr>sp_hunks := hs\<rparr>\<rparr>"

definition last_opt :: "'a list \<Rightarrow> 'a option" where
  "last_opt xs = (if xs = [] then None else Some (last xs))"

definition blank_chunk :: "UpdateFileChunk \<Rightarrow> bool" where
  "blank_chunk c \<longleftrightarrow> ch_old_lines c = [] \<and> ch_new_lines c = []"

definition new_chunk :: "string option \<Rightarrow> UpdateFileChunk" where
  "new_chunk ctx =
     \<lparr>ch_change_context = ctx, ch_old_lines = [], ch_new_lines = [], ch_is_end_of_file = False\<rparr>"

definition is_environment_id_preamble_line :: "string \<Rightarrow> bool" where
  "is_environment_id_preamble_line line = starts_with line ENVIRONMENT_ID_MARKER"

definition ensure_update_hunk_is_not_empty :: "string \<Rightarrow> StreamingPatchParser \<Rightarrow> ParseError option" where
  "ensure_update_hunk_is_not_empty line p =
     (case last_opt (sp_hunks (sp_state p)) of
        Some (UpdateFile path _ chunks) \<Rightarrow>
          (case (chunks, sp_mode (sp_state p)) of
             ([], UpdateFileMode hunk_line_number) \<Rightarrow> Some (InvalidHunkError (empty_update path) hunk_line_number)
           | _ \<Rightarrow>
               if chunks \<noteq> [] \<and> blank_chunk (last chunks)
               then Some (InvalidHunkError (if line = END_PATCH_MARKER then no_lines else unexpected_line line)
                            (sp_line_number p))
               else None)
      | _ \<Rightarrow> None)"

definition start_hunk ::
  "string \<Rightarrow> Hunk \<Rightarrow> StreamingParserMode \<Rightarrow> StreamingPatchParser \<Rightarrow> (ParseError + bool) \<times> StreamingPatchParser" where
  "start_hunk line h m p =
     (case ensure_update_hunk_is_not_empty line p of
        Some e \<Rightarrow> (Inl e, p)
      | None \<Rightarrow> (Inr True, set_mode m (set_hunks (sp_hunks (sp_state p) @ [h]) p)))"

definition handle_hunk_headers_and_end_patch ::
  "string \<Rightarrow> StreamingPatchParser \<Rightarrow> (ParseError + bool) \<times> StreamingPatchParser" where
  "handle_hunk_headers_and_end_patch trimmed p =
     (if trimmed = END_PATCH_MARKER
      then (case ensure_update_hunk_is_not_empty trimmed p of
              Some e \<Rightarrow> (Inl e, p)
            | None \<Rightarrow> (Inr True, set_mode EndedPatch p))
      else case strip_prefix ADD_FILE_MARKER trimmed of
        Some path \<Rightarrow> start_hunk trimmed (AddFile path []) AddFileMode p
      | None \<Rightarrow>
      (case strip_prefix DELETE_FILE_MARKER trimmed of
        Some path \<Rightarrow> start_hunk trimmed (DeleteFile path) DeleteFileMode p
      | None \<Rightarrow>
      (case strip_prefix UPDATE_FILE_MARKER trimmed of
        Some path \<Rightarrow> start_hunk trimmed (UpdateFile path None []) (UpdateFileMode (sp_line_number p)) p
      | None \<Rightarrow> (Inr False, p))))"

text \<open>The last chunk of an update hunk, made when there is none yet, takes a line.\<close>

definition into_last_chunk :: "(UpdateFileChunk \<Rightarrow> UpdateFileChunk) \<Rightarrow> UpdateFileChunk list \<Rightarrow> UpdateFileChunk list" where
  "into_last_chunk f chunks =
     (let chunks = (if chunks = [] then [new_chunk None] else chunks)
      in butlast chunks @ [f (last chunks)])"

text \<open>A line of an update hunk that is not a header: its effect on the move target and the chunks.\<close>

definition update_line ::
  "nat \<Rightarrow> string \<Rightarrow> string option \<Rightarrow> UpdateFileChunk list \<Rightarrow> (string option \<times> UpdateFileChunk list) parsed" where
  "update_line line_no line move_path chunks =
     (let upd = trim_end line;
          last_blank = (chunks \<noteq> [] \<and> blank_chunk (last chunks)) in
      if chunks = [] \<and> move_path = None \<and> starts_with upd MOVE_TO_MARKER
      then Inr (strip_prefix MOVE_TO_MARKER upd, chunks)
      else if (upd = EMPTY_CHANGE_CONTEXT_MARKER \<or> starts_with upd CHANGE_CONTEXT_MARKER) \<and> last_blank
      then Inl (InvalidHunkError (unexpected_line line) line_no)
      else if upd = EMPTY_CHANGE_CONTEXT_MARKER then Inr (move_path, chunks @ [new_chunk None])
      else if starts_with upd CHANGE_CONTEXT_MARKER
      then Inr (move_path, chunks @ [new_chunk (strip_prefix CHANGE_CONTEXT_MARKER upd)])
      else if upd = EOF_MARKER
      then if last_blank then Inl (InvalidHunkError no_lines line_no)
           else Inr (move_path, if chunks = [] then chunks
                                else butlast chunks @ [(last chunks)\<lparr>ch_is_end_of_file := True\<rparr>])
      else if line = [] then Inr (move_path, into_last_chunk (push_new [] \<circ> push_old []) chunks)
      else if hd line = CHR '' '' then Inr (move_path, into_last_chunk (push_new (tl line) \<circ> push_old (tl line)) chunks)
      else if hd line = CHR ''+'' then Inr (move_path, into_last_chunk (push_new (tl line)) chunks)
      else if hd line = CHR ''-'' then Inr (move_path, into_last_chunk (push_old (tl line)) chunks)
      else if chunks \<noteq> [] \<and> \<not> last_blank
      then Inl (InvalidHunkError
             (''Expected update hunk to start with a @@ context marker, got: '' @ quoted line) line_no)
      else Inl (InvalidHunkError (unexpected_line line) line_no))"

text \<open>What a mode does with a line that is no header.\<close>

definition body_line :: "string \<Rightarrow> StreamingPatchParser \<Rightarrow> ParseError option \<times> StreamingPatchParser" where
  "body_line line p =
     (let bad = Some (InvalidHunkError (bad_header (trim line)) (sp_line_number p));
          hs = sp_hunks (sp_state p) in
      case sp_mode (sp_state p) of
        AddFileMode \<Rightarrow>
          (case (strip_prefix ''+'' line, last_opt hs) of
             (Some line_to_add, Some (AddFile path contents)) \<Rightarrow>
               (None, set_hunks (butlast hs @ [AddFile path (contents @ line_to_add @ [newline])]) p)
           | _ \<Rightarrow> (bad, p))
      | UpdateFileMode hunk_line_number \<Rightarrow>
          (case last_opt hs of
             Some (UpdateFile path move_path chunks) \<Rightarrow>
               (case update_line (sp_line_number p) line move_path chunks of
                  Inl e \<Rightarrow> (Some e, p)
                | Inr (move_path, chunks) \<Rightarrow>
                    (None, set_mode (UpdateFileMode hunk_line_number)
                             (set_hunks (butlast hs @ [UpdateFile path move_path chunks]) p)))
           | _ \<Rightarrow> (Some (InvalidHunkError (unexpected_line line) (sp_line_number p)), p))
      | _ \<Rightarrow> (bad, p))"

definition header_or_body ::
  "string \<Rightarrow> string \<Rightarrow> StreamingPatchParser \<Rightarrow> ParseError option \<times> StreamingPatchParser" where
  "header_or_body header line p =
     (case handle_hunk_headers_and_end_patch header p of
        (Inl e, p) \<Rightarrow> (Some e, p)
      | (Inr handled, p) \<Rightarrow> if handled then (None, p) else body_line line p)"

definition process_line :: "string \<Rightarrow> StreamingPatchParser \<Rightarrow> ParseError option \<times> StreamingPatchParser" where
  "process_line line p =
     (case sp_mode (sp_state p) of
        NotStarted \<Rightarrow>
          if trim line = BEGIN_PATCH_MARKER then (None, set_mode StartedPatch p)
          else (Some (InvalidPatchError (''The first line of the patch must be '' @ quoted ''*** Begin Patch'')), p)
      | StartedPatch \<Rightarrow>
          if is_environment_id_preamble_line line then (None, p) else header_or_body (trim line) line p
      | UpdateFileMode _ \<Rightarrow> header_or_body (trim_end line) line p
      | EndedPatch \<Rightarrow> (None, p)
      | _ \<Rightarrow> header_or_body (trim line) line p)"

fun push_chars :: "string \<Rightarrow> StreamingPatchParser \<Rightarrow> ParseError option \<times> StreamingPatchParser" where
  "push_chars [] p = (None, p)"
| "push_chars (ch # chs) p =
     (if ch = newline
      then step_then
             (process_line (strip_cr (sp_line_buffer p))
               (p\<lparr>sp_line_buffer := [], sp_line_number := sp_line_number p + 1\<rparr>))
             (push_chars chs)
      else push_chars chs (p\<lparr>sp_line_buffer := sp_line_buffer p @ [ch]\<rparr>))"

definition push_delta :: "string \<Rightarrow> StreamingPatchParser \<Rightarrow> Hunk list parsed \<times> StreamingPatchParser" where
  "push_delta delta p =
     (case push_chars delta p of
        (Some e, p) \<Rightarrow> (Inl e, p)
      | (None, p) \<Rightarrow> (Inr (sp_hunks (sp_state p)), p))"

definition finish_line :: "StreamingPatchParser \<Rightarrow> ParseError option \<times> StreamingPatchParser" where
  "finish_line p =
     (if sp_line_buffer p = [] then (None, p)
      else let line = sp_line_buffer p; p = p\<lparr>sp_line_buffer := [], sp_line_number := sp_line_number p + 1\<rparr> in
        if trim line = END_PATCH_MARKER
        then (case ensure_update_hunk_is_not_empty (trim line) p of
                Some e \<Rightarrow> (Some e, p)
              | None \<Rightarrow> (None, set_mode EndedPatch p))
        else process_line line p)"

definition finish :: "StreamingPatchParser \<Rightarrow> Hunk list parsed \<times> StreamingPatchParser" where
  "finish p =
     (case finish_line p of
        (Some e, p) \<Rightarrow> (Inl e, p)
      | (None, p) \<Rightarrow>
          if sp_mode (sp_state p) \<noteq> EndedPatch
          then (Inl (InvalidPatchError (''The last line of the patch must be '' @ quoted ''*** End Patch'')), p)
          else (Inr (sp_hunks (sp_state p)), p))"


section \<open>Pieces of a patch\<close>

text \<open>The deltas of a patch, pushed one after the other until one of them fails.\<close>

fun push_deltas :: "string list \<Rightarrow> StreamingPatchParser \<Rightarrow> ParseError option \<times> StreamingPatchParser" where
  "push_deltas [] p = (None, p)"
| "push_deltas (d # ds) p =
     step_then (map_prod (\<lambda>r. case r of Inl e \<Rightarrow> Some e | Inr _ \<Rightarrow> None) id (push_delta d p)) (push_deltas ds)"

lemma step_then_assoc: "step_then (step_then r f) g = step_then r (\<lambda>p. step_then (f p) g)"
  by (simp add: step_then_def split: option.splits)

lemma push_chars_append: "push_chars (xs @ ys) p = step_then (push_chars xs p) (push_chars ys)"
proof (induction xs arbitrary: p)
  case (Cons c cs)
  then have "push_chars (cs @ ys) = (\<lambda>p. step_then (push_chars cs p) (push_chars ys))" by (intro ext)
  then show ?case by (simp add: step_then_assoc)
qed simp

lemma push_delta_chars:
  "map_prod (\<lambda>r. case r of Inl e \<Rightarrow> Some e | Inr _ \<Rightarrow> None) id (push_delta d p) = push_chars d p"
  by (simp add: push_delta_def split: prod.splits option.splits)

lemma push_deltas_concat: "push_deltas ds p = push_chars (concat ds) p"
proof (induction ds arbitrary: p)
  case (Cons d ds)
  then have "push_deltas ds = push_chars (concat ds)" by (intro ext)
  then show ?case by (simp add: push_delta_chars push_chars_append)
qed simp

text \<open>
  How a patch is cut into pieces does not matter. Two sequences of deltas that make up the same text
  leave the same parser and return the same hunks or the same error; a cut inside a line, or between a
  carriage return and its line feed, is no exception.
\<close>

theorem deltas_cut_anywhere:
  "concat ds = concat es \<Longrightarrow> push_deltas ds p = push_deltas es p"
  by (simp add: push_deltas_concat)

theorem deltas_cut_anywhere_witness:
  "push_deltas [''*** Beg'', ''in Patch'', [CHR 0x0D], [newline]] default_parser =
     push_deltas [''*** Begin Patch'', [CHR 0x0D, newline]] default_parser"
  by (rule deltas_cut_anywhere) simp


section \<open>The parser's invariant\<close>

fun complete_hunk :: "Hunk \<Rightarrow> bool" where
  "complete_hunk (UpdateFile _ _ chunks) \<longleftrightarrow> chunks \<noteq> [] \<and> list_all (\<lambda>c. \<not> blank_chunk c) chunks"
| "complete_hunk _ \<longleftrightarrow> True"

definition open_chunks :: "UpdateFileChunk list \<Rightarrow> bool" where
  "open_chunks chunks \<longleftrightarrow> (\<forall>c \<in> set (butlast chunks). \<not> blank_chunk c)"

fun open_update :: "Hunk \<Rightarrow> bool" where
  "open_update (UpdateFile _ _ chunks) \<longleftrightarrow> open_chunks chunks"
| "open_update _ \<longleftrightarrow> False"

fun is_add_file :: "Hunk \<Rightarrow> bool" where
  "is_add_file (AddFile _ _) \<longleftrightarrow> True"
| "is_add_file _ \<longleftrightarrow> False"

text \<open>
  The mode agrees with the hunk that is being read: the hunks before it are complete, and an update hunk has
  no empty chunk but the last.
\<close>

definition stream_wf :: "StreamingPatchParser \<Rightarrow> bool" where
  "stream_wf p \<longleftrightarrow>
     (let hs = sp_hunks (sp_state p) in
      (\<forall>h \<in> set (butlast hs). complete_hunk h) \<and>
      (case sp_mode (sp_state p) of
         NotStarted \<Rightarrow> hs = []
       | StartedPatch \<Rightarrow> hs = []
       | AddFileMode \<Rightarrow> hs \<noteq> [] \<and> is_add_file (last hs)
       | DeleteFileMode \<Rightarrow> hs \<noteq> [] \<and> complete_hunk (last hs)
       | UpdateFileMode n \<Rightarrow> hs \<noteq> [] \<and> open_update (last hs) \<and> n \<le> sp_line_number p
       | EndedPatch \<Rightarrow> hs \<noteq> [] \<longrightarrow> complete_hunk (last hs)))"

text \<open>A later preview extends an earlier one: only the last hunk may still change, and keeps its file.\<close>

definition preview_le :: "Hunk list \<Rightarrow> Hunk list \<Rightarrow> bool" where
  "preview_le hs hs' \<longleftrightarrow>
     prefix (map hunk_source hs) (map hunk_source hs') \<and> prefix (butlast hs) (butlast hs')"

lemma preview_le_refl [simp]: "preview_le hs hs"
  by (simp add: preview_le_def)

lemma preview_le_trans: "preview_le a b \<Longrightarrow> preview_le b c \<Longrightarrow> preview_le a c"
  by (auto simp: preview_le_def)

lemma preview_le_snoc: "preview_le hs (hs @ [h])"
  by (cases hs rule: rev_cases) (simp_all add: preview_le_def butlast_append)

lemma preview_le_last:
  "hs \<noteq> [] \<Longrightarrow> hunk_source h = hunk_source (last hs) \<Longrightarrow> preview_le hs (butlast hs @ [h])"
  by (cases hs rule: rev_cases) (simp_all add: preview_le_def)

definition kept :: "StreamingPatchParser \<Rightarrow> StreamingPatchParser \<Rightarrow> bool" where
  "kept p p' \<longleftrightarrow> stream_wf p' \<and> preview_le (sp_hunks (sp_state p)) (sp_hunks (sp_state p'))"

lemma kept_refl [simp]: "kept p p \<longleftrightarrow> stream_wf p"
  by (simp add: kept_def)

lemma kept_trans: "kept p q \<Longrightarrow> kept q r \<Longrightarrow> kept p r"
  by (auto simp: kept_def intro: preview_le_trans)

lemma set_mode_simps [simp]:
  "sp_mode (sp_state (set_mode m p)) = m" "sp_hunks (sp_state (set_mode m p)) = sp_hunks (sp_state p)"
  "sp_line_number (set_mode m p) = sp_line_number p" "sp_line_buffer (set_mode m p) = sp_line_buffer p"
  by (simp_all add: set_mode_def)

lemma set_hunks_simps [simp]:
  "sp_mode (sp_state (set_hunks hs p)) = sp_mode (sp_state p)" "sp_hunks (sp_state (set_hunks hs p)) = hs"
  "sp_line_number (set_hunks hs p) = sp_line_number p" "sp_line_buffer (set_hunks hs p) = sp_line_buffer p"
  by (simp_all add: set_hunks_def)

lemma set_butlast_last: "xs \<noteq> [] \<Longrightarrow> (\<forall>x \<in> set xs. P x) \<longleftrightarrow> (\<forall>x \<in> set (butlast xs). P x) \<and> P (last xs)"
  by (cases xs rule: rev_cases) auto

lemma open_chunks_nonblank:
  "chunks \<noteq> [] \<Longrightarrow> list_all (\<lambda>c. \<not> blank_chunk c) chunks \<longleftrightarrow> open_chunks chunks \<and> \<not> blank_chunk (last chunks)"
  by (simp add: list_all_iff set_butlast_last open_chunks_def)

lemma ensured_complete:
  assumes "stream_wf p" "ensure_update_hunk_is_not_empty line p = None"
  shows "\<forall>h \<in> set (sp_hunks (sp_state p)). complete_hunk h"
proof (cases "sp_hunks (sp_state p) = []")
  case False
  with assms have "complete_hunk (last (sp_hunks (sp_state p)))"
    by (cases "last (sp_hunks (sp_state p))"; cases "sp_mode (sp_state p)")
       (auto simp: stream_wf_def Let_def ensure_update_hunk_is_not_empty_def last_opt_def open_chunks_nonblank
         simp del: last.simps list.pred_inject split: list.splits if_splits)
  with False assms(1) show ?thesis by (simp add: set_butlast_last stream_wf_def Let_def)
qed simp


lemma start_hunk_kept:
  assumes "stream_wf p" "start_hunk line h m p = (r, p')"
    and "\<And>q. sp_hunks (sp_state q) = sp_hunks (sp_state p) @ [h] \<Longrightarrow> sp_mode (sp_state q) = m \<Longrightarrow>
           sp_line_number q = sp_line_number p \<Longrightarrow>
           \<forall>h \<in> set (sp_hunks (sp_state p)). complete_hunk h \<Longrightarrow> stream_wf q"
  shows "kept p p'"
  using assms(2) ensured_complete [OF assms(1), of line] assms(1)
  by (auto simp: start_hunk_def kept_def preview_le_snoc intro!: assms(3) split: option.splits)

lemma end_patch_kept:
  assumes "stream_wf p" "ensure_update_hunk_is_not_empty line p = None"
  shows "kept p (set_mode EndedPatch p)"
  using ensured_complete [OF assms] by (auto simp: kept_def stream_wf_def Let_def dest: in_set_butlastD)

lemma headers_kept:
  assumes "stream_wf p" "handle_hunk_headers_and_end_patch line p = (r, p')"
  shows "kept p p'"
proof -
  note start = start_hunk_kept [OF assms(1), of line]
  have "kept p p'" if "start_hunk line (AddFile path []) AddFileMode p = (r, p')" for path
    using start [OF that] by (simp add: stream_wf_def Let_def)
  moreover have "kept p p'" if "start_hunk line (DeleteFile path) DeleteFileMode p = (r, p')" for path
    using start [OF that] by (simp add: stream_wf_def Let_def)
  moreover have "kept p p'"
    if "start_hunk line (UpdateFile path None []) (UpdateFileMode (sp_line_number p)) p = (r, p')" for path
    using start [OF that] by (simp add: stream_wf_def Let_def open_chunks_def)
  moreover have "kept p p'" if "line = END_PATCH_MARKER"
    using assms that end_patch_kept [OF assms(1), of line]
    by (cases "ensure_update_hunk_is_not_empty line p") (auto simp: handle_hunk_headers_and_end_patch_def)
  ultimately show ?thesis using assms
    unfolding handle_hunk_headers_and_end_patch_def by (cases "line = END_PATCH_MARKER") (auto split: option.splits)
qed

lemma open_chunks_snoc:
  "open_chunks chunks \<Longrightarrow> chunks = [] \<or> \<not> blank_chunk (last chunks) \<Longrightarrow> open_chunks (chunks @ [c])"
  using set_butlast_last [of chunks "\<lambda>c. \<not> blank_chunk c"] by (cases "chunks = []") (simp_all add: open_chunks_def)

lemma open_chunks_last: "open_chunks chunks \<Longrightarrow> open_chunks (butlast chunks @ [c])"
  by (simp add: open_chunks_def)

lemma into_last_chunk_open: "open_chunks chunks \<Longrightarrow> open_chunks (into_last_chunk f chunks)"
  by (simp add: into_last_chunk_def open_chunks_def)

lemma update_line_open:
  "update_line n line mv chunks = Inr (mv', chunks') \<Longrightarrow> open_chunks chunks \<Longrightarrow> open_chunks chunks'"
  by (simp add: update_line_def Let_def open_chunks_snoc open_chunks_last into_last_chunk_open split: if_split_asm;
      clarsimp simp: open_chunks_snoc open_chunks_last into_last_chunk_open)

lemma body_line_kept:
  assumes "stream_wf p" "body_line line p = (r, p')"
  shows "kept p p'"
proof (cases "sp_mode (sp_state p)")
  case AddFileMode
  with assms show ?thesis
    by (cases "last (sp_hunks (sp_state p))")
       (auto simp: body_line_def Let_def kept_def stream_wf_def last_opt_def intro!: preview_le_last
         split: option.splits)
next
  case (UpdateFileMode n)
  with assms show ?thesis
    by (cases "last (sp_hunks (sp_state p))")
       (auto simp: body_line_def Let_def kept_def stream_wf_def last_opt_def intro!: preview_le_last
         split: sum.splits dest: update_line_open)
qed (use assms in \<open>auto simp: body_line_def Let_def\<close>)

lemma header_or_body_kept:
  assumes "stream_wf p" "header_or_body h line p = (r, p')"
  shows "kept p p'"
proof -
  obtain q s where q: "handle_hunk_headers_and_end_patch h p = (s, q)" by force
  with headers_kept [OF assms(1)] have "kept p q" by blast
  moreover have "kept q p'" if "s = Inr False"
    using q that assms(2) \<open>kept p q\<close> by (intro body_line_kept [of _ line r]) (simp_all add: header_or_body_def kept_def)
  moreover have "p' = q" if "s \<noteq> Inr False"
    using q that assms(2) by (auto simp: header_or_body_def split: sum.splits if_splits)
  ultimately show ?thesis using kept_trans by blast
qed

lemma process_line_kept:
  assumes "stream_wf p" "process_line line p = (r, p')"
  shows "kept p p'"
  using assms header_or_body_kept [OF assms(1)]
  by (cases "sp_mode (sp_state p)")
     (auto simp: process_line_def kept_def [of p "set_mode StartedPatch p"] stream_wf_def Let_def split: if_splits)

lemma stream_wf_cong:
  "sp_state q = sp_state p \<Longrightarrow> sp_line_number p \<le> sp_line_number q \<Longrightarrow> stream_wf p \<Longrightarrow> stream_wf q"
  by (cases "sp_mode (sp_state p)") (auto simp: stream_wf_def Let_def)

lemma step_then_kept:
  assumes "kept p (snd r)" "\<And>q. stream_wf q \<Longrightarrow> kept q (snd (f q))"
  shows "kept p (snd (step_then r f))"
proof (cases "fst r")
  case None
  from assms(1) have "stream_wf (snd r)" by (simp add: kept_def)
  with assms(2) have "kept (snd r) (snd (f (snd r)))" by blast
  with kept_trans [OF assms(1)] None show ?thesis by (simp add: step_then_def)
qed (use assms(1) in \<open>simp add: step_then_def\<close>)

lemma push_chars_kept: "stream_wf p \<Longrightarrow> kept p (snd (push_chars cs p))"
proof (induction cs arbitrary: p)
  case (Cons ch chs)
  show ?case
  proof (cases "ch = newline")
    case True
    let ?q = "p\<lparr>sp_line_buffer := [], sp_line_number := sp_line_number p + 1\<rparr>"
    have "stream_wf ?q" by (rule stream_wf_cong [OF _ _ Cons.prems]) simp_all
    from process_line_kept [OF this prod.collapse [symmetric]]
    have "kept p (snd (process_line (strip_cr (sp_line_buffer p)) ?q))" by (simp add: kept_def)
    from step_then_kept [OF this Cons.IH] True show ?thesis by simp
  next
    case False
    have "stream_wf (p\<lparr>sp_line_buffer := sp_line_buffer p @ [ch]\<rparr>)"
      by (rule stream_wf_cong [OF _ _ Cons.prems]) simp_all
    from Cons.IH [OF this] False show ?thesis by (simp add: kept_def)
  qed
qed simp

lemma finish_line_kept:
  assumes "stream_wf p" "finish_line p = (r, p')"
  shows "kept p p'"
proof (cases "sp_line_buffer p = []")
  case False
  define q where "q = p\<lparr>sp_line_buffer := [], sp_line_number := sp_line_number p + 1\<rparr>"
  have q: "stream_wf q" by (rule stream_wf_cong [OF _ _ assms(1)]) (simp_all add: q_def)
  have f: "finish_line p =
      (if trim (sp_line_buffer p) = END_PATCH_MARKER
       then (case ensure_update_hunk_is_not_empty (trim (sp_line_buffer p)) q of
               Some e \<Rightarrow> (Some e, q) | None \<Rightarrow> (None, set_mode EndedPatch q))
       else process_line (sp_line_buffer p) q)"
    unfolding finish_line_def Let_def q_def using False by simp
  have "kept q p'"
  proof (cases "trim (sp_line_buffer p) = END_PATCH_MARKER")
    case True
    with assms(2) f q end_patch_kept [OF q, of "trim (sp_line_buffer p)"] show ?thesis
      by (cases "ensure_update_hunk_is_not_empty END_PATCH_MARKER q") auto
  next
    case False
    with assms(2) f have "process_line (sp_line_buffer p) q = (r, p')" by simp
    with q show ?thesis by (rule process_line_kept)
  qed
  then show ?thesis by (simp add: kept_def q_def)
qed (use assms in \<open>simp add: finish_line_def\<close>)

lemma push_delta_kept:
  "stream_wf p \<Longrightarrow> push_delta d p = (r, p') \<Longrightarrow> kept p p' \<and> (\<forall>hs. r = Inr hs \<longrightarrow> hs = sp_hunks (sp_state p'))"
  using push_chars_kept [of p d] by (auto simp: push_delta_def split: prod.splits option.splits)

lemma default_parser_wf: "stream_wf default_parser"
  by (simp add: stream_wf_def default_parser_def)

lemma push_deltas_kept: "stream_wf p \<Longrightarrow> push_deltas ds p = (r, p') \<Longrightarrow> kept p p'"
  using push_chars_kept [of p "concat ds"] by (simp add: push_deltas_concat)

text \<open>
  The preview only grows. Fed from the start with any deltas, the parser returns after each further delta a
  list of hunks that extends the list it had: the hunks before the last one are unchanged, the last one
  still concerns the same file, and the mode agrees with the hunk that is being read.
\<close>

theorem preview_only_grows:
  assumes "push_deltas ds default_parser = (r, p)" "push_delta d p = (Inr hs, p')"
  shows "stream_wf p' \<and> preview_le (sp_hunks (sp_state p)) hs"
  using push_delta_kept [OF _ assms(2)] push_deltas_kept [OF default_parser_wf assms(1)] by (simp add: kept_def)

definition example_deltas :: "string list" where
  "example_deltas =
     [''*** Begin Patch'' @ [newline] @ ''*** Update File: a'' @ [newline], ''@@'' @ [newline] @ ''-b'' @ [newline]]"

definition example_parser :: StreamingPatchParser where
  "example_parser =
     \<lparr>sp_line_buffer = [], sp_state = \<lparr>sp_mode = UpdateFileMode 2,
        sp_hunks = [UpdateFile ''a'' None [(new_chunk None)\<lparr>ch_old_lines := [''b'']\<rparr>]]\<rparr>, sp_line_number = 4\<rparr>"

lemma example_pushed: "push_deltas example_deltas default_parser = (None, example_parser)"
  by code_simp

theorem preview_only_grows_witness:
  "stream_wf (snd (push_delta (''*** Delete File: c'' @ [newline]) example_parser)) \<and>
   preview_le (sp_hunks (sp_state example_parser)) [UpdateFile ''a'' None [(new_chunk None)\<lparr>ch_old_lines := [''b'']\<rparr>], DeleteFile ''c'']"
  by (rule preview_only_grows [OF example_pushed, where d = "''*** Delete File: c'' @ [newline]"]) code_simp

text \<open>
  C21: a patch that finishes is complete. When the parser, fed from the start with any deltas, finishes
  without an error, every update hunk it returns has a chunk and every chunk has a line to remove or
  to add, and the hunks extend the last preview.
\<close>

theorem finished_patch_complete:
  assumes "push_deltas ds default_parser = (r, p)" "finish p = (Inr hs, p')"
  shows "(\<forall>h \<in> set hs. complete_hunk h) \<and> preview_le (sp_hunks (sp_state p)) hs"
proof -
  from assms(2) have f: "finish_line p = (None, p')" "sp_mode (sp_state p') = EndedPatch" "hs = sp_hunks (sp_state p')"
    by (auto simp: finish_def split: prod.splits option.splits if_splits)
  with finish_line_kept [OF _ f(1)] push_deltas_kept [OF default_parser_wf assms(1)] have "kept p p'"
    by (simp add: kept_def)
  with f(2,3) show ?thesis
    using set_butlast_last [of hs complete_hunk] by (cases "hs = []") (simp_all add: kept_def stream_wf_def Let_def)
qed


theorem finished_patch_complete_witness:
  "list_all complete_hunk [UpdateFile ''a'' None [(new_chunk None)\<lparr>ch_old_lines := [''b'']\<rparr>]] \<and>
   preview_le (sp_hunks (sp_state example_parser)) [UpdateFile ''a'' None [(new_chunk None)\<lparr>ch_old_lines := [''b'']\<rparr>]]"
proof -
  define p where "p = example_parser\<lparr>sp_line_buffer := ''*** End Patch''\<rparr>"
  have "push_deltas (example_deltas @ [''*** End Patch'']) default_parser = (None, p)"
    unfolding p_def by code_simp
  moreover have "finish p = (Inr [UpdateFile ''a'' None [(new_chunk None)\<lparr>ch_old_lines := [''b'']\<rparr>]], snd (finish p))"
    unfolding p_def by code_simp
  ultimately have "(\<forall>h \<in> set [UpdateFile ''a'' None [(new_chunk None)\<lparr>ch_old_lines := [''b'']\<rparr>]]. complete_hunk h) \<and>
      preview_le (sp_hunks (sp_state p)) [UpdateFile ''a'' None [(new_chunk None)\<lparr>ch_old_lines := [''b'']\<rparr>]]"
    by (rule finished_patch_complete)
  then show ?thesis by (simp only: list_all_iff p_def) simp
qed

end
