(* ===== verification/Patch_Round_Trip.thy ===== *)
theory Patch_Round_Trip
  imports Patch_Stream
begin

text \<open>
  Printing patches and reading them back. A well-formed list of hunks is printed in the patch format; both
  the parser of \<open>parser.rs\<close> and the streaming parser of \<open>streaming_parser.rs\<close> return the hunks that were
  printed, so on such patches the preview and the patch that is applied agree.
\<close>

section \<open>Trimming\<close>

definition solid :: "char \<Rightarrow> bool" where
  "solid c \<longleftrightarrow> list_all (\<lambda>w. c \<notin> set w) whitespace_chars"

lemma solid_simps [simp]:
  "solid CHR ''*''" "solid CHR ''@''" "solid CHR ''+''" "solid CHR ''-''" "solid CHR '':''" "solid CHR ''h''"
  "solid CHR ''e''"
  by (simp_all add: solid_def whitespace_chars_def)

lemma starts_with_solid: "c \<notin> set w \<Longrightarrow> starts_with (xs @ c # ys) w \<longleftrightarrow> starts_with xs w"
proof (induction xs arbitrary: w)
  case Nil
  then show ?case by (cases w) auto
next
  case (Cons x xs)
  then show ?case by (cases w) auto
qed

lemma leading_solid:
  assumes "\<forall>w \<in> set ws. c \<notin> set w"
  shows "leading ws (xs @ c # ys) = leading ws xs"
  using assms by (induction ws) (auto simp: leading_def starts_with_solid)

lemma strip_leading_solid:
  "\<forall>w \<in> set ws. c \<notin> set w \<Longrightarrow> strip_leading ws (xs @ c # ys) = strip_leading ws xs @ c # ys"
proof (induction ws xs rule: strip_leading.induct)
  case (1 ws xs)
  show ?case
  proof (cases "leading ws xs")
    case None
    with 1(2) show ?thesis by (simp add: strip_leading.simps [of ws xs] strip_leading.simps [of ws "xs @ _"] leading_solid)
  next
    case (Some w)
    then have "length w \<le> length xs"
      using leading_SomeD [OF Some] by (auto simp: starts_with_iff_prefix dest: prefix_length_le)
    with Some 1 show ?thesis
      by (simp add: strip_leading.simps [of ws xs] strip_leading.simps [of ws "xs @ _"] leading_solid)
  qed
qed

lemma strip_leading_Nil [simp]: "strip_leading ws [] = []"
  using strip_leading_length [of ws "[]"] by simp

lemma trim_start_solid: "solid c \<Longrightarrow> trim_start (c # s) = c # s"
  using strip_leading_solid [of whitespace_chars c "[]" s]
  by (simp add: trim_start_def solid_def list_all_iff)

lemma trim_end_solid: "solid c \<Longrightarrow> trim_end (xs @ c # s) = xs @ c # trim_end s"
  using strip_leading_solid [of "map rev whitespace_chars" c "rev s" "rev xs"]
  by (simp add: trim_end_def solid_def list_all_iff)

lemma trim_end_Nil [simp]: "trim_end [] = []"
  by (simp add: trim_end_def)

lemma trim_solid: "solid c \<Longrightarrow> trim (c # s) = c # trim_end s"
  using trim_end_solid [of c "[]" s] by (simp add: trim_def trim_start_solid)

lemma trim_end_space:
  assumes "p \<noteq> []" "trim_end p = p"
  shows "trim_end (CHR '' '' # p) = CHR '' '' # p"
proof -
  let ?ws = "map rev whitespace_chars"
  from assms(2) have "strip_leading ?ws (rev p) = rev p" by (simp add: trim_end_def) (metis rev_rev_ident)
  then have none: "leading ?ws (rev p) = None" using strip_leading_fix [of ?ws "rev p"] by simp
  have "\<not> starts_with (rev p @ [CHR '' '']) w" if "w \<in> set ?ws" "w \<noteq> []" for w
  proof
    assume "starts_with (rev p @ [CHR '' '']) w"
    then have "prefix w (rev p) \<or> w = rev p @ [CHR '' '']" unfolding starts_with_iff_prefix prefix_snoc by blast
    moreover have "\<not> prefix w (rev p)"
      using none that by (auto simp: leading_def find_None_iff starts_with_iff_prefix)
    moreover have "w = [CHR '' '']" if "CHR '' '' \<in> set w"
      using that \<open>w \<in> set ?ws\<close> by (auto simp: whitespace_chars_def)
    ultimately show False using assms(1) by fastforce
  qed
  then have "leading ?ws (rev p @ [CHR '' '']) = None" by (auto simp: leading_def find_None_iff)
  then show ?thesis by (simp add: trim_end_def strip_leading.simps [of ?ws "rev p @ _"])
qed

lemma trim_end_last: "trim_end p = p \<Longrightarrow> p = [] \<or> last p \<noteq> CHR 0x0D"
proof (rule ccontr)
  assume p: "trim_end p = p" "\<not> (p = [] \<or> last p \<noteq> CHR 0x0D)"
  then obtain q where "p = q @ [CHR 0x0D]" by (metis append_butlast_last_id)
  with p(1) have "strip_leading (map rev whitespace_chars) (CHR 0x0D # rev q) = CHR 0x0D # rev q"
    by (simp add: trim_end_def) (metis rev.simps(2) rev_rev_ident rev_swap)
  moreover have "leading (map rev whitespace_chars) (CHR 0x0D # rev q) \<noteq> None"
    by (auto simp: leading_def find_None_iff whitespace_chars_def)
  ultimately show False using strip_leading_fix by metis
qed


section \<open>Printing\<close>

definition wf_path :: "string \<Rightarrow> bool" where
  "wf_path p \<longleftrightarrow> p \<noteq> [] \<and> trim p = p \<and> newline \<notin> set p"

fun wf_context :: "string option \<Rightarrow> bool" where
  "wf_context None \<longleftrightarrow> True"
| "wf_context (Some l) \<longleftrightarrow> l \<noteq> [] \<and> trim_end l = l \<and> newline \<notin> set l"

definition wf_chunk :: "UpdateFileChunk \<Rightarrow> bool" where
  "wf_chunk c \<longleftrightarrow> \<not> blank_chunk c \<and> wf_context (ch_change_context c)
     \<and> list_all plain_line (ch_old_lines c) \<and> list_all plain_line (ch_new_lines c)"

fun wf_hunk :: "Hunk \<Rightarrow> bool" where
  "wf_hunk (AddFile p contents) \<longleftrightarrow>
     wf_path p \<and> contents = as_text (str_lines contents) \<and> list_all plain_line (str_lines contents)"
| "wf_hunk (DeleteFile p) \<longleftrightarrow> wf_path p"
| "wf_hunk (UpdateFile p mv chunks) \<longleftrightarrow>
     wf_path p \<and> (case mv of None \<Rightarrow> True | Some q \<Rightarrow> wf_path q) \<and> chunks \<noteq> [] \<and> list_all wf_chunk chunks"

definition render_context :: "string option \<Rightarrow> string" where
  "render_context ctx =
     (case ctx of None \<Rightarrow> EMPTY_CHANGE_CONTEXT_MARKER | Some l \<Rightarrow> CHANGE_CONTEXT_MARKER @ l)"

definition render_chunk :: "UpdateFileChunk \<Rightarrow> string list" where
  "render_chunk c =
     render_context (ch_change_context c) # map (Cons (CHR ''-'')) (ch_old_lines c)
     @ map (Cons (CHR ''+'')) (ch_new_lines c) @ (if ch_is_end_of_file c then [EOF_MARKER] else [])"

fun render_hunk :: "Hunk \<Rightarrow> string list" where
  "render_hunk (AddFile p contents) = (ADD_FILE_MARKER @ p) # map (Cons (CHR ''+'')) (str_lines contents)"
| "render_hunk (DeleteFile p) = [DELETE_FILE_MARKER @ p]"
| "render_hunk (UpdateFile p mv chunks) =
     (UPDATE_FILE_MARKER @ p) # (case mv of None \<Rightarrow> [] | Some q \<Rightarrow> [MOVE_TO_MARKER @ q])
     @ concat (map render_chunk chunks)"

definition render_env :: "string option \<Rightarrow> string list" where
  "render_env env = (case env of None \<Rightarrow> [] | Some e \<Rightarrow> [ENVIRONMENT_ID_MARKER @ e])"

definition render_lines :: "string option \<Rightarrow> Hunk list \<Rightarrow> string list" where
  "render_lines env hs = BEGIN_PATCH_MARKER # render_env env @ concat (map render_hunk hs)"

definition render_patch :: "string option \<Rightarrow> Hunk list \<Rightarrow> string" where
  "render_patch env hs = as_text (render_lines env hs) @ END_PATCH_MARKER"

lemmas marker_defs = BEGIN_PATCH_MARKER_def END_PATCH_MARKER_def ADD_FILE_MARKER_def DELETE_FILE_MARKER_def
  UPDATE_FILE_MARKER_def MOVE_TO_MARKER_def EOF_MARKER_def CHANGE_CONTEXT_MARKER_def
  EMPTY_CHANGE_CONTEXT_MARKER_def ENVIRONMENT_ID_MARKER_def

lemma plain_line_Cons: "c \<noteq> newline \<Longrightarrow> c \<noteq> CHR 0x0D \<Longrightarrow> plain_line l \<Longrightarrow> plain_line (c # l)"
  by (auto simp: plain_line_def strip_cr_def newline_def)

lemma plain_line_append: "newline \<notin> set m \<Longrightarrow> p \<noteq> [] \<Longrightarrow> plain_line p \<Longrightarrow> plain_line (m @ p)"
  by (auto simp: plain_line_def strip_cr_def butlast_append)

lemma wf_path_trim: "wf_path p \<Longrightarrow> trim_end p = p \<and> p \<noteq> []"
  unfolding wf_path_def trim_def trim_end_def by (metis rev_rev_ident strip_leading_idem)

lemma trimmed_plain: "trim_end p = p \<Longrightarrow> newline \<notin> set p \<Longrightarrow> plain_line p"
  using trim_end_last [of p] by (auto simp: plain_line_def strip_cr_def)

lemma wf_path_plain: "wf_path p \<Longrightarrow> plain_line p"
  using trimmed_plain wf_path_trim wf_path_def by auto

lemma trim_end_marker:
  assumes "p \<noteq> []" "trim_end p = p" "solid c"
  shows "trim_end (m @ c # CHR '' '' # p) = m @ c # CHR '' '' # p"
  by (simp add: trim_end_solid assms trim_end_space)

lemma header_trim:
  assumes "wf_path p" "m \<in> {ADD_FILE_MARKER, DELETE_FILE_MARKER, UPDATE_FILE_MARKER, MOVE_TO_MARKER, ENVIRONMENT_ID_MARKER}"
  shows "trim_end (m @ p) = m @ p" "trim (m @ p) = m @ p"
proof -
  have "\<exists>m' c. m = m' @ [c, CHR '' ''] \<and> solid c"
    using assms(2) unfolding marker_defs by (elim insertE emptyE) (rule exI [of _ "butlast (butlast m)"], simp)+
  then show t: "trim_end (m @ p) = m @ p" using trim_end_marker wf_path_trim [OF assms(1)] by auto
  have "\<exists>m'. m = CHR ''*'' # m'" using assms(2) by (auto simp: marker_defs)
  with t show "trim (m @ p) = m @ p" using trim_end_solid [of "CHR ''*''" "[]"] by (auto simp: trim_solid)
qed

lemma header_plain:
  assumes "wf_path p" "m \<in> {ADD_FILE_MARKER, DELETE_FILE_MARKER, UPDATE_FILE_MARKER, MOVE_TO_MARKER, ENVIRONMENT_ID_MARKER}"
  shows "plain_line (m @ p)"
  using assms(2) wf_path_plain [OF assms(1)] wf_path_trim [OF assms(1)]
  by (intro plain_line_append) (auto simp: marker_defs newline_def)

lemma context_plain: "wf_context ctx \<Longrightarrow> plain_line (render_context ctx)"
proof (cases ctx)
  case (Some l)
  moreover assume "wf_context ctx"
  ultimately have "plain_line (CHANGE_CONTEXT_MARKER @ l)"
    by (intro plain_line_append) (simp_all add: CHANGE_CONTEXT_MARKER_def newline_def trimmed_plain)
  with Some show ?thesis by (simp add: render_context_def)
qed (simp add: render_context_def EMPTY_CHANGE_CONTEXT_MARKER_def plain_line_def strip_cr_def newline_def)

lemma render_chunk_plain: "wf_chunk c \<Longrightarrow> list_all plain_line (render_chunk c)"
  by (auto simp: wf_chunk_def render_chunk_def context_plain list_all_iff newline_def intro: plain_line_Cons)
     (simp add: plain_line_def strip_cr_def newline_def EOF_MARKER_def)

lemma render_hunk_plain: "wf_hunk h \<Longrightarrow> list_all plain_line (render_hunk h)"
proof (cases h)
  case (UpdateFile p mv chunks)
  moreover assume "wf_hunk h"
  ultimately show ?thesis using render_chunk_plain by (auto simp: list_all_iff header_plain split: option.splits)
qed (auto simp: header_plain list_all_iff newline_def intro!: plain_line_Cons)


section \<open>Reading a patch at once\<close>

definition chunk_stop :: "string list \<Rightarrow> bool" where
  "chunk_stop ls \<longleftrightarrow> (case ls of (c # _) # _ \<Rightarrow> c = CHR ''@'' \<or> c = CHR ''*'' \<and> hd ls \<noteq> EOF_MARKER | ls \<Rightarrow> ls = [])"

definition hunk_stop :: "string list \<Rightarrow> bool" where
  "hunk_stop ls \<longleftrightarrow> (case ls of (c # _) # _ \<Rightarrow> c = CHR ''*'' \<and> hd ls \<noteq> EOF_MARKER | ls \<Rightarrow> ls = [])"

lemma hunk_stop_chunk: "hunk_stop ls \<Longrightarrow> chunk_stop ls"
  by (auto simp: hunk_stop_def chunk_stop_def split: list.splits)

lemma not_eof_Cons [simp]: "c \<noteq> CHR ''*'' \<Longrightarrow> c # l \<noteq> EOF_MARKER"
  by (simp add: EOF_MARKER_def)

lemma chunk_lines_old:
  "chunk_lines k (map (Cons (CHR ''-'')) old @ rest) n c =
     chunk_lines k rest (n + length old) (c\<lparr>ch_old_lines := ch_old_lines c @ old\<rparr>)"
  by (induction old arbitrary: n c) (simp_all add: push_old_def)

lemma chunk_lines_new:
  "chunk_lines k (map (Cons (CHR ''+'')) new @ rest) n c =
     chunk_lines k rest (n + length new) (c\<lparr>ch_new_lines := ch_new_lines c @ new\<rparr>)"
  by (induction new arbitrary: n c) (simp_all add: push_new_def)

lemma chunk_lines_stop: "chunk_stop rest \<Longrightarrow> 0 < n \<Longrightarrow> chunk_lines k rest n c = Inr (c, n)"
  by (auto simp: chunk_stop_def split: list.splits)

lemma chunk_header_rendered:
  "chunk_header (render_context ctx # ls) k a = Inr (ctx, 1)"
  by (cases ctx) (simp_all add: chunk_header_def render_context_def EMPTY_CHANGE_CONTEXT_MARKER_def, simp add: CHANGE_CONTEXT_MARKER_def)

lemma parse_chunk_rendered:
  assumes "wf_chunk c" "chunk_stop rest"
  shows "parse_update_file_chunk (render_chunk c @ rest) k a = Inr (c, length (render_chunk c))"
proof -
  obtain ctx old new e where c: "c = \<lparr>ch_change_context = ctx, ch_old_lines = old, ch_new_lines = new, ch_is_end_of_file = e\<rparr>"
    by (cases c) auto
  with assms(1) have "0 < length old + length new" by (auto simp: wf_chunk_def blank_chunk_def)
  with assms(2) show ?thesis
    by (auto simp: parse_update_file_chunk_def render_chunk_def c chunk_header_rendered chunk_lines_old
        chunk_lines_new chunk_lines_stop)
qed

lemma render_context_hd: "\<exists>l. render_context ctx = CHR ''@'' # l"
  by (auto simp: render_context_def marker_defs split: option.splits)

lemma chunks_stop: "hunk_stop rest \<Longrightarrow> chunk_stop (concat (map render_chunk cs) @ rest)"
proof (cases cs)
  case (Cons c cs')
  then show ?thesis using render_context_hd [of "ch_change_context c"] by (auto simp: render_chunk_def chunk_stop_def)
qed (simp add: hunk_stop_chunk)

lemma update_chunks_rendered:
  "list_all wf_chunk cs \<Longrightarrow> hunk_stop rest \<Longrightarrow>
     update_chunks k (concat (map render_chunk cs) @ rest) n cs0 =
       Inr (cs0 @ cs, n + length (concat (map render_chunk cs)))"
proof (induction cs arbitrary: n cs0)
  case Nil
  show ?case
  proof (cases rest)
    case (Cons l ls)
    with Nil(2) obtain l' where l: "l = CHR ''*'' # l'" by (cases l) (auto simp: hunk_stop_def)
    with Cons show ?thesis by (simp add: update_chunks_star trim_solid)
  qed simp
next
  case (Cons c cs)
  obtain l where l: "render_context (ch_change_context c) = CHR ''@'' # l" using render_context_hd by blast
  then obtain ls where ls: "render_chunk c = (CHR ''@'' # l) # ls" by (simp add: render_chunk_def)
  have "parse_update_file_chunk (render_chunk c @ concat (map render_chunk cs) @ rest) (k + n) (cs0 = []) =
      Inr (c, length (render_chunk c))"
    using Cons.prems by (intro parse_chunk_rendered chunks_stop) simp_all
  with ls Cons show ?case by (simp add: update_chunks_chunk trim_solid)
qed

lemma add_file_rendered:
  assumes "hunk_stop rest" "contents = as_text (str_lines contents)"
  shows "parse_add_file p (map (Cons (CHR ''+'')) (str_lines contents) @ rest) =
    (AddFile p contents, Suc (length (str_lines contents)))"
proof -
  have "takeWhile (\<lambda>l. starts_with l ''+'') (map (Cons (CHR ''+'')) ls @ rest) = map (Cons (CHR ''+'')) ls" for ls
    using assms(1) by (subst takeWhile_append2) (auto simp: hunk_stop_def split: list.splits)
  then show ?thesis using assms(2) by (simp add: parse_add_file_def as_text_def comp_def)
qed

lemma update_file_rendered:
  assumes "hunk_stop rest" "list_all wf_chunk cs" "cs \<noteq> []"
  shows "parse_update_file k p ((case mv of None \<Rightarrow> [] | Some q \<Rightarrow> [MOVE_TO_MARKER @ q])
      @ concat (map render_chunk cs) @ rest) =
    Inr (UpdateFile p mv cs, length (render_hunk (UpdateFile p mv cs)))"
proof (cases mv)
  case None
  obtain c cs' where "cs = c # cs'" using assms(3) by (cases cs) auto
  moreover obtain l where "render_context (ch_change_context c) = CHR ''@'' # l" using render_context_hd by blast
  ultimately have "(case concat (map render_chunk cs) @ rest of [] \<Rightarrow> None | l # _ \<Rightarrow> strip_prefix MOVE_TO_MARKER l) = None"
    by (simp add: render_chunk_def strip_prefix_def MOVE_TO_MARKER_def)
  with None assms show ?thesis by (simp add: parse_update_file_def update_chunks_rendered)
qed (use assms in \<open>simp add: parse_update_file_def update_chunks_rendered\<close>)

lemma one_hunk_rendered:
  assumes "wf_hunk h" "hunk_stop rest"
  shows "parse_one_hunk (render_hunk h @ rest) k = Inr (h, length (render_hunk h))"
proof (cases h)
  case (AddFile p contents)
  with assms show ?thesis by (simp add: parse_one_hunk_def header_trim add_file_rendered)
next
  case (DeleteFile p)
  with assms show ?thesis
    by (simp add: parse_one_hunk_def header_trim) (simp add: strip_prefix_def ADD_FILE_MARKER_def DELETE_FILE_MARKER_def)
next
  case (UpdateFile p mv cs)
  have n: "strip_prefix ADD_FILE_MARKER (UPDATE_FILE_MARKER @ p) = None"
    "strip_prefix DELETE_FILE_MARKER (UPDATE_FILE_MARKER @ p) = None"
    by (simp_all add: strip_prefix_def marker_defs)
  from UpdateFile assms show ?thesis
    by (simp add: parse_one_hunk_def header_trim n update_file_rendered del: length_concat)
qed

lemma render_hunk_hd: "\<exists>m p ls. render_hunk h = (m @ p) # ls \<and> m \<in> {ADD_FILE_MARKER, DELETE_FILE_MARKER, UPDATE_FILE_MARKER}"
  by (cases h) auto

lemma hunks_stop: "hunk_stop (concat (map render_hunk hs))"
proof (cases hs)
  case (Cons h hs')
  then show ?thesis using render_hunk_hd [of h] by (auto simp: hunk_stop_def marker_defs)
qed (simp add: hunk_stop_def)

lemma hunks_rendered: "list_all wf_hunk hs \<Longrightarrow> parse_hunks (concat (map render_hunk hs)) k = Inr hs"
proof (induction hs arbitrary: k)
  case (Cons h hs)
  then have "parse_one_hunk (concat (map render_hunk (h # hs))) k = Inr (h, length (render_hunk h))"
    by (simp add: one_hunk_rendered hunks_stop)
  with Cons render_hunk_hd [of h] show ?case by (subst parse_hunks.simps) auto
qed (simp add: parse_hunks.simps)


lemma join_text: "join [newline] (ls @ [l]) = as_text ls @ l"
proof (induction ls)
  case (Cons x ls)
  then show ?case by (cases "ls @ [l]") (simp_all add: as_text_def)
qed (simp add: as_text_def)

fun wf_env :: "string option \<Rightarrow> bool" where
  "wf_env None \<longleftrightarrow> True"
| "wf_env (Some e) \<longleftrightarrow> wf_path e"

lemma render_lines_plain:
  assumes "wf_env env" "list_all wf_hunk hs"
  shows "list_all plain_line (render_lines env hs)"
proof -
  have "plain_line BEGIN_PATCH_MARKER" by (simp add: BEGIN_PATCH_MARKER_def plain_line_def strip_cr_def newline_def)
  moreover have "list_all plain_line (render_env env)"
    using assms(1) by (cases env) (simp_all add: render_env_def header_plain)
  moreover have "list_all plain_line (concat (map render_hunk hs))"
    using assms(2) render_hunk_plain by (auto simp: list_all_iff)
  ultimately show ?thesis by (simp add: render_lines_def)
qed

lemma end_marker_facts:
  "newline \<notin> set END_PATCH_MARKER" "END_PATCH_MARKER \<noteq> []" "trim END_PATCH_MARKER = END_PATCH_MARKER"
  "trim BEGIN_PATCH_MARKER = BEGIN_PATCH_MARKER"
  using trim_end_solid [of "CHR ''h''" "''** End Patc''" "[]"] trim_end_solid [of "CHR ''h''" "''** Begin Patc''" "[]"]
  by (simp_all add: END_PATCH_MARKER_def BEGIN_PATCH_MARKER_def newline_def trim_solid)

lemma render_patch_trim: "trim (render_patch env hs) = render_patch env hs"
proof -
  have "\<exists>s. render_patch env hs = CHR ''*'' # s @ [CHR ''h'']"
    by (auto simp: render_patch_def render_lines_def as_text_def BEGIN_PATCH_MARKER_def END_PATCH_MARKER_def)
  then show ?thesis using trim_end_solid [of "CHR ''h''" _ "[]"] by (auto simp: trim_solid)
qed

lemma env_rendered:
  assumes "wf_env env"
  shows "\<exists>k. parse_environment_id_preamble (render_env env @ concat (map render_hunk hs)) =
    Inr (env, concat (map render_hunk hs), k)"
proof (cases env)
  case None
  have "(case concat (map render_hunk hs) of [] \<Rightarrow> True | l # _ \<Rightarrow> strip_prefix ENVIRONMENT_ID_MARKER (trim_start l) = None)"
  proof (cases hs)
    case (Cons h hs')
    then show ?thesis using render_hunk_hd [of h]
      by (auto simp: marker_defs trim_start_solid strip_prefix_def)
  qed simp
  with None show ?thesis 
    by (cases "concat (map render_hunk hs)")
       (simp_all add: parse_environment_id_preamble_def render_env_def del: concat_eq_Nil_conv)
next
  case (Some e)
  with assms have e: "trim e = e" "e \<noteq> []" by (simp_all add: wf_path_def)
  have "trim_start (ENVIRONMENT_ID_MARKER @ e) = ENVIRONMENT_ID_MARKER @ e"
    by (simp add: ENVIRONMENT_ID_MARKER_def trim_start_solid)
  with Some e show ?thesis by (simp add: parse_environment_id_preamble_def render_env_def Let_def)
qed

lemma parse_printed:
  assumes "wf_env env" "list_all wf_hunk hs"
  shows "parse_patch (render_patch env hs) =
    Inr \<lparr>apa_patch = render_patch env hs, apa_hunks = hs, apa_workdir = None, apa_environment_id = env\<rparr>"
proof -
  let ?ls = "render_lines env hs @ [END_PATCH_MARKER]"
  have "str_lines (trim (render_patch env hs)) = ?ls"
    unfolding render_patch_trim using render_lines_plain [OF assms] end_marker_facts
    by (simp add: render_patch_def str_lines_text)
  moreover have "check_patch_boundaries_strict ?ls = Inr (?ls, render_env env @ concat (map render_hunk hs))"
    by (simp add: check_patch_boundaries_strict_def check_start_and_end_lines_strict_def render_lines_def
        end_marker_facts butlast_append)
  ultimately show ?thesis using env_rendered [OF assms(1), of hs] assms(2)
    by (auto simp: parse_patch_def parse_patch_text_def PARSE_IN_STRICT_MODE_def check_patch_boundaries_lenient_def
        hunks_rendered join_text render_patch_def)
qed

text \<open>
  C8: a printed patch is read back. For any hunks whose paths are trimmed single lines and whose chunks have
  a line to remove or add, and any environment, the parser returns exactly these hunks and
  this environment for the printed patch, and the patch itself as its text.
\<close>

theorem printed_patch_parses:
  assumes "wf_env env" "list_all wf_hunk hs"
  shows "parse_patch (render_patch env hs) =
    Inr \<lparr>apa_patch = render_patch env hs, apa_hunks = hs, apa_workdir = None, apa_environment_id = env\<rparr>"
  using assms by (rule parse_printed)

definition example_hunks :: "Hunk list" where
  "example_hunks =
     [AddFile ''a b'' (''x'' @ [newline, newline]),
      UpdateFile ''c'' (Some ''d'')
        [\<lparr>ch_change_context = Some ''f'', ch_old_lines = [''  x''], ch_new_lines = [], ch_is_end_of_file = False\<rparr>,
         \<lparr>ch_change_context = None, ch_old_lines = [], ch_new_lines = ['''', ''*** End Patch''], ch_is_end_of_file = True\<rparr>],
      DeleteFile ''e'']"

lemma example_hunks_wf: "list_all wf_hunk example_hunks"
  by code_simp

theorem printed_patch_parses_witness:
  "parse_patch (render_patch (Some ''env'') example_hunks) =
     Inr \<lparr>apa_patch = render_patch (Some ''env'') example_hunks, apa_hunks = example_hunks, apa_workdir = None,
          apa_environment_id = Some ''env''\<rparr>"
  by (rule printed_patch_parses [OF _ example_hunks_wf]) code_simp


section \<open>Reading a patch piece by piece\<close>

lemma push_chars_buffer:
  "newline \<notin> set l \<Longrightarrow> push_chars (l @ rest) p = push_chars rest (p\<lparr>sp_line_buffer := sp_line_buffer p @ l\<rparr>)"
  by (induction l arbitrary: p) auto

text \<open>The mode of a parser, leaving out the line number an update hunk keeps for its error message.\<close>

fun mode_kind :: "StreamingParserMode \<Rightarrow> StreamingParserMode" where
  "mode_kind (UpdateFileMode _) = UpdateFileMode 0"
| "mode_kind m = m"

definition at :: "StreamingParserMode \<times> Hunk list \<Rightarrow> StreamingPatchParser \<Rightarrow> bool" where
  "at s p \<longleftrightarrow> mode_kind (sp_mode (sp_state p)) = fst s \<and> sp_hunks (sp_state p) = snd s \<and> sp_line_buffer p = []"

definition feeds :: "string list \<Rightarrow> StreamingParserMode \<times> Hunk list \<Rightarrow> StreamingParserMode \<times> Hunk list \<Rightarrow> bool" where
  "feeds ls s s' \<longleftrightarrow> (\<forall>p. at s p \<longrightarrow> (\<exists>p'. push_chars (as_text ls) p = (None, p') \<and> at s' p'))"

lemma feeds_Nil: "feeds [] s s"
  by (simp add: feeds_def as_text_def)

lemma feeds_append: "feeds xs a b \<Longrightarrow> feeds ys b c \<Longrightarrow> feeds (xs @ ys) a c"
  unfolding feeds_def by (fastforce simp: as_text_def push_chars_append)

lemma feeds_Cons: "feeds [l] a b \<Longrightarrow> feeds ls b c \<Longrightarrow> feeds (l # ls) a c"
  using feeds_append [of "[l]" a b ls c] by simp

lemma feeds_line:
  assumes "plain_line l" "\<And>p. at s p \<Longrightarrow> \<exists>p'. process_line l p = (None, p') \<and> at s' p'"
  shows "feeds [l] s s'"
proof -
  have "\<exists>p'. push_chars (as_text [l]) p = (None, p') \<and> at s' p'" if p: "at s p" for p
  proof -
    let ?q = "p\<lparr>sp_line_buffer := [], sp_line_number := sp_line_number p + 1\<rparr>"
    have "at s ?q" using p by (simp add: at_def)
    from assms(2) [OF this] obtain p' where "process_line l ?q = (None, p')" "at s' p'" by blast
    with p assms(1) show ?thesis by (auto simp: as_text_def push_chars_buffer plain_line_def at_def)
  qed
  then show ?thesis by (simp add: feeds_def)
qed

lemma at_set_hunks: "at (m, hs) p \<Longrightarrow> at (m, hs') (set_hunks hs' p)"
  by (simp add: at_def)

lemma at_set_mode: "at (m, hs) p \<Longrightarrow> at (mode_kind m', hs) (set_mode m' p)"
  by (simp add: at_def)

definition reading :: "StreamingParserMode \<Rightarrow> bool" where
  "reading m \<longleftrightarrow> m \<in> {StartedPatch, AddFileMode, DeleteFileMode, UpdateFileMode 0}"

lemma complete_ensured:
  "list_all complete_hunk (sp_hunks (sp_state p)) \<Longrightarrow> ensure_update_hunk_is_not_empty line p = None"
  by (cases "sp_hunks (sp_state p)" rule: rev_cases; cases "last (sp_hunks (sp_state p))")
     (auto simp: ensure_update_hunk_is_not_empty_def last_opt_def list_all_iff split: list.splits)

lemma header_line_header:
  assumes "at (k, hs) p" "reading k" "trim l = l" "trim_end l = l" "\<not> is_environment_id_preamble_line l"
  shows "process_line l p = header_or_body l l p"
  using assms by (cases "sp_mode (sp_state p)") (auto simp: process_line_def at_def reading_def)


lemma feeds_header:
  assumes "wf_path q" "reading k" "list_all complete_hunk hs"
    and "(m, h, k') \<in> {(ADD_FILE_MARKER, AddFile q [], AddFileMode), (DELETE_FILE_MARKER, DeleteFile q, DeleteFileMode),
           (UPDATE_FILE_MARKER, UpdateFile q None [], UpdateFileMode 0)}"
  shows "feeds [m @ q] (k, hs) (k', hs @ [h])"
proof (rule feeds_line)
  from assms(4) have m: "m \<in> {ADD_FILE_MARKER, DELETE_FILE_MARKER, UPDATE_FILE_MARKER, MOVE_TO_MARKER, ENVIRONMENT_ID_MARKER}"
    by auto
  with assms(1) show "plain_line (m @ q)" by (rule header_plain)
  fix p assume p: "at (k, hs) p"
  have "\<not> is_environment_id_preamble_line (m @ q)"
    using assms(4) by (auto simp: is_environment_id_preamble_line_def marker_defs)
  then have "process_line (m @ q) p = header_or_body (m @ q) (m @ q) p"
    using header_line_header [OF p assms(2)] header_trim [OF assms(1) m] by simp
  moreover have "ensure_update_hunk_is_not_empty l p = None" for l
    using p assms(3) by (intro complete_ensured) (simp add: at_def)
  moreover have "strip_prefix ADD_FILE_MARKER (DELETE_FILE_MARKER @ q) = None"
    "strip_prefix ADD_FILE_MARKER (UPDATE_FILE_MARKER @ q) = None"
    "strip_prefix DELETE_FILE_MARKER (UPDATE_FILE_MARKER @ q) = None"
    by (simp_all add: strip_prefix_def marker_defs)
  moreover have "m @ q \<noteq> END_PATCH_MARKER" using assms(4) by (auto simp: marker_defs)
  ultimately show "\<exists>p'. process_line (m @ q) p = (None, p') \<and> at (k', hs @ [h]) p'"
    using assms(4) p
    by (auto simp: header_or_body_def handle_hunk_headers_and_end_patch_def start_hunk_def at_def)
qed

lemma no_header:
  assumes "c \<noteq> CHR ''*''"
  shows "handle_hunk_headers_and_end_patch (c # l) p = (Inr False, p)"
  using assms by (simp add: handle_hunk_headers_and_end_patch_def strip_prefix_def marker_defs)

lemma feeds_add_lines:
  "list_all plain_line ls \<Longrightarrow>
     feeds (map (Cons (CHR ''+'')) ls) (AddFileMode, hs @ [AddFile q s]) (AddFileMode, hs @ [AddFile q (s @ as_text ls)])"
proof (induction ls arbitrary: s)
  case Nil
  then show ?case by (simp add: feeds_Nil as_text_def)
next
  case (Cons l ls)
  have "feeds [CHR ''+'' # l] (AddFileMode, hs @ [AddFile q s]) (AddFileMode, hs @ [AddFile q (s @ l @ [newline])])"
  proof (rule feeds_line)
    show "plain_line (CHR ''+'' # l)" using Cons.prems by (simp add: plain_line_Cons newline_def)
    fix p assume p: "at (AddFileMode, hs @ [AddFile q s]) p"
    then have "sp_mode (sp_state p) = AddFileMode" by (cases "sp_mode (sp_state p)") (simp_all add: at_def)
    with p show "\<exists>p'. process_line (CHR ''+'' # l) p = (None, p') \<and> at (AddFileMode, hs @ [AddFile q (s @ l @ [newline])]) p'"
      by (simp add: process_line_def header_or_body_def trim_solid no_header body_line_def last_opt_def
          strip_prefix_def at_def)
  qed
  from feeds_Cons [OF this Cons.IH [of "s @ l @ [newline]"]] Cons.prems show ?case by (simp add: as_text_def)
qed

text \<open>A line of an update hunk that no header matches.\<close>

lemma feeds_update_line:
  assumes "plain_line l" "\<And>p. handle_hunk_headers_and_end_patch (trim_end l) p = (Inr False, p)"
    and "\<And>n. update_line n l mv cs = Inr (mv', cs')"
  shows "feeds [l] (UpdateFileMode 0, hs @ [UpdateFile q mv cs]) (UpdateFileMode 0, hs @ [UpdateFile q mv' cs'])"
proof (rule feeds_line [OF assms(1)])
  fix p assume p: "at (UpdateFileMode 0, hs @ [UpdateFile q mv cs]) p"
  then obtain n where "sp_mode (sp_state p) = UpdateFileMode n" by (cases "sp_mode (sp_state p)") (simp_all add: at_def)
  with p assms(2,3) show "\<exists>p'. process_line l p = (None, p') \<and> at (UpdateFileMode 0, hs @ [UpdateFile q mv' cs']) p'"
    by (simp add: process_line_def header_or_body_def body_line_def last_opt_def at_def)
qed

lemma into_last_chunk_snoc [simp]: "into_last_chunk f (cs @ [c]) = cs @ [f c]"
  by (simp add: into_last_chunk_def)

lemma update_line_old:
  "update_line n (CHR ''-'' # l) mv (cs @ [c]) = Inr (mv, cs @ [push_old l c])"
  using trim_end_solid [of "CHR ''-''" "[]" l] by (simp add: update_line_def marker_defs)

lemma update_line_new:
  "update_line n (CHR ''+'' # l) mv (cs @ [c]) = Inr (mv, cs @ [push_new l c])"
  using trim_end_solid [of "CHR ''+''" "[]" l] by (simp add: update_line_def marker_defs)

lemma feeds_old_lines:
  "list_all plain_line ls \<Longrightarrow>
     feeds (map (Cons (CHR ''-'')) ls) (UpdateFileMode 0, hs @ [UpdateFile q mv (cs @ [c])])
       (UpdateFileMode 0, hs @ [UpdateFile q mv (cs @ [c\<lparr>ch_old_lines := ch_old_lines c @ ls\<rparr>])])"
proof (induction ls arbitrary: c)
  case (Cons l ls)
  have "feeds [CHR ''-'' # l] (UpdateFileMode 0, hs @ [UpdateFile q mv (cs @ [c])])
      (UpdateFileMode 0, hs @ [UpdateFile q mv (cs @ [push_old l c])])"
    using Cons.prems trim_end_solid [of "CHR ''-''" "[]" l]
    by (intro feeds_update_line update_line_old) (simp_all add: plain_line_Cons newline_def no_header)
  from feeds_Cons [OF this Cons.IH] Cons.prems show ?case by (simp add: push_old_def)
qed (simp add: feeds_Nil)

lemma feeds_new_lines:
  "list_all plain_line ls \<Longrightarrow>
     feeds (map (Cons (CHR ''+'')) ls) (UpdateFileMode 0, hs @ [UpdateFile q mv (cs @ [c])])
       (UpdateFileMode 0, hs @ [UpdateFile q mv (cs @ [c\<lparr>ch_new_lines := ch_new_lines c @ ls\<rparr>])])"
proof (induction ls arbitrary: c)
  case (Cons l ls)
  have "feeds [CHR ''+'' # l] (UpdateFileMode 0, hs @ [UpdateFile q mv (cs @ [c])])
      (UpdateFileMode 0, hs @ [UpdateFile q mv (cs @ [push_new l c])])"
    using Cons.prems trim_end_solid [of "CHR ''+''" "[]" l]
    by (intro feeds_update_line update_line_new) (simp_all add: plain_line_Cons newline_def no_header)
  from feeds_Cons [OF this Cons.IH] Cons.prems show ?case by (simp add: push_new_def)
qed (simp add: feeds_Nil)


lemma context_trim: "wf_context ctx \<Longrightarrow> trim_end (render_context ctx) = render_context ctx"
  using trim_end_solid [of "CHR ''@''" "''@''" "[]"] trim_end_marker [of _ "CHR ''@''" "''@''"]
  by (cases ctx) (simp_all add: render_context_def CHANGE_CONTEXT_MARKER_def EMPTY_CHANGE_CONTEXT_MARKER_def)

lemma feeds_context:
  assumes "wf_context ctx" "cs = [] \<or> \<not> blank_chunk (last cs)"
  shows "feeds [render_context ctx] (UpdateFileMode 0, hs @ [UpdateFile q mv cs])
    (UpdateFileMode 0, hs @ [UpdateFile q mv (cs @ [new_chunk ctx])])"
proof (rule feeds_update_line)
  show "plain_line (render_context ctx)" using assms(1) by (rule context_plain)
  obtain l where "render_context ctx = CHR ''@'' # l" using render_context_hd by blast
  with context_trim [OF assms(1)]
  show "handle_hunk_headers_and_end_patch (trim_end (render_context ctx)) p = (Inr False, p)" for p
    by (simp add: no_header)
  show "update_line n (render_context ctx) mv cs = Inr (mv, cs @ [new_chunk ctx])" for n
    using context_trim [OF assms(1)] assms(2)
    by (cases ctx) (auto simp: update_line_def render_context_def strip_prefix_def marker_defs)
qed

lemma feeds_eof:
  assumes "\<not> blank_chunk c"
  shows "feeds [EOF_MARKER] (UpdateFileMode 0, hs @ [UpdateFile q mv (cs @ [c])])
    (UpdateFileMode 0, hs @ [UpdateFile q mv (cs @ [c\<lparr>ch_is_end_of_file := True\<rparr>])])"
proof (rule feeds_update_line)
  have t: "trim_end EOF_MARKER = EOF_MARKER"
    using trim_end_solid [of "CHR ''e''" "''*** End of Fil''" "[]"] by (simp add: EOF_MARKER_def)
  show "plain_line EOF_MARKER" by (simp add: EOF_MARKER_def plain_line_def strip_cr_def newline_def)
  show "handle_hunk_headers_and_end_patch (trim_end EOF_MARKER) p = (Inr False, p)" for p
    unfolding t by (simp add: handle_hunk_headers_and_end_patch_def strip_prefix_def marker_defs)
  show "update_line n EOF_MARKER mv (cs @ [c]) = Inr (mv, cs @ [c\<lparr>ch_is_end_of_file := True\<rparr>])" for n
    unfolding update_line_def t using assms by (simp add: marker_defs)
qed

lemma feeds_move:
  assumes "wf_path r"
  shows "feeds [MOVE_TO_MARKER @ r] (UpdateFileMode 0, hs @ [UpdateFile q None []])
    (UpdateFileMode 0, hs @ [UpdateFile q (Some r) []])"
proof (rule feeds_update_line)
  have t: "trim_end (MOVE_TO_MARKER @ r) = MOVE_TO_MARKER @ r" using header_trim [OF assms] by simp
  show "plain_line (MOVE_TO_MARKER @ r)" using header_plain [OF assms] by simp
  show "handle_hunk_headers_and_end_patch (trim_end (MOVE_TO_MARKER @ r)) p = (Inr False, p)" for p
    unfolding t by (simp add: handle_hunk_headers_and_end_patch_def strip_prefix_def marker_defs)
  show "update_line n (MOVE_TO_MARKER @ r) None [] = Inr (Some r, [])" for n
    unfolding update_line_def t by simp
qed

lemma feeds_chunk:
  assumes "wf_chunk c" "cs = [] \<or> \<not> blank_chunk (last cs)"
  shows "feeds (render_chunk c) (UpdateFileMode 0, hs @ [UpdateFile q mv cs])
    (UpdateFileMode 0, hs @ [UpdateFile q mv (cs @ [c])])"
proof -
  obtain ctx old new e where c: "c = \<lparr>ch_change_context = ctx, ch_old_lines = old, ch_new_lines = new, ch_is_end_of_file = e\<rparr>"
    by (cases c) auto
  let ?c = "\<lparr>ch_change_context = ctx, ch_old_lines = old, ch_new_lines = new, ch_is_end_of_file = False\<rparr>"
  let ?s = "\<lambda>c. (UpdateFileMode 0, hs @ [UpdateFile q mv (cs @ [c])])"
  from assms(1) have wf: "wf_context ctx" "list_all plain_line old" "list_all plain_line new" "\<not> blank_chunk ?c"
    by (simp_all add: wf_chunk_def c blank_chunk_def)
  have "feeds (map (Cons (CHR ''-'')) old @ map (Cons (CHR ''+'')) new) (?s (new_chunk ctx)) (?s ?c)"
    using feeds_append [OF feeds_old_lines [OF wf(2)] feeds_new_lines [OF wf(3)], of hs q mv cs "new_chunk ctx"]
    by (simp add: new_chunk_def)
  moreover have "feeds (if e then [EOF_MARKER] else []) (?s ?c) (?s c)"
    using feeds_eof [OF wf(4)] by (simp add: c feeds_Nil)
  ultimately have "feeds ((map (Cons (CHR ''-'')) old @ map (Cons (CHR ''+'')) new) @ (if e then [EOF_MARKER] else []))
      (?s (new_chunk ctx)) (?s c)" by (rule feeds_append)
  from feeds_Cons [OF feeds_context [OF wf(1) assms(2)] this] show ?thesis
    by (simp add: render_chunk_def c split del: if_split)
qed

lemma feeds_chunks:
  "list_all wf_chunk ds \<Longrightarrow> cs = [] \<or> \<not> blank_chunk (last cs) \<Longrightarrow>
     feeds (concat (map render_chunk ds)) (UpdateFileMode 0, hs @ [UpdateFile q mv cs])
       (UpdateFileMode 0, hs @ [UpdateFile q mv (cs @ ds)])"
proof (induction ds arbitrary: cs)
  case (Cons d ds)
  then have "wf_chunk d" "\<not> blank_chunk d" by (simp_all add: wf_chunk_def)
  with Cons.prems Cons.IH [of "cs @ [d]"] feeds_append [OF feeds_chunk [of d cs hs q mv]] show ?case by simp
qed (simp add: feeds_Nil)

lemma wf_hunk_complete: "wf_hunk h \<Longrightarrow> complete_hunk h"
  by (cases h) (auto simp: list_all_iff wf_chunk_def)

lemma feeds_hunk:
  assumes "wf_hunk h" "reading k" "list_all complete_hunk hs"
  shows "\<exists>k'. reading k' \<and> feeds (render_hunk h) (k, hs) (k', hs @ [h])"
proof (cases h)
  case (AddFile q contents)
  with assms have "feeds [ADD_FILE_MARKER @ q] (k, hs) (AddFileMode, hs @ [AddFile q []])"
    by (intro feeds_header) auto
  from feeds_Cons [OF this feeds_add_lines [of "str_lines contents"]] assms(1) AddFile
  have "feeds (render_hunk h) (k, hs) (AddFileMode, hs @ [h])" by simp
  then show ?thesis by (auto simp: reading_def)
next
  case (DeleteFile q)
  with assms have "feeds [DELETE_FILE_MARKER @ q] (k, hs) (DeleteFileMode, hs @ [DeleteFile q])"
    by (intro feeds_header) auto
  with DeleteFile show ?thesis by (auto simp: reading_def)
next
  case (UpdateFile q mv cs)
  with assms have "feeds [UPDATE_FILE_MARKER @ q] (k, hs) (UpdateFileMode 0, hs @ [UpdateFile q None []])"
    by (intro feeds_header) auto
  from feeds_Cons [OF this feeds_append]
  have all: "feeds ms (UpdateFileMode 0, hs @ [UpdateFile q None []]) (UpdateFileMode 0, hs @ [UpdateFile q mv []]) \<Longrightarrow>
      feeds ns (UpdateFileMode 0, hs @ [UpdateFile q mv []]) (UpdateFileMode 0, hs @ [h]) \<Longrightarrow>
      feeds ((UPDATE_FILE_MARKER @ q) # ms @ ns) (k, hs) (UpdateFileMode 0, hs @ [h])" for ms ns .
  have "feeds (case mv of None \<Rightarrow> [] | Some r \<Rightarrow> [MOVE_TO_MARKER @ r])
      (UpdateFileMode 0, hs @ [UpdateFile q None []]) (UpdateFileMode 0, hs @ [UpdateFile q mv []])"
    using assms(1) UpdateFile by (cases mv) (simp_all add: feeds_Nil feeds_move)
  moreover have "feeds (concat (map render_chunk cs)) (UpdateFileMode 0, hs @ [UpdateFile q mv []])
      (UpdateFileMode 0, hs @ [h])"
    using feeds_chunks [of cs "[]"] assms(1) UpdateFile by simp
  ultimately have "feeds (render_hunk h) (k, hs) (UpdateFileMode 0, hs @ [h])"
    unfolding UpdateFile render_hunk.simps by (rule all [unfolded UpdateFile])
  then show ?thesis by (auto simp: reading_def)
qed

lemma feeds_hunks:
  "list_all wf_hunk ds \<Longrightarrow> reading k \<Longrightarrow> list_all complete_hunk hs \<Longrightarrow>
     \<exists>k'. reading k' \<and> feeds (concat (map render_hunk ds)) (k, hs) (k', hs @ ds)"
proof (induction ds arbitrary: k hs)
  case (Cons d ds)
  then obtain k1 where k1: "reading k1" "feeds (render_hunk d) (k, hs) (k1, hs @ [d])"
    using feeds_hunk [of d k hs] by auto
  moreover have "complete_hunk d" using Cons.prems(1) wf_hunk_complete by simp
  ultimately obtain k' where "reading k'" "feeds (concat (map render_hunk ds)) (k1, hs @ [d]) (k', hs @ d # ds)"
    using Cons.prems Cons.IH [of k1 "hs @ [d]"] by auto
  with feeds_append [OF k1(2)] show ?case by auto
qed (auto simp: feeds_Nil)


lemma feeds_begin: "feeds [BEGIN_PATCH_MARKER] (NotStarted, []) (StartedPatch, [])"
proof (rule feeds_line)
  show "plain_line BEGIN_PATCH_MARKER" by (simp add: BEGIN_PATCH_MARKER_def plain_line_def strip_cr_def newline_def)
  fix p assume p: "at (NotStarted, []) p"
  then have "sp_mode (sp_state p) = NotStarted" by (cases "sp_mode (sp_state p)") (simp_all add: at_def)
  with p show "\<exists>p'. process_line BEGIN_PATCH_MARKER p = (None, p') \<and> at (StartedPatch, []) p'"
    by (simp add: process_line_def end_marker_facts at_def)
qed

lemma feeds_env: "wf_env env \<Longrightarrow> feeds (render_env env) (StartedPatch, []) (StartedPatch, [])"
proof (cases env)
  case (Some e)
  moreover assume "wf_env env"
  ultimately have "wf_path e" by simp
  have "feeds [ENVIRONMENT_ID_MARKER @ e] (StartedPatch, []) (StartedPatch, [])"
  proof (rule feeds_line)
    show "plain_line (ENVIRONMENT_ID_MARKER @ e)" using header_plain [OF \<open>wf_path e\<close>] by simp
    fix p assume p: "at (StartedPatch, []) p"
    then have "sp_mode (sp_state p) = StartedPatch" by (cases "sp_mode (sp_state p)") (simp_all add: at_def)
    with p show "\<exists>p'. process_line (ENVIRONMENT_ID_MARKER @ e) p = (None, p') \<and> at (StartedPatch, []) p'"
      by (simp add: process_line_def is_environment_id_preamble_line_def)
  qed
  with Some show ?thesis by (simp add: render_env_def)
qed (simp add: render_env_def feeds_Nil)

lemma feeds_patch:
  assumes "wf_env env" "list_all wf_hunk hs"
  shows "\<exists>k. reading k \<and> feeds (render_lines env hs) (NotStarted, []) (k, hs)"
proof -
  obtain k where "reading k" "feeds (concat (map render_hunk hs)) (StartedPatch, []) (k, hs)"
    using feeds_hunks [OF assms(2), of StartedPatch "[]"] by (auto simp: reading_def)
  with feeds_Cons [OF feeds_begin feeds_append [OF feeds_env [OF assms(1)]]] show ?thesis
    by (auto simp: render_lines_def)
qed

text \<open>
  C11: the preview of a printed patch is the patch. However a printed patch is cut into deltas, the streaming
  parser accepts each of them, shows all the hunks before it is told that the patch has ended, and finishes
  with the hunks that the parser of whole patches returns for the same text.
\<close>

theorem streamed_patch_agrees:
  assumes "wf_env env" "list_all wf_hunk hs" "concat ds = render_patch env hs"
  shows "\<exists>p p'. push_deltas ds default_parser = (None, p) \<and> sp_hunks (sp_state p) = hs \<and>
           finish p = (map_sum id apa_hunks (parse_patch (concat ds)), p')"
proof -
  obtain k where k: "reading k" "feeds (render_lines env hs) (NotStarted, []) (k, hs)"
    using feeds_patch [OF assms(1,2)] by blast
  have "at (NotStarted, []) default_parser" by (simp add: at_def default_parser_def)
  with k(2) obtain q where q: "push_chars (as_text (render_lines env hs)) default_parser = (None, q)" "at (k, hs) q"
    unfolding feeds_def by blast
  define p where "p = q\<lparr>sp_line_buffer := END_PATCH_MARKER\<rparr>"
  have "push_deltas ds default_parser = (None, p)"
    using q push_chars_buffer [OF end_marker_facts(1), of "[]" q]
    by (simp add: push_deltas_concat assms(3) render_patch_def push_chars_append p_def at_def)
  moreover have hs: "sp_hunks (sp_state p) = hs" using q(2) by (simp add: p_def at_def)
  moreover have "ensure_update_hunk_is_not_empty l (p\<lparr>sp_line_buffer := [], sp_line_number := n\<rparr>) = None" for l n
    using assms(2) hs wf_hunk_complete by (intro complete_ensured) (auto simp: list_all_iff)
  then have "\<exists>p'. finish p = (Inr hs, p')"
    using hs by (simp add: finish_def finish_line_def p_def end_marker_facts)
  ultimately show ?thesis using parse_printed [OF assms(1,2)] assms(3) by simp
qed

theorem streamed_patch_agrees_witness:
  "\<exists>p p'. push_deltas [take 7 (render_patch None example_hunks), drop 7 (render_patch None example_hunks)] default_parser
       = (None, p) \<and> sp_hunks (sp_state p) = example_hunks \<and>
     finish p = (map_sum id apa_hunks (parse_patch
       (concat [take 7 (render_patch None example_hunks), drop 7 (render_patch None example_hunks)])), p')"
  by (rule streamed_patch_agrees [OF _ example_hunks_wf, where env = None]) simp_all

end
