(* ===== verification/Patch_Update.thy ===== *)
theory Patch_Update
  imports Patch_Format Workspace_FS
begin

text \<open>
  How an update hunk changes the text of a file: \<open>src/codex-rs/apply-patch/src/seek_sequence.rs\<close>, which
  finds the lines of a chunk in four passes of decreasing strictness, and \<open>compute_replacements\<close>,
  \<open>apply_replacements\<close> and \<open>derive_new_contents_from_chunks\<close> of \<open>lib.rs\<close>. A slice, an index or an insertion
  out of range panics, as in Rust: \<open>None\<close> where lines are read or inserted, the error \<open>Panicked\<close> of the
  update as a whole. That neither occurs is shown, not assumed.
\<close>

section \<open>Finding lines\<close>

text \<open>The characters that \<open>normalise\<close> maps to an ASCII one, in UTF-8.\<close>

definition FOLDED :: "(string \<times> char) list" where
  "FOLDED =
     map (\<lambda>c. (c, CHR ''-''))
       [[CHR 0xE2, CHR 0x80, CHR 0x90], [CHR 0xE2, CHR 0x80, CHR 0x91], [CHR 0xE2, CHR 0x80, CHR 0x92],
        [CHR 0xE2, CHR 0x80, CHR 0x93], [CHR 0xE2, CHR 0x80, CHR 0x94], [CHR 0xE2, CHR 0x80, CHR 0x95],
        [CHR 0xE2, CHR 0x88, CHR 0x92]] @
     map (\<lambda>c. (c, CHR 0x27))
       [[CHR 0xE2, CHR 0x80, CHR 0x98], [CHR 0xE2, CHR 0x80, CHR 0x99], [CHR 0xE2, CHR 0x80, CHR 0x9A],
        [CHR 0xE2, CHR 0x80, CHR 0x9B]] @
     map (\<lambda>c. (c, CHR 0x22))
       [[CHR 0xE2, CHR 0x80, CHR 0x9C], [CHR 0xE2, CHR 0x80, CHR 0x9D], [CHR 0xE2, CHR 0x80, CHR 0x9E],
        [CHR 0xE2, CHR 0x80, CHR 0x9F]] @
     map (\<lambda>c. (c, CHR '' ''))
       [[CHR 0xC2, CHR 0xA0], [CHR 0xE2, CHR 0x80, CHR 0x82], [CHR 0xE2, CHR 0x80, CHR 0x83],
        [CHR 0xE2, CHR 0x80, CHR 0x84], [CHR 0xE2, CHR 0x80, CHR 0x85], [CHR 0xE2, CHR 0x80, CHR 0x86],
        [CHR 0xE2, CHR 0x80, CHR 0x87], [CHR 0xE2, CHR 0x80, CHR 0x88], [CHR 0xE2, CHR 0x80, CHR 0x89],
        [CHR 0xE2, CHR 0x80, CHR 0x8A], [CHR 0xE2, CHR 0x80, CHR 0xAF], [CHR 0xE2, CHR 0x81, CHR 0x9F],
        [CHR 0xE3, CHR 0x80, CHR 0x80]]"

fun fold_chars :: "string \<Rightarrow> string" where
  "fold_chars [] = []"
| "fold_chars (c # cs) =
     (case find (\<lambda>(u, _). starts_with (c # cs) u) FOLDED of
        Some (u, a) \<Rightarrow> a # fold_chars (drop (length u - 1) cs)
      | None \<Rightarrow> c # fold_chars cs)"

definition normalise :: "string \<Rightarrow> string" where
  "normalise s = fold_chars (trim s)"

text \<open>\<open>lines[a..b]\<close> and \<open>lines[i]\<close>, which panic out of range.\<close>

definition slice :: "nat \<Rightarrow> nat \<Rightarrow> 'a list \<Rightarrow> 'a list option" where
  "slice a b xs = (if a \<le> b \<and> b \<le> length xs then Some (take (b - a) (drop a xs)) else None)"

definition line_at :: "'a list \<Rightarrow> nat \<Rightarrow> 'a option" where
  "line_at xs i = (if i < length xs then Some (xs ! i) else None)"

text \<open>One place in the first pass, and in the passes that compare line by line until one differs.\<close>

definition exact_at :: "string list \<Rightarrow> string list \<Rightarrow> nat \<Rightarrow> bool option" where
  "exact_at lines pattern i = map_option (\<lambda>l. l = pattern) (slice i (i + length pattern) lines)"

fun lenient_at :: "(string \<Rightarrow> string) \<Rightarrow> string list \<Rightarrow> string list \<Rightarrow> nat \<Rightarrow> bool option" where
  "lenient_at f lines [] i = Some True"
| "lenient_at f lines (pat # pattern) i =
     (case line_at lines i of
        None \<Rightarrow> None
      | Some l \<Rightarrow> if f l \<noteq> f pat then Some False else lenient_at f lines pattern (Suc i))"

text \<open>A pass over the places, and pass after pass: the first place that matches, if any, unless a place panics.\<close>

fun seek_pass :: "nat list \<Rightarrow> (nat \<Rightarrow> bool option) \<Rightarrow> nat option option" where
  "seek_pass [] at = Some None"
| "seek_pass (i # places) at =
     (case at i of None \<Rightarrow> None | Some ok \<Rightarrow> if ok then Some (Some i) else seek_pass places at)"

fun seek_passes :: "nat list \<Rightarrow> (nat \<Rightarrow> bool option) list \<Rightarrow> nat option option" where
  "seek_passes places [] = Some None"
| "seek_passes places (at # passes) =
     (case seek_pass places at of Some None \<Rightarrow> seek_passes places passes | result \<Rightarrow> result)"

definition seek_sequence :: "string list \<Rightarrow> string list \<Rightarrow> nat \<Rightarrow> bool \<Rightarrow> nat option option" where
  "seek_sequence lines pattern start eof =
     (if pattern = [] then Some (Some start)
      else if length pattern > length lines then Some None
      else let search_start =
             (if eof \<and> length lines \<ge> length pattern then length lines - length pattern else start)
           in seek_passes [search_start ..< Suc (length lines - length pattern)]
                [exact_at lines pattern, lenient_at trim_end lines pattern, lenient_at trim lines pattern,
                 lenient_at normalise lines pattern])"


section \<open>Replacements\<close>

type_synonym replacement = "nat \<times> nat \<times> string list"

datatype update_error = ComputeReplacements string | Panicked

definition ends_empty :: "string list \<Rightarrow> bool" where
  "ends_empty xs \<longleftrightarrow> xs \<noteq> [] \<and> last xs = []"

definition context_missing :: "string \<Rightarrow> string \<Rightarrow> update_error" where
  "context_missing path ctx_line =
     ComputeReplacements (''Failed to find context '' @ quoted ctx_line @ '' in '' @ path)"

definition lines_missing :: "string \<Rightarrow> string list \<Rightarrow> update_error" where
  "lines_missing path old_lines =
     ComputeReplacements
       (''Failed to find expected lines in '' @ path @ '':'' @ [newline] @ join [newline] old_lines)"

definition locate_context :: "string list \<Rightarrow> string \<Rightarrow> UpdateFileChunk \<Rightarrow> nat \<Rightarrow> update_error + nat" where
  "locate_context original_lines path chunk line_index =
     (case ch_change_context chunk of
        None \<Rightarrow> Inr line_index
      | Some ctx_line \<Rightarrow>
          (case seek_sequence original_lines [ctx_line] line_index False of
             None \<Rightarrow> Inl Panicked
           | Some (Some idx) \<Rightarrow> Inr (idx + 1)
           | Some None \<Rightarrow> Inl (context_missing path ctx_line)))"

definition locate_lines ::
  "string list \<Rightarrow> string \<Rightarrow> UpdateFileChunk \<Rightarrow> nat \<Rightarrow> update_error + replacement" where
  "locate_lines original_lines path chunk line_index =
     (let pattern = ch_old_lines chunk; new_slice = ch_new_lines chunk in
      case seek_sequence original_lines pattern line_index (ch_is_end_of_file chunk) of
        None \<Rightarrow> Inl Panicked
      | Some found \<Rightarrow>
          (let retry = (found = None \<and> ends_empty pattern);
               pattern = (if retry then butlast pattern else pattern);
               new_slice = (if retry \<and> ends_empty new_slice then butlast new_slice else new_slice)
           in case (if retry then seek_sequence original_lines pattern line_index (ch_is_end_of_file chunk)
                    else Some found) of
                None \<Rightarrow> Inl Panicked
              | Some (Some start_idx) \<Rightarrow> Inr (start_idx, length pattern, new_slice)
              | Some None \<Rightarrow> Inl (lines_missing path (ch_old_lines chunk))))"

definition insertion_idx :: "string list \<Rightarrow> nat" where
  "insertion_idx original_lines =
     (if ends_empty original_lines then length original_lines - 1 else length original_lines)"

fun chunk_replacements ::
  "string list \<Rightarrow> string \<Rightarrow> UpdateFileChunk list \<Rightarrow> nat \<Rightarrow> update_error + replacement list" where
  "chunk_replacements original_lines path [] line_index = Inr []"
| "chunk_replacements original_lines path (chunk # chunks) line_index =
     (case locate_context original_lines path chunk line_index of
        Inl e \<Rightarrow> Inl e
      | Inr line_index \<Rightarrow>
          if ch_old_lines chunk = []
          then map_sum id (Cons (insertion_idx original_lines, 0, ch_new_lines chunk))
                 (chunk_replacements original_lines path chunks line_index)
          else case locate_lines original_lines path chunk line_index of
              Inl e \<Rightarrow> Inl e
            | Inr (start_idx, n, new_slice) \<Rightarrow>
                map_sum id (Cons (start_idx, n, new_slice))
                  (chunk_replacements original_lines path chunks (start_idx + n)))"

definition compute_replacements ::
  "string list \<Rightarrow> string \<Rightarrow> UpdateFileChunk list \<Rightarrow> update_error + replacement list" where
  "compute_replacements original_lines path chunks =
     map_sum id (sort_key fst) (chunk_replacements original_lines path chunks 0)"

fun remove_lines :: "nat \<Rightarrow> nat \<Rightarrow> string list \<Rightarrow> string list" where
  "remove_lines 0 start_idx lines = lines"
| "remove_lines (Suc n) start_idx lines =
     remove_lines n start_idx
       (if start_idx < length lines then take start_idx lines @ drop (Suc start_idx) lines else lines)"

fun insert_lines :: "nat \<Rightarrow> string list \<Rightarrow> string list \<Rightarrow> string list option" where
  "insert_lines i [] lines = Some lines"
| "insert_lines i (l # new_segment) lines =
     (if i \<le> length lines then insert_lines (Suc i) new_segment (take i lines @ l # drop i lines) else None)"

fun replace_in_order :: "string list \<Rightarrow> replacement list \<Rightarrow> string list option" where
  "replace_in_order lines [] = Some lines"
| "replace_in_order lines ((start_idx, old_len, new_segment) # rs) =
     Option.bind (insert_lines start_idx new_segment (remove_lines old_len start_idx lines))
       (\<lambda>lines. replace_in_order lines rs)"

definition apply_replacements :: "string list \<Rightarrow> replacement list \<Rightarrow> string list option" where
  "apply_replacements lines replacements = replace_in_order lines (rev replacements)"

definition derive_new_contents :: "string \<Rightarrow> UpdateFileChunk list \<Rightarrow> string \<Rightarrow> update_error + string" where
  "derive_new_contents path chunks original_contents =
     (let original_lines = split_on newline original_contents;
          original_lines = (if ends_empty original_lines then butlast original_lines else original_lines)
      in case compute_replacements original_lines path chunks of
           Inl e \<Rightarrow> Inl e
         | Inr replacements \<Rightarrow>
             (case apply_replacements original_lines replacements of
                None \<Rightarrow> Inl Panicked
              | Some new_lines \<Rightarrow>
                  Inr (join [newline] (if ends_empty new_lines then new_lines else new_lines @ [[]]))))"


section \<open>Applying replacements\<close>

definition splice1 :: "replacement \<Rightarrow> string list \<Rightarrow> string list" where
  "splice1 r lines = (case r of (i, n, new) \<Rightarrow> take i lines @ new @ drop (i + n) lines)"

text \<open>The reference: one pass from left to right, copying what lies between the replaced regions.\<close>

fun splice :: "nat \<Rightarrow> string list \<Rightarrow> replacement list \<Rightarrow> string list" where
  "splice pos lines [] = drop pos lines"
| "splice pos lines ((i, n, new) # rs) = take (i - pos) (drop pos lines) @ new @ splice (i + n) lines rs"

fun disjoint_from :: "nat \<Rightarrow> nat \<Rightarrow> replacement list \<Rightarrow> bool" where
  "disjoint_from pos len [] \<longleftrightarrow> pos \<le> len"
| "disjoint_from pos len ((i, n, new) # rs) \<longleftrightarrow> pos \<le> i \<and> disjoint_from (i + n) len rs"

lemma remove_lines_eq: "remove_lines n i lines = take i lines @ drop (i + n) lines"
proof (induction n arbitrary: lines)
  case (Suc n)
  then show ?case by (cases "i < length lines") (simp_all add: min_def add.commute)
qed simp

lemma insert_lines_eq: "i \<le> length lines \<Longrightarrow> insert_lines i new lines = Some (take i lines @ new @ drop i lines)"
proof (induction new arbitrary: i lines)
  case (Cons l new)
  then show ?case by (simp add: min_def)
qed simp

lemma replace_one:
  "i \<le> length lines \<Longrightarrow>
     insert_lines i new (remove_lines n i lines) = Some (splice1 (i, n, new) lines)"
  by (simp add: remove_lines_eq insert_lines_eq splice1_def)

lemma apply_replacements_foldr:
  "sorted (map fst rs) \<Longrightarrow> \<forall>r \<in> set rs. fst r \<le> length lines \<Longrightarrow>
     apply_replacements lines rs = Some (foldr splice1 rs lines)"
  unfolding apply_replacements_def
proof (induction rs arbitrary: lines rule: rev_induct)
  case (snoc r rs)
  obtain i n new where r: "r = (i, n, new)" by (cases r) auto
  from snoc.prems have "i \<le> length lines" "\<forall>x \<in> set rs. fst x \<le> i" by (auto simp: r sorted_append)
  moreover have "i \<le> length (splice1 r lines)" using \<open>i \<le> length lines\<close> by (simp add: r splice1_def)
  ultimately have "\<forall>x \<in> set rs. fst x \<le> length (splice1 r lines)" by auto
  with snoc.IH [of "splice1 r lines"] snoc.prems \<open>i \<le> length lines\<close> show ?case
    by (simp add: r replace_one sorted_append)
qed simp

lemma disjoint_from_le: "disjoint_from pos len rs \<Longrightarrow> pos \<le> len"
  by (induction pos len rs rule: disjoint_from.induct) auto

lemma disjoint_from_sorted:
  "disjoint_from pos len rs \<Longrightarrow> sorted (map fst rs) \<and> (\<forall>r \<in> set rs. pos \<le> fst r \<and> fst r \<le> len)"
proof (induction pos len rs rule: disjoint_from.induct)
  case (2 pos len i n new rs)
  then show ?case using disjoint_from_le [of "i + n" len rs] by fastforce
qed simp

lemma splice_foldr:
  "disjoint_from pos (length lines) rs \<Longrightarrow> foldr splice1 rs lines = take pos lines @ splice pos lines rs"
proof (induction pos "length lines" rs rule: disjoint_from.induct)
  case (2 pos i n new rs)
  from 2(2) have "pos \<le> i" "i + n \<le> length lines" using disjoint_from_le by auto
  then have "take i lines = take pos lines @ take (i - pos) (drop pos lines)"
    by (metis le_add_diff_inverse take_add)
  with 2 \<open>i + n \<le> length lines\<close> show ?case by (simp add: splice1_def min_def)
qed simp

text \<open>
  Applying replacements from the last to the first, by removing and inserting single lines in
  place, gives what one pass from left to right gives, whenever the regions they replace lie in the
  file and do not overlap; no insertion is then out of range.
\<close>

theorem apply_replacements_splice:
  assumes "disjoint_from 0 (length lines) rs"
  shows "apply_replacements lines rs = Some (splice 0 lines rs)"
  using assms disjoint_from_sorted [OF assms] splice_foldr [OF assms]
  by (simp add: apply_replacements_foldr)

theorem apply_replacements_splice_witness:
  "apply_replacements [''a'', ''b'', ''c''] [(0, 1, [''x'', ''y'']), (2, 1, [])] = Some [''x'', ''y'', ''b'']"
  using apply_replacements_splice [of "[''a'', ''b'', ''c'']" "[(0, 1, [''x'', ''y'']), (2, 1, [])]"]
  by simp


section \<open>Finding lines, correctly\<close>

text \<open>The four passes, from the strictest to the most permissive.\<close>

definition PASSES :: "(string \<Rightarrow> string) list" where
  "PASSES = [\<lambda>s. s, trim_end, trim, normalise]"

definition similar :: "string list \<Rightarrow> string list \<Rightarrow> bool" where
  "similar xs ys \<longleftrightarrow> list_ex (\<lambda>f. map f xs = map f ys) PASSES"

lemma similar_refl [simp]: "similar xs xs"
  by (simp add: similar_def PASSES_def)

text \<open>The reference: where the lines agree with a pattern, and the first such place.\<close>

definition matches_at :: "(string \<Rightarrow> string) \<Rightarrow> string list \<Rightarrow> string list \<Rightarrow> nat \<Rightarrow> bool" where
  "matches_at f lines pattern i \<longleftrightarrow> map f (take (length pattern) (drop i lines)) = map f pattern"

definition first_match :: "string list \<Rightarrow> string list \<Rightarrow> nat \<Rightarrow> (string \<Rightarrow> string) \<Rightarrow> nat option" where
  "first_match lines pattern lo f = find (matches_at f lines pattern) [lo ..< Suc (length lines - length pattern)]"

lemma line_at_Some [simp]: "i < length xs \<Longrightarrow> line_at xs i = Some (xs ! i)"
  by (simp add: line_at_def)

lemma exact_at_in_range:
  "i + length pattern \<le> length lines \<Longrightarrow> exact_at lines pattern i = Some (matches_at (\<lambda>s. s) lines pattern i)"
  by (simp add: exact_at_def slice_def matches_at_def)

lemma lenient_at_in_range:
  "i + length pattern \<le> length lines \<Longrightarrow> lenient_at f lines pattern i = Some (matches_at f lines pattern i)"
proof (induction pattern arbitrary: i)
  case (Cons pat pattern)
  then have "drop i lines = lines ! i # drop (Suc i) lines" by (simp add: Cons_nth_drop_Suc)
  with Cons show ?case by (simp add: matches_at_def)
qed (simp add: matches_at_def)

lemma seek_pass_in_range:
  "\<forall>i \<in> set places. at i = Some (P i) \<Longrightarrow> seek_pass places at = Some (find P places)"
  by (induction places) auto

lemma seek_passes_in_range:
  "list_all2 (\<lambda>at f. seek_pass places at = Some (g f)) ats fs \<Longrightarrow> seek_passes places ats = Some (find_map g fs)"
  by (induction ats fs rule: list_all2_induct) (auto split: option.splits)

lemma first_match_SomeD:
  assumes "first_match lines pattern lo f = Some i"
  shows "matches_at f lines pattern i" "lo \<le> i" "i \<le> length lines - length pattern"
    "\<And>j. lo \<le> j \<Longrightarrow> j < i \<Longrightarrow> \<not> matches_at f lines pattern j"
proof -
  let ?is = "[lo ..< Suc (length lines - length pattern)]"
  from assms obtain k where k: "k < length ?is" "matches_at f lines pattern (?is ! k)" "i = ?is ! k"
    "\<forall>j < k. \<not> matches_at f lines pattern (?is ! j)"
    unfolding first_match_def find_Some_iff by blast
  then have "i = lo + k" by (simp del: upt_Suc)
  with k show "matches_at f lines pattern i" "lo \<le> i" "i \<le> length lines - length pattern"
    by (auto simp del: upt_Suc)
  show "\<not> matches_at f lines pattern j" if "lo \<le> j" "j < i" for j
    using k(1,4) that \<open>i = lo + k\<close> by (auto simp del: upt_Suc dest!: spec [of _ "j - lo"])
qed

lemma first_match_None:
  "first_match lines pattern lo f = None \<longleftrightarrow>
     (\<forall>i. lo \<le> i \<and> i \<le> length lines - length pattern \<longrightarrow> \<not> matches_at f lines pattern i)"
  by (auto simp: first_match_def find_None_iff less_Suc_eq_le simp del: upt_Suc)

definition sought :: "string list \<Rightarrow> string list \<Rightarrow> nat \<Rightarrow> bool \<Rightarrow> nat option" where
  "sought lines pattern start eof =
     (if pattern = [] then Some start
      else if length pattern > length lines then None
      else find_map (first_match lines pattern (if eof then length lines - length pattern else start)) PASSES)"

text \<open>
  The search never panics: no place it looks at lets the pattern reach beyond the last line. It then gives
  what the reference gives.
\<close>

lemma seek_sequence_sought: "seek_sequence lines pattern start eof = Some (sought lines pattern start eof)"
proof (cases "pattern = [] \<or> length pattern > length lines")
  case False
  let ?lo = "if eof then length lines - length pattern else start"
  let ?places = "[?lo ..< Suc (length lines - length pattern)]"
  from False have range: "i + length pattern \<le> length lines" if "i \<in> set ?places" for i
    using that by auto
  have "seek_pass ?places (exact_at lines pattern) = Some (first_match lines pattern ?lo (\<lambda>s. s))"
    "seek_pass ?places (lenient_at f lines pattern) = Some (first_match lines pattern ?lo f)" for f
    unfolding first_match_def
    by (rule seek_pass_in_range; use range exact_at_in_range lenient_at_in_range in blast)+
  then have "seek_passes ?places [exact_at lines pattern, lenient_at trim_end lines pattern,
      lenient_at trim lines pattern, lenient_at normalise lines pattern] =
      Some (find_map (first_match lines pattern ?lo) PASSES)"
    by (intro seek_passes_in_range) (simp add: PASSES_def del: upt_Suc)
  with False show ?thesis
    by (auto simp: seek_sequence_def sought_def Let_def simp del: upt_Suc seek_passes.simps)
qed (auto simp: seek_sequence_def sought_def)

lemma sought_passes:
  "pattern \<noteq> [] \<Longrightarrow> sought lines pattern start eof =
     (if length pattern > length lines then None
      else find_map (first_match lines pattern (if eof then length lines - length pattern else start)) PASSES)"
  by (simp add: sought_def)

lemma sought_region:
  assumes "sought lines pattern start eof = Some i" "start \<le> length lines"
  shows "i + length pattern \<le> length lines" "similar (take (length pattern) (drop i lines)) pattern"
    "\<not> eof \<Longrightarrow> start \<le> i"
proof -
  consider "pattern = []" "i = start" | f where "pattern \<noteq> []" "length pattern \<le> length lines" "f \<in> set PASSES"
    "first_match lines pattern (if eof then length lines - length pattern else start) f = Some i"
  proof (cases "pattern = []")
    case True
    with assms(1) that(1) show ?thesis by (simp add: sought_def)
  next
    case False
    with assms(1) have "length pattern \<le> length lines"
      "find_map (first_match lines pattern (if eof then length lines - length pattern else start)) PASSES = Some i"
      by (simp_all add: sought_passes split: if_splits)
    with False that(2) show ?thesis by (blast dest: find_map_SomeD)
  qed
  then have "i + length pattern \<le> length lines \<and> similar (take (length pattern) (drop i lines)) pattern \<and>
      (\<not> eof \<longrightarrow> start \<le> i)"
  proof cases
    case 2
    with first_match_SomeD [OF 2(4)] show ?thesis
      by (auto simp: similar_def list_ex_iff matches_at_def split: if_splits)
  qed (use assms(2) in simp)
  then show "i + length pattern \<le> length lines" "similar (take (length pattern) (drop i lines)) pattern"
    "\<not> eof \<Longrightarrow> start \<le> i" by simp_all
qed

text \<open>
  What a search finds. A non-empty pattern is found at a place where the lines agree with it under
  one of the four comparisons, with no earlier place and no stricter comparison that would do; it is
  not found only if no place agrees under any of them. With the end-of-file flag the last place is the
  only one that is tried. The search does not panic.
\<close>

theorem seek_sequence_correct:
  fixes pattern lines :: "string list" and start :: nat and eof :: bool
  assumes "pattern \<noteq> []" "length pattern \<le> length lines"
  defines "lo \<equiv> (if eof then length lines - length pattern else start)"
    and "hi \<equiv> length lines - length pattern"
  shows "case seek_sequence lines pattern start eof of
      None \<Rightarrow> False
    | Some None \<Rightarrow> (\<forall>f \<in> set PASSES. \<forall>i. lo \<le> i \<and> i \<le> hi \<longrightarrow> \<not> matches_at f lines pattern i)
    | Some (Some i) \<Rightarrow> lo \<le> i \<and> i \<le> hi \<and>
        (\<exists>k < 4. matches_at (PASSES ! k) lines pattern i \<and>
           (\<forall>j. lo \<le> j \<and> j < i \<longrightarrow> \<not> matches_at (PASSES ! k) lines pattern j) \<and>
           (\<forall>l < k. \<forall>j. lo \<le> j \<and> j \<le> hi \<longrightarrow> \<not> matches_at (PASSES ! l) lines pattern j))"
proof -
  have seek: "sought lines pattern start eof = find_map (first_match lines pattern lo) PASSES"
    using assms(1,2) by (simp add: sought_passes lo_def)
  have four: "length PASSES = 4" by (simp add: PASSES_def)
  have first: "\<exists>k < length fs. first_match lines pattern lo (fs ! k) = Some i \<and>
      (\<forall>l < k. first_match lines pattern lo (fs ! l) = None)"
    if "find_map (first_match lines pattern lo) fs = Some i" for fs i
    using that
  proof (induction fs)
    case (Cons f fs)
    show ?case
    proof (cases "first_match lines pattern lo f")
      case None
      with Cons obtain k where "k < length fs" "first_match lines pattern lo (fs ! k) = Some i"
        "\<forall>l < k. first_match lines pattern lo (fs ! l) = None" by auto
      with None show ?thesis by (intro exI [of _ "Suc k"]) (auto simp: less_Suc_eq_0_disj)
    qed (use Cons.prems in auto)
  qed simp
  show ?thesis
  proof (cases "sought lines pattern start eof")
    case None
    then have "\<forall>f \<in> set PASSES. \<forall>i. lo \<le> i \<and> i \<le> hi \<longrightarrow> \<not> matches_at f lines pattern i"
      unfolding seek find_map_None_iff first_match_None hi_def .
    with None show ?thesis by (simp add: seek_sequence_sought)
  next
    case (Some i)
    with seek first [of PASSES i] four obtain k where k: "k < 4"
      "first_match lines pattern lo (PASSES ! k) = Some i"
      "\<forall>l < k. first_match lines pattern lo (PASSES ! l) = None" by auto
    from first_match_SomeD [OF k(2)] k(1,3) Some show ?thesis
      unfolding first_match_None hi_def seek_sequence_sought by auto
  qed
qed

theorem seek_sequence_correct_witness:
  "seek_sequence [''a'', ''b '', ''b''] [''b''] 0 False = Some (Some 2) \<and>
   matches_at (PASSES ! 0) [''a'', ''b '', ''b''] [''b''] 2"
proof -
  have s: "seek_sequence [''a'', ''b '', ''b''] [''b''] 0 False = Some (Some 2)" by code_simp
  from seek_sequence_correct [where pattern = "[''b'']" and lines = "[''a'', ''b '', ''b'']" and start = 0 and eof = False, unfolded s]
  have "\<exists>k < 4. matches_at (PASSES ! k) [''a'', ''b '', ''b''] [''b''] 2" by simp blast
  moreover have "matches_at (PASSES ! 0) [''a'', ''b '', ''b''] [''b''] 2" by code_simp
  ultimately show ?thesis using s by blast
qed


section \<open>Updating a file\<close>

lemma locate_context_bound:
  assumes "locate_context lines path c k = Inr k'" "k \<le> length lines"
  shows "k \<le> k'" "k' \<le> length lines"
    "\<And>l. ch_change_context c = Some l \<Longrightarrow> \<exists>l' \<in> set (take (k' - k) (drop k lines)). similar [l'] [l]"
proof -
  have "k \<le> k' \<and> k' \<le> length lines \<and>
      (\<forall>l. ch_change_context c = Some l \<longrightarrow> (\<exists>l' \<in> set (take (k' - k) (drop k lines)). similar [l'] [l]))"
  proof (cases "ch_change_context c")
    case None
    with assms show ?thesis by (simp add: locate_context_def)
  next
    case (Some l)
    with assms(1) obtain i where i: "sought lines [l] k False = Some i" "k' = i + 1"
      by (auto simp: locate_context_def seek_sequence_sought split: option.splits)
    from sought_region [OF i(1) assms(2)] have r: "i < length lines" "k \<le> i"
      "similar (take 1 (drop i lines)) [l]" by simp_all
    then have "similar [lines ! i] [l]" by (simp add: Cons_nth_drop_Suc [symmetric])
    moreover have "lines ! i \<in> set (take (k' - k) (drop k lines))"
      using r i(2) by (auto simp: in_set_conv_nth intro!: exI [of _ "i - k"])
    ultimately show ?thesis using r i(2) Some by auto
  qed
  then show "k \<le> k'" "k' \<le> length lines"
    "\<And>l. ch_change_context c = Some l \<Longrightarrow> \<exists>l' \<in> set (take (k' - k) (drop k lines)). similar [l'] [l]" by simp_all
qed

text \<open>What a chunk asks for: its old lines for its new ones, both without a final empty line if need be.\<close>

definition chunk_edit :: "UpdateFileChunk \<Rightarrow> string list \<Rightarrow> string list \<Rightarrow> bool" where
  "chunk_edit c old new \<longleftrightarrow>
     old = ch_old_lines c \<and> new = ch_new_lines c \<or>
     ends_empty (ch_old_lines c) \<and> old = butlast (ch_old_lines c) \<and>
     new = (if ends_empty (ch_new_lines c) then butlast (ch_new_lines c) else ch_new_lines c)"

lemma locate_lines_found:
  assumes "locate_lines lines path c k = Inr (i, n, new)" "k \<le> length lines"
  obtains old where "chunk_edit c old new" "n = length old" "i + n \<le> length lines"
    "similar (take n (drop i lines)) old" "\<not> ch_is_end_of_file c \<Longrightarrow> k \<le> i"
proof -
  have "\<exists>old. chunk_edit c old new \<and> n = length old \<and> sought lines old k (ch_is_end_of_file c) = Some i"
  proof (cases "sought lines (ch_old_lines c) k (ch_is_end_of_file c)")
    case None
    with assms(1) show ?thesis
      by (intro exI [of _ "butlast (ch_old_lines c)"])
         (auto simp: locate_lines_def seek_sequence_sought Let_def chunk_edit_def split: if_splits option.splits)
  next
    case (Some j)
    with assms(1) show ?thesis
      by (intro exI [of _ "ch_old_lines c"])
         (auto simp: locate_lines_def seek_sequence_sought Let_def chunk_edit_def split: if_splits option.splits)
  qed
  then obtain old where old: "chunk_edit c old new" "n = length old"
    "sought lines old k (ch_is_end_of_file c) = Some i" by blast
  from that [OF old(1,2)] sought_region [OF old(3) assms(2)] old(2) show thesis by simp
qed



definition text_lines :: "string \<Rightarrow> string list" where
  "text_lines s = (let ls = split_on newline s in if ends_empty ls then butlast ls else ls)"

lemma derive_new_contents_lines:
  "derive_new_contents path chunks contents =
     (case chunk_replacements (text_lines contents) path chunks 0 of
        Inl e \<Rightarrow> Inl e
      | Inr rs \<Rightarrow>
          (case apply_replacements (text_lines contents) (sort_key fst rs) of
             None \<Rightarrow> Inl Panicked
           | Some ls \<Rightarrow> Inr (join [newline] (if ends_empty ls then ls else ls @ [[]]))))"
  by (simp add: derive_new_contents_def compute_replacements_def text_lines_def Let_def split: sum.split)









section \<open>What an update means\<close>

text \<open>
  The specification: going down the file, for each chunk in turn, some lines are kept (the context line of
  the chunk among them), the lines that resemble the old lines of the chunk are replaced, and the rest of
  the file is left to the chunks that follow.
\<close>

inductive patched :: "UpdateFileChunk list \<Rightarrow> string list \<Rightarrow> string list \<Rightarrow> bool" where
  patched_done: "patched [] lines lines"
| patched_edit:
    "chunk_edit c old new \<Longrightarrow> similar old' old \<Longrightarrow>
     (\<And>l. ch_change_context c = Some l \<Longrightarrow> \<exists>l' \<in> set before. similar [l'] [l]) \<Longrightarrow>
     patched cs rest rest' \<Longrightarrow>
     patched (c # cs) (before @ old' @ rest) (before @ new @ rest')"

inductive_simps patched_Nil: "patched [] lines lines'"

definition plain_chunk :: "UpdateFileChunk \<Rightarrow> bool" where
  "plain_chunk c \<longleftrightarrow> ch_old_lines c \<noteq> [] \<and> \<not> ch_is_end_of_file c"

lemma region_split:
  "k \<le> i \<Longrightarrow> drop k xs = take (i - k) (drop k xs) @ take n (drop i xs) @ drop (i + n) xs"
proof -
  assume "k \<le> i"
  have "drop k xs = take (i - k) (drop k xs) @ drop (i - k) (drop k xs)" by (rule append_take_drop_id [symmetric])
  also have "drop (i - k) (drop k xs) = drop i xs" using \<open>k \<le> i\<close> by simp
  also have "drop i xs = take n (drop i xs) @ drop (i + n) xs"
    by (metis add.commute append_take_drop_id drop_drop)
  finally show ?thesis .
qed

lemma chunk_replacements_patched:
  "\<forall>c \<in> set cs. plain_chunk c \<Longrightarrow> chunk_replacements lines path cs k = Inr rs \<Longrightarrow> k \<le> length lines \<Longrightarrow>
     disjoint_from k (length lines) rs \<and> patched cs (drop k lines) (splice k lines rs)"
proof (induction cs arbitrary: k rs)
  case Nil
  then show ?case by (auto intro: patched_done)
next
  case (Cons c cs)
  from Cons.prems(1) have c: "ch_old_lines c \<noteq> []" "\<not> ch_is_end_of_file c" by (simp_all add: plain_chunk_def)
  from Cons.prems(2) obtain k1 where k1: "locate_context lines path c k = Inr k1"
    by (auto split: sum.splits)
  note b = locate_context_bound [OF k1 Cons.prems(3)]
  from Cons.prems(2) k1 c obtain i n new where l: "locate_lines lines path c k1 = Inr (i, n, new)"
    by (auto split: sum.splits)
  then obtain rs' where rs': "chunk_replacements lines path cs (i + n) = Inr rs'" "rs = (i, n, new) # rs'"
    using Cons.prems(2) k1 c by (cases "chunk_replacements lines path cs (i + n)") auto
  from l b(2) obtain old where old: "chunk_edit c old new" "i + n \<le> length lines"
    "similar (take n (drop i lines)) old" "k1 \<le> i"
    by (rule locate_lines_found) (use c in auto)
  from Cons.IH [OF _ rs'(1) old(2)] Cons.prems(1)
  have IH: "disjoint_from (i + n) (length lines) rs'" "patched cs (drop (i + n) lines) (splice (i + n) lines rs')"
    by simp_all
  have "set (take (k1 - k) (drop k lines)) \<subseteq> set (take (i - k) (drop k lines))"
    using old(4) by (intro set_take_subset_set_take) simp
  with b(3) have "\<exists>l' \<in> set (take (i - k) (drop k lines)). similar [l'] [l]" if "ch_change_context c = Some l" for l
    using that by blast
  from patched_edit [OF old(1,3) this IH(2)] region_split [of k i lines n] b(1) old(4) IH(1) rs'(2)
  show ?case by simp
qed

text \<open>
  C6: an update does what its chunks say. When no chunk is a pure insertion or anchored to the end of the
  file and the update succeeds, the lines of the new text come from those of the old one by replacing, for
  each chunk in order and strictly below the region of the chunk before, a region that resembles the old
  lines of the chunk and lies below a line that resembles its context; the new text ends with a line break.
\<close>

theorem update_refines_patched:
  assumes "\<forall>c \<in> set chunks. plain_chunk c"
    and "derive_new_contents path chunks contents = Inr new_contents"
  shows "\<exists>new_lines. patched chunks (text_lines contents) new_lines \<and>
           new_contents = join [newline] (if ends_empty new_lines then new_lines else new_lines @ [[]])"
proof -
  let ?ls = "text_lines contents"
  from assms(2) obtain rs where rs: "chunk_replacements ?ls path chunks 0 = Inr rs"
    by (cases "chunk_replacements ?ls path chunks 0") (simp_all add: derive_new_contents_lines)
  from chunk_replacements_patched [OF assms(1) rs]
  have p: "disjoint_from 0 (length ?ls) rs" "patched chunks ?ls (splice 0 ?ls rs)" by simp_all
  then have "sort_key fst rs = rs" by (simp add: disjoint_from_sorted sort_key_id_if_sorted)
  moreover have "apply_replacements ?ls rs = Some (splice 0 ?ls rs)"
    using disjoint_from_sorted [OF p(1)] splice_foldr [OF p(1)] by (simp add: apply_replacements_foldr)
  ultimately show ?thesis using p(2) assms(2) rs
    by (intro exI [of _ "splice 0 ?ls rs"]) (simp add: derive_new_contents_lines)
qed

theorem update_refines_patched_witness:
  "\<exists>new_lines. patched [\<lparr>ch_change_context = Some ''a'', ch_old_lines = [''b''], ch_new_lines = [''c'', ''d''],
        ch_is_end_of_file = False\<rparr>] (text_lines (join [newline] [''b'', ''a '', '' b'', ''''])) new_lines \<and>
     join [newline] [''b'', ''a '', ''c'', ''d'', ''''] =
       join [newline] (if ends_empty new_lines then new_lines else new_lines @ [[]])"
  by (rule update_refines_patched [where path = "''f''"]) code_simp+


text \<open>
  The two exceptions are real. A chunk anchored to the end of the file may match lines an earlier chunk has
  replaced already, and a pure insertion goes before a final blank line even when an earlier chunk
  replaced that line: in both cases lines the patch asks for are lost without an error.
\<close>

lemma end_of_file_chunk_loses_lines:
  "derive_new_contents ''f''
     [\<lparr>ch_change_context = None, ch_old_lines = [''a'', ''b''], ch_new_lines = [''x''], ch_is_end_of_file = False\<rparr>,
      \<lparr>ch_change_context = None, ch_old_lines = [''b''], ch_new_lines = [''c''], ch_is_end_of_file = True\<rparr>]
     (join [newline] [''a'', ''b'', '''']) = Inr (join [newline] [''x'', ''''])"
  by code_simp

lemma insertion_chunk_loses_lines:
  "derive_new_contents ''f''
     [\<lparr>ch_change_context = None, ch_old_lines = [''a'', ''''], ch_new_lines = [''b'', ''''], ch_is_end_of_file = False\<rparr>,
      \<lparr>ch_change_context = None, ch_old_lines = [], ch_new_lines = [''c''], ch_is_end_of_file = False\<rparr>]
     (join [newline] [''a'', '''', '''']) = Inr (join [newline] [''b'', '''', ''''])"
  by code_simp

end
