(* ===== verification/Absolute_Path.thy ===== *)
theory Absolute_Path
  imports Workspace_FS
begin

text \<open>
  Absolute paths, after \<open>src/codex-rs/utils/absolute-path/src/\<close> on Unix: a path is made absolute against a
  base directory and its dots are resolved lexically, without looking at the file system. The home
  directory is a parameter. The type of the crate promises that its values are absolute and
  normalised; \<open>normal_path\<close> states that promise and the lemmas show that every constructor keeps it.
\<close>

section \<open>Normalisation\<close>

definition push_component :: "string list \<Rightarrow> string \<Rightarrow> string list" where
  "push_component normalized c = (if c = ''..'' then butlast normalized else normalized @ [c])"

definition normalize_path :: "string \<Rightarrow> string" where
  "normalize_path p =
     (let normalized = (if is_absolute p then ''/'' else []) @ join ''/'' (foldl push_component [] (path_components p))
      in if normalized = [] then ''.'' else normalized)"

definition path_with_base :: "string \<Rightarrow> string \<Rightarrow> string" where
  "path_with_base p base_path = (if is_absolute p then p else path_join base_path p)"

definition absolutize_from :: "string \<Rightarrow> string \<Rightarrow> string" where
  "absolutize_from p base_path = normalize_path (path_with_base p base_path)"

definition absolutize :: "string \<Rightarrow> string \<Rightarrow> string" where
  "absolutize current_dir p = (if is_absolute p then normalize_path p else absolutize_from p current_dir)"

definition maybe_expand_home_directory :: "string option \<Rightarrow> string \<Rightarrow> string" where
  "maybe_expand_home_directory home p =
     (case (home, strip_prefix ''~'' p) of
        (Some home, Some rest) \<Rightarrow>
          if rest = [] then home
          else (case strip_prefix ''/'' rest of
                  Some rest \<Rightarrow> path_join home (dropWhile (\<lambda>c. c = slash) rest)
                | None \<Rightarrow> p)
      | _ \<Rightarrow> p)"

definition resolve_path_against_base :: "string option \<Rightarrow> string \<Rightarrow> string \<Rightarrow> string" where
  "resolve_path_against_base home p base_path =
     absolutize_from (maybe_expand_home_directory home p) base_path"

definition from_absolute_path :: "string option \<Rightarrow> string \<Rightarrow> string \<Rightarrow> string" where
  "from_absolute_path home current_dir p = absolutize current_dir (maybe_expand_home_directory home p)"

definition from_absolute_path_checked :: "string option \<Rightarrow> string \<Rightarrow> string option" where
  "from_absolute_path_checked home p =
     (let expanded = maybe_expand_home_directory home p in
      if is_absolute expanded then Some (absolutize_from expanded ''/'') else None)"

definition path_parent :: "string \<Rightarrow> string option" where
  "path_parent p =
     (let cs = path_components p in if cs = [] then None else Some (''/'' @ join ''/'' (butlast cs)))"

text \<open>\<open>symlink_metadata\<close>: the entry itself, which is not followed when it is a link.\<close>

definition symlink_metadata :: "world \<Rightarrow> string \<Rightarrow> io_error + node" where
  "symlink_metadata w p =
     (let cs = path_components p in
      if cs = [] then Inr Dir
      else case walk False (tree w) LINK_LIMIT (start_dir w p) (butlast cs) of
          Inl e \<Rightarrow> Inl e
        | Inr d \<Rightarrow>
            if tree w d \<noteq> Some Dir then Inl NotADirectory
            else (case tree w (d @ [last cs]) of None \<Rightarrow> Inl NotFound | Some n \<Rightarrow> Inr n))"

text \<open>The ancestors of a path, itself included, as component lists; \<open>should_preserve_logical_path\<close> looks
  for a link among those that have a grandparent.\<close>

definition path_ancestors :: "string \<Rightarrow> string list" where
  "path_ancestors p =
     (let cs = path_components p in map (\<lambda>n. ''/'' @ join ''/'' (take n cs)) (rev [0..<Suc (length cs)]))"

definition should_preserve_logical_path :: "world \<Rightarrow> string \<Rightarrow> bool" where
  "should_preserve_logical_path w logical =
     list_ex (\<lambda>a. case symlink_metadata w a of
         Inr (Symlink _) \<Rightarrow> Option.bind (path_parent a) path_parent \<noteq> None
       | _ \<Rightarrow> False) (path_ancestors logical)"

definition canonicalize_preserving_symlinks :: "string option \<Rightarrow> string \<Rightarrow> world \<Rightarrow> string \<Rightarrow> string" where
  "canonicalize_preserving_symlinks home current_dir w p =
     (let logical = from_absolute_path home current_dir p in
      case canonicalize w p of
        Inl _ \<Rightarrow> logical
      | Inr q \<Rightarrow>
          (let canonical = ''/'' @ join ''/'' q in
           if should_preserve_logical_path w logical \<and> canonical \<noteq> logical then logical else canonical))"

definition canonicalize_existing_preserving_symlinks ::
  "string option \<Rightarrow> string \<Rightarrow> world \<Rightarrow> string \<Rightarrow> io_error + string" where
  "canonicalize_existing_preserving_symlinks home current_dir w p =
     (let logical = from_absolute_path home current_dir p in
      map_sum id (\<lambda>q. let canonical = ''/'' @ join ''/'' q in
        if should_preserve_logical_path w logical \<and> canonical \<noteq> logical then logical else canonical)
        (canonicalize w p))"


section \<open>Normal paths\<close>

definition name_component :: "string \<Rightarrow> bool" where
  "name_component c \<longleftrightarrow> c \<noteq> [] \<and> c \<noteq> ''.'' \<and> c \<noteq> ''..'' \<and> slash \<notin> set c"

definition normal_path :: "string \<Rightarrow> bool" where
  "normal_path p \<longleftrightarrow> list_all name_component (path_components p) \<and> p = ''/'' @ join ''/'' (path_components p)"

lemma split_on_join: "cs \<noteq> [] \<Longrightarrow> \<forall>c \<in> set cs. d \<notin> set c \<Longrightarrow> split_on d (join [d] cs) = cs"
  by (induction "[d]" cs rule: join.induct) (simp_all add: split_on_no split_on_append)

lemma split_on_parts: "c \<in> set (split_on d s) \<Longrightarrow> d \<notin> set c"
proof (induction d s arbitrary: c rule: split_on.induct)
  case (2 d x xs)
  then show ?case by (cases "split_on d xs") (auto split: if_splits)
qed simp

lemma slash_literal: "''/'' = [slash]"
  by (simp add: slash_def)

lemma path_components_abs:
  assumes "list_all name_component cs"
  shows "path_components (''/'' @ join ''/'' cs) = cs"
proof (cases "cs = []")
  case False
  have "split_on slash (slash # join [slash] cs) = [] # cs"
    using False assms by (simp add: split_on_join list_all_iff name_component_def)
  moreover have "filter (\<lambda>c. c \<noteq> [] \<and> c \<noteq> ''.'') cs = cs"
    using assms by (auto simp: list_all_iff name_component_def intro: filter_True)
  ultimately show ?thesis by (simp add: path_components_def slash_literal)
qed (simp add: path_components_def slash_def)

lemma push_component_names:
  "list_all name_component st \<Longrightarrow> c \<noteq> [] \<and> c \<noteq> ''.'' \<and> slash \<notin> set c \<Longrightarrow>
     list_all name_component (push_component st c)"
  unfolding push_component_def list_all_iff by (auto simp: name_component_def dest: in_set_butlastD)

lemma foldl_push_names:
  "list_all name_component st \<Longrightarrow> \<forall>c \<in> set cs. c \<noteq> [] \<and> c \<noteq> ''.'' \<and> slash \<notin> set c \<Longrightarrow>
     list_all name_component (foldl push_component st cs)"
proof (induction cs arbitrary: st)
  case (Cons c cs)
  then have "list_all name_component (push_component st c)" by (intro push_component_names) simp_all
  with Cons show ?case by simp
qed simp

lemma foldl_push_id: "list_all name_component cs \<Longrightarrow> foldl push_component st cs = st @ cs"
  by (induction cs arbitrary: st) (simp_all add: push_component_def name_component_def)

lemma path_components_parts: "\<forall>c \<in> set (path_components p). c \<noteq> [] \<and> c \<noteq> ''.'' \<and> slash \<notin> set c"
  by (auto simp: path_components_def dest: split_on_parts)

lemma normal_pathI: "list_all name_component cs \<Longrightarrow> normal_path (''/'' @ join ''/'' cs)"
  by (simp add: normal_path_def path_components_abs del: append_Cons append_Nil)

lemma normalize_path_normal: "is_absolute p \<Longrightarrow> normal_path (normalize_path p)"
  using normal_pathI foldl_push_names [of "[]"] path_components_parts [of p]
  by (simp add: normalize_path_def)

lemma normalize_normal: "normal_path p \<Longrightarrow> normalize_path p = p"
  unfolding normal_path_def
  by (auto simp: normalize_path_def foldl_push_id is_absolute_def Let_def)
     (metis starts_with_append append_Cons append_Nil)+

lemma normal_path_absolute: "normal_path p \<Longrightarrow> is_absolute p"
  unfolding normal_path_def is_absolute_def by (metis starts_with_append)

lemma path_with_base_absolute: "is_absolute base \<Longrightarrow> is_absolute (path_with_base p base)"
  by (cases base) (auto simp: path_with_base_def path_join_def is_absolute_def)

lemma resolve_normal: "is_absolute base \<Longrightarrow> normal_path (resolve_path_against_base home p base)"
  by (simp add: resolve_path_against_base_def absolutize_from_def normalize_path_normal path_with_base_absolute)

lemma expand_absolute: "is_absolute p \<Longrightarrow> maybe_expand_home_directory home p = p"
  by (cases p) (auto simp: maybe_expand_home_directory_def is_absolute_def strip_prefix_def split: option.splits)

lemma resolve_normal_id: "normal_path p \<Longrightarrow> resolve_path_against_base home p base = p"
  by (simp add: resolve_path_against_base_def expand_absolute normal_path_absolute absolutize_from_def
      path_with_base_def normalize_normal)

lemma path_parent_normal:
  assumes "normal_path p" "path_parent p = Some q"
  shows "normal_path q" "path_components q = butlast (path_components p)"
proof -
  from assms(2) have q: "q = ''/'' @ join ''/'' (butlast (path_components p))"
    by (auto simp: path_parent_def Let_def split: if_splits)
  from assms(1) have "list_all name_component (butlast (path_components p))"
    by (auto simp: normal_path_def list_all_iff dest: in_set_butlastD)
  then show "normal_path q" "path_components q = butlast (path_components p)"
    unfolding q by (rule normal_pathI, rule path_components_abs)
qed

text \<open>
  C22: an absolute path is absolute and normalised. Resolving any path, the home directory's tilde included,
  against an absolute base gives a path that starts at the root, has no empty, dot or dot-dot component and
  is printed from its components; so do the checked constructor and the parent of such a path; and
  resolving a path that has this form already, against whatever base, leaves it as it is.
\<close>

theorem absolute_paths_normal:
  "(is_absolute base \<longrightarrow> normal_path (resolve_path_against_base home p base)) \<and>
   (from_absolute_path_checked home p = Some q \<longrightarrow> normal_path q) \<and>
   (normal_path q \<longrightarrow> path_parent q = Some r \<longrightarrow> normal_path r) \<and>
   (normal_path q \<longrightarrow> resolve_path_against_base home q base' = q)"
  using path_parent_normal(1)
  by (auto simp: resolve_normal resolve_normal_id from_absolute_path_checked_def Let_def absolutize_from_def
      path_with_base_def normalize_path_normal split: if_splits)

theorem absolute_paths_normal_witness:
  "normal_path (resolve_path_against_base (Some ''/home/u'') ''~/x/../y'' ''/'') \<and>
   normal_path ''/a/b'' \<and> normal_path ''/a'' \<and> resolve_path_against_base None ''/a/b'' ''/w'' = ''/a/b''"
proof -
  have "is_absolute ''/''" "from_absolute_path_checked (Some ''/home/u'') ''/a//c/./../b'' = Some ''/a/b''"
    "path_parent ''/a/b'' = Some ''/a''" by code_simp+
  with absolute_paths_normal [where base = "''/''" and home = "Some ''/home/u''" and p = "''~/x/../y''" and q = "''/a/b''" and r = "''/a''"]
    absolute_paths_normal [where home = "Some ''/home/u''" and p = "''/a//c/./../b''" and q = "''/a/b''" and r = "''/a''"]
    absolute_paths_normal [where home = None and q = "''/a/b''" and base' = "''/w''"]
  show ?thesis by blast
qed

end
