(* ===== verification/Patch_Files.thy ===== *)
theory Patch_Files
  imports Patch_Update Absolute_Path
begin

text \<open>
  Applying a patch to a file system: the local file system of \<open>src/codex-rs/exec-server/src/local_file_system.rs\<close>
  without a sandbox, and \<open>apply_patch\<close>, \<open>apply_hunks\<close> and \<open>apply_hunks_to_files\<close> of
  \<open>src/codex-rs/apply-patch/src/lib.rs\<close>, with the record of what was changed and the flag that says whether
  that record is exact. The home directory, the working directory and the text of an operating-system
  error are parameters. The writers of the two outputs never fail.
\<close>

section \<open>The local file system\<close>

datatype file_system_error = Os io_error | InvalidInput | DirectoryNotEmpty | ResourceBusy

record FileMetadata =
  is_directory :: bool
  is_file :: bool
  is_symlink :: bool

definition MAX_READ_FILE_BYTES :: int where "MAX_READ_FILE_BYTES = 536870912"

definition local_read_file :: "world \<Rightarrow> string \<Rightarrow> file_system_error + string" where
  "local_read_file w p =
     (case canonicalize w p of
        Inl e \<Rightarrow> Inl (Os e)
      | Inr q \<Rightarrow>
          (case tree w q of
             Some (File s) \<Rightarrow> if int (length s) > MAX_READ_FILE_BYTES then Inl InvalidInput else Inr s
           | Some Dir \<Rightarrow> Inl (Os IsADirectory)
           | _ \<Rightarrow> Inl (Os NotFound)))"

definition read_file_text :: "world \<Rightarrow> string \<Rightarrow> file_system_error + string" where
  "read_file_text w p =
     (case local_read_file w p of
        Inl e \<Rightarrow> Inl e
      | Inr s \<Rightarrow> if utf8_valid s then Inr s else Inl (Os InvalidData))"

definition local_write_file :: "world \<Rightarrow> string \<Rightarrow> string \<Rightarrow> file_system_error + world" where
  "local_write_file w p contents = map_sum Os id (write_path w p contents)"

definition local_create_directory :: "world \<Rightarrow> string \<Rightarrow> file_system_error option \<times> world" where
  "local_create_directory w p =
     map_prod (map_option Os) (\<lambda>t. w\<lparr>tree := t\<rparr>) (create_dir_all (tree w) (path_components p))"

definition local_get_metadata :: "world \<Rightarrow> string \<Rightarrow> file_system_error + FileMetadata" where
  "local_get_metadata w p =
     (case canonicalize w p of
        Inl e \<Rightarrow> Inl (Os e)
      | Inr q \<Rightarrow>
          (case symlink_metadata w p of
             Inl e \<Rightarrow> Inl (Os e)
           | Inr n \<Rightarrow>
               Inr \<lparr>is_directory = (tree w q = Some Dir),
                    is_file = (case tree w q of Some (File _) \<Rightarrow> True | _ \<Rightarrow> False),
                    is_symlink = (case n of Symlink _ \<Rightarrow> True | _ \<Rightarrow> False)\<rparr>))"

definition has_entries :: "fs \<Rightarrow> path \<Rightarrow> bool" where
  "has_entries t d \<longleftrightarrow> (\<exists>c. t (d @ [c]) \<noteq> None)"

declare has_entries_def [code del]

text \<open>\<open>remove\<close> with the options \<open>recursive: false\<close> and \<open>force: false\<close>, the only ones the patch code uses.\<close>

definition local_remove :: "world \<Rightarrow> string \<Rightarrow> file_system_error + world" where
  "local_remove w p =
     (case symlink_metadata w p of
        Inl e \<Rightarrow> Inl (Os e)
      | Inr n \<Rightarrow>
          (let cs = path_components p in
           if cs = [] then Inl ResourceBusy
           else case walk False (tree w) LINK_LIMIT (start_dir w p) (butlast cs) of
               Inl e \<Rightarrow> Inl (Os e)
             | Inr d \<Rightarrow>
                 if n = Dir \<and> has_entries (tree w) (d @ [last cs]) then Inl DirectoryNotEmpty
                 else Inr (w\<lparr>tree := (tree w)(d @ [last cs] := None)\<rparr>)))"


section \<open>Applying hunks\<close>

datatype AppliedPatchFileChange =
    AddChange string "string option"
  | DeleteChange string
  | UpdateChange "string option" string "string option" string

type_synonym AppliedPatchChange = "string \<times> AppliedPatchFileChange"

record AppliedPatchDelta =
  changes :: "AppliedPatchChange list"
  exact :: bool

record AffectedPaths =
  added :: "string list"
  modified :: "string list"
  deleted :: "string list"

datatype hunk_error =
    NoFilesModified
  | InContext string file_system_error
  | ReadFailed string file_system_error
  | Replacements string
  | UpdatePanicked

record patching =
  pw :: world
  pdelta :: AppliedPatchDelta
  paffected :: AffectedPaths

definition ensure_not_directory :: "world \<Rightarrow> string \<Rightarrow> file_system_error option" where
  "ensure_not_directory w p =
     (case local_get_metadata w p of
        Inl e \<Rightarrow> Some e
      | Inr metadata \<Rightarrow> if is_directory metadata then Some InvalidInput else None)"

definition remove_failure_was_side_effect_free :: "world \<Rightarrow> string \<Rightarrow> string option \<Rightarrow> bool" where
  "remove_failure_was_side_effect_free w p expected_content =
     (case expected_content of
        Some expected_content \<Rightarrow> read_file_text w p = Inr expected_content
      | None \<Rightarrow> False)"

definition note_existing_path_delta_support :: "world \<Rightarrow> string \<Rightarrow> bool \<Rightarrow> bool" where
  "note_existing_path_delta_support w p ex =
     (case local_get_metadata w p of
        Inr metadata \<Rightarrow> if is_file metadata \<and> \<not> is_symlink metadata then ex else False
      | Inl e \<Rightarrow> if e = Os NotFound then ex else False)"

definition read_optional_file_text_for_delta :: "world \<Rightarrow> string \<Rightarrow> bool \<Rightarrow> string option \<times> bool" where
  "read_optional_file_text_for_delta w p ex =
     (let ex = note_existing_path_delta_support w p ex in
      case read_file_text w p of
        Inr content \<Rightarrow> (Some content, ex)
      | Inl e \<Rightarrow> (None, if e = Os NotFound then ex else False))"

definition write_file_with_missing_parent_retry ::
  "world \<Rightarrow> string \<Rightarrow> string \<Rightarrow> hunk_error option \<times> world" where
  "write_file_with_missing_parent_retry w p contents =
     (case local_write_file w p contents of
        Inr w' \<Rightarrow> (None, w')
      | Inl err \<Rightarrow>
          if err = Os NotFound
          then step_then
            (case path_parent p of
               Some parent \<Rightarrow>
                 map_prod (map_option (InContext (''Failed to create parent directories for '' @ p))) id
                   (local_create_directory w parent)
             | None \<Rightarrow> (None, w))
            (\<lambda>w. case local_write_file w p contents of
                   Inr w' \<Rightarrow> (None, w')
                 | Inl e \<Rightarrow> (Some (InContext (''Failed to write file '' @ p) e), w))
          else (Some (InContext (''Failed to write file '' @ p) err), w))"

definition derive_new_contents_from_chunks ::
  "world \<Rightarrow> string \<Rightarrow> UpdateFileChunk list \<Rightarrow> hunk_error + (string \<times> string)" where
  "derive_new_contents_from_chunks w p chunks =
     (case read_file_text w p of
        Inl e \<Rightarrow> Inl (ReadFailed (''Failed to read file to update '' @ p) e)
      | Inr original_contents \<Rightarrow>
          (case derive_new_contents p chunks original_contents of
             Inl (ComputeReplacements m) \<Rightarrow> Inl (Replacements m)
           | Inl Panicked \<Rightarrow> Inl UpdatePanicked
           | Inr new_contents \<Rightarrow> Inr (original_contents, new_contents)))"

definition set_exact :: "bool \<Rightarrow> patching \<Rightarrow> patching" where
  "set_exact b s = s\<lparr>pdelta := (pdelta s)\<lparr>exact := b\<rparr>\<rparr>"

definition push_change :: "AppliedPatchChange \<Rightarrow> patching \<Rightarrow> patching" where
  "push_change c s = s\<lparr>pdelta := (pdelta s)\<lparr>changes := changes (pdelta s) @ [c]\<rparr>\<rparr>"

text \<open>The macro \<open>try_write!\<close>: a failed write may have changed the target, so the record is not exact.\<close>

definition try_write :: "hunk_error option \<times> world \<Rightarrow> patching \<Rightarrow> hunk_error option \<times> patching" where
  "try_write r s =
     (case r of
        (Some e, w) \<Rightarrow> (Some e, set_exact False (s\<lparr>pw := w\<rparr>))
      | (None, w) \<Rightarrow> (None, s\<lparr>pw := w\<rparr>))"

text \<open>
  The removal of a deleted file, and of the original of a moved one, whose text was \<open>expected\<close>: a directory is
  refused, and a removal that fails keeps the record exact only if the text is still there.
\<close>

definition remove_patched :: "string \<Rightarrow> string \<Rightarrow> string option \<Rightarrow> patching \<Rightarrow> hunk_error option \<times> patching" where
  "remove_patched context p expected s =
     (case ensure_not_directory (pw s) p of
        Some e \<Rightarrow> (Some (InContext (context @ p) e), s)
      | None \<Rightarrow>
          (case local_remove (pw s) p of
             Inl e \<Rightarrow> (Some (InContext (context @ p) e),
                set_exact (exact (pdelta s) \<and> remove_failure_was_side_effect_free (pw s) p expected) s)
           | Inr w \<Rightarrow> (None, s\<lparr>pw := w\<rparr>)))"

definition add_file :: "string \<Rightarrow> string \<Rightarrow> string \<Rightarrow> patching \<Rightarrow> hunk_error option \<times> patching" where
  "add_file affected_path path_abs contents s =
     (let (overwritten_content, ex) = read_optional_file_text_for_delta (pw s) path_abs (exact (pdelta s)) in
      step_then (try_write (write_file_with_missing_parent_retry (pw s) path_abs contents) (set_exact ex s)) (\<lambda>s.
        (None, push_change (path_abs, AddChange contents overwritten_content)
                 (s\<lparr>paffected := (paffected s)\<lparr>added := added (paffected s) @ [affected_path]\<rparr>\<rparr>))))"

definition delete_file :: "string \<Rightarrow> string \<Rightarrow> patching \<Rightarrow> hunk_error option \<times> patching" where
  "delete_file affected_path path_abs s =
     (let ex = note_existing_path_delta_support (pw s) path_abs (exact (pdelta s));
          deleted_content = (case read_file_text (pw s) path_abs of Inr c \<Rightarrow> Some c | Inl _ \<Rightarrow> None);
          s = set_exact (if deleted_content = None then False else ex) s in
      step_then (remove_patched ''Failed to delete file '' path_abs deleted_content s) (\<lambda>s.
        (None,
         (case deleted_content of Some c \<Rightarrow> push_change (path_abs, DeleteChange c) | None \<Rightarrow> id)
           (s\<lparr>paffected := (paffected s)\<lparr>deleted := deleted (paffected s) @ [affected_path]\<rparr>\<rparr>))))"

definition note_modified :: "string \<Rightarrow> patching \<Rightarrow> patching" where
  "note_modified p s = s\<lparr>paffected := (paffected s)\<lparr>modified := modified (paffected s) @ [p]\<rparr>\<rparr>"

definition move_file ::
  "string \<Rightarrow> string \<Rightarrow> string \<Rightarrow> string \<Rightarrow> string \<Rightarrow> patching \<Rightarrow> hunk_error option \<times> patching" where
  "move_file affected_path path_abs dest_abs original_contents new_contents s =
     (let (overwritten_move_content, ex) = read_optional_file_text_for_delta (pw s) dest_abs (exact (pdelta s)) in
      step_then (try_write (write_file_with_missing_parent_retry (pw s) dest_abs new_contents) (set_exact ex s)) (\<lambda>s.
      let dest_write_change_index = length (changes (pdelta s));
          s = push_change (dest_abs, AddChange new_contents overwritten_move_content) s in
      step_then (remove_patched ''Failed to remove original '' path_abs (Some original_contents) s) (\<lambda>s.
        (None, note_modified affected_path
          (s\<lparr>pdelta := (pdelta s)\<lparr>changes := (changes (pdelta s))[dest_write_change_index :=
             (path_abs, UpdateChange (Some dest_abs) original_contents overwritten_move_content new_contents)]\<rparr>\<rparr>)))))"

definition update_file ::
  "string option \<Rightarrow> string \<Rightarrow> string \<Rightarrow> string \<Rightarrow> string option \<Rightarrow> UpdateFileChunk list \<Rightarrow> patching
     \<Rightarrow> hunk_error option \<times> patching" where
  "update_file home base_dir affected_path path_abs move_path chunks s =
     (let s = set_exact (note_existing_path_delta_support (pw s) path_abs (exact (pdelta s))) s in
      case derive_new_contents_from_chunks (pw s) path_abs chunks of
        Inl e \<Rightarrow> (Some e, s)
      | Inr (original_contents, new_contents) \<Rightarrow>
          (case move_path of
             Some dest \<Rightarrow>
               move_file affected_path path_abs (resolve_path_against_base home dest base_dir)
                 original_contents new_contents s
           | None \<Rightarrow>
               step_then
                 (try_write
                   (case local_write_file (pw s) path_abs new_contents of
                      Inr w \<Rightarrow> (None, w)
                    | Inl e \<Rightarrow> (Some (InContext (''Failed to write file '' @ path_abs) e), pw s)) s) (\<lambda>s.
                 (None, note_modified affected_path
                    (push_change (path_abs, UpdateChange None original_contents None new_contents) s)))))"

definition apply_hunk :: "string option \<Rightarrow> string \<Rightarrow> Hunk \<Rightarrow> patching \<Rightarrow> hunk_error option \<times> patching" where
  "apply_hunk home base_dir hunk s =
     (let affected_path = hunk_path hunk; path_abs = resolve_path_against_base home (hunk_source hunk) base_dir in
      case hunk of
        AddFile _ contents \<Rightarrow> add_file affected_path path_abs contents s
      | DeleteFile _ \<Rightarrow> delete_file affected_path path_abs s
      | UpdateFile _ move_path chunks \<Rightarrow> update_file home base_dir affected_path path_abs move_path chunks s)"

fun apply_each :: "string option \<Rightarrow> string \<Rightarrow> Hunk list \<Rightarrow> patching \<Rightarrow> hunk_error option \<times> patching" where
  "apply_each home base_dir [] s = (None, s)"
| "apply_each home base_dir (h # hs) s = step_then (apply_hunk home base_dir h s) (apply_each home base_dir hs)"

definition empty_delta :: AppliedPatchDelta where
  "empty_delta = \<lparr>changes = [], exact = True\<rparr>"

definition apply_hunks_to_files ::
  "string option \<Rightarrow> string \<Rightarrow> Hunk list \<Rightarrow> world \<Rightarrow> hunk_error option \<times> patching" where
  "apply_hunks_to_files home base_dir hs w =
     (let s = \<lparr>pw = w, pdelta = empty_delta, paffected = \<lparr>added = [], modified = [], deleted = []\<rparr>\<rparr> in
      if hs = [] then (Some NoFilesModified, s) else apply_each home base_dir hs s)"


section \<open>Applying a patch\<close>

datatype ApplyPatchError = PatchParseError ParseError | PatchIoError string string

record ApplyPatchFailure =
  failure_error :: ApplyPatchError
  failure_delta :: AppliedPatchDelta

fun hunk_error_text :: "(file_system_error \<Rightarrow> string) \<Rightarrow> hunk_error \<Rightarrow> string" where
  "hunk_error_text io_text NoFilesModified = ''No files were modified.''"
| "hunk_error_text io_text (InContext context e) = context"
| "hunk_error_text io_text (ReadFailed context e) = context @ '': '' @ io_text e"
| "hunk_error_text io_text (Replacements m) = m"
| "hunk_error_text io_text UpdatePanicked = []"

text \<open>The error is reported as an I/O error when there is one under its context.\<close>

fun apply_patch_error :: "(file_system_error \<Rightarrow> string) \<Rightarrow> hunk_error \<Rightarrow> ApplyPatchError" where
  "apply_patch_error io_text (InContext context e) = PatchIoError ''I/O error'' (io_text e)"
| "apply_patch_error io_text e = PatchIoError (hunk_error_text io_text e) (hunk_error_text io_text e)"

definition print_summary :: "AffectedPaths \<Rightarrow> string" where
  "print_summary affected =
     ''Success. Updated the following files:'' @ [newline]
     @ concat (map (\<lambda>p. ''A '' @ p @ [newline]) (added affected))
     @ concat (map (\<lambda>p. ''M '' @ p @ [newline]) (modified affected))
     @ concat (map (\<lambda>p. ''D '' @ p @ [newline]) (deleted affected))"

record patch_run =
  run_result :: "ApplyPatchFailure + AppliedPatchDelta"
  run_stdout :: string
  run_stderr :: string
  run_world :: world

definition apply_hunks ::
  "(file_system_error \<Rightarrow> string) \<Rightarrow> string option \<Rightarrow> string \<Rightarrow> Hunk list \<Rightarrow> world \<Rightarrow> patch_run" where
  "apply_hunks io_text home base_dir hs w =
     (case apply_hunks_to_files home base_dir hs w of
        (None, s) \<Rightarrow>
          \<lparr>run_result = Inr (pdelta s), run_stdout = print_summary (paffected s), run_stderr = [], run_world = pw s\<rparr>
      | (Some e, s) \<Rightarrow>
          \<lparr>run_result = Inl \<lparr>failure_error = apply_patch_error io_text e, failure_delta = pdelta s\<rparr>,
           run_stdout = [], run_stderr = hunk_error_text io_text e @ [newline], run_world = pw s\<rparr>)"

fun parse_error_report :: "ParseError \<Rightarrow> string" where
  "parse_error_report (InvalidPatchError message) = ''Invalid patch: '' @ message @ [newline]"
| "parse_error_report (InvalidHunkError message line_no) =
     ''Invalid patch hunk on line '' @ show_nat line_no @ '': '' @ message @ [newline]"

definition apply_patch_text ::
  "(file_system_error \<Rightarrow> string) \<Rightarrow> string option \<Rightarrow> string \<Rightarrow> string \<Rightarrow> world \<Rightarrow> patch_run" where
  "apply_patch_text io_text home base_dir patch w =
     (case parse_patch patch of
        Inl e \<Rightarrow>
          \<lparr>run_result = Inl \<lparr>failure_error = PatchParseError e, failure_delta = empty_delta\<rparr>,
           run_stdout = [], run_stderr = parse_error_report e, run_world = w\<rparr>
      | Inr args \<Rightarrow> apply_hunks io_text home base_dir (apa_hunks args) w)"


section \<open>A file moved onto itself\<close>

definition example_world :: world where
  "example_world =
     \<lparr>tree = [[] \<mapsto> Dir, [''w''] \<mapsto> Dir, [''w'', ''a''] \<mapsto> File (''x'' @ [newline])], cwd = []\<rparr>"

definition x_to_y :: UpdateFileChunk where
  "x_to_y = \<lparr>ch_change_context = None, ch_old_lines = [''x''], ch_new_lines = [''y''], ch_is_end_of_file = False\<rparr>"

lemma moved_onto_itself_is_lost:
  "fst (apply_hunks_to_files None ''/w'' [UpdateFile ''a'' (Some ''./a'') [x_to_y]] example_world) = None \<and>
   tree (pw (snd (apply_hunks_to_files None ''/w'' [UpdateFile ''a'' (Some ''./a'') [x_to_y]] example_world))) [''w'', ''a''] = None"
  by code_simp

end
