(* ===== verification/Patch_Exactness.thy ===== *)
theory Patch_Exactness
  imports Patch_Files
begin

text \<open>
  The record of a patch is right when it says so: on a file system without symbolic links, whenever
  \<open>apply_hunks_to_files\<close> reports an exact record, after a success as after a failure, replaying the record
  on the old texts gives the new ones and undoing it on the new texts gives the old ones.
\<close>

section \<open>File systems without links\<close>

definition plain_tree :: "fs \<Rightarrow> bool" where
  "plain_tree t \<longleftrightarrow> t [] = Some Dir \<and> (\<forall>p c. t (p @ [c]) \<noteq> None \<longrightarrow> t p = Some Dir) \<and> (\<forall>p l. t p \<noteq> Some (Symlink l))"

definition texts :: "fs \<Rightarrow> path \<Rightarrow> string option" where
  "texts t q = (case t q of Some (File s) \<Rightarrow> Some s | _ \<Rightarrow> None)"

lemma plain_root: "plain_tree t \<Longrightarrow> t [] = Some Dir"
  by (simp add: plain_tree_def)

lemma plain_parent: "plain_tree t \<Longrightarrow> t (p @ q) \<noteq> None \<Longrightarrow> q \<noteq> [] \<Longrightarrow> t p = Some Dir"
proof (induction q rule: rev_induct)
  case (snoc x q)
  from snoc.prems(1,2) have "t (p @ q) = Some Dir" unfolding plain_tree_def by (metis append_assoc)
  with snoc show ?case by (cases "q = []") auto
qed simp

lemma plain_childless: "plain_tree t \<Longrightarrow> t p \<noteq> Some Dir \<Longrightarrow> t (p @ [c]) = None"
  using plain_parent [of t p "[c]"] by blast

lemma plain_treeI:
  assumes "t [] = Some Dir" "\<And>p c. t (p @ [c]) \<noteq> None \<Longrightarrow> t p = Some Dir" "\<And>p l. t p \<noteq> Some (Symlink l)"
  shows "plain_tree t"
  using assms unfolding plain_tree_def by blast

lemma name_not_dots: "name_component c \<Longrightarrow> c \<noteq> ''.'' \<and> c \<noteq> ''..''"
  by (simp add: name_component_def)

lemma walk_name:
  assumes "plain_tree t" "name_component c"
  shows "walk cr t k cur (c # cs) =
    (if t cur \<noteq> Some Dir then Inl NotADirectory
     else if t (cur @ [c]) = None then (if cr \<and> cs = [] then Inr (cur @ [c]) else Inl NotFound)
     else walk cr t k (cur @ [c]) cs)"
proof -
  have "t (cur @ [c]) \<noteq> Some (Symlink l)" for l using assms(1) by (simp add: plain_tree_def)
  with name_not_dots [OF assms(2)] show ?thesis by (auto split: option.splits node.splits)
qed

lemma walk_plain:
  "plain_tree t \<Longrightarrow> list_all name_component cs \<Longrightarrow> walk cr t k cur cs = Inr q \<Longrightarrow> t cur \<noteq> None \<Longrightarrow>
     q = cur @ cs \<and> (t q \<noteq> None \<or> cr \<and> t (butlast q) = Some Dir \<and> cs \<noteq> [])"
proof (induction cs arbitrary: cur)
  case (Cons c cs)
  then have "name_component c" by simp
  note w = walk_name [OF Cons.prems(1) this]
  show ?case
  proof (cases "t (cur @ [c]) = None")
    case True
    with Cons.prems show ?thesis by (auto simp: w simp del: walk.simps split: if_splits)
  next
    case False
    with Cons.prems have "walk cr t k (cur @ [c]) cs = Inr q" by (simp add: w del: walk.simps split: if_splits)
    with Cons.IH [of "cur @ [c]"] Cons.prems False show ?thesis by auto
  qed
qed simp

lemma walk_plain_exists:
  "plain_tree t \<Longrightarrow> list_all name_component cs \<Longrightarrow> t (cur @ cs) \<noteq> None \<Longrightarrow> walk cr t k cur cs = Inr (cur @ cs)"
proof (induction cs arbitrary: cur)
  case (Cons c cs)
  then have "name_component c" by simp
  note w = walk_name [OF Cons.prems(1) this]
  from plain_parent [OF Cons.prems(1), of cur "c # cs"] Cons.prems(3) have "t cur = Some Dir" by simp
  moreover have "t (cur @ [c]) \<noteq> None"
    using plain_parent [OF Cons.prems(1), of "cur @ [c]" cs] Cons.prems(3) by (cases "cs = []") auto
  ultimately show ?case using Cons.IH [of "cur @ [c]"] Cons.prems by (simp add: w del: walk.simps)
qed simp


section \<open>Operations on such a file system\<close>

lemma normal_names: "normal_path p \<Longrightarrow> list_all name_component (path_components p)"
  by (simp add: normal_path_def)

lemma raw_components_normal:
  assumes "normal_path p"
  shows "raw_components p = (if path_components p = [] then [''.''] else path_components p)"
proof (cases "path_components p = []")
  case True
  with assms have "p = ''/''" by (simp add: normal_path_def)
  then show ?thesis by (simp add: raw_components_def path_components_def slash_def)
next
  case False
  let ?cs = "path_components p"
  have p: "p = slash # join [slash] ?cs" using assms by (simp add: normal_path_def slash_literal [symmetric]) (simp add: slash_def)
  have names: "\<forall>c \<in> set ?cs. c \<noteq> [] \<and> slash \<notin> set c"
    using normal_names [OF assms] by (auto simp: list_all_iff name_component_def)
  have "split_on slash p = [] # ?cs" by (subst p) (use False names in \<open>simp add: split_on_join\<close>)
  moreover have "last p \<noteq> slash"
  proof -
    have "last (join [slash] ds) = last (last ds) \<and> join [slash] ds \<noteq> []" if "ds \<noteq> []" "\<forall>c \<in> set ds. c \<noteq> []" for ds
      using that by (induction "[slash]" ds rule: join.induct) auto
    with False names have "last (join [slash] ?cs) = last (last ?cs)" "join [slash] ?cs \<noteq> []" by auto
    moreover have "last (last ?cs) \<in> set (last ?cs)" "last ?cs \<in> set ?cs" using False names by auto
    ultimately have "last (join [slash] ?cs) \<noteq> slash" "join [slash] ?cs \<noteq> []" using names by metis+
    then show ?thesis by (subst p) simp
  qed
  ultimately show ?thesis using False names by (auto simp: raw_components_def intro: filter_True)
qed

lemma walk_normal:
  assumes "plain_tree t" "normal_path p"
  shows "walk cr t k [] (raw_components p) = walk cr t k [] (path_components p)"
  using plain_root [OF assms(1)] by (simp add: raw_components_normal [OF assms(2)])

lemma start_normal: "normal_path p \<Longrightarrow> start_dir w p = [] \<and> p \<noteq> []"
  using normal_path_absolute [of p] by (auto simp: start_dir_def is_absolute_def)

lemma canonicalize_normal:
  assumes "plain_tree (tree w)" "normal_path p"
  shows "canonicalize w p = walk False (tree w) LINK_LIMIT [] (path_components p)"
  using start_normal [OF assms(2)] by (simp add: canonicalize_def walk_normal [OF assms] del: walk.simps)

lemma canonicalize_plain:
  assumes "plain_tree (tree w)" "normal_path p" "canonicalize w p = Inr q"
  shows "q = path_components p \<and> tree w q \<noteq> None"
proof -
  from assms(3) have "walk False (tree w) LINK_LIMIT [] (path_components p) = Inr q"
    by (simp only: canonicalize_normal [OF assms(1,2)])
  from walk_plain [OF assms(1) normal_names [OF assms(2)] this] plain_root [OF assms(1)] show ?thesis by auto
qed

lemma canonicalize_exists:
  assumes "plain_tree (tree w)" "normal_path p" "tree w (path_components p) \<noteq> None"
  shows "canonicalize w p = Inr (path_components p)"
  using walk_plain_exists [OF assms(1) normal_names [OF assms(2)], of "[]"] assms(3)
  by (simp add: canonicalize_normal [OF assms(1,2)] del: walk.simps)

lemma read_text_found:
  assumes "plain_tree (tree w)" "normal_path p" "read_file_text w p = Inr s"
  shows "tree w (path_components p) = Some (File s)"
  using assms canonicalize_plain [OF assms(1,2)]
  by (auto simp: read_file_text_def local_read_file_def split: sum.splits option.splits node.splits if_splits)

lemma read_text_missing:
  assumes "plain_tree (tree w)" "normal_path p" "read_file_text w p = Inl (Os NotFound)"
  shows "texts (tree w) (path_components p) = None"
proof (rule ccontr)
  assume "texts (tree w) (path_components p) \<noteq> None"
  then obtain s where s: "tree w (path_components p) = Some (File s)"
    by (auto simp: texts_def split: option.splits node.splits)
  with canonicalize_exists [OF assms(1,2)] have "canonicalize w p = Inr (path_components p)" by simp
  with s assms(3) show False by (auto simp: read_file_text_def local_read_file_def split: if_splits)
qed

lemma texts_update [simp]: "texts (t(q \<mapsto> File s)) = (texts t)(q \<mapsto> s)"
  by (auto simp: texts_def)

lemma texts_remove [simp]: "texts (t(q := None)) = (texts t)(q := None)"
  by (auto simp: texts_def)

lemma plain_write:
  assumes "plain_tree t" "t q \<noteq> Some Dir" "t (butlast q) = Some Dir" "q \<noteq> []"
  shows "plain_tree (t(q \<mapsto> File s))"
  unfolding plain_tree_def
proof (intro conjI allI impI)
  show "(t(q \<mapsto> File s)) [] = Some Dir" using assms plain_root by auto
  fix p c assume *: "(t(q \<mapsto> File s)) (p @ [c]) \<noteq> None"
  have "t p = Some Dir"
  proof (cases "p @ [c] = q")
    case True
    with assms(3) show ?thesis by auto
  next
    case False
    with * assms(1) show ?thesis by (auto simp: plain_tree_def)
  qed
  with assms(2) show "(t(q \<mapsto> File s)) p = Some Dir" by auto
qed (use assms(1) in \<open>auto simp: plain_tree_def\<close>)

lemma plain_remove:
  assumes "plain_tree t" "t q \<noteq> Some Dir"
  shows "plain_tree (t(q := None))"
proof (rule plain_treeI)
  fix p c assume "(t(q := None)) (p @ [c]) \<noteq> None"
  then have "t (p @ [c]) \<noteq> None" by (auto split: if_splits)
  with plain_parent [OF assms(1)] have "t p = Some Dir" by blast
  with assms(2) show "(t(q := None)) p = Some Dir" by auto
qed (use assms plain_root [OF assms(1)] in \<open>auto simp: plain_tree_def\<close>)

lemma plain_mkdir:
  assumes "plain_tree t" "t (butlast q) = Some Dir" "q \<noteq> []"
  shows "plain_tree (t(q \<mapsto> Dir))"
proof (rule plain_treeI)
  fix p c assume *: "(t(q \<mapsto> Dir)) (p @ [c]) \<noteq> None"
  show "(t(q \<mapsto> Dir)) p = Some Dir"
  proof (cases "p @ [c] = q")
    case True
    with assms(2) show ?thesis by auto
  next
    case False
    with * plain_parent [OF assms(1), of p "[c]"] show ?thesis by auto
  qed
qed (use assms plain_root [OF assms(1)] in \<open>auto simp: plain_tree_def\<close>)

lemma write_plain:
  assumes "plain_tree (tree w)" "normal_path p" "local_write_file w p s = Inr w'"
  shows "plain_tree (tree w') \<and> texts (tree w') = (texts (tree w))(path_components p \<mapsto> s)"
proof -
  from assms(3) obtain q where q: "walk True (tree w) LINK_LIMIT [] (path_components p) = Inr q"
    "tree w q \<noteq> Some Dir" "tree w' = (tree w)(q \<mapsto> File s)"
    using start_normal [OF assms(2)] walk_normal [OF assms(1,2)]
    by (auto simp: local_write_file_def write_path_def simp del: walk.simps split: sum.splits if_splits)
  from walk_plain [OF assms(1) normal_names [OF assms(2)] q(1)] plain_root [OF assms(1)]
  have e: "q = path_components p" "tree w q \<noteq> None \<or> tree w (butlast q) = Some Dir" by auto
  have "q \<noteq> []" using q(2) plain_root [OF assms(1)] by auto
  moreover from this e(2) have "tree w (butlast q) = Some Dir"
    using plain_parent [OF assms(1), of "butlast q" "[last q]"] by auto
  ultimately have "plain_tree (tree w')" using plain_write [OF assms(1) q(2)] q(3) by simp
  with e(1) q(3) show ?thesis by simp
qed


lemma list_all_butlast: "list_all P xs \<Longrightarrow> list_all P (butlast xs)"
  by (auto simp: list_all_iff dest: in_set_butlastD)

lemma mkdir_plain:
  assumes "plain_tree t" "list_all name_component cs" "mkdir t cs = Inr t'"
  shows "plain_tree t'"
proof -
  from assms(3) obtain d where d: "cs \<noteq> []" "walk False t LINK_LIMIT [] (butlast cs) = Inr d" "t d = Some Dir"
    "t' = t(d @ [last cs] \<mapsto> Dir)"
    by (auto simp: mkdir_def simp del: walk.simps split: if_splits sum.splits)
  from walk_plain [OF assms(1) list_all_butlast [OF assms(2)] d(2)] plain_root [OF assms(1)]
  have "d = butlast cs" by simp
  with d plain_mkdir [OF assms(1), of "d @ [last cs]"] show ?thesis by simp
qed

lemma create_dir_all_plain:
  "plain_tree t \<Longrightarrow> list_all name_component cs \<Longrightarrow> create_dir_all t cs = (r, t') \<Longrightarrow> plain_tree t'"
proof (induction t cs arbitrary: r t' rule: create_dir_all.induct)
  case (1 t cs)
  show ?case
  proof (cases "mkdir t cs")
    case (Inr t1)
    with "1.prems" mkdir_plain show ?thesis by (auto simp: create_dir_all.simps [of t cs])
  next
    case (Inl e)
    show ?thesis
    proof (cases "e \<noteq> NotFound \<or> cs = []")
      case True
      with Inl "1.prems" show ?thesis by (auto simp: create_dir_all.simps [of t cs] split: if_splits)
    next
      case False
      obtain r1 t1 where rec: "create_dir_all t (butlast cs) = (r1, t1)" by fastforce
      have p1: "plain_tree t1"
        using "1.IH" [OF Inl] False "1.prems"(1) list_all_butlast [OF "1.prems"(2)] rec by blast
      show ?thesis
      proof (cases "mkdir t1 cs")
        case (Inl e')
        with \<open>mkdir t cs = Inl e\<close> False rec "1.prems" p1 show ?thesis
          by (auto simp: create_dir_all.simps [of t cs] split: option.splits)
      next
        case (Inr t2)
        with \<open>mkdir t cs = Inl e\<close> False rec "1.prems" p1 mkdir_plain [OF p1 "1.prems"(2) Inr] show ?thesis
          by (auto simp: create_dir_all.simps [of t cs] split: option.splits)
      qed
    qed
  qed
qed

lemma create_directory_plain:
  assumes "plain_tree (tree w)" "normal_path p" "local_create_directory w p = (r, w')"
  shows "plain_tree (tree w') \<and> texts (tree w') = texts (tree w)"
proof -
  obtain r1 t where t: "create_dir_all (tree w) (path_components p) = (r1, t)" by fastforce
  with assms(3) have "tree w' = t" by (auto simp: local_create_directory_def)
  moreover have "texts t = texts (tree w)"
  proof
    fix q show "texts t q = texts (tree w) q"
      using create_dir_all_only_dirs [OF t, of q] by (auto simp: texts_def)
  qed
  ultimately show ?thesis using create_dir_all_plain [OF assms(1) normal_names [OF assms(2)] t] by simp
qed

lemma write_retry_plain:
  assumes "plain_tree (tree w)" "normal_path p" "write_file_with_missing_parent_retry w p s = (r, w')"
  shows "plain_tree (tree w') \<and> (r = None \<longrightarrow> texts (tree w') = (texts (tree w))(path_components p \<mapsto> s))"
proof (cases "local_write_file w p s")
  case (Inr w1)
  with assms(3) write_plain [OF assms(1,2) Inr] show ?thesis
    by (simp add: write_file_with_missing_parent_retry_def)
next
  case (Inl e)
  let ?m = "case path_parent p of
      Some parent \<Rightarrow> map_prod (map_option (InContext (''Failed to create parent directories for '' @ p))) id
                       (local_create_directory w parent)
    | None \<Rightarrow> (None, w)"
  obtain r1 w1 where w1: "?m = (r1, w1)" by fastforce
  have p1: "plain_tree (tree w1)" "texts (tree w1) = texts (tree w)"
  proof -
    have "plain_tree (tree w1) \<and> texts (tree w1) = texts (tree w)"
    proof (cases "path_parent p")
      case (Some d)
      with w1 obtain r2 where "local_create_directory w d = (r2, w1)"
        by (cases "local_create_directory w d") auto
      with create_directory_plain [OF assms(1) path_parent_normal(1) [OF assms(2) Some]] show ?thesis by simp
    qed (use w1 assms(1) in auto)
    then show "plain_tree (tree w1)" "texts (tree w1) = texts (tree w)" by simp_all
  qed
  have "write_file_with_missing_parent_retry w p s =
      (if e = Os NotFound then step_then (r1, w1) (\<lambda>w. case local_write_file w p s of
           Inr w' \<Rightarrow> (None, w') | Inl e \<Rightarrow> (Some (InContext (''Failed to write file '' @ p) e), w))
       else (Some (InContext (''Failed to write file '' @ p) e), w))"
    unfolding write_file_with_missing_parent_retry_def w1 Inl by simp
  with assms p1 write_plain [OF p1(1) assms(2)] show ?thesis
    by (cases r1; cases "local_write_file w1 p s") (auto split: if_splits)
qed

lemma metadata_plain:
  assumes "plain_tree (tree w)" "normal_path p" "ensure_not_directory w p = None"
  shows "tree w (path_components p) \<noteq> Some Dir"
proof -
  from assms(3) obtain q where "canonicalize w p = Inr q" "tree w q \<noteq> Some Dir"
    by (auto simp: ensure_not_directory_def local_get_metadata_def split: sum.splits if_splits)
  with canonicalize_plain [OF assms(1,2)] show ?thesis by auto
qed

lemma remove_plain:
  assumes "plain_tree (tree w)" "normal_path p" "ensure_not_directory w p = None" "local_remove w p = Inr w'"
  shows "plain_tree (tree w') \<and> texts (tree w') = (texts (tree w))(path_components p := None)"
proof -
  let ?cs = "path_components p"
  from assms(4) obtain d where d: "?cs \<noteq> []" "walk False (tree w) LINK_LIMIT [] (butlast ?cs) = Inr d"
    "tree w' = (tree w)(d @ [last ?cs] := None)"
    using start_normal [OF assms(2)]
    by (auto simp: local_remove_def Let_def simp del: walk.simps split: sum.splits if_splits)
  from walk_plain [OF assms(1) list_all_butlast [OF normal_names [OF assms(2)]] d(2)] plain_root [OF assms(1)]
  have "d @ [last ?cs] = ?cs" using d(1) by simp
  with d(3) plain_remove [OF assms(1) metadata_plain [OF assms(1,2,3)]] show ?thesis by simp
qed


section \<open>Replaying and undoing a record\<close>

fun replay_change :: "(path \<Rightarrow> string option) \<Rightarrow> AppliedPatchChange \<Rightarrow> path \<Rightarrow> string option" where
  "replay_change m (p, AddChange content overwritten) = m(path_components p \<mapsto> content)"
| "replay_change m (p, DeleteChange content) = m(path_components p := None)"
| "replay_change m (p, UpdateChange None old overwritten new) = m(path_components p \<mapsto> new)"
| "replay_change m (p, UpdateChange (Some d) old overwritten new) =
     m(path_components d \<mapsto> new, path_components p := None)"

fun undo_change :: "(path \<Rightarrow> string option) \<Rightarrow> AppliedPatchChange \<Rightarrow> path \<Rightarrow> string option" where
  "undo_change m (p, AddChange content overwritten) = m(path_components p := overwritten)"
| "undo_change m (p, DeleteChange content) = m(path_components p \<mapsto> content)"
| "undo_change m (p, UpdateChange None old overwritten new) = m(path_components p \<mapsto> old)"
| "undo_change m (p, UpdateChange (Some d) old overwritten new) =
     m(path_components p \<mapsto> old, path_components d := overwritten)"

definition tracked :: "(path \<Rightarrow> string option) \<Rightarrow> patching \<Rightarrow> bool" where
  "tracked m s \<longleftrightarrow> plain_tree (tree (pw s)) \<and>
     (exact (pdelta s) \<longrightarrow>
        texts (tree (pw s)) = foldl replay_change m (changes (pdelta s)) \<and>
        foldl undo_change (texts (tree (pw s))) (rev (changes (pdelta s))) = m)"

lemma set_exact_simps [simp]:
  "pw (set_exact b s) = pw s" "paffected (set_exact b s) = paffected s"
  "exact (pdelta (set_exact b s)) = b" "changes (pdelta (set_exact b s)) = changes (pdelta s)"
  by (simp_all add: set_exact_def)

lemma push_change_simps [simp]:
  "pw (push_change c s) = pw s" "paffected (push_change c s) = paffected s"
  "exact (pdelta (push_change c s)) = exact (pdelta s)" "changes (pdelta (push_change c s)) = changes (pdelta s) @ [c]"
  by (simp_all add: push_change_def)

lemma note_modified_simps [simp]: "pw (note_modified p s) = pw s" "pdelta (note_modified p s) = pdelta s"
  by (simp_all add: note_modified_def)

lemma tracked_plain: "tracked m s \<Longrightarrow> plain_tree (tree (pw s))"
  by (simp add: tracked_def)

lemma tracked_weaken:
  "tracked m s \<Longrightarrow> pw s' = pw s \<Longrightarrow> changes (pdelta s') = changes (pdelta s) \<Longrightarrow>
     (exact (pdelta s') \<Longrightarrow> exact (pdelta s)) \<Longrightarrow> tracked m s'"
  by (auto simp: tracked_def)

lemma tracked_inexact: "plain_tree (tree (pw s)) \<Longrightarrow> \<not> exact (pdelta s) \<Longrightarrow> tracked m s"
  by (simp add: tracked_def)

text \<open>One change: what it records of the texts before and after it is right when the record is still exact.\<close>

lemma tracked_change:
  assumes "tracked m s" "plain_tree (tree (pw s'))"
    and "changes (pdelta s') = changes (pdelta s) @ [c]" "exact (pdelta s') \<Longrightarrow> exact (pdelta s)"
    and "exact (pdelta s') \<Longrightarrow> texts (tree (pw s')) = replay_change (texts (tree (pw s))) c"
    and "exact (pdelta s') \<Longrightarrow> undo_change (texts (tree (pw s'))) c = texts (tree (pw s))"
  shows "tracked m s'"
  using assms by (auto simp: tracked_def)

lemma noted_exact: "note_existing_path_delta_support w p ex \<Longrightarrow> ex"
  by (auto simp: note_existing_path_delta_support_def split: sum.splits if_splits)

lemma read_optional_plain:
  assumes "plain_tree (tree w)" "normal_path p" "read_optional_file_text_for_delta w p ex = (c, ex')" "ex'"
  shows "ex \<and> c = texts (tree w) (path_components p)"
proof (cases "read_file_text w p")
  case (Inl e)
  with assms(3,4) have "c = None" "e = Os NotFound" "note_existing_path_delta_support w p ex"
    by (auto simp: read_optional_file_text_for_delta_def Let_def split: if_splits)
  with read_text_missing [OF assms(1,2)] Inl noted_exact show ?thesis by metis
next
  case (Inr s)
  with assms(3,4) have "c = Some s" "note_existing_path_delta_support w p ex"
    by (auto simp: read_optional_file_text_for_delta_def Let_def)
  with read_text_found [OF assms(1,2) Inr] noted_exact show ?thesis by (auto simp: texts_def)
qed

lemma add_file_tracked:
  assumes "tracked m s" "normal_path p" "add_file a p contents s = (r, s')"
  shows "tracked m s'"
proof -
  obtain c ex where c: "read_optional_file_text_for_delta (pw s) p (exact (pdelta s)) = (c, ex)" by fastforce
  obtain r1 w1 where w1: "write_file_with_missing_parent_retry (pw s) p contents = (r1, w1)" by fastforce
  note plain = tracked_plain [OF assms(1)]
  note written = write_retry_plain [OF plain assms(2) w1]
  note read = read_optional_plain [OF plain assms(2) c]
  show ?thesis
  proof (cases r1)
    case None
    with assms(3) c w1 have s': "pw s' = w1" "exact (pdelta s') = ex"
      "changes (pdelta s') = changes (pdelta s) @ [(p, AddChange contents c)]"
      by (auto simp: add_file_def try_write_def)
    from assms(1) _ s'(3) show ?thesis
      by (rule tracked_change) (use written None read s' in auto)
  next
    case (Some e)
    with assms(3) c w1 have "pw s' = w1" "\<not> exact (pdelta s')" by (auto simp: add_file_def try_write_def)
    with written show ?thesis by (intro tracked_inexact) simp_all
  qed
qed

lemma remove_patched_cases:
  assumes "plain_tree (tree (pw s))" "normal_path p" "remove_patched ctx p expected s = (r, s')"
  obtains (failed) e where "r = Some e" "pw s' = pw s" "changes (pdelta s') = changes (pdelta s)"
      "exact (pdelta s') \<Longrightarrow> exact (pdelta s)"
    | (removed) w where "r = None" "s' = s\<lparr>pw := w\<rparr>" "plain_tree (tree w)"
      "texts (tree w) = (texts (tree (pw s)))(path_components p := None)"
proof (cases "ensure_not_directory (pw s) p")
  case None
  show thesis
  proof (cases "local_remove (pw s) p")
    case (Inl e)
    with None assms(3) show thesis by (intro failed) (auto simp: remove_patched_def)
  next
    case (Inr w)
    with None assms(3) remove_plain [OF assms(1,2) None Inr] show thesis
      by (intro removed) (auto simp: remove_patched_def)
  qed
next
  case (Some e)
  with assms(3) show thesis by (intro failed) (auto simp: remove_patched_def)
qed

lemma delete_file_tracked:
  assumes "tracked m s" "normal_path p" "delete_file a p s = (r, s')"
  shows "tracked m s'"
proof -
  define c where "c = (case read_file_text (pw s) p of Inr c \<Rightarrow> Some c | Inl _ \<Rightarrow> None)"
  define s1 where "s1 = set_exact (if c = None then False
      else note_existing_path_delta_support (pw s) p (exact (pdelta s))) s"
  obtain r2 s2 where s2: "remove_patched ''Failed to delete file '' p c s1 = (r2, s2)" by fastforce
  have f: "delete_file a p s = step_then (r2, s2) (\<lambda>s. (None,
      (case c of Some c \<Rightarrow> push_change (p, DeleteChange c) | None \<Rightarrow> id)
        (s\<lparr>paffected := (paffected s)\<lparr>deleted := deleted (paffected s) @ [a]\<rparr>\<rparr>)))"
    unfolding delete_file_def Let_def c_def [symmetric] s1_def [symmetric] s2 by simp
  have t1: "tracked m s1"
    using assms(1) by (rule tracked_weaken) (auto simp: s1_def dest: noted_exact split: if_splits)
  have found: "tree (pw s) (path_components p) = Some (File t)" if "c = Some t" for t
    using that read_text_found [OF tracked_plain [OF assms(1)] assms(2)] by (auto simp: c_def split: sum.splits)
  from tracked_plain [OF t1] assms(2) s2 show ?thesis
  proof (cases rule: remove_patched_cases)
    case (failed e)
    with f assms(3) have "s' = s2" by simp
    with t1 failed show ?thesis by (auto intro: tracked_weaken)
  next
    case (removed w)
    show ?thesis
    proof (cases c)
      case None
      with removed f assms(3) show ?thesis by (intro tracked_inexact) (auto simp: s1_def)
    next
      case (Some t)
      with removed f assms(3) have s': "pw s' = w" "exact (pdelta s') = exact (pdelta s1)"
        "changes (pdelta s') = changes (pdelta s1) @ [(p, DeleteChange t)]" by auto
      have was: "texts (tree (pw s1)) (path_components p) = Some t" using found [OF Some] by (simp add: texts_def s1_def)
      from t1 _ s'(3) show ?thesis by (rule tracked_change) (use removed s' was in auto)
    qed
  qed
qed


lemma move_file_tracked:
  assumes "tracked m s" "normal_path p" "normal_path d" "texts (tree (pw s)) (path_components p) = Some old"
    and "move_file a p d old new s = (r, s')"
  shows "tracked m s'"
proof -
  obtain c ex where c: "read_optional_file_text_for_delta (pw s) d (exact (pdelta s)) = (c, ex)" by fastforce
  obtain r1 w1 where w1: "write_file_with_missing_parent_retry (pw s) d new = (r1, w1)" by fastforce
  note plain = tracked_plain [OF assms(1)]
  note written = write_retry_plain [OF plain assms(3) w1]
  note read = read_optional_plain [OF plain assms(3) c]
  show ?thesis
  proof (cases r1)
    case (Some e)
    with assms(5) c w1 have "pw s' = w1" "\<not> exact (pdelta s')" by (auto simp: move_file_def try_write_def)
    with written show ?thesis by (intro tracked_inexact) simp_all
  next
    case None
    define s1 where "s1 = push_change (d, AddChange new c) ((set_exact ex s)\<lparr>pw := w1\<rparr>)"
    obtain r2 s2 where s2: "remove_patched ''Failed to remove original '' p (Some old) s1 = (r2, s2)" by fastforce
    have f: "move_file a p d old new s = step_then (r2, s2) (\<lambda>s'. (None, note_modified a
        (s'\<lparr>pdelta := (pdelta s')\<lparr>changes := (changes (pdelta s'))[length (changes (pdelta s)) :=
          (p, UpdateChange (Some d) old c new)]\<rparr>\<rparr>)))"
      unfolding move_file_def c w1 None Let_def try_write_def using s2 by (simp add: s1_def)
    have t1: "tracked m s1"
      by (rule tracked_change [OF assms(1), where c = "(d, AddChange new c)"])
         (use written None read in \<open>auto simp: s1_def\<close>)
    from tracked_plain [OF t1] assms(2) s2 show ?thesis
    proof (cases rule: remove_patched_cases)
      case (failed e)
      with f assms(5) have "s' = s2" by simp
      with t1 failed show ?thesis by (auto intro: tracked_weaken)
    next
      case (removed w)
      with f assms(5) have s': "pw s' = w" "exact (pdelta s') = ex"
        "changes (pdelta s') = changes (pdelta s) @ [(p, UpdateChange (Some d) old c new)]"
        by (auto simp: s1_def)
      have "texts (tree w) = replay_change (texts (tree (pw s))) (p, UpdateChange (Some d) old c new)"
        using removed written None by (simp add: s1_def)
      with assms(1) removed(3) s' read assms(4) show ?thesis
        by (intro tracked_change [OF assms(1) _ s'(3)]) (auto simp: fun_eq_iff)
    qed
  qed
qed

lemma update_file_tracked:
  assumes "tracked m s" "normal_path p" "is_absolute base_dir" "update_file home base_dir a p mv cs s = (r, s')"
  shows "tracked m s'"
proof -
  define s1 where "s1 = set_exact (note_existing_path_delta_support (pw s) p (exact (pdelta s))) s"
  have t1: "tracked m s1" using assms(1) by (rule tracked_weaken) (auto simp: s1_def dest: noted_exact)
  show ?thesis
  proof (cases "derive_new_contents_from_chunks (pw s1) p cs")
    case (Inl e)
    with assms(4) t1 show ?thesis by (simp add: update_file_def s1_def Let_def)
  next
    case (Inr on)
    obtain old new where on: "on = (old, new)" by fastforce
    from Inr on have "read_file_text (pw s1) p = Inr old"
      by (auto simp: derive_new_contents_from_chunks_def split: sum.splits option.splits update_error.splits)
    with read_text_found [OF tracked_plain [OF t1] assms(2)]
    have old: "texts (tree (pw s1)) (path_components p) = Some old" by (simp add: texts_def)
    show ?thesis
    proof (cases mv)
      case (Some d)
      with assms(4) Inr on
      have "move_file a p (resolve_path_against_base home d base_dir) old new s1 = (r, s')"
        by (simp add: update_file_def s1_def Let_def)
      with t1 assms(2) resolve_normal [OF assms(3)] old show ?thesis by (rule move_file_tracked)
    next
      case None
      show ?thesis
      proof (cases "local_write_file (pw s1) p new")
        case (Inl e)
        with None assms(4) \<open>derive_new_contents_from_chunks (pw s1) p cs = Inr on\<close> on tracked_plain [OF t1]
        show ?thesis by (intro tracked_inexact) (auto simp: update_file_def s1_def Let_def try_write_def)
      next
        case (Inr w)
        with None assms(4) \<open>derive_new_contents_from_chunks (pw s1) p cs = Inr on\<close> on
        have s': "pw s' = w" "exact (pdelta s') = exact (pdelta s1)"
          "changes (pdelta s') = changes (pdelta s1) @ [(p, UpdateChange None old None new)]"
          by (auto simp: update_file_def s1_def Let_def try_write_def)
        from t1 _ s'(3) show ?thesis
          by (rule tracked_change) (use write_plain [OF tracked_plain [OF t1] assms(2) Inr] s' old in auto)
      qed
    qed
  qed
qed

lemma apply_hunk_tracked:
  assumes "tracked m s" "is_absolute base_dir" "apply_hunk home base_dir h s = (r, s')"
  shows "tracked m s'"
proof (cases h)
  case (AddFile p c)
  with assms(3) have "add_file p (resolve_path_against_base home p base_dir) c s = (r, s')"
    by (simp add: apply_hunk_def)
  with assms(1) resolve_normal [OF assms(2)] show ?thesis by (rule add_file_tracked)
next
  case (DeleteFile p)
  with assms(3) have "delete_file p (resolve_path_against_base home p base_dir) s = (r, s')"
    by (simp add: apply_hunk_def)
  with assms(1) resolve_normal [OF assms(2)] show ?thesis by (rule delete_file_tracked)
next
  case (UpdateFile p mv cs)
  with assms(3) have "update_file home base_dir (hunk_path h) (resolve_path_against_base home p base_dir) mv cs s = (r, s')"
    by (simp add: apply_hunk_def)
  with assms(1) resolve_normal [OF assms(2)] assms(2) show ?thesis by (rule update_file_tracked)
qed

lemma apply_each_tracked:
  "tracked m s \<Longrightarrow> is_absolute base_dir \<Longrightarrow> apply_each home base_dir hs s = (r, s') \<Longrightarrow> tracked m s'"
proof (induction hs arbitrary: s)
  case (Cons h hs)
  obtain r1 s1 where s1: "apply_hunk home base_dir h s = (r1, s1)" by fastforce
  with Cons.prems apply_hunk_tracked have "tracked m s1" by blast
  with Cons s1 show ?case by (cases r1) auto
qed simp

text \<open>
  C1: an exact record is right. On a file system without symbolic links, apply any hunks, in any order and on
  any paths; whether they all apply or one of them fails, if the record of the changes claims to be
  exact then replaying it on the texts of before gives the texts of now, and undoing it, last change first,
  on the texts of now gives those of before; and the file system is still well formed.
\<close>

theorem exact_record_replays:
  assumes "plain_tree (tree w)" "is_absolute base_dir" "apply_hunks_to_files home base_dir hs w = (r, s)"
    and "exact (pdelta s)"
  shows "texts (tree (pw s)) = foldl replay_change (texts (tree w)) (changes (pdelta s)) \<and>
    foldl undo_change (texts (tree (pw s))) (rev (changes (pdelta s))) = texts (tree w) \<and> plain_tree (tree (pw s))"
proof -
  let ?s = "\<lparr>pw = w, pdelta = empty_delta, paffected = \<lparr>added = [], modified = [], deleted = []\<rparr>\<rparr>"
  have "tracked (texts (tree w)) ?s" using assms(1) by (simp add: tracked_def empty_delta_def)
  with assms(2,3) apply_each_tracked have "tracked (texts (tree w)) s"
    by (fastforce simp: apply_hunks_to_files_def Let_def split: if_splits)
  with assms(4) show ?thesis unfolding tracked_def by blast
qed


definition example_patch :: "Hunk list" where
  "example_patch =
     [AddFile ''b/c'' (''z'' @ [newline]), UpdateFile ''a'' (Some ''b/d'') [x_to_y], DeleteFile ''/w/b/../b/c'']"

lemma example_world_plain: "plain_tree (tree example_world)"
proof -
  have "p = [] \<or> p = [''w'']" if "p @ [c] = [''w''] \<or> p @ [c] = [''w'', ''a'']" for p c
    using that by (cases p) auto
  then show ?thesis by (auto simp: plain_tree_def example_world_def split: if_splits)
qed

theorem exact_record_replays_witness:
  "texts (tree (pw (snd (apply_hunks_to_files None ''/w'' example_patch example_world)))) =
     foldl replay_change (texts (tree example_world))
       (changes (pdelta (snd (apply_hunks_to_files None ''/w'' example_patch example_world)))) \<and>
   foldl undo_change (texts (tree (pw (snd (apply_hunks_to_files None ''/w'' example_patch example_world)))))
     (rev (changes (pdelta (snd (apply_hunks_to_files None ''/w'' example_patch example_world))))) =
     texts (tree example_world) \<and>
   plain_tree (tree (pw (snd (apply_hunks_to_files None ''/w'' example_patch example_world))))"
proof -
  have "exact (pdelta (snd (apply_hunks_to_files None ''/w'' example_patch example_world)))"
    "is_absolute ''/w''" by code_simp+
  with exact_record_replays [OF example_world_plain _ prod.collapse [symmetric]] show ?thesis by blast
qed

text \<open>
  With links the flag can be wrong: a link whose target is missing counts as a missing file, so a file added
  at the link is recorded as exact, although the text has gone to the target of the link.
\<close>

definition linked_world :: world where
  "linked_world = \<lparr>tree = [[] \<mapsto> Dir, [''l''] \<mapsto> Symlink ''/t''], cwd = []\<rparr>"

lemma dangling_link_recorded_exact:
  "let s = snd (apply_hunks_to_files None ''/'' [AddFile ''l'' (''z'' @ [newline])] linked_world) in
   exact (pdelta s) \<and> changes (pdelta s) = [(''/l'', AddChange (''z'' @ [newline]) None)] \<and>
   tree (pw s) [''l''] = Some (Symlink ''/t'') \<and> tree (pw s) [''t''] = Some (File (''z'' @ [newline]))"
  by code_simp

end
