(* ===== verification/Exec_Policy.thy ===== *)
theory Exec_Policy
  imports Absolute_Path
begin

text \<open>
  Execution policies, after \<open>src/codex-rs/execpolicy/src/\<close> on Unix: which commands may run without asking,
  which need the user's approval and which are forbidden. A policy maps the first word of a command to
  rules with a prefix pattern; of the rules that match, the most restrictive decides, and a fallback decides when
  none matches. The hash maps of the source are association lists here, whose order no result depends on.
  The home and the working directory, from which a relative program path is resolved, are parameters.
\<close>

section \<open>Decisions and rules\<close>

datatype Decision = Allow | Prompt | Forbidden

fun decision_rank :: "Decision \<Rightarrow> nat" where
  "decision_rank Allow = 0"
| "decision_rank Prompt = 1"
| "decision_rank Forbidden = 2"

lemma decision_rank_inj: "decision_rank a = decision_rank b \<longleftrightarrow> a = b"
  by (cases a; cases b) simp_all

instantiation Decision :: linorder
begin

definition less_eq_Decision :: "Decision \<Rightarrow> Decision \<Rightarrow> bool" where
  "less_eq_Decision a b \<longleftrightarrow> decision_rank a \<le> decision_rank b"

definition less_Decision :: "Decision \<Rightarrow> Decision \<Rightarrow> bool" where
  "less_Decision a b \<longleftrightarrow> decision_rank a < decision_rank b"

instance
  by standard (auto simp: less_eq_Decision_def less_Decision_def decision_rank_inj)

end

lemmas decision_order = less_eq_Decision_def less_Decision_def

datatype PatternToken = Single string | Alts "string list"

record PrefixPattern =
  pp_first :: string
  pp_rest :: "PatternToken list"

datatype RuleMatch =
    PrefixRuleMatch "string list" Decision "string option" "string option"
  | HeuristicsRuleMatch "string list" Decision

record PrefixRule =
  pr_pattern :: PrefixPattern
  pr_decision :: Decision
  pr_justification :: "string option"

datatype NetworkRuleProtocol = Http | Https | Socks5Tcp | Socks5Udp

record NetworkRule =
  nr_host :: string
  nr_protocol :: NetworkRuleProtocol
  nr_decision :: Decision
  nr_justification :: "string option"

datatype policy_error =
    InvalidDecision string
  | InvalidPattern string
  | InvalidExample string
  | InvalidRule string
  | ExampleDidNotMatch "string list list"
  | ExampleDidMatch RuleMatch "string list"
  | StarlarkError string

definition policy_then :: "policy_error + 'a \<Rightarrow> ('a \<Rightarrow> policy_error + 'b) \<Rightarrow> policy_error + 'b" where
  "policy_then r f = (case r of Inl e \<Rightarrow> Inl e | Inr x \<Rightarrow> f x)"

lemma policy_then_simps [simp]: "policy_then (Inl e) f = Inl e" "policy_then (Inr x) f = f x"
  by (simp_all add: policy_then_def)

lemma policy_then_InrE:
  assumes "policy_then r f = Inr y"
  obtains x where "r = Inr x" "f x = Inr y"
  using assms by (cases r) simp_all

definition Decision_parse :: "string \<Rightarrow> policy_error + Decision" where
  "Decision_parse raw =
     (if raw = ''allow'' then Inr Allow
      else if raw = ''prompt'' then Inr Prompt
      else if raw = ''forbidden'' then Inr Forbidden
      else Inl (InvalidDecision raw))"

fun token_matches :: "PatternToken \<Rightarrow> string \<Rightarrow> bool" where
  "token_matches (Single expected) token \<longleftrightarrow> expected = token"
| "token_matches (Alts alternatives) token \<longleftrightarrow> list_ex (\<lambda>alt. alt = token) alternatives"

fun alternatives :: "PatternToken \<Rightarrow> string list" where
  "alternatives (Single expected) = [expected]"
| "alternatives (Alts alts) = alts"

definition matches_prefix :: "PrefixPattern \<Rightarrow> string list \<Rightarrow> string list option" where
  "matches_prefix p cmd =
     (let pattern_length = length (pp_rest p) + 1 in
      if length cmd < pattern_length \<or> hd cmd \<noteq> pp_first p then None
      else if list_all (\<lambda>(pattern_token, cmd_token). token_matches pattern_token cmd_token)
                (zip (pp_rest p) (take (length (pp_rest p)) (drop 1 cmd)))
      then Some (take pattern_length cmd) else None)"

fun match_decision :: "RuleMatch \<Rightarrow> Decision" where
  "match_decision (PrefixRuleMatch _ d _ _) = d"
| "match_decision (HeuristicsRuleMatch _ d) = d"

fun with_resolved_program :: "string \<Rightarrow> RuleMatch \<Rightarrow> RuleMatch" where
  "with_resolved_program program (PrefixRuleMatch matched d _ j) = PrefixRuleMatch matched d (Some program) j"
| "with_resolved_program program other = other"

definition rule_program :: "PrefixRule \<Rightarrow> string" where
  "rule_program r = pp_first (pr_pattern r)"

definition rule_matches :: "PrefixRule \<Rightarrow> string list \<Rightarrow> RuleMatch option" where
  "rule_matches r cmd =
     map_option (\<lambda>matched_prefix. PrefixRuleMatch matched_prefix (pr_decision r) None (pr_justification r))
       (matches_prefix (pr_pattern r) cmd)"

definition NetworkRuleProtocol_parse :: "string \<Rightarrow> policy_error + NetworkRuleProtocol" where
  "NetworkRuleProtocol_parse raw =
     (if raw = ''http'' then Inr Http
      else if raw \<in> set [''https'', ''https_connect'', ''http-connect''] then Inr Https
      else if raw = ''socks5_tcp'' then Inr Socks5Tcp
      else if raw = ''socks5_udp'' then Inr Socks5Udp
      else Inl (InvalidRule (''network_rule protocol must be one of http, https, socks5_tcp, socks5_udp (got '' @ raw @ '')'')))"

fun as_policy_string :: "NetworkRuleProtocol \<Rightarrow> string" where
  "as_policy_string Http = ''http''"
| "as_policy_string Https = ''https''"
| "as_policy_string Socks5Tcp = ''socks5_tcp''"
| "as_policy_string Socks5Udp = ''socks5_udp''"

definition all_digits :: "string \<Rightarrow> bool" where
  "all_digits s \<longleftrightarrow> s \<noteq> [] \<and> list_all is_ascii_digit s"

text \<open>\<open>split_once\<close>: the texts before and after the first occurrence of a character.\<close>

definition split_once :: "char \<Rightarrow> string \<Rightarrow> (string \<times> string) option" where
  "split_once d s =
     (case dropWhile (\<lambda>c. c \<noteq> d) s of [] \<Rightarrow> None | _ # rest \<Rightarrow> Some (takeWhile (\<lambda>c. c \<noteq> d) s, rest))"

definition trim_end_matches :: "char \<Rightarrow> string \<Rightarrow> string" where
  "trim_end_matches d s = rev (dropWhile (\<lambda>c. c = d) (rev s))"

definition host_without_port :: "string \<Rightarrow> string \<Rightarrow> policy_error + string" where
  "host_without_port raw host =
     (case strip_prefix ''['' host of
        Some stripped \<Rightarrow>
          (case split_once (CHR '']'') stripped of
             None \<Rightarrow> Inl (InvalidRule ''network_rule host has an invalid bracketed IPv6 literal'')
           | Some (inside, rest) \<Rightarrow>
               (let port_ok = (case strip_prefix '':'' rest of Some port \<Rightarrow> all_digits port | None \<Rightarrow> False) in
                if rest \<noteq> [] \<and> \<not> port_ok
                then Inl (InvalidRule (''network_rule host contains an unsupported suffix: '' @ raw))
                else Inr inside))
      | None \<Rightarrow>
          (case split_once (CHR '':'') host of
             Some (candidate, port) \<Rightarrow>
               if length (filter (\<lambda>c. c = CHR '':'') host) = 1 \<and> candidate \<noteq> [] \<and> all_digits port
               then Inr candidate else Inr host
           | None \<Rightarrow> Inr host))"

definition checked_host :: "string \<Rightarrow> policy_error + string" where
  "checked_host host =
     (let normalized = map ascii_lower (trim (trim_end_matches (CHR ''.'') host)) in
      if normalized = [] then Inl (InvalidRule ''network_rule host cannot be empty'')
      else if contains normalized ''*''
      then Inl (InvalidRule ''network_rule host must be a specific host; wildcards are not allowed'')
      else if list_ex (contains normalized) whitespace_chars
      then Inl (InvalidRule ''network_rule host cannot contain whitespace'')
      else Inr normalized)"

definition normalize_network_rule_host :: "string \<Rightarrow> policy_error + string" where
  "normalize_network_rule_host raw =
     (let host = trim raw in
      if host = [] then Inl (InvalidRule ''network_rule host cannot be empty'')
      else if contains host ''://'' \<or> contains host ''/'' \<or> contains host ''?'' \<or> contains host ''#''
      then Inl (InvalidRule ''network_rule host must be a hostname or IP literal (without scheme or path)'')
      else policy_then (host_without_port raw host) checked_host)"


section \<open>Policies\<close>

type_synonym rule_map = "(string \<times> PrefixRule list) list"

record Policy =
  rules_by_program :: rule_map
  network_rules :: "NetworkRule list"
  host_executables_by_name :: "(string \<times> string list) list"

definition empty_policy :: Policy where
  "empty_policy = \<lparr>rules_by_program = [], network_rules = [], host_executables_by_name = []\<rparr>"

definition get_vec :: "rule_map \<Rightarrow> string \<Rightarrow> PrefixRule list option" where
  "get_vec m program = map_of m program"

text \<open>\<open>MultiMap::insert\<close>: the rule goes to the end of the rules of its program.\<close>

fun insert_rule :: "string \<Rightarrow> PrefixRule \<Rightarrow> rule_map \<Rightarrow> rule_map" where
  "insert_rule program r [] = [(program, [r])]"
| "insert_rule program r ((p, rs) # m) =
     (if p = program then (p, rs @ [r]) # m else (p, rs) # insert_rule program r m)"

definition render_pattern_token :: "PatternToken \<Rightarrow> string" where
  "render_pattern_token t =
     (case t of Single value \<Rightarrow> value | Alts alts \<Rightarrow> ''['' @ join ''|'' alts @ '']'')"

definition get_allowed_prefixes :: "Policy \<Rightarrow> string list list" where
  "get_allowed_prefixes p =
     remdups_adj (sort (concat (map (\<lambda>(program, rules).
       map (\<lambda>r. pp_first (pr_pattern r) # map render_pattern_token (pp_rest (pr_pattern r)))
         (filter (\<lambda>r. pr_decision r = Allow) rules)) (rules_by_program p))))"

definition add_prefix_rule :: "string list \<Rightarrow> Decision \<Rightarrow> Policy \<Rightarrow> policy_error + Policy" where
  "add_prefix_rule tokens d p =
     (case tokens of
        [] \<Rightarrow> Inl (InvalidPattern ''prefix cannot be empty'')
      | head_token # rest \<Rightarrow>
          Inr (p\<lparr>rules_by_program := insert_rule head_token
                  \<lparr>pr_pattern = \<lparr>pp_first = head_token, pp_rest = map Single rest\<rparr>, pr_decision = d,
                   pr_justification = None\<rparr> (rules_by_program p)\<rparr>))"

definition blank_justification :: "string option \<Rightarrow> bool" where
  "blank_justification j \<longleftrightarrow> (case j of Some raw \<Rightarrow> trim raw = [] | None \<Rightarrow> False)"

definition add_network_rule ::
  "string \<Rightarrow> NetworkRuleProtocol \<Rightarrow> Decision \<Rightarrow> string option \<Rightarrow> Policy \<Rightarrow> policy_error + Policy" where
  "add_network_rule host protocol d justification p =
     policy_then (normalize_network_rule_host host) (\<lambda>host.
       if blank_justification justification then Inl (InvalidRule ''justification cannot be empty'')
       else Inr (p\<lparr>network_rules := network_rules p @
              [\<lparr>nr_host = host, nr_protocol = protocol, nr_decision = d, nr_justification = justification\<rparr>]\<rparr>))"

text \<open>\<open>HashMap::insert\<close>.\<close>

definition set_host_executable_paths :: "string \<Rightarrow> string list \<Rightarrow> Policy \<Rightarrow> Policy" where
  "set_host_executable_paths name paths p =
     p\<lparr>host_executables_by_name :=
        (name, paths) # filter (\<lambda>e. fst e \<noteq> name) (host_executables_by_name p)\<rparr>"

definition merge_overlay :: "Policy \<Rightarrow> Policy \<Rightarrow> Policy" where
  "merge_overlay p overlay =
     \<lparr>rules_by_program =
        foldl (\<lambda>m (program, rules). foldl (\<lambda>m r. insert_rule program r m) m rules)
          (rules_by_program p) (rules_by_program overlay),
      network_rules = network_rules p @ network_rules overlay,
      host_executables_by_name =
        foldl (\<lambda>m (name, paths). (name, paths) # filter (\<lambda>e. fst e \<noteq> name) m)
          (host_executables_by_name p) (host_executables_by_name overlay)\<rparr>"

definition upsert_domain :: "string \<Rightarrow> string list \<Rightarrow> string list" where
  "upsert_domain host entries = filter (\<lambda>e. e \<noteq> host) entries @ [host]"

definition compile_rule :: "NetworkRule \<Rightarrow> string list \<times> string list \<Rightarrow> string list \<times> string list" where
  "compile_rule r = (\<lambda>(allowed, denied).
     case nr_decision r of
       Allow \<Rightarrow> (upsert_domain (nr_host r) allowed, filter (\<lambda>e. e \<noteq> nr_host r) denied)
     | Forbidden \<Rightarrow> (filter (\<lambda>e. e \<noteq> nr_host r) allowed, upsert_domain (nr_host r) denied)
     | Prompt \<Rightarrow> (allowed, denied))"

definition compiled_network_domains :: "Policy \<Rightarrow> string list \<times> string list" where
  "compiled_network_domains p = fold compile_rule (network_rules p) ([], [])"


section \<open>Matching\<close>

record directories =
  home_dir :: "string option"
  current_dir :: string

definition executable_lookup_key :: "string \<Rightarrow> string" where
  "executable_lookup_key raw = raw"

definition executable_path_lookup_key :: "string \<Rightarrow> string option" where
  "executable_path_lookup_key p = map_option executable_lookup_key (path_file_name p)"

definition match_exact_rules :: "Policy \<Rightarrow> string list \<Rightarrow> RuleMatch list option" where
  "match_exact_rules p cmd =
     (case cmd of
        [] \<Rightarrow> None
      | first # _ \<Rightarrow>
          Some (case get_vec (rules_by_program p) first of
                  Some rules \<Rightarrow> List.map_filter (\<lambda>r. rule_matches r cmd) rules
                | None \<Rightarrow> []))"

definition match_host_executable_rules :: "directories \<Rightarrow> Policy \<Rightarrow> string list \<Rightarrow> RuleMatch list" where
  "match_host_executable_rules dirs p cmd =
     (case cmd of
        [] \<Rightarrow> []
      | first # args \<Rightarrow>
          (let program = from_absolute_path (home_dir dirs) (current_dir dirs) first in
           case executable_path_lookup_key program of
             None \<Rightarrow> []
           | Some basename \<Rightarrow>
               (case get_vec (rules_by_program p) basename of
                  None \<Rightarrow> []
                | Some rules \<Rightarrow>
                    if (case map_of (host_executables_by_name p) basename of
                          Some paths \<Rightarrow> \<not> list_ex (\<lambda>q. q = program) paths
                        | None \<Rightarrow> False)
                    then []
                    else map (with_resolved_program program)
                           (List.map_filter (\<lambda>r. rule_matches r (basename # args)) rules))))"

definition matches_for_command_with_options ::
  "directories \<Rightarrow> Policy \<Rightarrow> string list \<Rightarrow> (string list \<Rightarrow> Decision) option \<Rightarrow> bool \<Rightarrow> RuleMatch list" where
  "matches_for_command_with_options dirs p cmd heuristics_fallback resolve_host_executables =
     (let exact = (case match_exact_rules p cmd of Some ms \<Rightarrow> ms | None \<Rightarrow> []);
          matched_rules = (if exact \<noteq> [] then exact
                           else if resolve_host_executables then match_host_executable_rules dirs p cmd else [])
      in case heuristics_fallback of
           Some f \<Rightarrow> if matched_rules = [] then [HeuristicsRuleMatch cmd (f cmd)] else matched_rules
         | None \<Rightarrow> matched_rules)"

definition matches_for_command ::
  "directories \<Rightarrow> Policy \<Rightarrow> string list \<Rightarrow> (string list \<Rightarrow> Decision) option \<Rightarrow> RuleMatch list" where
  "matches_for_command dirs p cmd heuristics_fallback =
     matches_for_command_with_options dirs p cmd heuristics_fallback False"

record Evaluation =
  ev_decision :: Decision
  ev_matched_rules :: "RuleMatch list"

definition is_match :: "Evaluation \<Rightarrow> bool" where
  "is_match e = list_ex (\<lambda>m. case m of HeuristicsRuleMatch _ _ \<Rightarrow> False | _ \<Rightarrow> True) (ev_matched_rules e)"

text \<open>\<open>from_matches\<close> panics on an empty list, which is the result \<open>None\<close>.\<close>

definition from_matches :: "RuleMatch list \<Rightarrow> Evaluation option" where
  "from_matches matched_rules =
     (case map match_decision matched_rules of
        [] \<Rightarrow> None
      | d # ds \<Rightarrow> Some \<lparr>ev_decision = fold max ds d, ev_matched_rules = matched_rules\<rparr>)"

definition check_with_options ::
  "directories \<Rightarrow> Policy \<Rightarrow> string list \<Rightarrow> (string list \<Rightarrow> Decision) \<Rightarrow> bool \<Rightarrow> Evaluation option" where
  "check_with_options dirs p cmd heuristics_fallback resolve_host_executables =
     from_matches (matches_for_command_with_options dirs p cmd (Some heuristics_fallback) resolve_host_executables)"

definition check :: "directories \<Rightarrow> Policy \<Rightarrow> string list \<Rightarrow> (string list \<Rightarrow> Decision) \<Rightarrow> Evaluation option" where
  "check dirs p cmd heuristics_fallback = check_with_options dirs p cmd heuristics_fallback False"

definition check_multiple_with_options ::
  "directories \<Rightarrow> Policy \<Rightarrow> string list list \<Rightarrow> (string list \<Rightarrow> Decision) \<Rightarrow> bool \<Rightarrow> Evaluation option" where
  "check_multiple_with_options dirs p commands heuristics_fallback resolve_host_executables =
     from_matches (concat (map (\<lambda>command.
       matches_for_command_with_options dirs p command (Some heuristics_fallback) resolve_host_executables) commands))"

definition check_multiple ::
  "directories \<Rightarrow> Policy \<Rightarrow> string list list \<Rightarrow> (string list \<Rightarrow> Decision) \<Rightarrow> Evaluation option" where
  "check_multiple dirs p commands heuristics_fallback =
     check_multiple_with_options dirs p commands heuristics_fallback False"

end
