(* ===== verification/Policy_Builder.thy ===== *)
theory Policy_Builder
  imports Exec_Policy
begin

text \<open>
  How an execution policy is made: the functions a policy file calls (\<open>src/codex-rs/execpolicy/src/parser.rs\<close>),
  the check of the examples a rule comes with (\<open>rule.rs\<close>) and the lines that are appended to a policy file
  when the user approves a command for good (\<open>amend.rs\<close>). The Starlark interpreter is a parameter: it gives,
  for the text of a file, the calls the file makes in order and the error it stops with, if any. So is
  the splitting of an example into shell words.
\<close>

section \<open>Values of a policy file\<close>

datatype starlark_value = VStr string | VList "starlark_value list" | VOther string

fun get_type :: "starlark_value \<Rightarrow> string" where
  "get_type (VStr _) = ''string''"
| "get_type (VList _) = ''list''"
| "get_type (VOther t) = t"

fun collect_results :: "('a \<Rightarrow> policy_error + 'b) \<Rightarrow> 'a list \<Rightarrow> policy_error + 'b list" where
  "collect_results f [] = Inr []"
| "collect_results f (x # xs) = policy_then (f x) (\<lambda>y. policy_then (collect_results f xs) (\<lambda>ys. Inr (y # ys)))"

definition unpack_string :: "(string \<Rightarrow> policy_error) \<Rightarrow> starlark_value \<Rightarrow> policy_error + string" where
  "unpack_string e v = (case v of VStr s \<Rightarrow> Inr s | _ \<Rightarrow> Inl (e (get_type v)))"

definition parse_pattern_token :: "starlark_value \<Rightarrow> policy_error + PatternToken" where
  "parse_pattern_token v =
     (case v of
        VStr s \<Rightarrow> Inr (Single s)
      | VList vs \<Rightarrow>
          policy_then (collect_results (unpack_string (\<lambda>t.
              InvalidPattern (''pattern alternative must be a string (got '' @ t @ '')''))) vs) (\<lambda>tokens.
            case tokens of
              [] \<Rightarrow> Inl (InvalidPattern ''pattern alternatives cannot be empty'')
            | [single] \<Rightarrow> Inr (Single single)
            | _ \<Rightarrow> Inr (Alts tokens))
      | VOther t \<Rightarrow> Inl (InvalidPattern (''pattern element must be a string or list of strings (got '' @ t @ '')'')))"

definition parse_pattern :: "starlark_value list \<Rightarrow> policy_error + PatternToken list" where
  "parse_pattern items =
     policy_then (collect_results parse_pattern_token items) (\<lambda>tokens.
       if tokens = [] then Inl (InvalidPattern ''pattern cannot be empty'') else Inr tokens)"

definition parse_string_example :: "(string \<Rightarrow> string list option) \<Rightarrow> string \<Rightarrow> policy_error + string list" where
  "parse_string_example shlex_split raw =
     (case shlex_split raw of
        None \<Rightarrow> Inl (InvalidExample ''example string has invalid shell syntax'')
      | Some tokens \<Rightarrow> if tokens = [] then Inl (InvalidExample ''example cannot be an empty string'') else Inr tokens)"

definition parse_list_example :: "starlark_value list \<Rightarrow> policy_error + string list" where
  "parse_list_example vs =
     policy_then (collect_results (unpack_string (\<lambda>t.
         InvalidExample (''example tokens must be strings (got '' @ t @ '')''))) vs) (\<lambda>tokens.
       if tokens = [] then Inl (InvalidExample ''example cannot be an empty list'') else Inr tokens)"

definition parse_example :: "(string \<Rightarrow> string list option) \<Rightarrow> starlark_value \<Rightarrow> policy_error + string list" where
  "parse_example shlex_split v =
     (case v of
        VStr raw \<Rightarrow> parse_string_example shlex_split raw
      | VList vs \<Rightarrow> parse_list_example vs
      | VOther t \<Rightarrow> Inl (InvalidExample (''example must be a string or list of strings (got '' @ t @ '')'')))"

definition parse_examples ::
  "(string \<Rightarrow> string list option) \<Rightarrow> starlark_value list option \<Rightarrow> policy_error + string list list" where
  "parse_examples shlex_split examples =
     (case examples of None \<Rightarrow> Inr [] | Some vs \<Rightarrow> collect_results (parse_example shlex_split) vs)"

definition parse_literal_absolute_path :: "directories \<Rightarrow> string \<Rightarrow> policy_error + string" where
  "parse_literal_absolute_path dirs raw =
     (if \<not> is_absolute raw then Inl (InvalidRule (''host_executable paths must be absolute (got '' @ raw @ '')''))
      else Inr (from_absolute_path (home_dir dirs) (current_dir dirs) raw))"

text \<open>\<open>Path::components\<close> also yields the root, and a dot that a relative path starts with.\<close>

definition component_count :: "string \<Rightarrow> nat" where
  "component_count p =
     length (path_components p) + (if is_absolute p then 1 else 0)
     + (if \<not> is_absolute p \<and> hd (split_on slash p) = ''.'' then 1 else 0)"

definition validate_host_executable_name :: "string \<Rightarrow> policy_error + unit" where
  "validate_host_executable_name name =
     (if name = [] then Inl (InvalidRule ''host_executable name cannot be empty'')
      else if component_count name \<noteq> 1 \<or> path_file_name name \<noteq> Some name
      then Inl (InvalidRule (''host_executable name must be a bare executable name (got '' @ name @ '')''))
      else Inr ())"

definition parse_network_rule_decision :: "string \<Rightarrow> policy_error + Decision" where
  "parse_network_rule_decision raw = (if raw = ''deny'' then Inr Forbidden else Decision_parse raw)"


section \<open>The builder\<close>

record PendingExampleValidation =
  pv_rules :: "PrefixRule list"
  pv_matches :: "string list list"
  pv_not_matches :: "string list list"

record PolicyBuilder =
  pb_rules_by_program :: rule_map
  pb_network_rules :: "NetworkRule list"
  pb_host_executables_by_name :: "(string \<times> string list) list"
  pb_pending_example_validations :: "PendingExampleValidation list"

definition new_builder :: PolicyBuilder where
  "new_builder = \<lparr>pb_rules_by_program = [], pb_network_rules = [], pb_host_executables_by_name = [],
     pb_pending_example_validations = []\<rparr>"

definition add_rule :: "PrefixRule \<Rightarrow> PolicyBuilder \<Rightarrow> PolicyBuilder" where
  "add_rule r b = b\<lparr>pb_rules_by_program := insert_rule (rule_program r) r (pb_rules_by_program b)\<rparr>"

definition builder_add_network_rule :: "NetworkRule \<Rightarrow> PolicyBuilder \<Rightarrow> PolicyBuilder" where
  "builder_add_network_rule r b = b\<lparr>pb_network_rules := pb_network_rules b @ [r]\<rparr>"

definition add_host_executable :: "string \<Rightarrow> string list \<Rightarrow> PolicyBuilder \<Rightarrow> PolicyBuilder" where
  "add_host_executable name paths b =
     b\<lparr>pb_host_executables_by_name :=
        (name, paths) # filter (\<lambda>e. fst e \<noteq> name) (pb_host_executables_by_name b)\<rparr>"

definition add_pending_example_validation :: "PendingExampleValidation \<Rightarrow> PolicyBuilder \<Rightarrow> PolicyBuilder" where
  "add_pending_example_validation v b =
     b\<lparr>pb_pending_example_validations := pb_pending_example_validations b @ [v]\<rparr>"

definition build :: "PolicyBuilder \<Rightarrow> Policy" where
  "build b = \<lparr>rules_by_program = pb_rules_by_program b, network_rules = pb_network_rules b,
     host_executables_by_name = pb_host_executables_by_name b\<rparr>"

definition validate_match_examples :: "directories \<Rightarrow> Policy \<Rightarrow> string list list \<Rightarrow> policy_error + unit" where
  "validate_match_examples dirs p examples =
     (let unmatched_examples = filter (\<lambda>e. matches_for_command_with_options dirs p e None True = []) examples in
      if unmatched_examples = [] then Inr () else Inl (ExampleDidNotMatch unmatched_examples))"

fun validate_not_match_examples :: "directories \<Rightarrow> Policy \<Rightarrow> string list list \<Rightarrow> policy_error + unit" where
  "validate_not_match_examples dirs p [] = Inr ()"
| "validate_not_match_examples dirs p (e # es) =
     (case matches_for_command_with_options dirs p e None True of
        m # _ \<Rightarrow> Inl (ExampleDidMatch m e)
      | [] \<Rightarrow> validate_not_match_examples dirs p es)"

definition validation_policy :: "PolicyBuilder \<Rightarrow> PendingExampleValidation \<Rightarrow> Policy" where
  "validation_policy b v =
     \<lparr>rules_by_program = foldl (\<lambda>m r. insert_rule (rule_program r) r m) [] (pv_rules v), network_rules = [],
      host_executables_by_name = pb_host_executables_by_name b\<rparr>"

fun validate_pending :: "directories \<Rightarrow> PolicyBuilder \<Rightarrow> PendingExampleValidation list \<Rightarrow> policy_error + unit" where
  "validate_pending dirs b [] = Inr ()"
| "validate_pending dirs b (v # vs) =
     policy_then (validate_not_match_examples dirs (validation_policy b v) (pv_not_matches v)) (\<lambda>_.
     policy_then (validate_match_examples dirs (validation_policy b v) (pv_matches v)) (\<lambda>_.
     validate_pending dirs b vs))"

definition validate_pending_examples_from :: "directories \<Rightarrow> nat \<Rightarrow> PolicyBuilder \<Rightarrow> policy_error + unit" where
  "validate_pending_examples_from dirs start b =
     validate_pending dirs b (drop start (pb_pending_example_validations b))"


section \<open>The functions of a policy file\<close>

definition checked_justification :: "string option \<Rightarrow> policy_error + string option" where
  "checked_justification j =
     (if blank_justification j then Inl (InvalidRule ''justification cannot be empty'') else Inr j)"

definition prefix_rule ::
  "(string \<Rightarrow> string list option) \<Rightarrow> starlark_value list \<Rightarrow> string option \<Rightarrow> starlark_value list option
     \<Rightarrow> starlark_value list option \<Rightarrow> string option \<Rightarrow> PolicyBuilder \<Rightarrow> policy_error + PolicyBuilder" where
  "prefix_rule shlex_split pattern decision match not_match justification b =
     policy_then (case decision of Some raw \<Rightarrow> Decision_parse raw | None \<Rightarrow> Inr Allow) (\<lambda>decision.
     policy_then (checked_justification justification) (\<lambda>justification.
     policy_then (parse_pattern pattern) (\<lambda>pattern_tokens.
     policy_then (parse_examples shlex_split match) (\<lambda>matches.
     policy_then (parse_examples shlex_split not_match) (\<lambda>not_matches.
     case pattern_tokens of
       [] \<Rightarrow> Inl (InvalidPattern ''pattern cannot be empty'')
     | first # rest \<Rightarrow>
         (let rules = map (\<lambda>head. \<lparr>pr_pattern = \<lparr>pp_first = head, pp_rest = rest\<rparr>, pr_decision = decision,
                pr_justification = justification\<rparr>) (alternatives first);
              b = add_pending_example_validation
                    \<lparr>pv_rules = rules, pv_matches = matches, pv_not_matches = not_matches\<rparr> b
          in Inr (fold add_rule rules b)))))))"

definition network_rule ::
  "string \<Rightarrow> string \<Rightarrow> string \<Rightarrow> string option \<Rightarrow> PolicyBuilder \<Rightarrow> policy_error + PolicyBuilder" where
  "network_rule host protocol decision justification b =
     policy_then (NetworkRuleProtocol_parse protocol) (\<lambda>protocol.
     policy_then (parse_network_rule_decision decision) (\<lambda>decision.
     policy_then (checked_justification justification) (\<lambda>justification.
     policy_then (normalize_network_rule_host host) (\<lambda>host.
     Inr (builder_add_network_rule
       \<lparr>nr_host = host, nr_protocol = protocol, nr_decision = decision, nr_justification = justification\<rparr> b)))))"

fun executable_paths ::
  "directories \<Rightarrow> string \<Rightarrow> starlark_value list \<Rightarrow> string list \<Rightarrow> policy_error + string list" where
  "executable_paths dirs name [] parsed_paths = Inr parsed_paths"
| "executable_paths dirs name (v # vs) parsed_paths =
     policy_then (unpack_string (\<lambda>t. InvalidRule (''host_executable paths must be strings (got '' @ t @ '')'')) v) (\<lambda>raw.
     policy_then (parse_literal_absolute_path dirs raw) (\<lambda>p.
     if executable_path_lookup_key p \<noteq> Some (executable_lookup_key name)
     then Inl (InvalidRule (''host_executable path `'' @ raw @ ''` must have basename `'' @ name @ ''`''))
     else executable_paths dirs name vs
            (if list_ex (\<lambda>existing. existing = p) parsed_paths then parsed_paths else parsed_paths @ [p])))"

definition host_executable ::
  "directories \<Rightarrow> string \<Rightarrow> starlark_value list \<Rightarrow> PolicyBuilder \<Rightarrow> policy_error + PolicyBuilder" where
  "host_executable dirs name paths b =
     policy_then (validate_host_executable_name name) (\<lambda>_.
     policy_then (executable_paths dirs name paths []) (\<lambda>parsed_paths.
     Inr (add_host_executable (executable_lookup_key name) parsed_paths b)))"

datatype policy_call =
    PrefixRuleCall "starlark_value list" "string option" "starlark_value list option"
      "starlark_value list option" "string option"
  | NetworkRuleCall string string string "string option"
  | HostExecutableCall string "starlark_value list"

fun run_call ::
  "(string \<Rightarrow> string list option) \<Rightarrow> directories \<Rightarrow> policy_call \<Rightarrow> PolicyBuilder \<Rightarrow> policy_error + PolicyBuilder" where
  "run_call shlex_split dirs (PrefixRuleCall pattern decision match not_match justification) b =
     prefix_rule shlex_split pattern decision match not_match justification b"
| "run_call shlex_split dirs (NetworkRuleCall host protocol decision justification) b =
     network_rule host protocol decision justification b"
| "run_call shlex_split dirs (HostExecutableCall name paths) b = host_executable dirs name paths b"

text \<open>A call that fails ends the evaluation; what was added before it stays in the builder.\<close>

fun run_calls ::
  "(string \<Rightarrow> string list option) \<Rightarrow> directories \<Rightarrow> policy_call list \<Rightarrow> PolicyBuilder
     \<Rightarrow> policy_error option \<times> PolicyBuilder" where
  "run_calls shlex_split dirs [] b = (None, b)"
| "run_calls shlex_split dirs (c # cs) b =
     (case run_call shlex_split dirs c b of
        Inl e \<Rightarrow> (Some e, b)
      | Inr b \<Rightarrow> run_calls shlex_split dirs cs b)"

definition parse ::
  "(string \<Rightarrow> string list option) \<Rightarrow> (string \<Rightarrow> policy_call list \<times> string option) \<Rightarrow> directories \<Rightarrow> string
     \<Rightarrow> PolicyBuilder \<Rightarrow> policy_error option \<times> PolicyBuilder" where
  "parse shlex_split eval dirs policy_file_contents b =
     (let pending_validation_count = length (pb_pending_example_validations b);
          (calls, stop) = eval policy_file_contents;
          (failed, b) = run_calls shlex_split dirs calls b
      in case failed of
           Some e \<Rightarrow> (Some e, b)
         | None \<Rightarrow>
             (case stop of
                Some m \<Rightarrow> (Some (StarlarkError m), b)
              | None \<Rightarrow>
                  (case validate_pending_examples_from dirs pending_validation_count b of
                     Inl e \<Rightarrow> (Some e, b)
                   | Inr _ \<Rightarrow> (None, b))))"

fun parse_files ::
  "(string \<Rightarrow> string list option) \<Rightarrow> (string \<Rightarrow> policy_call list \<times> string option) \<Rightarrow> directories \<Rightarrow> string list
     \<Rightarrow> PolicyBuilder \<Rightarrow> policy_error + PolicyBuilder" where
  "parse_files shlex_split eval dirs [] b = Inr b"
| "parse_files shlex_split eval dirs (f # fs) b =
     (case parse shlex_split eval dirs f b of
        (Some e, _) \<Rightarrow> Inl e
      | (None, b) \<Rightarrow> parse_files shlex_split eval dirs fs b)"

text \<open>The policies of several files, given their contents.\<close>

definition load_policies ::
  "(string \<Rightarrow> string list option) \<Rightarrow> (string \<Rightarrow> policy_call list \<times> string option) \<Rightarrow> directories \<Rightarrow> string list
     \<Rightarrow> policy_error + Policy" where
  "load_policies shlex_split eval dirs contents =
     map_sum id build (parse_files shlex_split eval dirs contents new_builder)"

end
