(* ===== verification/Policy_Properties.thy ===== *)
theory Policy_Properties
  imports Policy_Builder
begin

text \<open>
  What an execution policy decides: the most restrictive of the rules whose pattern covers the command, the
  rules for the name of a program given by its path, merging policies, compiling the network rules, and that
  every policy that is built from files or by the operations of \<open>policy.rs\<close> is well formed.
\<close>

section \<open>Patterns\<close>

definition covers :: "PrefixPattern \<Rightarrow> string list \<Rightarrow> bool" where
  "covers p cmd \<longleftrightarrow> length (pp_rest p) < length cmd \<and> hd cmd = pp_first p \<and>
     list_all2 token_matches (pp_rest p) (take (length (pp_rest p)) (tl cmd))"

lemma matches_prefix_covers:
  "matches_prefix p cmd = (if covers p cmd then Some (take (Suc (length (pp_rest p))) cmd) else None)"
proof (cases cmd)
  case (Cons c cs)
  have "list_all (\<lambda>(t, w). token_matches t w) (zip (pp_rest p) (take (length (pp_rest p)) cs)) \<longleftrightarrow>
      list_all2 token_matches (pp_rest p) (take (length (pp_rest p)) cs)" if "length (pp_rest p) \<le> length cs"
    using that by (auto simp: list_all2_iff list_all_iff)
  with Cons show ?thesis by (auto simp: matches_prefix_def covers_def Let_def)
qed (simp add: matches_prefix_def covers_def Let_def)

lemma token_matches_alternatives: "token_matches t w \<longleftrightarrow> w \<in> set (alternatives t)"
  by (cases t) (auto simp: list_ex_iff)

lemma covers_Nil [simp]: "\<not> covers p []"
  by (simp add: covers_def)

lemma covers_first: "covers p cmd \<Longrightarrow> hd cmd = pp_first p"
  by (simp add: covers_def)


section \<open>Well-formed policies\<close>

definition rule_map_wf :: "rule_map \<Rightarrow> bool" where
  "rule_map_wf m \<longleftrightarrow> distinct (map fst m) \<and> (\<forall>(k, rs) \<in> set m. \<forall>r \<in> set rs. rule_program r = k)"

definition map_rules :: "rule_map \<Rightarrow> PrefixRule set" where
  "map_rules m = (\<Union>(k, rs) \<in> set m. set rs)"

definition host_wf :: "string \<Rightarrow> bool" where
  "host_wf h \<longleftrightarrow> h \<noteq> [] \<and> map ascii_lower h = h \<and> CHR ''*'' \<notin> set h \<and> CHR ''/'' \<notin> set h
     \<and> (\<forall>w \<in> set whitespace_chars. \<not> contains h w)"

definition executables_wf :: "(string \<times> string list) list \<Rightarrow> bool" where
  "executables_wf m \<longleftrightarrow> distinct (map fst m) \<and>
     (\<forall>(name, paths) \<in> set m. distinct paths \<and> (\<forall>q \<in> set paths. normal_path q \<and> path_file_name q = Some name))"

definition policy_wf :: "Policy \<Rightarrow> bool" where
  "policy_wf p \<longleftrightarrow> rule_map_wf (rules_by_program p) \<and> (\<forall>r \<in> set (network_rules p). host_wf (nr_host r))
     \<and> executables_wf (host_executables_by_name p)"

definition policy_rules :: "Policy \<Rightarrow> PrefixRule set" where
  "policy_rules p = map_rules (rules_by_program p)"

lemma map_rules_simps [simp]: "map_rules [] = {}" "map_rules ((k, rs) # m) = set rs \<union> map_rules m"
  by (simp_all add: map_rules_def)

lemma insert_rule_keys: "set (map fst (insert_rule k r m)) = insert k (set (map fst m))"
  by (induction k r m rule: insert_rule.induct) auto

lemma insert_rule_rules [simp]: "map_rules (insert_rule k r m) = insert r (map_rules m)"
  by (induction k r m rule: insert_rule.induct) auto

lemma insert_rule_wf: "rule_map_wf m \<Longrightarrow> rule_program r = k \<Longrightarrow> rule_map_wf (insert_rule k r m)"
proof (induction k r m rule: insert_rule.induct)
  case (2 k r p rs m)
  then show ?case using insert_rule_keys [of k r m] by (auto simp: rule_map_wf_def)
qed (simp add: rule_map_wf_def)

lemma map_rules_finite: "finite (map_rules m)"
  by (auto simp: map_rules_def)

lemma map_rules_key:
  assumes "rule_map_wf m" "r \<in> map_rules m"
  obtains rs where "(rule_program r, rs) \<in> set m" "r \<in> set rs"
proof -
  from assms(2) obtain k rs where "(k, rs) \<in> set m" "r \<in> set rs" unfolding map_rules_def by auto
  moreover from this assms(1) have "rule_program r = k" unfolding rule_map_wf_def by blast
  ultimately show thesis using that by simp
qed

lemma get_vec_rules:
  assumes "rule_map_wf m"
  shows "set (case get_vec m k of Some rs \<Rightarrow> rs | None \<Rightarrow> []) = {r \<in> map_rules m. rule_program r = k}"
proof (cases "map_of m k")
  case None
  have "rule_program r \<noteq> k" if "r \<in> map_rules m" for r
    using map_rules_key [OF assms that] None unfolding map_of_eq_None_iff by (metis fst_conv image_eqI)
  with None show ?thesis by (auto simp: get_vec_def)
next
  case (Some rs)
  have "r \<in> set rs" if r: "r \<in> map_rules m" "rule_program r = k" for r
  proof -
    from map_rules_key [OF assms r(1)] r(2) obtain rs' where "(k, rs') \<in> set m" "r \<in> set rs'" by metis
    moreover from this assms have "map_of m k = Some rs'" unfolding rule_map_wf_def by (simp add: map_of_is_SomeI)
    ultimately show ?thesis using Some by simp
  qed
  moreover have "r \<in> map_rules m \<and> rule_program r = k" if "r \<in> set rs" for r
    using map_of_SomeD [OF Some] that assms unfolding map_rules_def rule_map_wf_def by blast
  ultimately show ?thesis using Some by (auto simp: get_vec_def)
qed


section \<open>What a policy decides\<close>

text \<open>The decisions of the rules that cover a command.\<close>

definition verdicts :: "Policy \<Rightarrow> string list \<Rightarrow> Decision set" where
  "verdicts p cmd = pr_decision ` {r \<in> policy_rules p. covers (pr_pattern r) cmd}"

lemma verdicts_finite: "finite (verdicts p cmd)"
  by (simp add: verdicts_def policy_rules_def map_rules_finite)

lemma map_filter_decisions:
  "match_decision ` set (List.map_filter (\<lambda>r. rule_matches r cmd) rs) =
     pr_decision ` {r \<in> set rs. covers (pr_pattern r) cmd}"
  by (induction rs) (auto simp: List.map_filter_def rule_matches_def matches_prefix_covers)

lemma exact_verdicts:
  assumes "policy_wf p"
  shows "match_decision ` set (case match_exact_rules p cmd of Some ms \<Rightarrow> ms | None \<Rightarrow> []) = verdicts p cmd"
proof (cases cmd)
  case (Cons c args)
  let ?rs = "case get_vec (rules_by_program p) c of Some rs \<Rightarrow> rs | None \<Rightarrow> []"
  have "(case match_exact_rules p cmd of Some ms \<Rightarrow> ms | None \<Rightarrow> []) = List.map_filter (\<lambda>r. rule_matches r cmd) ?rs"
    by (auto simp: match_exact_rules_def Cons List.map_filter_def split: option.splits)
  moreover have "{r \<in> set ?rs. covers (pr_pattern r) cmd} = {r \<in> policy_rules p. covers (pr_pattern r) cmd}"
    using get_vec_rules [of "rules_by_program p" c] assms covers_first [of _ cmd]
    by (auto simp: policy_wf_def policy_rules_def rule_program_def Cons)
  ultimately show ?thesis by (simp add: map_filter_decisions verdicts_def)
qed (simp add: match_exact_rules_def verdicts_def)

text \<open>The command with the name of its program for the path of it, unless the policy lists the paths of
  that program and this is none of them.\<close>

definition host_command :: "directories \<Rightarrow> Policy \<Rightarrow> string list \<Rightarrow> string list option" where
  "host_command dirs p cmd =
     (case cmd of
        [] \<Rightarrow> None
      | first # args \<Rightarrow>
          (let program = from_absolute_path (home_dir dirs) (current_dir dirs) first in
           case path_file_name program of
             None \<Rightarrow> None
           | Some name \<Rightarrow>
               (case map_of (host_executables_by_name p) name of
                  Some paths \<Rightarrow> if program \<in> set paths then Some (name # args) else None
                | None \<Rightarrow> Some (name # args))))"

lemma resolved_decision [simp]: "match_decision (with_resolved_program q m) = match_decision m"
  by (cases m) simp_all

lemma host_verdicts:
  assumes "policy_wf p"
  shows "match_decision ` set (match_host_executable_rules dirs p cmd) =
    (case host_command dirs p cmd of None \<Rightarrow> {} | Some c \<Rightarrow> verdicts p c)"
proof (cases cmd)
  case (Cons c args)
  let ?q = "from_absolute_path (home_dir dirs) (current_dir dirs) c"
  show ?thesis
  proof (cases "path_file_name ?q")
    case None
    with Cons show ?thesis
      by (simp add: match_host_executable_rules_def host_command_def executable_path_lookup_key_def Let_def)
  next
    case (Some name)
    let ?blocked = "case map_of (host_executables_by_name p) name of Some ps \<Rightarrow> ?q \<notin> set ps | None \<Rightarrow> False"
    have hc: "host_command dirs p cmd = (if ?blocked then None else Some (name # args))"
      using Cons Some by (auto simp: host_command_def Let_def split: option.splits)
    let ?exact = "case match_exact_rules p (name # args) of Some ms \<Rightarrow> ms | None \<Rightarrow> []"
    have "match_host_executable_rules dirs p cmd = (if ?blocked then [] else map (with_resolved_program ?q) ?exact)"
      using Cons Some
      by (auto simp: match_host_executable_rules_def match_exact_rules_def executable_path_lookup_key_def
          executable_lookup_key_def Let_def list_ex_iff split: option.splits)
    moreover have "match_decision ` set (map (with_resolved_program ?q) ?exact) = match_decision ` set ?exact"
      by (force simp: image_image)
    ultimately show ?thesis using exact_verdicts [OF assms, of "name # args"] hc by simp
  qed
qed (simp add: match_host_executable_rules_def host_command_def)

lemma fold_max_decision: "fold max ds d = Max (insert d (set ds))" for d :: Decision
  by (metis Max.set_eq_fold list.simps(15))

lemma from_matches_max:
  "ms \<noteq> [] \<Longrightarrow> from_matches ms = Some \<lparr>ev_decision = Max (match_decision ` set ms), ev_matched_rules = ms\<rparr>"
  by (cases ms) (simp_all add: from_matches_def fold_max_decision)

definition decided :: "directories \<Rightarrow> Policy \<Rightarrow> string list \<Rightarrow> (string list \<Rightarrow> Decision) \<Rightarrow> bool \<Rightarrow> Decision set" where
  "decided dirs p cmd f resolve =
     (if verdicts p cmd \<noteq> {} then verdicts p cmd
      else case (if resolve then host_command dirs p cmd else None) of
          Some c \<Rightarrow> if verdicts p c \<noteq> {} then verdicts p c else {f cmd}
        | None \<Rightarrow> {f cmd})"

lemma matches_decided:
  assumes "policy_wf p"
  shows "match_decision ` set (matches_for_command_with_options dirs p cmd (Some f) resolve) = decided dirs p cmd f resolve"
    "matches_for_command_with_options dirs p cmd (Some f) resolve \<noteq> []"
proof -
  let ?e = "case match_exact_rules p cmd of Some ms \<Rightarrow> ms | None \<Rightarrow> []"
  let ?h = "match_host_executable_rules dirs p cmd"
  have e: "?e = [] \<longleftrightarrow> verdicts p cmd = {}"
    using exact_verdicts [OF assms, of cmd] by (metis image_is_empty set_empty)
  have h: "?h = [] \<longleftrightarrow> (case host_command dirs p cmd of None \<Rightarrow> {} | Some c \<Rightarrow> verdicts p c) = {}"
    using host_verdicts [OF assms, of dirs cmd] by (metis image_is_empty set_empty)
  show "match_decision ` set (matches_for_command_with_options dirs p cmd (Some f) resolve) = decided dirs p cmd f resolve"
    using e h exact_verdicts [OF assms, of cmd] host_verdicts [OF assms, of dirs cmd]
    by (auto simp: matches_for_command_with_options_def Let_def decided_def split: option.splits)
  show "matches_for_command_with_options dirs p cmd (Some f) resolve \<noteq> []"
    by (simp add: matches_for_command_with_options_def Let_def)
qed

lemma check_decided:
  assumes "policy_wf p"
  shows "map_option ev_decision (check_with_options dirs p cmd f resolve) = Some (Max (decided dirs p cmd f resolve))"
  using matches_decided [OF assms] by (simp add: check_with_options_def from_matches_max)

text \<open>
  C4: the most restrictive rule decides. For every command a well-formed policy has a verdict: the most
  restrictive decision among the rules whose pattern covers the command; if there is none and programs are
  resolved, that among the rules that cover the command with the name of its program for its path, if the
  policy admits that path; and otherwise the decision of the fallback.
\<close>

theorem most_restrictive_rule_decides:
  assumes "policy_wf p"
  shows "map_option ev_decision (check_with_options dirs p cmd f resolve) =
    Some (if verdicts p cmd \<noteq> {} then Max (verdicts p cmd)
          else case (if resolve then host_command dirs p cmd else None) of
              Some c \<Rightarrow> if verdicts p c \<noteq> {} then Max (verdicts p c) else f cmd
            | None \<Rightarrow> f cmd)"
  by (simp add: check_decided [OF assms] decided_def split: option.splits)


definition example_policy :: Policy where
  "example_policy =
     \<lparr>rules_by_program =
        [(''git'', [\<lparr>pr_pattern = \<lparr>pp_first = ''git'', pp_rest = []\<rparr>, pr_decision = Allow, pr_justification = None\<rparr>,
                    \<lparr>pr_pattern = \<lparr>pp_first = ''git'', pp_rest = [Alts [''push'', ''fetch'']]\<rparr>,
                     pr_decision = Prompt, pr_justification = None\<rparr>])],
      network_rules = [], host_executables_by_name = [(''git'', [''/usr/bin/git''])]\<rparr>"

lemma example_policy_wf: "policy_wf example_policy"
  by code_simp

theorem most_restrictive_rule_decides_witness:
  "map_option ev_decision (check_with_options \<lparr>home_dir = None, current_dir = ''/''\<rparr> example_policy
       [''/usr/bin/../bin/git'', ''push''] (\<lambda>_. Forbidden) True) = Some Prompt"
  by (subst most_restrictive_rule_decides [OF example_policy_wf]) code_simp

text \<open>
  Several commands are as restricted as the most restricted of them. Checking a list of commands at once
  panics exactly when the list is empty; otherwise the decision is the most restrictive of the decisions
  for the single commands.
\<close>

theorem check_multiple_most_restrictive:
  assumes "policy_wf p"
  shows "map_option ev_decision (check_multiple_with_options dirs p cmds f resolve) =
    (if cmds = [] then None
     else Some (Max ((\<lambda>cmd. ev_decision (the (check_with_options dirs p cmd f resolve))) ` set cmds)))"
proof (cases "cmds = []")
  case False
  let ?m = "\<lambda>cmd. matches_for_command_with_options dirs p cmd (Some f) resolve"
  have ne: "?m cmd \<noteq> []" for cmd using matches_decided(2) [OF assms] .
  have d: "ev_decision (the (check_with_options dirs p cmd f resolve)) = Max (match_decision ` set (?m cmd))" for cmd
    using ne by (simp add: check_with_options_def from_matches_max)
  from False ne have "concat (map ?m cmds) \<noteq> []" by (cases cmds) auto
  then have "map_option ev_decision (check_multiple_with_options dirs p cmds f resolve) =
      Some (Max (\<Union>cmd \<in> set cmds. match_decision ` set (?m cmd)))"
    by (simp add: check_multiple_with_options_def from_matches_max image_UN)
  also have "Max (\<Union>cmd \<in> set cmds. match_decision ` set (?m cmd)) =
      Max ((\<lambda>cmd. Max (match_decision ` set (?m cmd))) ` set cmds)"
  proof (rule antisym)
    show "Max (\<Union>cmd \<in> set cmds. match_decision ` set (?m cmd)) \<le> Max ((\<lambda>cmd. Max (match_decision ` set (?m cmd))) ` set cmds)"
    proof (rule Max.boundedI)
      fix x assume "x \<in> (\<Union>cmd \<in> set cmds. match_decision ` set (?m cmd))"
      then obtain cmd where c: "cmd \<in> set cmds" "x \<in> match_decision ` set (?m cmd)" by blast
      then have "x \<le> Max (match_decision ` set (?m cmd))" by simp
      also have "\<dots> \<le> Max ((\<lambda>cmd. Max (match_decision ` set (?m cmd))) ` set cmds)" using c(1) by (intro Max_ge) auto
      finally show "x \<le> Max ((\<lambda>cmd. Max (match_decision ` set (?m cmd))) ` set cmds)" .
    qed (use False ne in auto)
    show "Max ((\<lambda>cmd. Max (match_decision ` set (?m cmd))) ` set cmds) \<le> Max (\<Union>cmd \<in> set cmds. match_decision ` set (?m cmd))"
      using False ne by (intro Max.boundedI) (auto intro!: Max_mono)
  qed
  finally show ?thesis using False d by simp
qed (simp add: check_multiple_with_options_def from_matches_def)

theorem check_multiple_most_restrictive_witness:
  "map_option ev_decision (check_multiple_with_options \<lparr>home_dir = None, current_dir = ''/''\<rparr> example_policy
       [[''git'', ''status''], [''git'', ''fetch''], []] (\<lambda>_. Allow) False) = Some Prompt"
  by (subst check_multiple_most_restrictive [OF example_policy_wf]) code_simp


section \<open>Operations on policies\<close>

lemma foldl_insert_rules:
  "map_rules (foldl (\<lambda>m r. insert_rule k r m) m rs) = map_rules m \<union> set rs"
  by (induction rs arbitrary: m) auto

lemma foldl_insert_wf:
  "rule_map_wf m \<Longrightarrow> \<forall>r \<in> set rs. rule_program r = k \<Longrightarrow> rule_map_wf (foldl (\<lambda>m r. insert_rule k r m) m rs)"
  by (induction rs arbitrary: m) (auto simp: insert_rule_wf)

lemma merge_rules:
  "map_rules (foldl (\<lambda>m (k, rs). foldl (\<lambda>m r. insert_rule k r m) m rs) m o') = map_rules m \<union> map_rules o'"
  by (induction o' arbitrary: m) (auto simp: foldl_insert_rules)

lemma merge_rules_wf:
  "rule_map_wf m \<Longrightarrow> \<forall>(k, rs) \<in> set o'. \<forall>r \<in> set rs. rule_program r = k \<Longrightarrow>
     rule_map_wf (foldl (\<lambda>m (k, rs). foldl (\<lambda>m r. insert_rule k r m) m rs) m o')"
  by (induction o' arbitrary: m) (auto simp: foldl_insert_wf)

lemma executables_insert_wf:
  assumes "executables_wf m" "distinct ps" "\<forall>q \<in> set ps. normal_path q \<and> path_file_name q = Some name"
  shows "executables_wf ((name, ps) # filter (\<lambda>e. fst e \<noteq> name) m)"
  using assms by (auto simp: executables_wf_def distinct_map_filter)

lemma executables_merge_wf:
  "executables_wf m \<Longrightarrow> executables_wf o' \<Longrightarrow>
     executables_wf (foldl (\<lambda>m (name, ps). (name, ps) # filter (\<lambda>e. fst e \<noteq> name) m) m o')"
proof (induction o' arbitrary: m)
  case (Cons e o')
  obtain name ps where e: "e = (name, ps)" by fastforce
  with Cons.prems(2) have "executables_wf ((name, ps) # filter (\<lambda>e. fst e \<noteq> name) m)"
    by (intro executables_insert_wf [OF Cons.prems(1)]) (auto simp: executables_wf_def)
  moreover have "executables_wf o'" using Cons.prems(2) by (simp add: executables_wf_def)
  ultimately show ?case using Cons.IH e by simp
qed simp

lemma merge_overlay_wf:
  assumes "policy_wf p" "policy_wf q"
  shows "policy_wf (merge_overlay p q)"
proof -
  have "rule_map_wf (rules_by_program (merge_overlay p q))"
    unfolding merge_overlay_def Policy.simps using assms by (intro merge_rules_wf) (auto simp: policy_wf_def rule_map_wf_def)
  moreover have "executables_wf (host_executables_by_name (merge_overlay p q))"
    unfolding merge_overlay_def Policy.simps using assms by (intro executables_merge_wf) (auto simp: policy_wf_def)
  ultimately show ?thesis using assms by (auto simp: policy_wf_def) (auto simp: merge_overlay_def)
qed

lemma merge_overlay_verdicts: "verdicts (merge_overlay p q) cmd = verdicts p cmd \<union> verdicts q cmd"
  by (auto simp: verdicts_def policy_rules_def merge_overlay_def merge_rules)

text \<open>
  C14: an overlay can only tighten. If a rule of the base policy covers a command, then the decision after an
  overlay is merged in is at least as restrictive as before, whatever the overlay allows; the merged policy
  is well formed; and its network rules are those of the base followed by those of the overlay.
\<close>

theorem overlay_only_tightens:
  assumes "policy_wf p" "policy_wf q" "verdicts p cmd \<noteq> {}"
    and "check_with_options dirs p cmd f resolve = Some e"
    and "check_with_options dirs (merge_overlay p q) cmd f resolve = Some e'"
  shows "ev_decision e \<le> ev_decision e' \<and> policy_wf (merge_overlay p q) \<and>
    network_rules (merge_overlay p q) = network_rules p @ network_rules q"
proof -
  have "ev_decision e = Max (verdicts p cmd)"
    using check_decided [OF assms(1), of dirs cmd f resolve] assms(3,4) by (simp add: decided_def)
  moreover have "ev_decision e' = Max (verdicts p cmd \<union> verdicts q cmd)"
    using check_decided [OF merge_overlay_wf [OF assms(1,2)], of dirs cmd f resolve] assms(3,5)
    by (simp add: decided_def merge_overlay_verdicts)
  moreover have "Max (verdicts p cmd) \<le> Max (verdicts p cmd \<union> verdicts q cmd)"
    using assms(3) verdicts_finite by (intro Max_mono) auto
  ultimately show ?thesis using merge_overlay_wf [OF assms(1,2)] by (simp add: merge_overlay_def)
qed

definition example_overlay :: Policy where
  "example_overlay =
     \<lparr>rules_by_program = [(''git'', [\<lparr>pr_pattern = \<lparr>pp_first = ''git'', pp_rest = [Single ''push'']\<rparr>,
        pr_decision = Allow, pr_justification = None\<rparr>])], network_rules = [], host_executables_by_name = []\<rparr>"

theorem overlay_only_tightens_witness:
  "Prompt \<le> Prompt \<and> policy_wf (merge_overlay example_policy example_overlay) \<and>
   network_rules (merge_overlay example_policy example_overlay) = network_rules example_policy @ network_rules example_overlay"
proof -
  let ?d = "\<lparr>home_dir = None, current_dir = ''/''\<rparr>"
  let ?c = "[''git'', ''push'']"
  have w: "policy_wf example_overlay" "verdicts example_policy ?c \<noteq> {}" by code_simp+
  have c: "map_option ev_decision (check_with_options ?d example_policy ?c (\<lambda>_. Allow) False) = Some Prompt"
    "map_option ev_decision (check_with_options ?d (merge_overlay example_policy example_overlay) ?c (\<lambda>_. Allow) False) = Some Prompt"
    by code_simp+
  then obtain e e' where e: "check_with_options ?d example_policy ?c (\<lambda>_. Allow) False = Some e" "ev_decision e = Prompt"
    "check_with_options ?d (merge_overlay example_policy example_overlay) ?c (\<lambda>_. Allow) False = Some e'" "ev_decision e' = Prompt"
    by auto
  from overlay_only_tightens [OF example_policy_wf w e(1,3)] e(2,4) show ?thesis by simp
qed


section \<open>Network rules\<close>

definition last_verdict :: "string \<Rightarrow> NetworkRule list \<Rightarrow> Decision option" where
  "last_verdict h rs =
     (let rs = filter (\<lambda>r. nr_host r = h \<and> nr_decision r \<noteq> Prompt) rs in
      if rs = [] then None else Some (nr_decision (last rs)))"

lemma last_verdict_snoc:
  "last_verdict h (rs @ [r]) =
     (if nr_host r = h \<and> nr_decision r \<noteq> Prompt then Some (nr_decision r) else last_verdict h rs)"
  by (simp add: last_verdict_def Let_def)

lemma compiled_domains:
  "fold compile_rule rs ([], []) = (allowed, denied) \<Longrightarrow>
     distinct allowed \<and> distinct denied \<and>
     (\<forall>h. (h \<in> set allowed \<longleftrightarrow> last_verdict h rs = Some Allow) \<and>
          (h \<in> set denied \<longleftrightarrow> last_verdict h rs = Some Forbidden))"
proof (induction rs arbitrary: allowed denied rule: rev_induct)
  case Nil
  then show ?case by (simp add: last_verdict_def)
next
  case (snoc r rs)
  obtain a d where ad: "fold compile_rule rs ([], []) = (a, d)" by fastforce
  note IH = snoc.IH [OF ad]
  from snoc.prems ad have r: "compile_rule r (a, d) = (allowed, denied)" by simp
  show ?case
  proof (cases "nr_decision r")
    case Allow
    with r have "allowed = upsert_domain (nr_host r) a" "denied = filter (\<lambda>e. e \<noteq> nr_host r) d"
      by (simp_all add: compile_rule_def)
    with IH Allow show ?thesis by (auto simp: last_verdict_snoc upsert_domain_def)
  next
    case Prompt
    with r IH show ?thesis by (simp add: compile_rule_def last_verdict_snoc)
  next
    case Forbidden
    with r have "allowed = filter (\<lambda>e. e \<noteq> nr_host r) a" "denied = upsert_domain (nr_host r) d"
      by (simp_all add: compile_rule_def)
    with IH Forbidden show ?thesis by (auto simp: last_verdict_snoc upsert_domain_def)
  qed
qed

text \<open>
  C24: the last rule for a host wins. Compiling the network rules of a policy gives two lists without
  duplicates and without a common host: a host is allowed if and only if the last rule for it that is
  not a prompt allows it, and denied if and only if the last such rule forbids it.
\<close>

theorem last_network_rule_wins:
  assumes "compiled_network_domains p = (allowed, denied)"
  shows "distinct allowed \<and> distinct denied \<and> set allowed \<inter> set denied = {} \<and>
    (\<forall>h. (h \<in> set allowed \<longleftrightarrow> last_verdict h (network_rules p) = Some Allow) \<and>
         (h \<in> set denied \<longleftrightarrow> last_verdict h (network_rules p) = Some Forbidden))"
  using compiled_domains [OF assms [unfolded compiled_network_domains_def]] by auto

theorem last_network_rule_wins_witness:
  "compiled_network_domains (empty_policy\<lparr>network_rules :=
      [\<lparr>nr_host = ''a'', nr_protocol = Http, nr_decision = Forbidden, nr_justification = None\<rparr>,
       \<lparr>nr_host = ''b'', nr_protocol = Http, nr_decision = Forbidden, nr_justification = None\<rparr>,
       \<lparr>nr_host = ''a'', nr_protocol = Https, nr_decision = Allow, nr_justification = None\<rparr>,
       \<lparr>nr_host = ''b'', nr_protocol = Https, nr_decision = Prompt, nr_justification = None\<rparr>]\<rparr>) = ([''a''], [''b'']) \<and>
   set [''a''] \<inter> set [''b''] = {}"
proof -
  have "compiled_network_domains (empty_policy\<lparr>network_rules :=
      [\<lparr>nr_host = ''a'', nr_protocol = Http, nr_decision = Forbidden, nr_justification = None\<rparr>,
       \<lparr>nr_host = ''b'', nr_protocol = Http, nr_decision = Forbidden, nr_justification = None\<rparr>,
       \<lparr>nr_host = ''a'', nr_protocol = Https, nr_decision = Allow, nr_justification = None\<rparr>,
       \<lparr>nr_host = ''b'', nr_protocol = Https, nr_decision = Prompt, nr_justification = None\<rparr>]\<rparr>) = ([''a''], [''b''])"
    by code_simp
  with last_network_rule_wins [OF this] show ?thesis by blast
qed

lemma ascii_lower_idem [simp]: "ascii_lower (ascii_lower c) = ascii_lower c"
  using ascii_lower_not_upper [of c] by (subst ascii_lower_def) (auto simp: Let_def)

lemma ascii_lower_slash: "ascii_lower c = CHR ''/'' \<Longrightarrow> c = CHR ''/''"
proof (rule ccontr)
  assume l: "ascii_lower c = CHR ''/''" and "c \<noteq> CHR ''/''"
  then have u: "65 \<le> (of_char c :: nat)" "(of_char c :: nat) \<le> 90" "ascii_lower c = char_of (of_char c + 32 :: nat)"
    by (auto simp: ascii_lower_def Let_def split: if_splits)
  then have "(of_char (ascii_lower c) :: nat) = of_char c + 32" by simp
  with u(1) l show False by simp
qed

lemma contains_char: "contains s [c] \<longleftrightarrow> c \<in> set s"
  by (induction s) auto

lemma trim_subset: "set (trim s) \<subseteq> set s"
proof -
  have sub: "set (strip_leading ws t) \<subseteq> set t" for ws t
    using strip_leading_suffix [of ws t] by (rule set_mono_suffix)
  have "set (trim s) \<subseteq> set (trim_start s)"
    unfolding trim_def trim_end_def using sub [of _ "rev (trim_start s)"] by simp
  also have "\<dots> \<subseteq> set s" unfolding trim_start_def by (rule sub)
  finally show ?thesis .
qed

lemma host_without_port_subset: "host_without_port raw h = Inr h' \<Longrightarrow> set h' \<subseteq> set h"
proof -
  have t: "set (takeWhile P xs) \<subseteq> set xs" for P and xs :: string by (auto dest: set_takeWhileD)
  assume "host_without_port raw h = Inr h'"
  then show ?thesis
    using t [of _ h] t [of "\<lambda>c. c \<noteq> CHR '']''" "drop 1 h"] set_drop_subset [of 1 h]
    by (auto simp: host_without_port_def split_once_def strip_prefix_def Let_def
        split: option.splits prod.splits if_splits list.splits)
qed

lemma normalized_host_wf:
  assumes "normalize_network_rule_host raw = Inr h"
  shows "host_wf h"
proof -
  from assms obtain h1 where h1: "CHR ''/'' \<notin> set (trim raw)" "host_without_port raw (trim raw) = Inr h1"
    "h = map ascii_lower (trim (trim_end_matches (CHR ''.'') h1))" "h \<noteq> []" "\<not> contains h ''*''"
    "\<not> list_ex (contains h) whitespace_chars"
    unfolding normalize_network_rule_host_def checked_host_def Let_def
    by (auto simp: contains_char elim!: policy_then_InrE split: if_splits)
  have "set (trim (trim_end_matches (CHR ''.'') h1)) \<subseteq> set (trim_end_matches (CHR ''.'') h1)" by (rule trim_subset)
  also have "\<dots> \<subseteq> set h1" by (auto simp: trim_end_matches_def dest: set_dropWhileD)
  also have "\<dots> \<subseteq> set (trim raw)" by (rule host_without_port_subset [OF h1(2)])
  finally have "CHR ''/'' \<notin> set (trim (trim_end_matches (CHR ''.'') h1))" using h1(1) by blast
  then have "CHR ''/'' \<notin> set h" unfolding h1(3) by (auto dest: ascii_lower_slash [OF sym])
  moreover have "map ascii_lower h = h" unfolding h1(3) by simp
  ultimately show ?thesis using h1(4,5,6) by (simp add: host_wf_def contains_char list_ex_iff)
qed


section \<open>Rules added by hand\<close>

lemma add_prefix_rule_wf: "policy_wf p \<Longrightarrow> add_prefix_rule tokens d p = Inr p' \<Longrightarrow> policy_wf p'"
  by (auto simp: add_prefix_rule_def policy_wf_def rule_program_def intro!: insert_rule_wf split: list.splits)

lemma add_network_rule_wf: "policy_wf p \<Longrightarrow> add_network_rule h proto d j p = Inr p' \<Longrightarrow> policy_wf p'"
  by (auto simp: add_network_rule_def policy_wf_def normalized_host_wf elim!: policy_then_InrE split: if_splits)

lemma covers_singles:
  "covers \<lparr>pp_first = t, pp_rest = map Single ts\<rparr> cmd \<longleftrightarrow> prefix (t # ts) cmd"
proof (cases cmd)
  case (Cons c cs)
  have "list_all2 token_matches (map Single ts) xs \<longleftrightarrow> ts = xs" for xs
    by (simp add: list_all2_map1 list_all2_eq [symmetric])
  moreover have "prefix ts cs \<longleftrightarrow> length ts \<le> length cs \<and> ts = take (length ts) cs"
    by (metis append_eq_conv_conj prefix_def prefix_length_le)
  ultimately show ?thesis by (auto simp: covers_def less_Suc_eq_le Cons simp del: take_Suc_Cons)
qed simp

text \<open>
  C25: an approved prefix is allowed. After the user's approval has added a rule for a prefix, every command
  that starts with it is decided by a rule and no longer by the fallback: it is allowed unless a rule the
  policy had before covers it with a more restrictive decision; other commands are decided as before.
\<close>

theorem approved_prefix_allowed:
  assumes "policy_wf p" "add_prefix_rule tokens Allow p = Inr p'"
  shows "verdicts p' cmd = verdicts p cmd \<union> (if prefix tokens cmd then {Allow} else {}) \<and>
    (prefix tokens cmd \<longrightarrow>
       map_option ev_decision (check dirs p' cmd f) = Some (Max (insert Allow (verdicts p cmd)))) \<and> policy_wf p'"
proof -
  from assms(2) obtain t ts where t: "tokens = t # ts" by (auto simp: add_prefix_rule_def split: list.splits)
  let ?r = "\<lparr>pr_pattern = \<lparr>pp_first = t, pp_rest = map Single ts\<rparr>, pr_decision = Allow, pr_justification = None\<rparr>"
  have "{r \<in> policy_rules p'. covers (pr_pattern r) cmd} =
      {r \<in> policy_rules p. covers (pr_pattern r) cmd} \<union> (if prefix tokens cmd then {?r} else {})"
    using assms(2) by (auto simp: t add_prefix_rule_def policy_rules_def covers_singles)
  then have v: "verdicts p' cmd = verdicts p cmd \<union> (if prefix tokens cmd then {Allow} else {})"
    by (simp add: verdicts_def image_Un)
  moreover have wf: "policy_wf p'" using assms by (rule add_prefix_rule_wf)
  moreover have "map_option ev_decision (check dirs p' cmd f) = Some (Max (insert Allow (verdicts p cmd)))"
    if "prefix tokens cmd"
    using check_decided [OF wf, of dirs cmd f False] that v by (simp add: check_def decided_def)
  ultimately show ?thesis by blast
qed

theorem approved_prefix_allowed_witness:
  "map_option ev_decision (check \<lparr>home_dir = None, current_dir = ''/''\<rparr>
      (example_policy\<lparr>rules_by_program := insert_rule ''ls'' \<lparr>pr_pattern = \<lparr>pp_first = ''ls'', pp_rest = [Single ''-l'']\<rparr>,
         pr_decision = Allow, pr_justification = None\<rparr> (rules_by_program example_policy)\<rparr>)
      [''ls'', ''-l'', ''x''] (\<lambda>_. Forbidden)) = Some Allow"
proof -
  let ?p = "example_policy\<lparr>rules_by_program := insert_rule ''ls'' \<lparr>pr_pattern = \<lparr>pp_first = ''ls'', pp_rest = [Single ''-l'']\<rparr>,
         pr_decision = Allow, pr_justification = None\<rparr> (rules_by_program example_policy)\<rparr>"
  have a: "add_prefix_rule [''ls'', ''-l''] Allow example_policy = Inr ?p" by (simp add: add_prefix_rule_def)
  have v: "Max (insert Allow (verdicts example_policy [''ls'', ''-l'', ''x''])) = Allow" by code_simp
  from approved_prefix_allowed [OF example_policy_wf a, of "[''ls'', ''-l'', ''x'']"] v show ?thesis by simp
qed

text \<open>
  The listed prefixes are the allowed patterns. The list of allowed prefixes is sorted, has no duplicates
  and contains exactly the printed patterns of the rules that allow.
\<close>

theorem allowed_prefixes_exact:
  "sorted (get_allowed_prefixes p) \<and> distinct (get_allowed_prefixes p) \<and>
   set (get_allowed_prefixes p) =
     (\<lambda>r. pp_first (pr_pattern r) # map render_pattern_token (pp_rest (pr_pattern r))) `
       {r \<in> policy_rules p. pr_decision r = Allow}"
proof -
  have "set (get_allowed_prefixes p) =
      (\<lambda>r. pp_first (pr_pattern r) # map render_pattern_token (pp_rest (pr_pattern r))) `
        {r \<in> policy_rules p. pr_decision r = Allow}"
    by (fastforce simp: get_allowed_prefixes_def policy_rules_def map_rules_def)
  moreover have "sorted (get_allowed_prefixes p) \<and> distinct (get_allowed_prefixes p)"
    by (simp add: get_allowed_prefixes_def sorted_remdups_adj sorted_remdups_adj_distinct)
  ultimately show ?thesis by blast
qed


section \<open>Policies from files\<close>

definition builder_wf :: "PolicyBuilder \<Rightarrow> bool" where
  "builder_wf b \<longleftrightarrow> policy_wf (build b) \<and>
     (\<forall>v \<in> set (pb_pending_example_validations b). set (pv_rules v) \<subseteq> policy_rules (build b))"

lemma new_builder_wf: "builder_wf new_builder"
  by (simp add: builder_wf_def build_def new_builder_def policy_wf_def rule_map_wf_def executables_wf_def)

lemma add_rules_simps:
  "pb_pending_example_validations (fold add_rule rs b) = pb_pending_example_validations b"
  "network_rules (build (fold add_rule rs b)) = network_rules (build b)"
  "host_executables_by_name (build (fold add_rule rs b)) = host_executables_by_name (build b)"
  "policy_rules (build (fold add_rule rs b)) = policy_rules (build b) \<union> set rs"
  by (induction rs arbitrary: b) (auto simp: add_rule_def build_def policy_rules_def)

lemma add_rules_wf: "policy_wf (build b) \<Longrightarrow> policy_wf (build (fold add_rule rs b))"
proof (induction rs arbitrary: b)
  case (Cons r rs)
  then have "policy_wf (build (add_rule r b))" by (simp add: add_rule_def build_def policy_wf_def insert_rule_wf)
  with Cons.IH show ?case by simp
qed simp

text \<open>What a call adds: well-formedness is kept and only rules and pending examples are added.\<close>

definition builder_le :: "PolicyBuilder \<Rightarrow> PolicyBuilder \<Rightarrow> bool" where
  "builder_le b b' \<longleftrightarrow> (builder_wf b \<longrightarrow> builder_wf b') \<and> policy_rules (build b) \<subseteq> policy_rules (build b') \<and>
     prefix (pb_pending_example_validations b) (pb_pending_example_validations b')"

lemma builder_le_trans: "builder_le a b \<Longrightarrow> builder_le b c \<Longrightarrow> builder_le a c"
  by (auto simp: builder_le_def)

lemma prefix_rule_le:
  assumes "prefix_rule split pat d m nm j b = Inr b'"
  shows "builder_le b b'"
proof -
  from assms obtain d' j' toks ms nms where c: "(case toks of [] \<Rightarrow> Inl (InvalidPattern ''pattern cannot be empty'')
     | first # rest \<Rightarrow>
         (let rules = map (\<lambda>head. \<lparr>pr_pattern = \<lparr>pp_first = head, pp_rest = rest\<rparr>, pr_decision = d',
                pr_justification = j'\<rparr>) (alternatives first);
              b = add_pending_example_validation \<lparr>pv_rules = rules, pv_matches = ms, pv_not_matches = nms\<rparr> b
          in Inr (fold add_rule rules b))) = Inr b'"
    unfolding prefix_rule_def by (elim policy_then_InrE) (rule that)
  then obtain v rs where v: "b' = fold add_rule rs (add_pending_example_validation v b)" "pv_rules v = rs"
  proof (cases toks)
    case (Cons first rest)
    let ?rs = "map (\<lambda>head. \<lparr>pr_pattern = \<lparr>pp_first = head, pp_rest = rest\<rparr>, pr_decision = d',
                pr_justification = j'\<rparr>) (alternatives first)"
    from c Cons show thesis
      by (intro that [of ?rs "\<lparr>pv_rules = ?rs, pv_matches = ms, pv_not_matches = nms\<rparr>"]) (simp_all add: Let_def)
  qed simp
  have "build (add_pending_example_validation v b) = build b"
    by (simp add: build_def add_pending_example_validation_def)
  with add_rules_wf [of "add_pending_example_validation v b" rs] show ?thesis
    by (auto simp: v builder_le_def builder_wf_def add_rules_simps)
       (auto simp: add_pending_example_validation_def v(2))
qed

lemma network_rule_le:
  assumes "network_rule h proto d j b = Inr b'"
  shows "builder_le b b'"
proof -
  from assms obtain r where "b' = builder_add_network_rule r b" "host_wf (nr_host r)"
    by (auto simp: network_rule_def normalized_host_wf elim!: policy_then_InrE)
  then show ?thesis
    by (simp add: builder_le_def builder_wf_def build_def builder_add_network_rule_def policy_wf_def policy_rules_def)
qed

lemma executable_paths_wf:
  "executable_paths dirs name vs ps = Inr ps' \<Longrightarrow>
     distinct ps \<and> (\<forall>q \<in> set ps. normal_path q \<and> path_file_name q = Some name) \<Longrightarrow>
     distinct ps' \<and> (\<forall>q \<in> set ps'. normal_path q \<and> path_file_name q = Some name)"
proof (induction dirs name vs ps arbitrary: ps' rule: executable_paths.induct)
  case (2 dirs name v vs ps)
  from "2.prems"(1) obtain raw q where q: "parse_literal_absolute_path dirs raw = Inr q"
    "path_file_name q = Some name"
    "executable_paths dirs name vs (if list_ex (\<lambda>e. e = q) ps then ps else ps @ [q]) = Inr ps'"
    "unpack_string (\<lambda>t. InvalidRule (''host_executable paths must be strings (got '' @ t @ '')'')) v = Inr raw"
    by (auto simp: executable_path_lookup_key_def executable_lookup_key_def elim!: policy_then_InrE split: if_splits)
  from q(1) have "normal_path q"
    by (auto simp: parse_literal_absolute_path_def from_absolute_path_def expand_absolute absolutize_def
        normalize_path_normal split: if_splits)
  with "2.prems"(2) q(2)
  have "distinct (if list_ex (\<lambda>e. e = q) ps then ps else ps @ [q]) \<and>
      (\<forall>q \<in> set (if list_ex (\<lambda>e. e = q) ps then ps else ps @ [q]). normal_path q \<and> path_file_name q = Some name)"
    by (auto simp: list_ex_iff)
  with "2.IH" [of q] q "2.prems" show ?case
    by (simp add: executable_path_lookup_key_def executable_lookup_key_def split del: if_split)
qed simp

lemma host_executable_le:
  assumes "host_executable dirs name paths b = Inr b'"
  shows "builder_le b b'"
proof -
  from assms obtain ps where ps: "executable_paths dirs name paths [] = Inr ps" "b' = add_host_executable name ps b"
    by (auto simp: host_executable_def executable_lookup_key_def elim!: policy_then_InrE)
  from executable_paths_wf [OF ps(1)] have "distinct ps" "\<forall>q \<in> set ps. normal_path q \<and> path_file_name q = Some name"
    by simp_all
  then have "executables_wf m \<Longrightarrow> executables_wf ((name, ps) # filter (\<lambda>e. fst e \<noteq> name) m)" for m
    by (rule executables_insert_wf [rotated])
  then show ?thesis
    by (auto simp: ps(2) builder_le_def builder_wf_def build_def add_host_executable_def policy_wf_def policy_rules_def)
qed

lemma run_calls_le: "run_calls split dirs cs b = (r, b') \<Longrightarrow> builder_le b b'"
proof (induction cs arbitrary: b)
  case (Cons c cs)
  show ?case
  proof (cases "run_call split dirs c b")
    case (Inr b1)
    then have "builder_le b b1"
      by (cases c) (auto intro: prefix_rule_le network_rule_le host_executable_le)
    moreover have "builder_le b1 b'" using Cons Inr by simp
    ultimately show ?thesis by (rule builder_le_trans)
  qed (use Cons.prems in \<open>simp add: builder_le_def\<close>)
qed (simp add: builder_le_def)

lemma parse_le: "parse split eval dirs s b = (r, b') \<Longrightarrow> builder_le b b'"
  unfolding parse_def Let_def
  by (auto split: prod.splits option.splits sum.splits dest!: run_calls_le)

lemma parse_files_le: "parse_files split eval dirs fs b = Inr b' \<Longrightarrow> builder_le b b'"
proof (induction fs arbitrary: b)
  case (Cons f fs)
  obtain r b1 where b1: "parse split eval dirs f b = (r, b1)" by fastforce
  with Cons.prems have "r = None" "parse_files split eval dirs fs b1 = Inr b'" by (auto split: option.splits)
  with Cons.IH parse_le [OF b1] show ?case using builder_le_trans by blast
qed (simp add: builder_le_def)

text \<open>
  C26: every loaded policy is well formed. Whatever the policy files call, in whatever order, the policy that
  loads from them keeps each rule under the first word of its pattern, has only normalised hosts without
  wildcards, white space and slashes in its network rules, and lists for each program only absolute,
  normalised, distinct paths that end in its name.
\<close>

theorem loaded_policy_wf:
  assumes "load_policies split eval dirs files = Inr p"
  shows "policy_wf p"
  using assms parse_files_le [of split eval dirs files new_builder] new_builder_wf
  by (cases "parse_files split eval dirs files new_builder") (auto simp: load_policies_def builder_le_def builder_wf_def)


definition example_file :: "string \<Rightarrow> policy_call list \<times> string option" where
  "example_file contents =
     ([NetworkRuleCall ''EXAMPLE.com.:443'' ''https_connect'' ''deny'' None,
       HostExecutableCall ''git'' [VStr ''/usr/bin/../bin/git''],
       PrefixRuleCall [VStr ''git'', VList [VStr ''push'', VStr ''fetch'']] (Some ''prompt'')
         (Some [VList [VStr ''/usr/bin/git'', VStr ''fetch'']]) (Some [VList [VStr ''git'', VStr ''log'']]) None], None)"

definition example_dirs :: directories where
  "example_dirs = \<lparr>home_dir = None, current_dir = ''/''\<rparr>"

theorem loaded_policy_wf_witness:
  "policy_wf (projr (load_policies (\<lambda>_. None) example_file example_dirs [[]]))"
proof -
  have "load_policies (\<lambda>_. None) example_file example_dirs [[]] =
      Inr (projr (load_policies (\<lambda>_. None) example_file example_dirs [[]]))" by code_simp
  then show ?thesis by (rule loaded_policy_wf)
qed


section \<open>Examples\<close>

lemma no_match_iff:
  assumes "policy_wf p"
  shows "matches_for_command_with_options dirs p cmd None True = [] \<longleftrightarrow>
    verdicts p cmd = {} \<and> (\<forall>c. host_command dirs p cmd = Some c \<longrightarrow> verdicts p c = {})"
proof -
  define e where "e = (case match_exact_rules p cmd of Some ms \<Rightarrow> ms | None \<Rightarrow> [])"
  define h where "h = match_host_executable_rules dirs p cmd"
  have "matches_for_command_with_options dirs p cmd None True = (if e \<noteq> [] then e else h)"
    unfolding matches_for_command_with_options_def Let_def e_def h_def by simp
  moreover have "match_decision ` set e = verdicts p cmd" unfolding e_def by (rule exact_verdicts [OF assms])
  moreover have "match_decision ` set h = (case host_command dirs p cmd of None \<Rightarrow> {} | Some c \<Rightarrow> verdicts p c)"
    unfolding h_def by (rule host_verdicts [OF assms])
  ultimately show ?thesis by (cases "host_command dirs p cmd") (auto split: if_splits)
qed

lemma foldl_own_insert:
  "map_rules (foldl (\<lambda>m r. insert_rule (rule_program r) r m) m rs) = map_rules m \<union> set rs"
  "rule_map_wf m \<Longrightarrow> rule_map_wf (foldl (\<lambda>m r. insert_rule (rule_program r) r m) m rs)"
  by (induction rs arbitrary: m) (auto simp: insert_rule_wf)

lemma validation_policy_facts:
  assumes "builder_wf b"
  shows "policy_wf (validation_policy b v)" "policy_rules (validation_policy b v) = set (pv_rules v)"
    "host_command dirs (validation_policy b v) cmd = host_command dirs (build b) cmd"
proof -
  show "policy_wf (validation_policy b v)"
    using assms foldl_own_insert(2) [of "[]" "pv_rules v"]
    by (simp add: builder_wf_def policy_wf_def validation_policy_def build_def rule_map_wf_def)
  show "policy_rules (validation_policy b v) = set (pv_rules v)"
    by (simp add: policy_rules_def validation_policy_def foldl_own_insert(1))
  show "host_command dirs (validation_policy b v) cmd = host_command dirs (build b) cmd"
    unfolding host_command_def validation_policy_def build_def Policy.simps ..
qed

lemma validated_not_matches:
  "validate_not_match_examples dirs p es = Inr () \<longleftrightarrow>
     (\<forall>e \<in> set es. matches_for_command_with_options dirs p e None True = [])"
  by (induction es) (auto split: list.splits)

lemma validated_pending:
  "validate_pending dirs b vs = Inr () \<Longrightarrow> v \<in> set vs \<Longrightarrow>
     (\<forall>e \<in> set (pv_matches v). matches_for_command_with_options dirs (validation_policy b v) e None True \<noteq> []) \<and>
     (\<forall>e \<in> set (pv_not_matches v). matches_for_command_with_options dirs (validation_policy b v) e None True = [])"
proof (induction vs)
  case (Cons u vs)
  from Cons.prems(1) have u: "validate_not_match_examples dirs (validation_policy b u) (pv_not_matches u) = Inr ()"
    "validate_match_examples dirs (validation_policy b u) (pv_matches u) = Inr ()" "validate_pending dirs b vs = Inr ()"
    by (auto elim!: policy_then_InrE)
  from u(2) have "\<forall>e \<in> set (pv_matches u). matches_for_command_with_options dirs (validation_policy b u) e None True \<noteq> []"
    by (auto simp: validate_match_examples_def Let_def filter_empty_conv split: if_splits)
  with u Cons show ?case by (auto simp: validated_not_matches)
qed simp

lemma verdicts_mono: "policy_rules p \<subseteq> policy_rules q \<Longrightarrow> verdicts p cmd \<subseteq> verdicts q cmd"
  by (auto simp: verdicts_def)

text \<open>
  C27: the examples of a rule hold. After a policy file has been read without an error, every command given as
  a match of one of its rules is matched by the policy, and no command given as a non-match is covered
  by that rule, neither as it is written nor with the name of its program for its path.
\<close>

theorem rule_examples_hold:
  assumes "builder_wf b" "parse split eval dirs contents b = (None, b')"
    and "v \<in> set (drop (length (pb_pending_example_validations b)) (pb_pending_example_validations b'))"
  shows "(\<forall>e \<in> set (pv_matches v). matches_for_command_with_options dirs (build b') e None True \<noteq> []) \<and>
    (\<forall>e \<in> set (pv_not_matches v). \<forall>r \<in> set (pv_rules v).
       \<not> covers (pr_pattern r) e \<and> (\<forall>c. host_command dirs (build b') e = Some c \<longrightarrow> \<not> covers (pr_pattern r) c))"
proof -
  from parse_le [OF assms(2)] assms(1) have b': "builder_wf b'" by (simp add: builder_le_def)
  note vp = validation_policy_facts [OF b', where v = v]
  have "v \<in> set (pb_pending_example_validations b')" using assms(3) by (rule in_set_dropD)
  with b' have sub: "policy_rules (validation_policy b' v) \<subseteq> policy_rules (build b')"
    by (simp add: vp(2) builder_wf_def)
  have wf: "policy_wf (build b')" using b' by (simp add: builder_wf_def)
  from assms(2) have "validate_pending_examples_from dirs (length (pb_pending_example_validations b)) b' = Inr ()"
    unfolding parse_def Let_def by (auto split: prod.splits option.splits sum.splits)
  from validated_pending [OF this [unfolded validate_pending_examples_from_def] assms(3)]
  have m: "\<forall>e \<in> set (pv_matches v). matches_for_command_with_options dirs (validation_policy b' v) e None True \<noteq> []"
    and n: "\<forall>e \<in> set (pv_not_matches v). matches_for_command_with_options dirs (validation_policy b' v) e None True = []"
    by blast+
  have "matches_for_command_with_options dirs (build b') e None True \<noteq> []" if "e \<in> set (pv_matches v)" for e
  proof
    assume "matches_for_command_with_options dirs (build b') e None True = []"
    then have none: "verdicts (build b') e = {}" "\<And>c. host_command dirs (build b') e = Some c \<Longrightarrow> verdicts (build b') c = {}"
      by (simp_all add: no_match_iff [OF wf])
    have "verdicts (validation_policy b' v) e = {}" using verdicts_mono [OF sub, of e] none(1) by simp
    moreover have "verdicts (validation_policy b' v) c = {}" if "host_command dirs (build b') e = Some c" for c
      using verdicts_mono [OF sub, of c] none(2) [OF that] by simp
    ultimately have "matches_for_command_with_options dirs (validation_policy b' v) e None True = []"
      by (simp add: no_match_iff [OF vp(1)] vp(3))
    with m that show False by simp
  qed
  moreover have "\<not> covers (pr_pattern r) e \<and> (\<forall>c. host_command dirs (build b') e = Some c \<longrightarrow> \<not> covers (pr_pattern r) c)"
    if e: "e \<in> set (pv_not_matches v)" and r: "r \<in> set (pv_rules v)" for e r
  proof -
    have d: "covers (pr_pattern r) c \<Longrightarrow> verdicts (validation_policy b' v) c \<noteq> {}" for c
      using r by (auto simp: verdicts_def vp(2))
    from n e have "verdicts (validation_policy b' v) e = {}"
      "\<And>c. host_command dirs (build b') e = Some c \<Longrightarrow> verdicts (validation_policy b' v) c = {}"
      by (simp_all add: no_match_iff [OF vp(1)] vp(3))
    with d show ?thesis by auto
  qed
  ultimately show ?thesis by blast
qed

theorem rule_examples_hold_witness:
  "matches_for_command_with_options example_dirs
     (build (snd (parse (\<lambda>_. None) example_file example_dirs [] new_builder)))
     [''/usr/bin/git'', ''fetch''] None True \<noteq> []"
proof -
  let ?p = "parse (\<lambda>_. None) example_file example_dirs [] new_builder"
  let ?v = "last (pb_pending_example_validations (snd ?p))"
  have p: "?p = (None, snd ?p)"
    "?v \<in> set (drop (length (pb_pending_example_validations new_builder)) (pb_pending_example_validations (snd ?p)))"
    "[''/usr/bin/git'', ''fetch''] \<in> set (pv_matches ?v)" by code_simp+
  from rule_examples_hold [OF new_builder_wf p(1,2)] p(3) show ?thesis by blast
qed

end
