(* ===== verification/Policy_Amend.thy ===== *)
theory Policy_Amend
  imports Policy_Builder
begin

text \<open>
  Amending a policy file, after \<open>src/codex-rs/execpolicy/src/amend.rs\<close>: when the user approves a command or a
  host for good, a line with the rule is appended to the file, unless the file has that line. The lock the
  code takes on the file is not modelled; the operations are those of the process that holds it.
\<close>

section \<open>Rule lines\<close>

text \<open>\<open>serde_json::to_string\<close> of a string.\<close>

definition json_char :: "char \<Rightarrow> string" where
  "json_char c =
     (let n = (of_char c :: nat) in
      if c = CHR 0x22 then [CHR 0x5C, CHR 0x22]
      else if c = CHR 0x5C then [CHR 0x5C, CHR 0x5C]
      else if n = 8 then [CHR 0x5C, CHR ''b'']
      else if n = 9 then [CHR 0x5C, CHR ''t'']
      else if n = 10 then [CHR 0x5C, CHR ''n'']
      else if n = 12 then [CHR 0x5C, CHR ''f'']
      else if n = 13 then [CHR 0x5C, CHR ''r'']
      else if n < 32 then [CHR 0x5C] @ ''u00'' @ [hex_digit (n div 16), hex_digit (n mod 16)]
      else [c])"

definition json_string :: "string \<Rightarrow> string" where
  "json_string s = [CHR 0x22] @ concat (map json_char s) @ [CHR 0x22]"

definition allow_rule_line :: "string list \<Rightarrow> string" where
  "allow_rule_line tokens =
     ''prefix_rule(pattern=['' @ join '', '' (map json_string tokens) @ ''], decision='' @ json_string ''allow'' @ '')''"

definition decision_string :: "Decision \<Rightarrow> string" where
  "decision_string d = (case d of Allow \<Rightarrow> ''allow'' | Prompt \<Rightarrow> ''prompt'' | Forbidden \<Rightarrow> ''deny'')"

definition network_rule_line :: "string \<Rightarrow> NetworkRuleProtocol \<Rightarrow> Decision \<Rightarrow> string option \<Rightarrow> string" where
  "network_rule_line host protocol d justification =
     (let args = [''host='' @ json_string host, ''protocol='' @ json_string (as_policy_string protocol),
                  ''decision='' @ json_string (decision_string d)]
                 @ (case justification of None \<Rightarrow> [] | Some j \<Rightarrow> [''justification='' @ json_string j])
      in ''network_rule('' @ join '', '' args @ '')'')"


section \<open>Appending\<close>

datatype amend_error =
    EmptyPrefix
  | InvalidNetworkRule string
  | MissingParent string
  | CreatePolicyDir string io_error
  | OpenPolicyFile string io_error
  | ReadPolicyFile string io_error

definition amended_contents :: "string \<Rightarrow> string \<Rightarrow> string" where
  "amended_contents contents line =
     (if list_ex (\<lambda>existing. existing = line) (str_lines contents) then contents
      else (if contents \<noteq> [] \<and> last contents \<noteq> newline then contents @ [newline] else contents) @ line @ [newline])"

text \<open>The file is opened for appending, and created if it is missing, before its text is read.\<close>

definition append_locked_line :: "string \<Rightarrow> string \<Rightarrow> world \<Rightarrow> amend_error option \<times> world" where
  "append_locked_line policy_path line w =
     (case walk True (tree w) LINK_LIMIT (start_dir w policy_path) (raw_components policy_path) of
        Inl e \<Rightarrow> (Some (OpenPolicyFile policy_path e), w)
      | Inr q \<Rightarrow>
          if tree w q = Some Dir then (Some (OpenPolicyFile policy_path IsADirectory), w)
          else
            (let contents = (case tree w q of Some (File s) \<Rightarrow> s | _ \<Rightarrow> []);
                 opened = w\<lparr>tree := (tree w)(q \<mapsto> File contents)\<rparr> in
             if \<not> utf8_valid contents then (Some (ReadPolicyFile policy_path InvalidData), opened)
             else (None, w\<lparr>tree := (tree w)(q \<mapsto> File (amended_contents contents line))\<rparr>)))"

definition append_rule_line :: "string \<Rightarrow> string \<Rightarrow> world \<Rightarrow> amend_error option \<times> world" where
  "append_rule_line policy_path line w =
     (case path_parent policy_path of
        None \<Rightarrow> (Some (MissingParent policy_path), w)
      | Some dir \<Rightarrow>
          (case mkdir (tree w) (path_components dir) of
             Inr t \<Rightarrow> append_locked_line policy_path line (w\<lparr>tree := t\<rparr>)
           | Inl e \<Rightarrow>
               if e = AlreadyExists then append_locked_line policy_path line w
               else (Some (CreatePolicyDir dir e), w)))"

definition blocking_append_allow_prefix_rule :: "string \<Rightarrow> string list \<Rightarrow> world \<Rightarrow> amend_error option \<times> world" where
  "blocking_append_allow_prefix_rule policy_path tokens w =
     (if tokens = [] then (Some EmptyPrefix, w)
      else append_rule_line policy_path (allow_rule_line tokens) w)"

definition invalid_rule_text :: "policy_error \<Rightarrow> string" where
  "invalid_rule_text e = (case e of InvalidRule m \<Rightarrow> ''invalid rule: '' @ m | _ \<Rightarrow> [])"

definition blocking_append_network_rule ::
  "string \<Rightarrow> string \<Rightarrow> NetworkRuleProtocol \<Rightarrow> Decision \<Rightarrow> string option \<Rightarrow> world \<Rightarrow> amend_error option \<times> world" where
  "blocking_append_network_rule policy_path host protocol d justification w =
     (case normalize_network_rule_host host of
        Inl e \<Rightarrow> (Some (InvalidNetworkRule (invalid_rule_text e)), w)
      | Inr host \<Rightarrow>
          if blank_justification justification
          then (Some (InvalidNetworkRule ''justification cannot be empty''), w)
          else append_rule_line policy_path (network_rule_line host protocol d justification) w)"


section \<open>Amended files\<close>

lemma json_char_no_newline: "newline \<notin> set (json_char c)"
proof -
  have hex: "hex_digit k \<noteq> newline" if "k < 16" for k
  proof
    assume "hex_digit k = newline"
    then have "(of_char (hex_digit k) :: nat) = 10" by (simp add: newline_def)
    with that show False by (simp add: hex_digit_def split: if_splits)
  qed
  have "hex_digit (of_char c div 16) \<noteq> newline" if "(of_char c :: nat) < 32" using that by (intro hex) simp
  moreover have "hex_digit (of_char c mod 16) \<noteq> newline" by (intro hex) simp
  ultimately show ?thesis by (auto simp: json_char_def Let_def newline_def)
qed

lemma json_string_no_newline: "newline \<notin> set (json_string s)"
  using json_char_no_newline by (auto simp: json_string_def newline_def)

lemma join_no_newline: "newline \<notin> set sep \<Longrightarrow> \<forall>x \<in> set xs. newline \<notin> set x \<Longrightarrow> newline \<notin> set (join sep xs)"
  by (induction sep xs rule: join.induct) auto

lemma allow_rule_line_plain: "plain_line (allow_rule_line tokens)"
proof -
  have "newline \<notin> set (allow_rule_line tokens)"
    using json_string_no_newline join_no_newline [of "'', ''" "map json_string tokens"]
    by (auto simp: allow_rule_line_def newline_def)
  then show ?thesis by (simp add: plain_line_def strip_cr_def allow_rule_line_def)
qed

lemma amended_lines:
  assumes "plain_line l" "c = [] \<or> last c \<noteq> CHR 0x0D"
  shows "str_lines (amended_contents c l) = (if l \<in> set (str_lines c) then str_lines c else str_lines c @ [l])"
proof (cases "l \<in> set (str_lines c)")
  case False
  show ?thesis
  proof (cases "c \<noteq> [] \<and> last c \<noteq> newline")
    case True
    with False assms str_lines_snoc [of "c @ [newline]" l] str_lines_newline [of c] show ?thesis
      by (simp add: amended_contents_def list_ex_iff)
  next
    case no: False
    with False assms(1) str_lines_snoc [of c l] show ?thesis by (auto simp: amended_contents_def list_ex_iff)
  qed
qed (simp add: amended_contents_def list_ex_iff)

text \<open>
  C28: an amended policy file keeps its rules. Whatever the words of the approved prefix, the rule for it is
  one line of its own after the lines the file had, and these are kept as they were; when the file has the
  line already nothing is written, so approving the same prefix again does not change the file. The
  file must not end in a carriage return without its line feed.
\<close>

theorem amended_file_keeps_rules:
  assumes "c = [] \<or> last c \<noteq> CHR 0x0D"
  shows "str_lines (amended_contents c (allow_rule_line tokens)) =
      (if allow_rule_line tokens \<in> set (str_lines c) then str_lines c else str_lines c @ [allow_rule_line tokens]) \<and>
    amended_contents (amended_contents c (allow_rule_line tokens)) (allow_rule_line tokens) =
      amended_contents c (allow_rule_line tokens)"
proof -
  note l = amended_lines [OF allow_rule_line_plain assms, of tokens]
  then have "allow_rule_line tokens \<in> set (str_lines (amended_contents c (allow_rule_line tokens)))" by simp
  then have "amended_contents (amended_contents c (allow_rule_line tokens)) (allow_rule_line tokens) =
      amended_contents c (allow_rule_line tokens)"
    by (subst amended_contents_def) (simp add: list_ex_iff)
  with l show ?thesis by blast
qed

theorem amended_file_keeps_rules_witness:
  "str_lines (amended_contents ''# rules'' (allow_rule_line [''a'' @ [newline] @ ''b''])) =
     [''# rules'', allow_rule_line [''a'' @ [newline] @ ''b'']]"
proof -
  have n: "allow_rule_line [''a'' @ [newline] @ ''b''] \<notin> set (str_lines ''# rules'')" by code_simp
  have "str_lines ''# rules'' = [''# rules'']" by code_simp
  with amended_file_keeps_rules [of "''# rules''" "[''a'' @ [newline] @ ''b'']"] n show ?thesis by simp
qed

text \<open>
  Normalising a host once does not always give a normal form: a final dot after a port keeps the port, which
  goes when the amended file is read back. The rule in memory and the rule in the file then name
  different hosts.
\<close>

lemma host_normalised_twice:
  "normalize_network_rule_host ''example.com:80.'' = Inr ''example.com:80'' \<and>
   normalize_network_rule_host ''example.com:80'' = Inr ''example.com''"
  by code_simp

end
