(* ===== verification/Oauth_Store.thy ===== *)
theory Oauth_Store
  imports Table_Prelude
begin

text \<open>
  The tables of the authorization server in front of the MCP endpoint
  (\<open>src/codex-rs/native-harness-mcp-auth/src/storage.rs\<close>): clients, authorization codes, refresh tokens, the
  identifiers of access tokens and signing keys. As in \<open>Run_Store\<close> a table is a list of typed rows in row-id
  order; the only failure of a statement that is modelled is a violated primary key. SHA-256, base64, JSON
  and RSA are libraries, collected in the parameter \<open>libs\<close>. Times are Unix seconds in an \<open>i64\<close>.
\<close>

section \<open>Libraries\<close>

record libs =
  sha256 :: "string \<Rightarrow> string"
  b64_encode :: "string \<Rightarrow> string"
  b64_decode :: "string \<Rightarrow> string option"
  json_text :: "jval \<Rightarrow> string"
  json_read :: "string \<Rightarrow> jval option"
  rsa_sign :: "string \<Rightarrow> string \<Rightarrow> string option"
  rsa_public :: "string \<Rightarrow> string option"
  rsa_from_parts :: "string \<Rightarrow> string \<Rightarrow> string option"
  rsa_verify :: "string \<Rightarrow> string \<Rightarrow> string \<Rightarrow> bool option"
  url_scheme :: "string \<Rightarrow> string option"
  url_pairs :: "string \<Rightarrow> (string \<times> string) list \<Rightarrow> string"
  url_decode :: "string \<Rightarrow> string option"

text \<open>What a request draws from outside: readings of the clock and random bytes, numbered.\<close>

record oauth_env =
  oe_now :: "nat \<Rightarrow> int"
  oe_random :: "nat \<Rightarrow> string"

definition hash_token :: "libs \<Rightarrow> string \<Rightarrow> string" where
  "hash_token l token =
     concat (map (\<lambda>byte. let n = (of_char byte :: nat) in [hex_digit (n div 16), hex_digit (n mod 16)])
       (sha256 l token))"

definition new_opaque_token :: "libs \<Rightarrow> oauth_env \<Rightarrow> nat \<Rightarrow> string" where
  "new_opaque_token l e k = b64_encode l (oe_random e k)"


section \<open>Rows\<close>

record ClientRecord =
  cl_client_id :: string
  cl_client_secret_hash :: "string option"
  cl_client_name :: "string option"
  cl_redirect_uris :: "string list"
  cl_grant_types :: "string list"
  cl_token_endpoint_auth_method :: string
  cl_created_at :: int
  cl_disabled_at :: "int option"

record AuthCodeRecord =
  ac_code_hash :: string
  ac_client_id :: string
  ac_subject :: string
  ac_redirect_uri :: string
  ac_scope :: string
  ac_code_challenge :: "string option"
  ac_code_challenge_method :: "string option"
  ac_expires_at :: int
  ac_consumed_at :: "int option"

record RefreshTokenRecord =
  rt_token_hash :: string
  rt_client_id :: string
  rt_subject :: string
  rt_scope :: string
  rt_expires_at :: int
  rt_revoked_at :: "int option"
  rt_replaced_by :: "string option"

record AccessTokenJtiRecord =
  jt_jti :: string
  jt_client_id :: string
  jt_subject :: string
  jt_expires_at :: int
  jt_revoked_at :: "int option"

record SigningKeyRecord =
  sk_kid :: string
  sk_alg :: string
  sk_private_pem :: string
  sk_public_jwk :: jval
  sk_created_at :: int
  sk_is_active :: bool

record SigningKeyEntry =
  ke_kid :: string
  ke_alg :: string
  ke_private_pem :: string
  ke_public_jwk :: jval

record oauth_store =
  os_clients :: "ClientRecord list"
  os_codes :: "AuthCodeRecord list"
  os_refresh_tokens :: "RefreshTokenRecord list"
  os_jtis :: "AccessTokenJtiRecord list"
  os_signing_keys :: "SigningKeyRecord list"

definition empty_oauth_store :: oauth_store where
  "empty_oauth_store =
     \<lparr>os_clients = [], os_codes = [], os_refresh_tokens = [], os_jtis = [], os_signing_keys = []\<rparr>"


section \<open>Operations\<close>

definition insert_client :: "ClientRecord \<Rightarrow> oauth_store \<Rightarrow> oauth_store result" where
  "insert_client record s =
     map_sum id (\<lambda>t. s\<lparr>os_clients := t\<rparr>)
       (insert_row ''clients.client_id'' cl_client_id record (os_clients s))"

definition get_client :: "string \<Rightarrow> oauth_store \<Rightarrow> ClientRecord option" where
  "get_client i s = lookup cl_client_id i (os_clients s)"

definition insert_auth_code :: "AuthCodeRecord \<Rightarrow> oauth_store \<Rightarrow> oauth_store result" where
  "insert_auth_code record s =
     map_sum id (\<lambda>t. s\<lparr>os_codes := t\<rparr>)
       (insert_row ''authorization_codes.code_hash'' ac_code_hash record (os_codes s))"

definition get_auth_code :: "string \<Rightarrow> oauth_store \<Rightarrow> AuthCodeRecord option" where
  "get_auth_code h s = lookup ac_code_hash h (os_codes s)"

definition consume_auth_code ::
  "string \<Rightarrow> int \<Rightarrow> oauth_store \<Rightarrow> AuthCodeRecord option \<times> oauth_store" where
  "consume_auth_code code_hash now_ts s =
     (case get_auth_code code_hash s of
        None \<Rightarrow> (None, s)
      | Some record \<Rightarrow>
          if is_some (ac_consumed_at record) \<or> ac_expires_at record \<le> now_ts then (None, s)
          else (Some record,
                s\<lparr>os_codes := update_rows ac_code_hash code_hash
                     (\<lambda>r. r\<lparr>ac_consumed_at := Some now_ts\<rparr>) (os_codes s)\<rparr>))"

definition insert_refresh_token :: "RefreshTokenRecord \<Rightarrow> oauth_store \<Rightarrow> oauth_store result" where
  "insert_refresh_token record s =
     map_sum id (\<lambda>t. s\<lparr>os_refresh_tokens := t\<rparr>)
       (insert_row ''refresh_tokens.token_hash'' rt_token_hash record (os_refresh_tokens s))"

definition get_refresh_token :: "string \<Rightarrow> oauth_store \<Rightarrow> RefreshTokenRecord option" where
  "get_refresh_token h s = lookup rt_token_hash h (os_refresh_tokens s)"

text \<open>\<open>COALESCE(revoked_at, ?1)\<close>: the first revocation counts.\<close>

definition coalesce :: "'a option \<Rightarrow> 'a \<Rightarrow> 'a option" where
  "coalesce x d = (case x of None \<Rightarrow> Some d | Some v \<Rightarrow> Some v)"

definition revoke_refresh_token :: "string \<Rightarrow> int \<Rightarrow> oauth_store \<Rightarrow> oauth_store" where
  "revoke_refresh_token h now_ts s =
     s\<lparr>os_refresh_tokens := update_rows rt_token_hash h
        (\<lambda>r. r\<lparr>rt_revoked_at := coalesce (rt_revoked_at r) now_ts\<rparr>) (os_refresh_tokens s)\<rparr>"

definition insert_access_jti :: "AccessTokenJtiRecord \<Rightarrow> oauth_store \<Rightarrow> oauth_store" where
  "insert_access_jti record s = s\<lparr>os_jtis := upsert jt_jti record (os_jtis s)\<rparr>"

definition get_jti :: "string \<Rightarrow> oauth_store \<Rightarrow> AccessTokenJtiRecord option" where
  "get_jti j s = lookup jt_jti j (os_jtis s)"

definition jti_is_active :: "string \<Rightarrow> int \<Rightarrow> oauth_store \<Rightarrow> bool" where
  "jti_is_active j now_ts s =
     (case get_jti j s of
        Some row \<Rightarrow> jt_revoked_at row = None \<and> jt_expires_at row > now_ts
      | None \<Rightarrow> False)"

definition revoke_jti :: "string \<Rightarrow> int \<Rightarrow> oauth_store \<Rightarrow> oauth_store" where
  "revoke_jti j now_ts s =
     s\<lparr>os_jtis := update_rows jt_jti j
        (\<lambda>r. r\<lparr>jt_revoked_at := coalesce (jt_revoked_at r) now_ts\<rparr>) (os_jtis s)\<rparr>"


section \<open>Signing keys\<close>

definition load_active_signing_key :: "oauth_store \<Rightarrow> SigningKeyRecord option" where
  "load_active_signing_key s = find sk_is_active (os_signing_keys s)"

text \<open>The two statements are not in one transaction: the update stays when the insertion fails.\<close>

definition insert_signing_key :: "SigningKeyRecord \<Rightarrow> oauth_store \<Rightarrow> error option \<times> oauth_store" where
  "insert_signing_key record s =
     (let keys = map (\<lambda>r. r\<lparr>sk_is_active := False\<rparr>) (os_signing_keys s) in
      case insert_row ''signing_keys.kid'' sk_kid record keys of
        Inl e \<Rightarrow> (Some e, s\<lparr>os_signing_keys := keys\<rparr>)
      | Inr t \<Rightarrow> (None, s\<lparr>os_signing_keys := t\<rparr>))"

text \<open>A new RSA key: its PKCS#8 text and the bytes of its modulus and exponent.\<close>

record rsa_key =
  rk_pem :: string
  rk_n :: string
  rk_e :: string

definition load_or_create_signing_key ::
  "libs \<Rightarrow> oauth_env \<Rightarrow> rsa_key result \<Rightarrow> oauth_store \<Rightarrow> SigningKeyEntry result \<times> oauth_store" where
  "load_or_create_signing_key l e new_key s =
     (case load_active_signing_key s of
        Some record \<Rightarrow>
          (Inr \<lparr>ke_kid = sk_kid record, ke_alg = sk_alg record, ke_private_pem = sk_private_pem record,
                ke_public_jwk = sk_public_jwk record\<rparr>, s)
      | None \<Rightarrow>
          (case new_key of
             Inl err \<Rightarrow> (Inl err, s)
           | Inr key \<Rightarrow>
               (let kid = ''chatcodex-'' @ b64_encode l (oe_random e 0);
                    public_jwk = JObj [(''kty'', JStr ''RSA''), (''use'', JStr ''sig''), (''alg'', JStr ''RS256''),
                      (''kid'', JStr kid), (''n'', JStr (b64_encode l (rk_n key))),
                      (''e'', JStr (b64_encode l (rk_e key)))];
                    record = \<lparr>sk_kid = kid, sk_alg = ''RS256'', sk_private_pem = rk_pem key,
                      sk_public_jwk = public_jwk, sk_created_at = oe_now e 0, sk_is_active = True\<rparr>
                in case insert_signing_key record s of
                     (Some err, s) \<Rightarrow> (Inl err, s)
                   | (None, s) \<Rightarrow>
                       (Inr \<lparr>ke_kid = kid, ke_alg = ''RS256'', ke_private_pem = rk_pem key,
                             ke_public_jwk = public_jwk\<rparr>, s))))"

lemmas oauth_store_ops =
  insert_client_def get_client_def insert_auth_code_def get_auth_code_def consume_auth_code_def
  insert_refresh_token_def get_refresh_token_def revoke_refresh_token_def insert_access_jti_def get_jti_def
  revoke_jti_def

end
