(* ===== verification/Oauth_Tokens.thy ===== *)
theory Oauth_Tokens
  imports Oauth_Store Workspace_FS
begin

text \<open>
  Who is who at the authorization server of \<open>src/codex-rs/native-harness-mcp-auth/src/\<close>: signed access tokens and
  their verification (\<open>keyring.rs\<close>), the configuration (\<open>config.rs\<close>) and the identity of the operator, taken from
  a token that Cloudflare Access signs (\<open>cf_access.rs\<close>, without the stub its tests use). Errors name the step
  that failed; the texts libraries add to them are left out.
\<close>

section \<open>Tokens\<close>

datatype jwt_error =
    HeaderBase64 | HeaderJson | MissingKid | PayloadBase64 | PayloadJson | MissingExp | MissingIss
  | PrivateKey | JwkMissing string | JwkDecoding string | JwkKey | SignatureBase64 | SignatureForm
  | SignatureFailed | CertsFetch | ClaimsForm

definition as_str :: "jval \<Rightarrow> string option" where
  "as_str v = (case v of JStr s \<Rightarrow> Some s | _ \<Rightarrow> None)"

definition as_i64 :: "jval \<Rightarrow> int option" where
  "as_i64 v = (case v of JNum n \<Rightarrow> if - (2 ^ 63) \<le> n \<and> n < 2 ^ 63 then Some n else None | _ \<Rightarrow> None)"

definition jget :: "string \<Rightarrow> jval \<Rightarrow> jval option" where
  "jget k v = (case v of JObj members \<Rightarrow> map_of members k | _ \<Rightarrow> None)"

definition get_str :: "string \<Rightarrow> jval \<Rightarrow> string option" where
  "get_str k v = Option.bind (jget k v) as_str"

definition or_error :: "jwt_error \<Rightarrow> 'a option \<Rightarrow> ('a \<Rightarrow> jwt_error + 'b) \<Rightarrow> jwt_error + 'b" where
  "or_error e x f = (case x of None \<Rightarrow> Inl e | Some v \<Rightarrow> f v)"

definition jwt_header :: "SigningKeyEntry \<Rightarrow> jval" where
  "jwt_header key = JObj [(''alg'', JStr ''RS256''), (''typ'', JStr ''JWT''), (''kid'', JStr (ke_kid key))]"

definition sign_jwt :: "libs \<Rightarrow> SigningKeyEntry \<Rightarrow> string \<Rightarrow> string option" where
  "sign_jwt l key payload_b64 =
     (let header_b64 = b64_encode l (json_text l (jwt_header key));
          signing_input = header_b64 @ ''.'' @ payload_b64
      in map_option (\<lambda>signature. signing_input @ ''.'' @ b64_encode l signature)
           (rsa_sign l (ke_private_pem key) signing_input))"

definition verifying_key :: "libs \<Rightarrow> SigningKeyEntry \<Rightarrow> jwt_error + string" where
  "verifying_key l key =
     (if ke_private_pem key \<noteq> [] then or_error PrivateKey (rsa_public l (ke_private_pem key)) Inr
      else or_error (JwkMissing ''n'') (get_str ''n'' (ke_public_jwk key)) (\<lambda>n_b64.
           or_error (JwkMissing ''e'') (get_str ''e'' (ke_public_jwk key)) (\<lambda>e_b64.
           or_error (JwkDecoding ''n'') (b64_decode l n_b64) (\<lambda>n_bytes.
           or_error (JwkDecoding ''e'') (b64_decode l e_b64) (\<lambda>e_bytes.
           or_error JwkKey (rsa_from_parts l n_bytes e_bytes) Inr)))))"

definition aud_ok :: "string \<Rightarrow> jval \<Rightarrow> bool" where
  "aud_ok audience claims =
     (case jget ''aud'' claims of
        Some (JStr s) \<Rightarrow> s = audience
      | Some (JArr vs) \<Rightarrow> list_ex (\<lambda>v. as_str v = Some audience) vs
      | _ \<Rightarrow> False)"

definition verify_signature ::
  "libs \<Rightarrow> SigningKeyEntry \<Rightarrow> string \<Rightarrow> string \<Rightarrow> jval \<Rightarrow> jwt_error + jval option" where
  "verify_signature l key signing_input signature_b64 claims =
     (case verifying_key l key of
        Inl e \<Rightarrow> Inl e
      | Inr public \<Rightarrow>
          or_error SignatureBase64 (b64_decode l signature_b64) (\<lambda>signature.
          or_error SignatureForm (rsa_verify l public signing_input signature) (\<lambda>ok.
          if ok then Inr (Some claims) else Inl SignatureFailed)))"

definition verify_claims ::
  "libs \<Rightarrow> string \<Rightarrow> string \<Rightarrow> SigningKeyEntry \<Rightarrow> int \<Rightarrow> string \<Rightarrow> string \<Rightarrow> string \<Rightarrow> jwt_error + jval option" where
  "verify_claims l issuer audience key now_ts header_b64 payload_b64 signature_b64 =
     or_error PayloadBase64 (b64_decode l payload_b64) (\<lambda>payload_bytes.
     or_error PayloadJson (json_read l payload_bytes) (\<lambda>claims.
     or_error MissingExp (Option.bind (jget ''exp'' claims) as_i64) (\<lambda>exp.
     if exp \<le> now_ts then Inr None else
     or_error MissingIss (get_str ''iss'' claims) (\<lambda>iss.
     if iss \<noteq> issuer then Inr None
     else if \<not> aud_ok audience claims then Inr None
     else verify_signature l key (header_b64 @ ''.'' @ payload_b64) signature_b64 claims))))"

definition verify_jwt ::
  "libs \<Rightarrow> string \<Rightarrow> string \<Rightarrow> string \<Rightarrow> SigningKeyEntry \<Rightarrow> int \<Rightarrow> jwt_error + jval option" where
  "verify_jwt l token issuer audience key now_ts =
     (case split_on (CHR ''.'') token of
        [header_b64, payload_b64, signature_b64] \<Rightarrow>
          or_error HeaderBase64 (b64_decode l header_b64) (\<lambda>header_bytes.
          or_error HeaderJson (json_read l header_bytes) (\<lambda>header.
          or_error MissingKid (get_str ''kid'' header) (\<lambda>kid.
          if kid \<noteq> ke_kid key then Inr None
          else if unwrap_or [] (get_str ''alg'' header) \<noteq> ''RS256'' then Inr None
          else verify_claims l issuer audience key now_ts header_b64 payload_b64 signature_b64)))
      | _ \<Rightarrow> Inr None)"

record Keyring =
  kr_active :: SigningKeyEntry
  kr_issuer :: string
  kr_audience :: string

definition keyring_sign :: "libs \<Rightarrow> Keyring \<Rightarrow> string \<Rightarrow> string option" where
  "keyring_sign l k payload_b64 = sign_jwt l (kr_active k) payload_b64"

definition keyring_verify :: "libs \<Rightarrow> Keyring \<Rightarrow> string \<Rightarrow> int \<Rightarrow> jwt_error + jval option" where
  "keyring_verify l k token now_ts = verify_jwt l token (kr_issuer k) (kr_audience k) (kr_active k) now_ts"

definition keyring_jwks :: "Keyring \<Rightarrow> jval" where
  "keyring_jwks k = JObj [(''keys'', JArr [ke_public_jwk (kr_active k)])]"


section \<open>Configuration\<close>

record AuthConfig =
  public_base_url :: string
  cf_access_team :: string
  cf_access_aud :: string
  access_ttl_secs :: nat
  refresh_ttl_secs :: nat
  allow_client_credentials :: bool

definition authorization_endpoint :: "AuthConfig \<Rightarrow> string" where
  "authorization_endpoint c = public_base_url c @ ''/oauth/authorize''"

definition token_endpoint :: "AuthConfig \<Rightarrow> string" where
  "token_endpoint c = public_base_url c @ ''/oauth/token''"

definition registration_endpoint :: "AuthConfig \<Rightarrow> string" where
  "registration_endpoint c = public_base_url c @ ''/oauth/register''"

definition jwks_uri :: "AuthConfig \<Rightarrow> string" where
  "jwks_uri c = public_base_url c @ ''/.well-known/jwks.json''"

definition resource_indicator :: "AuthConfig \<Rightarrow> string" where
  "resource_indicator c = public_base_url c @ ''/mcp''"

definition issuer_of :: "AuthConfig \<Rightarrow> string" where
  "issuer_of c = public_base_url c"

definition cf_access_certs_uri :: "AuthConfig \<Rightarrow> string" where
  "cf_access_certs_uri c = cf_access_team c @ ''/cdn-cgi/access/certs''"


section \<open>The identity of the operator\<close>

record CfJwk =
  cj_kid :: string
  cj_kty :: string
  cj_usage :: "string option"
  cj_alg :: string
  cj_n :: string
  cj_e :: string

record CfAccessClaims =
  cc_aud :: jval
  cc_email :: "string option"
  cc_sub :: string
  cc_iss :: string
  cc_iat :: int
  cc_exp :: int

record CachedCerts =
  fetched_at :: int
  cached_keys :: "CfJwk list"

record CfAccess =
  cf_team_origin :: string
  cf_expected_aud :: string
  cf_cache :: "CachedCerts option"

text \<open>\<open>trim_end_matches\<close> with a text that is not empty.\<close>

function trim_suffixes :: "string \<Rightarrow> string \<Rightarrow> string" where
  "trim_suffixes p s =
     (if p \<noteq> [] \<and> drop (length s - length p) s = p then trim_suffixes p (take (length s - length p) s) else s)"
  by pat_completeness auto
termination
proof (relation "measure (length \<circ> snd)")
  fix p s :: string
  assume "p \<noteq> [] \<and> drop (length s - length p) s = p"
  then show "((p, take (length s - length p) s), p, s) \<in> measure (length \<circ> snd)" by (cases s) auto
qed simp

definition cf_new :: "string \<Rightarrow> string \<Rightarrow> CfAccess" where
  "cf_new certs_uri expected_aud =
     \<lparr>cf_team_origin = trim_suffixes ''/'' (trim_suffixes ''/cdn-cgi/access/certs'' certs_uri),
      cf_expected_aud = expected_aud, cf_cache = None\<rparr>"

text \<open>The outcome of fetching the certificates of the team, should it be needed.\<close>

type_synonym fetched = "jwt_error + CfJwk list"

definition refresh_certs :: "fetched \<Rightarrow> int \<Rightarrow> CfAccess \<Rightarrow> jwt_error option \<times> CfAccess" where
  "refresh_certs response now_ts cf =
     (if (case cf_cache cf of Some cached \<Rightarrow> i64_sub now_ts (fetched_at cached) < 600 | None \<Rightarrow> False)
      then (None, cf)
      else case response of
          Inl e \<Rightarrow> (Some e, cf)
        | Inr keys \<Rightarrow> (None, cf\<lparr>cf_cache := Some \<lparr>fetched_at = now_ts, cached_keys = keys\<rparr>\<rparr>))"

definition peek_kid :: "libs \<Rightarrow> string \<Rightarrow> string option" where
  "peek_kid l token =
     (case split_on (CHR ''.'') token of
        [] \<Rightarrow> None
      | header_b64 # _ \<Rightarrow>
          Option.bind (b64_decode l header_b64) (\<lambda>bytes.
          Option.bind (json_read l bytes) (get_str ''kid'')))"

definition jwk_value :: "CfJwk \<Rightarrow> jval" where
  "jwk_value jwk =
     JObj [(''kid'', JStr (cj_kid jwk)), (''kty'', JStr (cj_kty jwk)),
       (''use'', case cj_usage jwk of Some u \<Rightarrow> JStr u | None \<Rightarrow> JNull), (''alg'', JStr (cj_alg jwk)),
       (''n'', JStr (cj_n jwk)), (''e'', JStr (cj_e jwk))]"

definition jwk_to_entry :: "libs \<Rightarrow> CfJwk \<Rightarrow> jwt_error + SigningKeyEntry" where
  "jwk_to_entry l jwk =
     or_error (JwkDecoding ''n'') (b64_decode l (cj_n jwk)) (\<lambda>n_bytes.
     or_error (JwkDecoding ''e'') (b64_decode l (cj_e jwk)) (\<lambda>e_bytes.
     or_error JwkKey (rsa_from_parts l n_bytes e_bytes) (\<lambda>_.
     Inr \<lparr>ke_kid = cj_kid jwk, ke_alg = cj_alg jwk, ke_private_pem = [], ke_public_jwk = jwk_value jwk\<rparr>)))"

text \<open>\<open>serde_json::from_value\<close> for \<open>CfAccessClaims\<close>.\<close>

definition opt_str :: "string \<Rightarrow> jval \<Rightarrow> string option option" where
  "opt_str k v =
     (case jget k v of
        None \<Rightarrow> Some None
      | Some JNull \<Rightarrow> Some None
      | Some (JStr s) \<Rightarrow> Some (Some s)
      | Some _ \<Rightarrow> None)"

definition access_claims :: "jval \<Rightarrow> CfAccessClaims option" where
  "access_claims v =
     Option.bind (jget ''aud'' v) (\<lambda>aud.
     Option.bind (opt_str ''email'' v) (\<lambda>email.
     Option.bind (get_str ''sub'' v) (\<lambda>sub.
     Option.bind (get_str ''iss'' v) (\<lambda>iss.
     Option.bind (Option.bind (jget ''iat'' v) as_i64) (\<lambda>iat.
     Option.bind (Option.bind (jget ''exp'' v) as_i64) (\<lambda>exp.
     Some \<lparr>cc_aud = aud, cc_email = email, cc_sub = sub, cc_iss = iss, cc_iat = iat, cc_exp = exp\<rparr>))))))"

definition verify_with_cache ::
  "libs \<Rightarrow> CfAccess \<Rightarrow> int \<Rightarrow> string \<Rightarrow> jwt_error + CfAccessClaims option" where
  "verify_with_cache l cf now_ts token =
     (case cf_cache cf of
        None \<Rightarrow> Inr None
      | Some cached \<Rightarrow>
          (case peek_kid l token of
             None \<Rightarrow> Inr None
           | Some kid \<Rightarrow>
               (case find (\<lambda>key. cj_kid key = kid) (cached_keys cached) of
                  None \<Rightarrow> Inr None
                | Some jwk \<Rightarrow>
                    if cj_kty jwk \<noteq> ''RSA'' then Inr None
                    else case jwk_to_entry l jwk of
                        Inl e \<Rightarrow> Inl e
                      | Inr key \<Rightarrow>
                          (case verify_jwt l token (cf_team_origin cf) (cf_expected_aud cf) key now_ts of
                             Inl e \<Rightarrow> Inl e
                           | Inr None \<Rightarrow> Inr None
                           | Inr (Some claims) \<Rightarrow> or_error ClaimsForm (access_claims claims) (Inr \<circ> Some)))))"

definition cf_verify ::
  "libs \<Rightarrow> oauth_env \<Rightarrow> fetched \<Rightarrow> string \<Rightarrow> CfAccess \<Rightarrow> (jwt_error + CfAccessClaims option) \<times> CfAccess" where
  "cf_verify l e response token cf =
     (case refresh_certs response (oe_now e 0) cf of
        (Some err, cf) \<Rightarrow> (Inl err, cf)
      | (None, cf) \<Rightarrow> (verify_with_cache l cf (oe_now e 1) token, cf))"

definition unreserved :: "char \<Rightarrow> bool" where
  "unreserved c \<longleftrightarrow>
     (let n = (of_char c :: nat) in
      65 \<le> n \<and> n \<le> 90 \<or> 97 \<le> n \<and> n \<le> 122 \<or> is_ascii_digit c \<or> c \<in> set ''-._~'')"

definition upper_hex :: "nat \<Rightarrow> char" where
  "upper_hex n = (if n < 10 then char_of (48 + n) else char_of (55 + n))"

definition urlencode :: "string \<Rightarrow> string" where
  "urlencode value =
     concat (map (\<lambda>byte. if unreserved byte then [byte]
       else let n = (of_char byte :: nat) in [CHR ''%'', upper_hex (n div 16), upper_hex (n mod 16)]) value)"

definition login_url :: "CfAccess \<Rightarrow> string \<Rightarrow> string" where
  "login_url cf next = cf_team_origin cf @ ''/cdn-cgi/access/login?next='' @ urlencode next"

end
