(* ===== verification/Oauth_Server.thy ===== *)
theory Oauth_Server
  imports Oauth_Tokens
begin

text \<open>
  The endpoints of the authorization server of \<open>src/codex-rs/native-harness-mcp-auth/src/\<close>: registration of clients
  (\<open>clients.rs\<close>), the authorization-code flow (\<open>authorize.rs\<close>), tokens (\<open>token.rs\<close>), the check in front of the MCP
  endpoint (\<open>middleware.rs\<close>) and discovery (\<open>discovery.rs\<close>). Forms and queries are
  decoded; a handler gives its response and the state it leaves, also when it refuses. The texts of
  errors are the parameter \<open>error_text\<close>.
\<close>

section \<open>Requests and responses\<close>

record AuthState =
  as_config :: AuthConfig
  as_store :: oauth_store
  as_keyring :: Keyring
  as_cf :: CfAccess

definition auth_state_new ::
  "libs \<Rightarrow> oauth_env \<Rightarrow> rsa_key result \<Rightarrow> AuthConfig \<Rightarrow> oauth_store \<Rightarrow> AuthState result \<times> oauth_store" where
  "auth_state_new l e new_key config s =
     (case load_or_create_signing_key l e new_key s of
        (Inl err, s) \<Rightarrow> (Inl err, s)
      | (Inr entry, s) \<Rightarrow>
          (Inr \<lparr>as_config = config, as_store = s,
             as_keyring = \<lparr>kr_active = entry, kr_issuer = issuer_of config, kr_audience = resource_indicator config\<rparr>,
             as_cf = cf_new (cf_access_certs_uri config) (cf_access_aud config)\<rparr>, s))"

record TokenForm =
  tf_grant_type :: string
  tf_code :: "string option"
  tf_redirect_uri :: "string option"
  tf_client_id :: "string option"
  tf_client_secret :: "string option"
  tf_code_verifier :: "string option"
  tf_refresh_token :: "string option"
  tf_resource :: "string option"

record TokenResponse =
  tr_access_token :: string
  tr_token_type :: string
  tr_expires_in :: int
  tr_refresh_token :: string
  tr_scope :: string

record ClientRegistrationRequest =
  rq_client_name :: "string option"
  rq_redirect_uris :: "string list"
  rq_grant_types :: "string list option"
  rq_token_endpoint_auth_method :: string
  rq_client_secret :: "string option"
  rq_client_id :: "string option"

record ClientRegistrationResponse =
  rs_client_id :: string
  rs_client_secret :: "string option"
  rs_client_name :: "string option"
  rs_redirect_uris :: "string list"
  rs_grant_types :: "string list"
  rs_token_endpoint_auth_method :: string
  rs_client_id_issued_at :: int

record AuthorizeQuery =
  aq_response_type :: string
  aq_client_id :: string
  aq_redirect_uri :: string
  aq_scope :: "string option"
  aq_state :: "string option"
  aq_code_challenge :: "string option"
  aq_code_challenge_method :: "string option"
  aq_resource :: "string option"

record ConsentTemplate =
  ct_client_id :: string
  ct_subject :: string
  ct_email :: "string option"
  ct_scope :: string
  ct_redirect_uri :: string
  ct_state :: string
  ct_code_challenge :: string
  ct_code_challenge_method :: string

record DecideForm =
  df_decision :: string
  df_client_id :: string
  df_redirect_uri :: string
  df_scope :: string
  df_state :: "string option"
  df_code_challenge :: string
  df_code_challenge_method :: string

datatype oauth_response =
    TokenOk TokenResponse
  | TokenErr nat string string
  | Registered ClientRegistrationResponse
  | RegistrationErr string
  | JsonOk jval
  | TextBody nat string
  | RedirectTo string
  | ConsentPage ConsentTemplate


section \<open>Registration\<close>

definition check_redirect_uri :: "libs \<Rightarrow> string \<Rightarrow> error option" where
  "check_redirect_uri l uri =
     (case url_scheme l uri of
        None \<Rightarrow> Some (Bail ''invalid redirect_uri'')
      | Some scheme \<Rightarrow>
          if scheme \<noteq> ''https'' \<and> scheme \<noteq> ''http'' then Some (Bail ''redirect_uri must use http(s)'') else None)"

definition client_secret_of ::
  "libs \<Rightarrow> AuthConfig \<Rightarrow> ClientRegistrationRequest \<Rightarrow> (string option \<times> string option) result" where
  "client_secret_of l config req =
     (let auth_method = rq_token_endpoint_auth_method req in
      if auth_method = ''none''
      then if is_some (rq_client_secret req)
           then Inl (Bail ''public clients must not provide a client_secret'')
           else Inr (None, None)
      else if auth_method = ''client_secret_post''
      then if \<not> allow_client_credentials config
           then Inl (Bail ''confidential clients are not enabled; set CHATCODEX_OAUTH_ALLOW_CONFIDENTIAL=1'')
           else and_then
             (ok_or (Bail ''client_secret is required for confidential clients'') (rq_client_secret req)) (\<lambda>secret.
             if length secret < 16 then Inl (Bail ''client_secret must be at least 16 characters'')
             else Inr (Some (hash_token l secret), Some secret))
      else Inl (Bail (''unsupported token_endpoint_auth_method: '' @ auth_method)))"

definition check_grant :: "string \<Rightarrow> error option" where
  "check_grant grant =
     (if grant = ''authorization_code'' \<or> grant = ''refresh_token'' then None
      else Some (Bail (''unsupported grant_type: '' @ grant)))"

definition register_inner ::
  "libs \<Rightarrow> oauth_env \<Rightarrow> ClientRegistrationRequest \<Rightarrow> AuthState \<Rightarrow> (ClientRegistrationResponse \<times> AuthState) result" where
  "register_inner l e req st =
     (if rq_redirect_uris req = [] then Inl (Bail ''redirect_uris must not be empty'')
      else case find_map (check_redirect_uri l) (rq_redirect_uris req) of
          Some err \<Rightarrow> Inl err
        | None \<Rightarrow>
      and_then (client_secret_of l (as_config st) req) (\<lambda>(client_secret_hash, client_secret).
      let grant_types = unwrap_or [''authorization_code'', ''refresh_token''] (rq_grant_types req) in
      case find_map check_grant grant_types of
          Some err \<Rightarrow> Inl err
        | None \<Rightarrow>
            (let client_id = unwrap_or (''chatcodex-'' @ new_opaque_token l e 0) (rq_client_id req);
                 record = \<lparr>cl_client_id = client_id, cl_client_secret_hash = client_secret_hash,
                   cl_client_name = rq_client_name req, cl_redirect_uris = rq_redirect_uris req,
                   cl_grant_types = grant_types,
                   cl_token_endpoint_auth_method = rq_token_endpoint_auth_method req,
                   cl_created_at = oe_now e 0, cl_disabled_at = None\<rparr>
             in and_then (insert_client record (as_store st)) (\<lambda>s.
                  Inr (\<lparr>rs_client_id = client_id, rs_client_secret = client_secret,
                        rs_client_name = rq_client_name req, rs_redirect_uris = rq_redirect_uris req,
                        rs_grant_types = grant_types,
                        rs_token_endpoint_auth_method = rq_token_endpoint_auth_method req,
                        rs_client_id_issued_at = oe_now e 0\<rparr>, st\<lparr>as_store := s\<rparr>)))))"

definition register ::
  "libs \<Rightarrow> (error \<Rightarrow> string) \<Rightarrow> oauth_env \<Rightarrow> ClientRegistrationRequest \<Rightarrow> AuthState \<Rightarrow> oauth_response \<times> AuthState" where
  "register l error_text e req st =
     (case register_inner l e req st of
        Inr (response, st) \<Rightarrow> (Registered response, st)
      | Inl err \<Rightarrow> (RegistrationErr (error_text err), st))"


section \<open>Authorization codes\<close>

definition CF_AUTHORIZATION_COOKIE :: string where
  "CF_AUTHORIZATION_COOKIE = ''CF_Authorization''"

text \<open>The values of the cookie headers that are text; the first pair with the name counts.\<close>

definition extract_cf_cookie :: "string list \<Rightarrow> string option" where
  "extract_cf_cookie headers =
     find_map (\<lambda>pair.
        case splitn 2 (CHR ''='') (trim pair) of
          [name, value] \<Rightarrow> if name = CF_AUTHORIZATION_COOKIE then Some value else None
        | _ \<Rightarrow> None)
       (concat (map (split_on (CHR '';'')) headers))"

text \<open>A URL with query pairs appended; a text that is no URL is replaced by that of the local host.\<close>

definition with_pairs :: "libs \<Rightarrow> string \<Rightarrow> (string \<times> string) list \<Rightarrow> string" where
  "with_pairs l url pairs = url_pairs l (if url_scheme l url = None then ''https://localhost/'' else url) pairs"

definition opt_pair :: "string \<Rightarrow> string option \<Rightarrow> (string \<times> string) list" where
  "opt_pair name value = (case value of Some v \<Rightarrow> [(name, v)] | None \<Rightarrow> [])"

definition build_authorize_url :: "libs \<Rightarrow> AuthConfig \<Rightarrow> AuthorizeQuery \<Rightarrow> string" where
  "build_authorize_url l config query =
     with_pairs l (authorization_endpoint config)
       ([(''response_type'', aq_response_type query), (''client_id'', aq_client_id query),
         (''redirect_uri'', aq_redirect_uri query)] @ opt_pair ''scope'' (aq_scope query)
        @ opt_pair ''state'' (aq_state query) @ opt_pair ''code_challenge'' (aq_code_challenge query)
        @ opt_pair ''code_challenge_method'' (aq_code_challenge_method query))"

definition authorize ::
  "libs \<Rightarrow> (jwt_error \<Rightarrow> string) \<Rightarrow> oauth_env \<Rightarrow> fetched \<Rightarrow> string list \<Rightarrow> AuthorizeQuery \<Rightarrow> AuthState
     \<Rightarrow> oauth_response \<times> AuthState" where
  "authorize l jwt_text e certs headers query st =
     (if aq_response_type query \<noteq> ''code''
      then (TextBody 400 (''unsupported response_type; only '' @ quoted ''code'' @ '' is supported''), st)
      else case get_client (aq_client_id query) (as_store st) of
          None \<Rightarrow> (TextBody 400 ''unknown client_id'', st)
        | Some client \<Rightarrow>
      if \<not> list_ex (\<lambda>uri. uri = aq_redirect_uri query) (cl_redirect_uris client)
      then (TextBody 400 ''redirect_uri not registered'', st)
      else
        (let code_challenge_method = unwrap_or [] (aq_code_challenge_method query);
             login = RedirectTo (login_url (as_cf st) (build_authorize_url l (as_config st) query)) in
         if aq_code_challenge query = None \<or> code_challenge_method \<noteq> ''S256''
         then (TextBody 400 ''code_challenge and code_challenge_method=S256 are required'', st)
         else case extract_cf_cookie headers of
             None \<Rightarrow> (login, st)
           | Some token \<Rightarrow>
               (case cf_verify l e certs token (as_cf st) of
                  (Inl err, cf) \<Rightarrow> (TextBody 500 (jwt_text err), st\<lparr>as_cf := cf\<rparr>)
                | (Inr None, cf) \<Rightarrow> (login, st\<lparr>as_cf := cf\<rparr>)
                | (Inr (Some claims), cf) \<Rightarrow>
                    (ConsentPage
                      \<lparr>ct_client_id = aq_client_id query, ct_subject = cc_sub claims, ct_email = cc_email claims,
                       ct_scope = unwrap_or ''mcp:tools'' (aq_scope query),
                       ct_redirect_uri = aq_redirect_uri query, ct_state = unwrap_or [] (aq_state query),
                       ct_code_challenge = unwrap_or [] (aq_code_challenge query),
                       ct_code_challenge_method = code_challenge_method\<rparr>, st\<lparr>as_cf := cf\<rparr>))))"

definition code_row :: "libs \<Rightarrow> int \<Rightarrow> string \<Rightarrow> string \<Rightarrow> DecideForm \<Rightarrow> AuthCodeRecord" where
  "code_row l now_ts code subject form =
     \<lparr>ac_code_hash = hash_token l code, ac_client_id = df_client_id form, ac_subject = subject,
      ac_redirect_uri = df_redirect_uri form, ac_scope = df_scope form,
      ac_code_challenge = Some (df_code_challenge form),
      ac_code_challenge_method = Some (df_code_challenge_method form),
      ac_expires_at = i64_add now_ts 60, ac_consumed_at = None\<rparr>"

definition allow_form ::
  "libs \<Rightarrow> (error \<Rightarrow> string) \<Rightarrow> oauth_env \<Rightarrow> string \<Rightarrow> DecideForm \<Rightarrow> AuthState \<Rightarrow> oauth_response \<times> AuthState" where
  "allow_form l error_text e subject form st =
     (case get_client (df_client_id form) (as_store st) of
        None \<Rightarrow> (TextBody 400 ''unknown client_id'', st)
      | Some client \<Rightarrow>
          if \<not> list_ex (\<lambda>uri. uri = df_redirect_uri form) (cl_redirect_uris client)
          then (TextBody 400 ''redirect_uri not registered'', st)
          else
            (let code = new_opaque_token l e 0
             in case insert_auth_code (code_row l (oe_now e 2) code subject form) (as_store st) of
                  Inl err \<Rightarrow> (TextBody 500 (error_text err), st)
                | Inr s \<Rightarrow>
                    (RedirectTo (with_pairs l (df_redirect_uri form)
                       ([(''code'', code), (''iss'', issuer_of (as_config st))] @ opt_pair ''state'' (df_state form))),
                     st\<lparr>as_store := s\<rparr>)))"

definition decide ::
  "libs \<Rightarrow> (error \<Rightarrow> string) \<Rightarrow> oauth_env \<Rightarrow> fetched \<Rightarrow> string list \<Rightarrow> DecideForm \<Rightarrow> AuthState
     \<Rightarrow> oauth_response \<times> AuthState" where
  "decide l error_text e certs headers form st =
     (case extract_cf_cookie headers of
        None \<Rightarrow> (RedirectTo (login_url (as_cf st) ''/oauth/authorize''), st)
      | Some token \<Rightarrow>
          (case cf_verify l e certs token (as_cf st) of
             (Inr (Some claims), cf) \<Rightarrow>
               if df_decision form \<noteq> ''allow''
               then (RedirectTo (with_pairs l (df_redirect_uri form)
                       ([(''error'', ''access_denied''), (''iss'', issuer_of (as_config st))]
                        @ opt_pair ''state'' (df_state form))), st\<lparr>as_cf := cf\<rparr>)
               else allow_form l error_text e (cc_sub claims) form (st\<lparr>as_cf := cf\<rparr>)
           | (_, cf) \<Rightarrow> (RedirectTo (login_url cf ''/oauth/authorize''), st\<lparr>as_cf := cf\<rparr>)))"


section \<open>Tokens\<close>

definition REFRESH_TTL_SECS :: int where
  "REFRESH_TTL_SECS = 60 * 60 * 24 * 30"

unbundle bit_operations_syntax

text \<open>The bytes are compared by accumulating their differences; \<open>usize\<close> has 64 bits.\<close>

definition byte_at :: "string \<Rightarrow> nat \<Rightarrow> 8 word" where
  "byte_at s i = (if i < length s then of_nat (of_char (s ! i)) else 0)"

definition constant_time_eq :: "string \<Rightarrow> string \<Rightarrow> bool" where
  "constant_time_eq left right =
     (fold (\<lambda>index difference. difference OR ucast (byte_at left index XOR byte_at right index))
        [0..<max (length left) (length right)]
        ((of_nat (length left) :: 64 word) XOR of_nat (length right)) = 0)"

lemma word_xor_zero: "a XOR b = 0 \<longleftrightarrow> a = b" for a b :: "'a::len word"
  by (auto simp: bit_eq_iff bit_xor_iff)

lemma word_of_nat_small:
  "m < 2 ^ LENGTH('a) \<Longrightarrow> n < 2 ^ LENGTH('a) \<Longrightarrow> (of_nat m :: 'a::len word) = of_nat n \<longleftrightarrow> m = n"
  by (simp add: word_of_nat_eq_iff take_bit_nat_eq_self)

lemma byte_at_eq: "byte_at s i = byte_at t i \<longleftrightarrow> s ! i = t ! i" if "i < length s" "i < length t"
proof -
  have "(of_char c :: nat) < 2 ^ LENGTH(8)" for c :: char
    using of_char_of [of "of_char c :: nat"] by (simp add: nat_of_char_less_256)
  then have "(of_nat (of_char c) :: 8 word) = of_nat (of_char d) \<longleftrightarrow> c = d" for c d :: char
    by (simp add: word_of_nat_small)
  with that show ?thesis by (simp add: byte_at_def)
qed

lemma fold_or_zero:
  "fold (\<lambda>i d. d OR f i) is (a :: 64 word) = 0 \<longleftrightarrow> a = 0 \<and> (\<forall>i \<in> set is. f i = 0)"
  by (induction "is" arbitrary: a) (auto simp: or_eq_0_iff)

lemma widened_zero: "(ucast a :: 64 word) = 0 \<longleftrightarrow> a = 0" for a :: "8 word"
proof
  assume "(ucast a :: 64 word) = 0"
  then have "(ucast (ucast a :: 64 word) :: 8 word) = 0" by simp
  then show "a = 0" by (simp add: unsigned_ucast_eq take_bit_word_eq_self)
qed simp

text \<open>The comparison that takes the same time for all texts compares them.\<close>

lemma constant_time_eq_iff:
  assumes "length left < 2 ^ 64" "length right < 2 ^ 64"
  shows "constant_time_eq left right \<longleftrightarrow> left = right"
proof -
  have l: "(of_nat (length left) :: 64 word) XOR of_nat (length right) = 0 \<longleftrightarrow> length left = length right"
    using assms by (simp add: word_xor_zero word_of_nat_small)
  have nth: "(\<forall>i < length left. byte_at left i = byte_at right i) \<longleftrightarrow> left = right"
    if "length left = length right"
    unfolding list_eq_iff_nth_eq using that byte_at_eq [of _ left right] by auto
  show ?thesis
  proof (cases "length left = length right")
    case True
    then show ?thesis
      unfolding constant_time_eq_def fold_or_zero widened_zero word_xor_zero using nth by (simp add: Ball_def)
  next
    case False
    then show ?thesis unfolding constant_time_eq_def fold_or_zero l by auto
  qed
qed

definition access_claims_for :: "AuthConfig \<Rightarrow> int \<Rightarrow> string \<Rightarrow> string \<Rightarrow> string \<Rightarrow> string \<Rightarrow> jval" where
  "access_claims_for config now_ts client_id subject scope jti =
     JObj [(''iss'', JStr (issuer_of config)), (''aud'', JStr (resource_indicator config)), (''sub'', JStr subject),
       (''client_id'', JStr client_id), (''scope'', JStr scope), (''iat'', JNum now_ts),
       (''exp'', JNum (i64_add now_ts (usize_as_i64 (access_ttl_secs config)))), (''jti'', JStr jti)]"

definition jti_row :: "AuthConfig \<Rightarrow> int \<Rightarrow> string \<Rightarrow> string \<Rightarrow> string \<Rightarrow> AccessTokenJtiRecord" where
  "jti_row config now_ts client_id subject jti =
     \<lparr>jt_jti = jti, jt_client_id = client_id, jt_subject = subject,
      jt_expires_at = i64_add now_ts (usize_as_i64 (access_ttl_secs config)), jt_revoked_at = None\<rparr>"

definition refresh_row :: "libs \<Rightarrow> int \<Rightarrow> string \<Rightarrow> string \<Rightarrow> string \<Rightarrow> string \<Rightarrow> RefreshTokenRecord" where
  "refresh_row l now_ts client_id subject scope refresh_token =
     \<lparr>rt_token_hash = hash_token l refresh_token, rt_client_id = client_id, rt_subject = subject, rt_scope = scope,
      rt_expires_at = i64_add now_ts REFRESH_TTL_SECS, rt_revoked_at = None, rt_replaced_by = None\<rparr>"

definition issue_tokens ::
  "libs \<Rightarrow> oauth_env \<Rightarrow> nat \<Rightarrow> string \<Rightarrow> string \<Rightarrow> string \<Rightarrow> AuthState \<Rightarrow> (string \<times> string) result \<times> AuthState" where
  "issue_tokens l e clock client_id subject scope st =
     (let now_ts = oe_now e clock;
          jti = new_opaque_token l e 0;
          claims = access_claims_for (as_config st) now_ts client_id subject scope jti;
          payload_b64 = b64_encode l (json_text l claims)
      in case keyring_sign l (as_keyring st) payload_b64 of
           None \<Rightarrow> (Inl (Bail ''loading PKCS#8 private key''), st)
         | Some access_token \<Rightarrow>
             (let s = insert_access_jti (jti_row (as_config st) now_ts client_id subject jti) (as_store st);
                  refresh_token = new_opaque_token l e 1
              in case insert_refresh_token (refresh_row l now_ts client_id subject scope refresh_token) s of
                   Inl err \<Rightarrow> (Inl err, st\<lparr>as_store := s\<rparr>)
                 | Inr s \<Rightarrow> (Inr (access_token, refresh_token), st\<lparr>as_store := s\<rparr>)))"

definition token_response ::
  "(error \<Rightarrow> string) \<Rightarrow> AuthConfig \<Rightarrow> string \<Rightarrow> (string \<times> string) result \<Rightarrow> oauth_response" where
  "token_response error_text config scope issued =
     (case issued of
        Inl err \<Rightarrow> TokenErr 500 ''server_error'' (error_text err)
      | Inr (access_token, refresh) \<Rightarrow>
          TokenOk \<lparr>tr_access_token = access_token, tr_token_type = ''Bearer'',
            tr_expires_in = usize_as_i64 (access_ttl_secs config), tr_refresh_token = refresh, tr_scope = scope\<rparr>)"

text \<open>What is asked of a code that has just been consumed.\<close>

definition code_mismatch :: "libs \<Rightarrow> string \<Rightarrow> string \<Rightarrow> string \<Rightarrow> AuthCodeRecord \<Rightarrow> string option" where
  "code_mismatch l client_id redirect_uri verifier record =
     (if ac_client_id record \<noteq> client_id \<or> ac_redirect_uri record \<noteq> redirect_uri
      then Some ''client_id or redirect_uri does not match the code''
      else case ac_code_challenge record of
          None \<Rightarrow> Some ''code has no associated PKCE challenge''
        | Some challenge \<Rightarrow>
            if ac_code_challenge_method record \<noteq> Some ''S256'' then Some ''only S256 PKCE is supported''
            else if \<not> constant_time_eq (b64_encode l (sha256 l verifier)) challenge
            then Some ''code_verifier does not match the challenge'' else None)"

definition redeem_code ::
  "libs \<Rightarrow> (error \<Rightarrow> string) \<Rightarrow> oauth_env \<Rightarrow> string \<Rightarrow> string \<Rightarrow> string \<Rightarrow> string \<Rightarrow> AuthState
     \<Rightarrow> oauth_response \<times> AuthState" where
  "redeem_code l error_text e code client_id redirect_uri verifier st =
     (case get_client client_id (as_store st) of
        None \<Rightarrow> (TokenErr 401 ''invalid_client'' ''unknown client'', st)
      | Some client \<Rightarrow>
          (case consume_auth_code (hash_token l code) (oe_now e 0) (as_store st) of
             (None, s) \<Rightarrow>
               (TokenErr 400 ''invalid_grant'' ''authorization code is invalid or expired'', st\<lparr>as_store := s\<rparr>)
           | (Some record, s) \<Rightarrow>
               (case code_mismatch l (cl_client_id client) redirect_uri verifier record of
                  Some description \<Rightarrow> (TokenErr 400 ''invalid_grant'' description, st\<lparr>as_store := s\<rparr>)
                | None \<Rightarrow>
                    (case issue_tokens l e 1 (cl_client_id client) (ac_subject record) (ac_scope record)
                            (st\<lparr>as_store := s\<rparr>) of
                       (issued, st) \<Rightarrow>
                         (token_response error_text (as_config st) (ac_scope record) issued, st)))))"

definition handle_authorization_code ::
  "libs \<Rightarrow> (error \<Rightarrow> string) \<Rightarrow> oauth_env \<Rightarrow> TokenForm \<Rightarrow> AuthState \<Rightarrow> oauth_response \<times> AuthState" where
  "handle_authorization_code l error_text e form st =
     (case tf_code form of
        None \<Rightarrow> (TokenErr 400 ''invalid_request'' ''code is required'', st)
      | Some code \<Rightarrow>
     (case tf_client_id form of
        None \<Rightarrow> (TokenErr 400 ''invalid_client'' ''client_id is required'', st)
      | Some client_id \<Rightarrow>
     (case tf_redirect_uri form of
        None \<Rightarrow> (TokenErr 400 ''invalid_request'' ''redirect_uri is required'', st)
      | Some redirect_uri \<Rightarrow>
     (case tf_code_verifier form of
        None \<Rightarrow> (TokenErr 400 ''invalid_request'' ''code_verifier is required'', st)
      | Some verifier \<Rightarrow> redeem_code l error_text e code client_id redirect_uri verifier st))))"

text \<open>The checks and the rotation take the lock of the store one after the other, see \<open>Oauth_Session.rotation_race\<close>.\<close>

definition rotate_check ::
  "libs \<Rightarrow> oauth_env \<Rightarrow> string \<Rightarrow> string \<Rightarrow> AuthState \<Rightarrow> oauth_response + string \<times> RefreshTokenRecord" where
  "rotate_check l e refresh client_id st =
     (case get_client client_id (as_store st) of
        None \<Rightarrow> Inl (TokenErr 401 ''invalid_client'' ''unknown client'')
      | Some client \<Rightarrow>
          (case get_refresh_token (hash_token l refresh) (as_store st) of
             None \<Rightarrow> Inl (TokenErr 400 ''invalid_grant'' ''refresh_token is invalid'')
           | Some record \<Rightarrow>
               if rt_client_id record \<noteq> cl_client_id client
               then Inl (TokenErr 400 ''invalid_grant'' ''refresh_token does not belong to this client'')
               else if is_some (rt_revoked_at record)
               then Inl (TokenErr 400 ''invalid_grant'' ''refresh_token has been revoked'')
               else if rt_expires_at record \<le> oe_now e 0
               then Inl (TokenErr 400 ''invalid_grant'' ''refresh_token has expired'')
               else Inr (cl_client_id client, record)))"

definition rotate_finish ::
  "libs \<Rightarrow> (error \<Rightarrow> string) \<Rightarrow> oauth_env \<Rightarrow> string \<Rightarrow> string \<times> RefreshTokenRecord \<Rightarrow> AuthState
     \<Rightarrow> oauth_response \<times> AuthState" where
  "rotate_finish l error_text e refresh checked st =
     (case checked of (client_id, record) \<Rightarrow>
     (case issue_tokens l e 2 client_id (rt_subject record) (rt_scope record)
             (st\<lparr>as_store := revoke_refresh_token (hash_token l refresh) (oe_now e 1) (as_store st)\<rparr>) of
        (issued, st) \<Rightarrow> (token_response error_text (as_config st) (rt_scope record) issued, st)))"

definition rotate_token ::
  "libs \<Rightarrow> (error \<Rightarrow> string) \<Rightarrow> oauth_env \<Rightarrow> string \<Rightarrow> string \<Rightarrow> AuthState \<Rightarrow> oauth_response \<times> AuthState" where
  "rotate_token l error_text e refresh client_id st =
     (case rotate_check l e refresh client_id st of
        Inl response \<Rightarrow> (response, st)
      | Inr checked \<Rightarrow> rotate_finish l error_text e refresh checked st)"

lemma rotate_check_Inr:
  "rotate_check l e refresh client_id st = Inr (client, r) \<Longrightarrow>
     get_refresh_token (hash_token l refresh) (as_store st) = Some r \<and> client = rt_client_id r \<and>
     rt_revoked_at r = None \<and> oe_now e 0 < rt_expires_at r"
  by (auto simp: rotate_check_def is_some_iff split: option.splits if_splits)

lemma rotate_check_Inl: "rotate_check l e refresh client_id st \<noteq> Inl (TokenOk r)"
  by (auto simp: rotate_check_def split: option.splits if_splits)

definition handle_refresh_token ::
  "libs \<Rightarrow> (error \<Rightarrow> string) \<Rightarrow> oauth_env \<Rightarrow> TokenForm \<Rightarrow> AuthState \<Rightarrow> oauth_response \<times> AuthState" where
  "handle_refresh_token l error_text e form st =
     (case tf_refresh_token form of
        None \<Rightarrow> (TokenErr 400 ''invalid_request'' ''refresh_token is required'', st)
      | Some refresh \<Rightarrow>
     (case tf_client_id form of
        None \<Rightarrow> (TokenErr 400 ''invalid_client'' ''client_id is required'', st)
      | Some client_id \<Rightarrow> rotate_token l error_text e refresh client_id st))"

definition token_request ::
  "libs \<Rightarrow> (error \<Rightarrow> string) \<Rightarrow> oauth_env \<Rightarrow> TokenForm \<Rightarrow> AuthState \<Rightarrow> oauth_response \<times> AuthState" where
  "token_request l error_text e form st =
     (if tf_grant_type form = ''authorization_code'' then handle_authorization_code l error_text e form st
      else if tf_grant_type form = ''refresh_token'' then handle_refresh_token l error_text e form st
      else (TokenErr 400 ''unsupported_grant_type''
              (''grant_type '' @ quoted (tf_grant_type form) @ '' is not supported''), st))"

definition json_or_null :: "jval option \<Rightarrow> jval" where
  "json_or_null v = (case v of Some v \<Rightarrow> v | None \<Rightarrow> JNull)"

definition introspect :: "libs \<Rightarrow> oauth_env \<Rightarrow> string \<Rightarrow> AuthState \<Rightarrow> oauth_response" where
  "introspect l e access_token st =
     (let inactive = JsonOk (JObj [(''active'', JBool False)]) in
      case keyring_verify l (as_keyring st) access_token (oe_now e 0) of
        Inr (Some claims) \<Rightarrow>
          (case get_str ''jti'' claims of
             None \<Rightarrow> inactive
           | Some jti \<Rightarrow>
               if jti_is_active jti (oe_now e 1) (as_store st)
               then JsonOk (JObj ((''active'', JBool True)
                 # map (\<lambda>k. (k, json_or_null (jget k claims)))
                     [''sub'', ''client_id'', ''scope'', ''exp'', ''iat'', ''iss'', ''aud'']
                 @ [(''jti'', JStr jti)]))
               else inactive)
      | _ \<Rightarrow> inactive)"

definition revoke :: "libs \<Rightarrow> oauth_env \<Rightarrow> string \<Rightarrow> AuthState \<Rightarrow> oauth_response \<times> AuthState" where
  "revoke l e presented st =
     (let s = revoke_refresh_token (hash_token l presented) (oe_now e 0) (as_store st);
          jti = (case keyring_verify l (as_keyring st) presented (oe_now e 1) of
                   Inr (Some claims) \<Rightarrow> get_str ''jti'' claims
                 | _ \<Rightarrow> None);
          s = (case jti of Some j \<Rightarrow> revoke_jti j (oe_now e 2) s | None \<Rightarrow> s)
      in (JsonOk (JObj []), st\<lparr>as_store := s\<rparr>))"


section \<open>The check in front of the MCP endpoint\<close>

text \<open>The status a request is refused with, or none when it is passed on.\<close>

definition require_bearer :: "libs \<Rightarrow> oauth_env \<Rightarrow> string \<Rightarrow> string option \<Rightarrow> AuthState \<Rightarrow> nat option" where
  "require_bearer l e path authorization st =
     (if path = ''/healthz'' then None
      else case Option.bind authorization (strip_prefix ''Bearer '') of
          None \<Rightarrow> Some 401
        | Some access_token \<Rightarrow>
            (case keyring_verify l (as_keyring st) access_token (oe_now e 0) of
               Inl _ \<Rightarrow> Some 500
             | Inr None \<Rightarrow> Some 401
             | Inr (Some claims) \<Rightarrow>
                 (case get_str ''jti'' claims of
                    None \<Rightarrow> Some 401
                  | Some jti \<Rightarrow> if jti_is_active jti (oe_now e 1) (as_store st) then None else Some 401)))"

lemma bearer_prefix: "strip_prefix ''Bearer '' (CHR ''B'' # CHR ''e'' # CHR ''a'' # CHR ''r'' # CHR ''e'' # CHR ''r'' # CHR '' '' # t) = Some t"
  using strip_prefix_append [of "''Bearer ''" t] by simp


section \<open>Discovery\<close>

definition oauth_authorization_server :: "AuthConfig \<Rightarrow> jval" where
  "oauth_authorization_server cfg =
     JObj [(''issuer'', JStr (issuer_of cfg)), (''authorization_endpoint'', JStr (authorization_endpoint cfg)),
       (''token_endpoint'', JStr (token_endpoint cfg)),
       (''registration_endpoint'', JStr (registration_endpoint cfg)), (''jwks_uri'', JStr (jwks_uri cfg)),
       (''response_types_supported'', JArr [JStr ''code'']),
       (''grant_types_supported'', JArr [JStr ''authorization_code'', JStr ''refresh_token'']),
       (''token_endpoint_auth_methods_supported'', JArr [JStr ''none'', JStr ''client_secret_post'']),
       (''code_challenge_methods_supported'', JArr [JStr ''S256'']),
       (''scopes_supported'', JArr [JStr ''mcp:tools'']),
       (''authorization_response_iss_parameter_supported'', JBool True),
       (''authorization_details_types_supported'', JArr []), (''dpop_signing_alg_values_supported'', JArr [])]"

definition oauth_protected_resource :: "AuthConfig \<Rightarrow> jval" where
  "oauth_protected_resource cfg =
     JObj [(''resource'', JStr (resource_indicator cfg)), (''authorization_servers'', JArr [JStr (issuer_of cfg)]),
       (''scopes_supported'', JArr [JStr ''mcp:tools'']), (''bearer_methods_supported'', JArr [JStr ''header''])]"

end
