(* ===== verification/Rate_Limit.thy ===== *)
theory Rate_Limit
  imports Oauth_Server
begin

text \<open>
  The rate limit of the token endpoint (\<open>src/codex-rs/native-harness-mcp-auth/src/ratelimit.rs\<close>): per client a window
  with the time it started and the number of requests let through. Instants are nanoseconds of a
  monotonic clock; the lock is not modelled, and the body of a request is its text.
\<close>

record RateLimiter =
  rl_windows :: "(string \<times> int \<times> nat) list"
  rl_max_per_window :: nat
  rl_window_secs :: nat

definition new_limiter :: "nat \<Rightarrow> nat \<Rightarrow> RateLimiter" where
  "new_limiter max_per_window window_secs =
     \<lparr>rl_windows = [], rl_max_per_window = max_per_window, rl_window_secs = window_secs\<rparr>"

definition window_dur :: "RateLimiter \<Rightarrow> int" where
  "window_dur rl = int (rl_window_secs rl) * 1000000000"

definition set_window :: "string \<Rightarrow> int \<times> nat \<Rightarrow> RateLimiter \<Rightarrow> RateLimiter" where
  "set_window i w rl =
     rl\<lparr>rl_windows := (i, w) # filter (\<lambda>e. fst e \<noteq> i) (rl_windows rl)\<rparr>"

definition limiter_check :: "int \<Rightarrow> string \<Rightarrow> RateLimiter \<Rightarrow> bool \<times> RateLimiter" where
  "limiter_check now i rl =
     (let (start, count) = (case map_of (rl_windows rl) i of Some w \<Rightarrow> w | None \<Rightarrow> (now, 0)) in
      if now - start > window_dur rl then (True, set_window i (now, 1) rl)
      else if count < rl_max_per_window rl then (True, set_window i (start, count + 1) rl)
      else (False, set_window i (start, count) rl))"

definition limiter_cleanup :: "int \<Rightarrow> RateLimiter \<Rightarrow> RateLimiter" where
  "limiter_cleanup now rl =
     rl\<lparr>rl_windows := filter (\<lambda>(_, start, _). now - start \<le> window_dur rl) (rl_windows rl)\<rparr>"

text \<open>The client a form names; a body over 16 KiB is refused with status 500, a client over its limit with 429.\<close>

definition form_client_id :: "libs \<Rightarrow> string \<Rightarrow> string option" where
  "form_client_id l form_str =
     find_map (\<lambda>pair.
        case splitn 2 (CHR ''='') pair of
          [name, value] \<Rightarrow> if name = ''client_id'' then url_decode l value else None
        | _ \<Rightarrow> None)
       (split_on (CHR ''&'') form_str)"

definition rate_limit_token :: "libs \<Rightarrow> int \<Rightarrow> string \<Rightarrow> RateLimiter \<Rightarrow> nat option \<times> RateLimiter" where
  "rate_limit_token l now body rl =
     (if int (length body) > 1024 * 16 then (Some 500, rl)
      else case form_client_id l body of
          None \<Rightarrow> (None, rl)
        | Some i \<Rightarrow>
            (case limiter_check now i rl of
               (True, rl) \<Rightarrow> (None, rl)
             | (False, rl) \<Rightarrow> (Some 429, rl)))"


section \<open>What the limit guarantees\<close>

text \<open>Requests of any clients and clean-ups, and how many requests of one client are let through.\<close>

datatype limiter_event = Check string int | Cleanup int

fun event_time :: "limiter_event \<Rightarrow> int" where
  "event_time (Check _ t) = t"
| "event_time (Cleanup t) = t"

fun limiter_step :: "limiter_event \<Rightarrow> RateLimiter \<Rightarrow> RateLimiter" where
  "limiter_step (Check i t) rl = snd (limiter_check t i rl)"
| "limiter_step (Cleanup t) rl = limiter_cleanup t rl"

fun let_through :: "string \<Rightarrow> limiter_event list \<Rightarrow> RateLimiter \<Rightarrow> nat" where
  "let_through i [] rl = 0"
| "let_through i (ev # evs) rl =
     (if (case ev of Check j t \<Rightarrow> j = i \<and> fst (limiter_check t i rl) | Cleanup _ \<Rightarrow> False) then 1 else 0)
     + let_through i evs (limiter_step ev rl)"

definition window_of :: "string \<Rightarrow> RateLimiter \<Rightarrow> (int \<times> nat) option" where
  "window_of i rl = map_of (rl_windows rl) i"

definition limiter_wf :: "RateLimiter \<Rightarrow> bool" where
  "limiter_wf rl \<longleftrightarrow> distinct (map fst (rl_windows rl))"

lemma map_of_filter_other: "map_of (filter (\<lambda>e. fst e \<noteq> i) m) k = (if k = i then None else map_of m k)"
  by (induction m) auto

lemma window_of_set: "window_of k (set_window i w rl) = (if k = i then Some w else window_of k rl)"
  by (simp add: window_of_def set_window_def map_of_filter_other)

lemma map_of_filter_distinct:
  "distinct (map fst m) \<Longrightarrow>
     map_of (filter P m) k = (case map_of m k of None \<Rightarrow> None | Some v \<Rightarrow> if P (k, v) then Some v else None)"
  by (induction m) (auto split: option.splits simp: map_of_eq_None_iff intro!: map_of_eq_None_iff [THEN iffD2])

lemma window_dur_nonneg [simp]: "\<not> window_dur rl < 0"
  by (simp add: window_dur_def)

lemma limiter_step_fixed [simp]:
  "rl_max_per_window (limiter_step ev rl) = rl_max_per_window rl"
  "window_dur (limiter_step ev rl) = window_dur rl"
  by (cases ev; simp add: limiter_check_def limiter_cleanup_def set_window_def window_dur_def split: option.splits prod.splits)+

lemma limiter_step_wf: "limiter_wf rl \<Longrightarrow> limiter_wf (limiter_step ev rl)"
  by (cases ev)
     (auto simp: limiter_wf_def limiter_check_def limiter_cleanup_def set_window_def distinct_map_filter
       split: option.splits prod.splits)

lemma window_after_other:
  "j \<noteq> i \<Longrightarrow> window_of i (snd (limiter_check t j rl)) = window_of i rl"
  by (auto simp: limiter_check_def window_of_set split: option.splits prod.splits)

lemma window_after_cleanup:
  "limiter_wf rl \<Longrightarrow> window_of i (limiter_cleanup t rl) =
     (case window_of i rl of
        None \<Rightarrow> None
      | Some (start, n) \<Rightarrow> if t - start \<le> window_dur rl then Some (start, n) else None)"
  by (simp add: limiter_wf_def window_of_def limiter_cleanup_def map_of_filter_distinct split: option.splits)

text \<open>A window that cannot expire during the events lets through what is left of it.\<close>

lemma open_window_bound:
  assumes "limiter_wf rl" "window_of i rl = Some (start, n)" "\<forall>ev \<in> set evs. event_time ev - start \<le> window_dur rl"
  shows "let_through i evs rl \<le> rl_max_per_window rl - n"
  using assms
proof (induction evs arbitrary: rl n)
  case (Cons ev evs)
  let ?rl = "limiter_step ev rl"
  have rest: "let_through i evs ?rl \<le> rl_max_per_window rl - m" if "window_of i ?rl = Some (start, m)" for m
    using Cons.IH [OF limiter_step_wf [OF Cons.prems(1)] that] Cons.prems(3) by simp
  show ?case
  proof (cases ev)
    case (Check j t)
    show ?thesis
    proof (cases "j = i")
      case True
      have "t - start \<le> window_dur rl" using Cons.prems(3) Check by simp
      with Check True Cons.prems(2) rest show ?thesis
        by (cases "n < rl_max_per_window rl") (fastforce simp: limiter_check_def window_of_def [symmetric] window_of_set)+
    next
      case False
      with Check Cons.prems(2) rest [of n] show ?thesis by (simp add: window_after_other)
    qed
  next
    case (Cleanup t)
    with Cons.prems rest [of n] show ?thesis by (simp add: window_after_cleanup)
  qed
qed simp

lemma let_through_bound:
  assumes "limiter_wf rl" "\<forall>ev \<in> set evs. a \<le> event_time ev \<and> event_time ev \<le> a + window_dur rl"
  shows "let_through i evs rl \<le>
     (case window_of i rl of
        None \<Rightarrow> rl_max_per_window rl
      | Some (start, n) \<Rightarrow> rl_max_per_window rl - n + max 1 (rl_max_per_window rl))"
  using assms
proof (induction evs arbitrary: rl)
  case (Cons ev evs)
  let ?rl = "limiter_step ev rl" and ?m = "rl_max_per_window rl"
  have IH: "let_through i evs ?rl \<le>
      (case window_of i ?rl of None \<Rightarrow> ?m | Some (start, n) \<Rightarrow> ?m - n + max 1 ?m)"
    using Cons.IH [OF limiter_step_wf [OF Cons.prems(1), of ev], unfolded limiter_step_fixed] Cons.prems(2) by simp
  show ?case
  proof (cases ev)
    case (Cleanup t)
    with IH Cons.prems(1) show ?thesis
      by (auto simp: window_after_cleanup split: option.splits if_splits)
  next
    case (Check j t)
    show ?thesis
    proof (cases "j = i")
      case False
      with Check IH show ?thesis by (simp add: window_after_other)
    next
      case True
      have started: "let_through i evs ?rl \<le> ?m - n" if "window_of i ?rl = Some (t, n)" for n
      proof -
        have "event_time ev' - t \<le> window_dur rl" if "ev' \<in> set evs" for ev'
        proof -
          from Cons.prems(2) that have "event_time ev' \<le> a + window_dur rl" by simp
          moreover from Cons.prems(2) Check have "a \<le> t" by simp
          ultimately show ?thesis by simp
        qed
        then show ?thesis
          using open_window_bound [OF limiter_step_wf [OF Cons.prems(1)] that, of evs] by simp
      qed
      show ?thesis
      proof (cases "window_of i rl")
        case None
        with Check True started [of 1] started [of 0] show ?thesis
          by (cases "0 < ?m") (auto simp: limiter_check_def window_of_def [symmetric] window_of_set)
      next
        case (Some w)
        obtain start n where w: "w = (start, n)" by (cases w)
        show ?thesis
        proof (cases "t - start > window_dur rl")
          case True
          with Check \<open>j = i\<close> Some w started [of 1] show ?thesis
            by (simp add: limiter_check_def window_of_def [symmetric] window_of_set)
        next
          case False
          with Check \<open>j = i\<close> Some w IH show ?thesis
            by (cases "n < ?m") (auto simp: limiter_check_def window_of_def [symmetric] window_of_set)
        qed
      qed
    qed
  qed
qed simp

text \<open>
  C19: the rate limit. Within any span of time as long as the window, whatever the other clients do and whenever
  expired windows are cleaned up, at most twice the configured number of requests of a client is let
  through (and at most two when the number is zero).
\<close>

theorem rate_limit_bounds:
  assumes "limiter_wf rl" "\<forall>ev \<in> set evs. a \<le> event_time ev \<and> event_time ev \<le> a + window_dur rl"
  shows "let_through i evs rl \<le> 2 * max 1 (rl_max_per_window rl) \<and> limiter_wf (fold limiter_step evs rl)"
proof -
  have "limiter_wf (fold limiter_step evs rl)"
    using assms(1) by (induction evs arbitrary: rl) (simp_all add: limiter_step_wf)
  with let_through_bound [OF assms, of i] show ?thesis by (auto split: option.splits)
qed

text \<open>
  A limit of three requests a minute: after a request at the start, five of the requests between the
  59th and the 61st second are let through, more than three and within the bound.
\<close>

definition example_limiter :: RateLimiter where
  "example_limiter = \<lparr>rl_windows = [(''c'', 0, 1)], rl_max_per_window = 3, rl_window_secs = 60\<rparr>"

definition example_events :: "limiter_event list" where
  "example_events =
     map (Check ''c'') [59000000000, 59000000000, 59000000000, 61000000000, 61000000000, 61000000000, 61000000000]"

theorem rate_limit_bounds_witness:
  "let_through ''c'' example_events example_limiter = 5 \<and>
   let_through ''c'' example_events example_limiter \<le> 2 * max 1 (rl_max_per_window example_limiter)"
proof -
  have "limiter_wf example_limiter" by code_simp
  moreover have "\<forall>ev \<in> set example_events.
      59000000000 \<le> event_time ev \<and> event_time ev \<le> 59000000000 + window_dur example_limiter"
    by code_simp
  ultimately have "let_through ''c'' example_events example_limiter \<le> 2 * max 1 (rl_max_per_window example_limiter)"
    using rate_limit_bounds by blast
  moreover have "let_through ''c'' example_events example_limiter = 5" by code_simp
  ultimately show ?thesis by blast
qed

text \<open>Windows do not slide: three requests within one second of a limit of two per second.\<close>

lemma limit_exceeded_within_window:
  "let_through ''c'' [Check ''c'' 1000000000, Check ''c'' 1000000001, Check ''c'' 1000000001]
     (limiter_step (Check ''c'' 0) (new_limiter 2 1)) = 3"
  by code_simp

end
