(* ===== verification/Mcp_Router.thy ===== *)
theory Mcp_Router
  imports Rate_Limit
begin

text \<open>
  The HTTP surface of the MCP server: \<open>http_router_with_state\<close> of \<open>src/codex-rs/native-harness-mcp/src/lib.rs\<close>, which
  puts the authorization server, the rate limit of its token endpoint and the check of access tokens
  in front of the MCP service. A nested router sees a request without the prefix it is mounted under.
  The service itself, the metrics and the layers that only observe requests are left out.
\<close>

record mcp_server =
  ms_auth :: AuthState
  ms_limiter :: RateLimiter

record reply_texts =
  tx_error :: "error \<Rightarrow> string"
  tx_jwt :: "jwt_error \<Rightarrow> string"

text \<open>What one request draws from outside.\<close>

record http_env =
  he_env :: oauth_env
  he_certs :: fetched
  he_instant :: int

datatype http_request =
    RegisterReq ClientRegistrationRequest
  | AuthorizeReq "string list" AuthorizeQuery
  | DecideReq "string list" DecideForm
  | TokenReq string TokenForm
  | IntrospectReq string
  | RevokeReq string
  | AuthorizationServerReq
  | ProtectedResourceReq
  | JwksReq
  | HealthReq
  | McpReq string "string option"

datatype http_reply = Reply oauth_response | Refused nat | PassedOn

text \<open>The path that the layers of the router mounted at \<open>/mcp\<close> see.\<close>

definition nested_path :: "string \<Rightarrow> string" where
  "nested_path path =
     (case strip_prefix ''/mcp'' path of
        Some rest \<Rightarrow> if rest = [] then ''/'' else rest
      | None \<Rightarrow> path)"

definition with_auth :: "mcp_server \<Rightarrow> oauth_response \<times> AuthState \<Rightarrow> http_reply \<times> mcp_server" where
  "with_auth srv r = (Reply (fst r), srv\<lparr>ms_auth := snd r\<rparr>)"

definition limited_token ::
  "libs \<Rightarrow> reply_texts \<Rightarrow> http_env \<Rightarrow> string \<Rightarrow> TokenForm \<Rightarrow> mcp_server \<Rightarrow> http_reply \<times> mcp_server" where
  "limited_token l tx e body form srv =
     (case rate_limit_token l (he_instant e) body (ms_limiter srv) of
        (Some status, limiter) \<Rightarrow> (Refused status, srv\<lparr>ms_limiter := limiter\<rparr>)
      | (None, limiter) \<Rightarrow>
          with_auth (srv\<lparr>ms_limiter := limiter\<rparr>) (token_request l (tx_error tx) (he_env e) form (ms_auth srv)))"

definition mcp_endpoint :: "libs \<Rightarrow> http_env \<Rightarrow> string \<Rightarrow> string option \<Rightarrow> mcp_server \<Rightarrow> http_reply" where
  "mcp_endpoint l e path authorization srv =
     (case require_bearer l (he_env e) (nested_path path) authorization (ms_auth srv) of
        Some status \<Rightarrow> Refused status
      | None \<Rightarrow> PassedOn)"

fun http_router :: "libs \<Rightarrow> reply_texts \<Rightarrow> http_env \<Rightarrow> http_request \<Rightarrow> mcp_server \<Rightarrow> http_reply \<times> mcp_server" where
  "http_router l tx e (RegisterReq req) srv =
     with_auth srv (register l (tx_error tx) (he_env e) req (ms_auth srv))"
| "http_router l tx e (AuthorizeReq headers query) srv =
     with_auth srv (authorize l (tx_jwt tx) (he_env e) (he_certs e) headers query (ms_auth srv))"
| "http_router l tx e (DecideReq headers form) srv =
     with_auth srv (decide l (tx_error tx) (he_env e) (he_certs e) headers form (ms_auth srv))"
| "http_router l tx e (TokenReq body form) srv = limited_token l tx e body form srv"
| "http_router l tx e (IntrospectReq presented) srv =
     (Reply (introspect l (he_env e) presented (ms_auth srv)), srv)"
| "http_router l tx e (RevokeReq presented) srv = with_auth srv (revoke l (he_env e) presented (ms_auth srv))"
| "http_router l tx e AuthorizationServerReq srv =
     (Reply (JsonOk (oauth_authorization_server (as_config (ms_auth srv)))), srv)"
| "http_router l tx e ProtectedResourceReq srv =
     (Reply (JsonOk (oauth_protected_resource (as_config (ms_auth srv)))), srv)"
| "http_router l tx e JwksReq srv = (Reply (JsonOk (keyring_jwks (as_keyring (ms_auth srv)))), srv)"
| "http_router l tx e HealthReq srv = (Reply (JsonOk (JObj [(''status'', JStr ''ok'')])), srv)"
| "http_router l tx e (McpReq path authorization) srv = (mcp_endpoint l e path authorization srv, srv)"

text \<open>
  The exception for \<open>/healthz\<close> is meant for a route outside of the mounted router. Inside it is met by the path
  \<open>/mcp/healthz\<close>, which is passed on to the service without a token.
\<close>

lemma mcp_healthz_unprotected: "http_router l tx e (McpReq ''/mcp/healthz'' None) srv = (PassedOn, srv)"
proof -
  have "nested_path ''/mcp/healthz'' = ''/healthz''" by code_simp
  then show ?thesis by (simp add: mcp_endpoint_def require_bearer_def)
qed

end
