(* ===== verification/Oauth_Safety.thy ===== *)
theory Oauth_Safety
  imports Mcp_Router
begin

text \<open>
  How a request changes the tables of the authorization server: rows are kept, a code that is consumed and a token that
  is revoked stay so, and a handler adds only rows for a client and a subject that hold a grant already or
  for the grant the operator consents to with the request (\<open>safe_step\<close>, \<open>router_safe\<close>).
\<close>

section \<open>How the tables evolve\<close>

definition code_le :: "AuthCodeRecord \<Rightarrow> AuthCodeRecord \<Rightarrow> bool" where
  "code_le r r' \<longleftrightarrow> r' = r \<or> ac_consumed_at r = None \<and> (\<exists>t. r' = r\<lparr>ac_consumed_at := Some t\<rparr>)"

definition refresh_le :: "RefreshTokenRecord \<Rightarrow> RefreshTokenRecord \<Rightarrow> bool" where
  "refresh_le r r' \<longleftrightarrow> r' = r \<or> rt_revoked_at r = None \<and> (\<exists>t. r' = r\<lparr>rt_revoked_at := Some t\<rparr>)"

definition jti_le :: "AccessTokenJtiRecord \<Rightarrow> AccessTokenJtiRecord \<Rightarrow> bool" where
  "jti_le r r' \<longleftrightarrow> r' = r \<or> jt_revoked_at r = None \<and> (\<exists>t. r' = r\<lparr>jt_revoked_at := Some t\<rparr>)"

text \<open>Every row of a table stays, in the given order of rows.\<close>

definition rows_le :: "('r \<Rightarrow> 'r \<Rightarrow> bool) \<Rightarrow> (string \<Rightarrow> 'r option) \<Rightarrow> (string \<Rightarrow> 'r option) \<Rightarrow> bool" where
  "rows_le le t t' \<longleftrightarrow> (\<forall>k r. t k = Some r \<longrightarrow> (\<exists>r'. t' k = Some r' \<and> le r r'))"

definition oauth_le :: "oauth_store \<Rightarrow> oauth_store \<Rightarrow> bool" where
  "oauth_le s s' \<longleftrightarrow>
     rows_le (=) (\<lambda>k. get_client k s) (\<lambda>k. get_client k s') \<and>
     rows_le code_le (\<lambda>k. get_auth_code k s) (\<lambda>k. get_auth_code k s') \<and>
     rows_le refresh_le (\<lambda>k. get_refresh_token k s) (\<lambda>k. get_refresh_token k s') \<and>
     rows_le jti_le (\<lambda>k. get_jti k s) (\<lambda>k. get_jti k s')"

lemma rows_le_refl: "(\<And>r. le r r) \<Longrightarrow> rows_le le t t"
  by (simp add: rows_le_def)

lemma rows_le_trans:
  assumes "\<And>a b c. le a b \<Longrightarrow> le b c \<Longrightarrow> le a c" "rows_le le t t'" "rows_le le t' t''"
  shows "rows_le le t t''"
  using assms unfolding rows_le_def by meson

lemma oauth_row_le_refl [simp]: "code_le r r" "refresh_le q q" "jti_le j j"
  by (simp_all add: code_le_def refresh_le_def jti_le_def)

lemma oauth_row_le_trans:
  "code_le a b \<Longrightarrow> code_le b c \<Longrightarrow> code_le a c"
  "refresh_le a' b' \<Longrightarrow> refresh_le b' c' \<Longrightarrow> refresh_le a' c'"
  "jti_le a'' b'' \<Longrightarrow> jti_le b'' c'' \<Longrightarrow> jti_le a'' c''"
  by (auto simp: code_le_def refresh_le_def jti_le_def)

lemma oauth_le_refl [simp]: "oauth_le s s"
  by (simp add: oauth_le_def rows_le_refl)

lemma oauth_le_trans:
  assumes "oauth_le s s'" "oauth_le s' s''"
  shows "oauth_le s s''"
proof -
  have "rows_le (=) (\<lambda>k. get_client k s) (\<lambda>k. get_client k s'')"
    by (rule rows_le_trans [OF trans]) (use assms in \<open>auto simp: oauth_le_def\<close>)
  moreover have "rows_le code_le (\<lambda>k. get_auth_code k s) (\<lambda>k. get_auth_code k s'')"
    by (rule rows_le_trans [OF oauth_row_le_trans(1)]) (use assms in \<open>auto simp: oauth_le_def\<close>)
  moreover have "rows_le refresh_le (\<lambda>k. get_refresh_token k s) (\<lambda>k. get_refresh_token k s'')"
    by (rule rows_le_trans [OF oauth_row_le_trans(2)]) (use assms in \<open>auto simp: oauth_le_def\<close>)
  moreover have "rows_le jti_le (\<lambda>k. get_jti k s) (\<lambda>k. get_jti k s'')"
    by (rule rows_le_trans [OF oauth_row_le_trans(3)]) (use assms in \<open>auto simp: oauth_le_def\<close>)
  ultimately show ?thesis by (simp add: oauth_le_def)
qed

text \<open>
  A credential that can be spent: whatever happens to the store, one that is spent stays so. The
  contract is met by authorization codes, refresh tokens and the identifiers of access tokens.
\<close>

locale spendable =
  fixes get :: "string \<Rightarrow> 's \<Rightarrow> 'r option"
    and spent :: "'r \<Rightarrow> bool"
    and le :: "'s \<Rightarrow> 's \<Rightarrow> bool"
  assumes kept: "le s s' \<Longrightarrow> get k s = Some r \<Longrightarrow> spent r \<Longrightarrow> \<exists>r'. get k s' = Some r' \<and> spent r'"
begin

lemma stays_spent:
  assumes "get k s = Some r" "spent r" "le s s'"
  shows "\<not> (\<exists>r'. get k s' = Some r' \<and> \<not> spent r')" "get k s' \<noteq> None"
  using kept [OF assms(3,1,2)] by auto

lemma stays_spent_after:
  assumes "get k s = Some r" "spent r" "le s s'" "le s' s''" "\<And>a b c. le a b \<Longrightarrow> le b c \<Longrightarrow> le a c"
  shows "\<exists>r'. get k s'' = Some r' \<and> spent r'"
  using kept [OF assms(5) [OF assms(3,4)] assms(1,2)] .

end

interpretation codes: spendable get_auth_code "\<lambda>r. ac_consumed_at r \<noteq> None" oauth_le
  by unfold_locales (fastforce simp: oauth_le_def rows_le_def code_le_def)

interpretation refreshes: spendable get_refresh_token "\<lambda>r. rt_revoked_at r \<noteq> None" oauth_le
  by unfold_locales (fastforce simp: oauth_le_def rows_le_def refresh_le_def)

interpretation jtis: spendable get_jti "\<lambda>r. jt_revoked_at r \<noteq> None" oauth_le
  by unfold_locales (fastforce simp: oauth_le_def rows_le_def jti_le_def)


interpretation jti_table: keyed_table insert_access_jti get_jti jt_jti "\<lambda>_. True"
  by unfold_locales (auto simp: insert_access_jti_def get_jti_def lookup_upsert dest: lookup_SomeD)


section \<open>The statements\<close>

lemmas get_ops = get_client_def get_auth_code_def get_refresh_token_def get_jti_def

lemma map_sum_Inr: "map_sum id f r = Inr y \<longleftrightarrow> (\<exists>x. r = Inr x \<and> y = f x)"
  by (cases r) auto

lemma insert_client_Inr:
  "insert_client r s = Inr s' \<longleftrightarrow>
     get_client (cl_client_id r) s = None \<and> s' = s\<lparr>os_clients := os_clients s @ [r]\<rparr>"
  by (auto simp: insert_client_def map_sum_Inr insert_row_Inr get_client_def)

lemma insert_auth_code_Inr:
  "insert_auth_code r s = Inr s' \<longleftrightarrow>
     get_auth_code (ac_code_hash r) s = None \<and> s' = s\<lparr>os_codes := os_codes s @ [r]\<rparr>"
  by (auto simp: insert_auth_code_def map_sum_Inr insert_row_Inr get_auth_code_def)

lemma insert_refresh_token_Inr:
  "insert_refresh_token r s = Inr s' \<longleftrightarrow>
     get_refresh_token (rt_token_hash r) s = None \<and> s' = s\<lparr>os_refresh_tokens := os_refresh_tokens s @ [r]\<rparr>"
  by (auto simp: insert_refresh_token_def map_sum_Inr insert_row_Inr get_refresh_token_def)

lemma coalesce_simps [simp]: "coalesce None d = Some d" "coalesce (Some v) d = Some v" "coalesce x d \<noteq> None"
  by (simp_all add: coalesce_def split: option.splits)

lemma insert_client_le: "insert_client r s = Inr s' \<Longrightarrow> oauth_le s s'"
  by (auto simp: insert_client_Inr oauth_le_def rows_le_def get_ops lookup_append_row)

lemma insert_auth_code_le: "insert_auth_code r s = Inr s' \<Longrightarrow> oauth_le s s'"
  by (auto simp: insert_auth_code_Inr oauth_le_def rows_le_def get_ops lookup_append_row)

lemma insert_refresh_token_le: "insert_refresh_token r s = Inr s' \<Longrightarrow> oauth_le s s'"
  by (auto simp: insert_refresh_token_Inr oauth_le_def rows_le_def get_ops lookup_append_row)

lemma insert_access_jti_le: "get_jti (jt_jti r) s = None \<Longrightarrow> oauth_le s (insert_access_jti r s)"
  unfolding oauth_le_def rows_le_def jti_table.get_put [OF TrueI]
  by (auto simp: insert_access_jti_def get_client_def get_auth_code_def get_refresh_token_def)

lemma get_refresh_revoked:
  "get_refresh_token k (revoke_refresh_token h now s) =
     (if k = h then map_option (\<lambda>r. r\<lparr>rt_revoked_at := coalesce (rt_revoked_at r) now\<rparr>) else id) (get_refresh_token k s)"
  by (simp add: revoke_refresh_token_def get_refresh_token_def lookup_update_rows)

lemma get_jti_revoked:
  "get_jti k (revoke_jti j now s) =
     (if k = j then map_option (\<lambda>r. r\<lparr>jt_revoked_at := coalesce (jt_revoked_at r) now\<rparr>) else id) (get_jti k s)"
  by (simp add: revoke_jti_def get_jti_def lookup_update_rows)

lemma revoke_refresh_token_le: "oauth_le s (revoke_refresh_token h now s)"
proof -
  have "refresh_le r (r\<lparr>rt_revoked_at := coalesce (rt_revoked_at r) now\<rparr>)" for r
    by (cases "rt_revoked_at r") (auto simp: refresh_le_def)
  then show ?thesis
    by (auto simp: oauth_le_def rows_le_def get_refresh_revoked)
       (auto simp: revoke_refresh_token_def get_ops)
qed

lemma revoke_jti_le: "oauth_le s (revoke_jti j now s)"
proof -
  have "jti_le r (r\<lparr>jt_revoked_at := coalesce (jt_revoked_at r) now\<rparr>)" for r
    by (cases "jt_revoked_at r") (auto simp: jti_le_def)
  then show ?thesis
    by (auto simp: oauth_le_def rows_le_def get_jti_revoked) (auto simp: revoke_jti_def get_ops)
qed

lemma consume_auth_code_Some:
  assumes "consume_auth_code h now s = (Some r, s')"
  shows "get_auth_code h s = Some r" "ac_consumed_at r = None" "now < ac_expires_at r"
    "get_auth_code h s' = Some (r\<lparr>ac_consumed_at := Some now\<rparr>)"
    "s' = s\<lparr>os_codes := update_rows ac_code_hash h (\<lambda>r. r\<lparr>ac_consumed_at := Some now\<rparr>) (os_codes s)\<rparr>"
    "oauth_le s s'"
proof -
  show g: "get_auth_code h s = Some r" "ac_consumed_at r = None" "now < ac_expires_at r"
    and s': "s' = s\<lparr>os_codes := update_rows ac_code_hash h (\<lambda>r. r\<lparr>ac_consumed_at := Some now\<rparr>) (os_codes s)\<rparr>"
    using assms by (auto simp: consume_auth_code_def is_some_iff split: option.splits if_splits)
  have codes: "get_auth_code k s' =
      (if k = h then map_option (\<lambda>r. r\<lparr>ac_consumed_at := Some now\<rparr>) else id) (get_auth_code k s)" for k
    by (simp add: s' get_auth_code_def lookup_update_rows)
  with g show "get_auth_code h s' = Some (r\<lparr>ac_consumed_at := Some now\<rparr>)" by simp
  have "rows_le code_le (\<lambda>k. get_auth_code k s) (\<lambda>k. get_auth_code k s')"
    using g by (auto simp: rows_le_def codes code_le_def)
  then show "oauth_le s s'" by (auto simp: oauth_le_def rows_le_def s' get_ops)
qed

lemma consume_auth_code_None: "consume_auth_code h now s = (None, s') \<Longrightarrow> s' = s"
  by (auto simp: consume_auth_code_def split: option.splits if_splits)


section \<open>Whom the credentials stand for\<close>

definition held :: "oauth_store \<Rightarrow> (string \<times> string \<times> string) set" where
  "held s = set (map (\<lambda>r. (ac_client_id r, ac_subject r, ac_scope r)) (os_codes s))
     \<union> set (map (\<lambda>r. (rt_client_id r, rt_subject r, rt_scope r)) (os_refresh_tokens s))"

definition acting :: "oauth_store \<Rightarrow> (string \<times> string) set" where
  "acting s = set (map (\<lambda>r. (jt_client_id r, jt_subject r)) (os_jtis s))"

definition for_whom :: "string \<times> string \<times> string \<Rightarrow> string \<times> string" where
  "for_whom g = (fst g, fst (snd g))"

lemma map_update_rows: "(\<And>x. g (f x) = g x) \<Longrightarrow> map g (update_rows key k f xs) = map g xs"
  by (simp add: update_rows_def)

text \<open>A step that adds at most the grants \<open>G\<close>.\<close>

definition safe_step :: "(string \<times> string \<times> string) set \<Rightarrow> AuthState \<Rightarrow> AuthState \<Rightarrow> bool" where
  "safe_step G st st' \<longleftrightarrow>
     oauth_le (as_store st) (as_store st') \<and> held (as_store st') \<subseteq> held (as_store st) \<union> G \<and>
     acting (as_store st') \<subseteq> acting (as_store st) \<union> for_whom ` held (as_store st) \<and>
     as_keyring st' = as_keyring st \<and> as_config st' = as_config st"

lemma safe_step_same [simp]: "safe_step G st st" "safe_step G st (st\<lparr>as_cf := cf\<rparr>)"
  by (auto simp: safe_step_def)

lemma safe_step_store:
  "oauth_le (as_store st) s \<Longrightarrow> held s \<subseteq> held (as_store st) \<union> G \<Longrightarrow>
     acting s \<subseteq> acting (as_store st) \<union> for_whom ` held (as_store st) \<Longrightarrow> safe_step G st (st\<lparr>as_store := s\<rparr>)"
  by (simp add: safe_step_def)

lemma register_inner_Inr:
  assumes "register_inner l e req st = Inr (r, st')"
  obtains row s where "insert_client row (as_store st) = Inr s" "st' = st\<lparr>as_store := s\<rparr>"
  using assms unfolding register_inner_def
  by (auto simp: Let_def and_then_eq_Inr split: if_splits option.splits)

lemma register_safe:
  assumes "register l t e req st = (r, st')"
  shows "safe_step {} st st'"
proof (cases "register_inner l e req st")
  case (Inl err)
  with assms show ?thesis by (simp add: register_def)
next
  case (Inr x)
  with assms have "register_inner l e req st = Inr (fst x, st')" by (cases x) (simp add: register_def)
  then obtain row s where s: "insert_client row (as_store st) = Inr s" "st' = st\<lparr>as_store := s\<rparr>"
    by (rule register_inner_Inr)
  show ?thesis unfolding s(2)
    by (rule safe_step_store)
       (use insert_client_le [OF s(1)] s(1) in \<open>auto simp: insert_client_Inr held_def acting_def\<close>)
qed

lemma authorize_state: "\<exists>cf. snd (authorize l t e certs headers q st) = st\<lparr>as_cf := cf\<rparr>"
proof -
  have "\<exists>cf. st = st\<lparr>as_cf := cf\<rparr>" by (rule exI [of _ "as_cf st"]) simp
  then show ?thesis
    by (auto simp: authorize_def Let_def split: if_splits option.splits sum.splits prod.splits)
qed

lemma authorize_safe: "authorize l t e certs headers q st = (r, st') \<Longrightarrow> safe_step {} st st'"
  using authorize_state [of l t e certs headers q st] by auto

lemma allow_form_state:
  "snd (allow_form l t e subject form st) = st \<or>
     (\<exists>s. insert_auth_code (code_row l (oe_now e 2) (new_opaque_token l e 0) subject form) (as_store st) = Inr s
       \<and> snd (allow_form l t e subject form st) = st\<lparr>as_store := s\<rparr>)"
  by (simp add: allow_form_def Let_def split: option.split sum.split)

lemma allow_form_safe:
  "safe_step {(df_client_id form, subject, df_scope form)} st (snd (allow_form l t e subject form st))"
proof -
  have "safe_step {(df_client_id form, subject, df_scope form)} st (st\<lparr>as_store := s\<rparr>)"
    if s: "insert_auth_code (code_row l now code subject form) (as_store st) = Inr s" for now code s
    by (rule safe_step_store)
       (use insert_auth_code_le [OF s] s in \<open>auto simp: insert_auth_code_Inr held_def acting_def code_row_def\<close>)
  with allow_form_state [of l t e subject form st] show ?thesis by auto
qed

text \<open>The grants an operator consents to with a request.\<close>

fun consents :: "libs \<Rightarrow> http_env \<Rightarrow> http_request \<Rightarrow> mcp_server \<Rightarrow> (string \<times> string \<times> string) set" where
  "consents l e (DecideReq headers form) srv =
     (case extract_cf_cookie headers of
        None \<Rightarrow> {}
      | Some token \<Rightarrow>
          (case fst (cf_verify l (he_env e) (he_certs e) token (as_cf (ms_auth srv))) of
             Inr (Some claims) \<Rightarrow>
               if df_decision form = ''allow'' then {(df_client_id form, cc_sub claims, df_scope form)} else {}
           | _ \<Rightarrow> {}))"
| "consents l e req srv = {}"

lemma decide_safe:
  "safe_step (consents l e (DecideReq headers form) srv) (ms_auth srv)
     (snd (decide l t (he_env e) (he_certs e) headers form (ms_auth srv)))"
proof (cases "extract_cf_cookie headers")
  case None
  then show ?thesis by (simp add: decide_def)
next
  case (Some token)
  obtain v cf where v: "cf_verify l (he_env e) (he_certs e) token (as_cf (ms_auth srv)) = (v, cf)" by fastforce
  have "safe_step {(df_client_id form, subject, df_scope form)} (ms_auth srv)
      (snd (allow_form l t (he_env e) subject form (ms_auth srv\<lparr>as_cf := cf\<rparr>)))" for subject
    using allow_form_safe [of form subject "ms_auth srv\<lparr>as_cf := cf\<rparr>" l t "he_env e"] by (simp add: safe_step_def)
  with Some v show ?thesis by (simp add: decide_def split: sum.split option.split)
qed

text \<open>Tokens are issued for a grant that is held; the identifier of the access token is new.\<close>

lemma issue_tokens_state:
  "\<exists>s. snd (issue_tokens l e k client_id subject scope st) = st\<lparr>as_store := s\<rparr> \<and>
     (s = as_store st \<or>
      (let s' = insert_access_jti (jti_row (as_config st) (oe_now e k) client_id subject (new_opaque_token l e 0)) (as_store st)
       in s = s' \<or>
          insert_refresh_token (refresh_row l (oe_now e k) client_id subject scope (new_opaque_token l e 1)) s' = Inr s))"
  by (auto simp: issue_tokens_def Let_def split: option.split sum.split) (rule exI [of _ "as_store st"], simp)

lemma jti_inserted:
  fixes config now
  assumes "(client_id, subject, scope) \<in> held s" "get_jti jti s = None"
  defines "s' \<equiv> insert_access_jti (jti_row config now client_id subject jti) s"
  shows "oauth_le s s'" "held s' = held s" "acting s' \<subseteq> acting s \<union> for_whom ` held s"
proof -
  show "oauth_le s s'" unfolding s'_def by (rule insert_access_jti_le) (simp add: jti_row_def assms(2))
  show "held s' = held s" by (simp add: s'_def held_def insert_access_jti_def)
  have "(client_id, subject) \<in> for_whom ` held s" using assms(1) by (force simp: for_whom_def)
  then show "acting s' \<subseteq> acting s \<union> for_whom ` held s"
    by (auto simp: s'_def acting_def insert_access_jti_def upsert_def jti_row_def)
qed

lemma refresh_inserted:
  assumes "insert_refresh_token (refresh_row l now client_id subject scope token) s = Inr s'"
  shows "oauth_le s s'" "held s' = insert (client_id, subject, scope) (held s)" "acting s' = acting s"
  using assms insert_refresh_token_le [OF assms]
  by (auto simp: insert_refresh_token_Inr held_def acting_def refresh_row_def)

lemma issue_tokens_safe:
  assumes "(client_id, subject, scope) \<in> held (as_store st)" "get_jti (new_opaque_token l e 0) (as_store st) = None"
  shows "safe_step {} st (snd (issue_tokens l e k client_id subject scope st))"
proof -
  define s' where "s' = insert_access_jti (jti_row (as_config st) (oe_now e k) client_id subject (new_opaque_token l e 0)) (as_store st)"
  note j = jti_inserted [OF assms, of "as_config st" "oe_now e k", folded s'_def]
  have "safe_step {} st (st\<lparr>as_store := s\<rparr>)"
    if "insert_refresh_token (refresh_row l (oe_now e k) client_id subject scope (new_opaque_token l e 1)) s' = Inr s" for s
    using refresh_inserted [OF that] j assms(1) by (intro safe_step_store) (auto intro: oauth_le_trans)
  moreover have "safe_step {} st (st\<lparr>as_store := s'\<rparr>)" by (rule safe_step_store) (use j in auto)
  ultimately show ?thesis
    using issue_tokens_state [of l e k client_id subject scope st] unfolding s'_def [symmetric] Let_def by auto
qed

lemma consumed_grants:
  assumes "consume_auth_code h now s = (Some r, s')"
  shows "held s' = held s" "acting s' = acting s" "(ac_client_id r, ac_subject r, ac_scope r) \<in> held s"
proof -
  note c = consume_auth_code_Some [OF assms]
  from c(1) have "r \<in> set (os_codes s)" by (auto simp: get_auth_code_def dest: lookup_SomeD)
  then show "(ac_client_id r, ac_subject r, ac_scope r) \<in> held s" by (auto simp: held_def)
  show "held s' = held s" "acting s' = acting s"
    unfolding c(5) held_def acting_def oauth_store.simps by (simp_all add: map_update_rows)
qed

lemma revoked_grants:
  "held (revoke_refresh_token h now s) = held s" "acting (revoke_refresh_token h now s) = acting s"
  "held (revoke_jti j now s) = held s" "acting (revoke_jti j now s) = acting s"
  "get_jti k (revoke_refresh_token h now s) = get_jti k s"
  by (simp_all add: held_def acting_def revoke_refresh_token_def revoke_jti_def map_update_rows get_jti_def)

lemma redeem_code_safe:
  assumes "get_jti (new_opaque_token l e 0) (as_store st) = None"
  shows "safe_step {} st (snd (redeem_code l t e code client_id redirect_uri verifier st))"
proof (cases "get_client client_id (as_store st)")
  case None
  then show ?thesis by (simp add: redeem_code_def)
next
  case (Some client)
  obtain c s where c: "consume_auth_code (hash_token l code) (oe_now e 0) (as_store st) = (c, s)" by fastforce
  show ?thesis
  proof (cases c)
    case None
    with Some c consume_auth_code_None show ?thesis by (fastforce simp: redeem_code_def)
  next
    case r: (Some r)
    note c = c [unfolded r]
    note g = consumed_grants [OF c] and le = consume_auth_code_Some(6) [OF c]
    have spent: "safe_step {} st (st\<lparr>as_store := s\<rparr>)" by (rule safe_step_store) (use g le in auto)
    have "get_jti (new_opaque_token l e 0) s = None"
      using assms consume_auth_code_Some(5) [OF c] by (simp add: get_jti_def)
    then have "safe_step {} (st\<lparr>as_store := s\<rparr>)
        (snd (issue_tokens l e 1 (cl_client_id client) (ac_subject r) (ac_scope r) (st\<lparr>as_store := s\<rparr>)))"
      if "ac_client_id r = cl_client_id client"
      using g that by (intro issue_tokens_safe) auto
    then have issued: "safe_step {} st
        (snd (issue_tokens l e 1 (cl_client_id client) (ac_subject r) (ac_scope r) (st\<lparr>as_store := s\<rparr>)))"
      if "ac_client_id r = cl_client_id client"
      using g le that by (auto simp: safe_step_def intro: oauth_le_trans)
    have "ac_client_id r = cl_client_id client" if "code_mismatch l (cl_client_id client) redirect_uri verifier r = None"
      using that by (auto simp: code_mismatch_def split: if_splits)
    with Some c spent issued show ?thesis
      by (auto simp: redeem_code_def split: option.split prod.split)
  qed
qed

lemma rotate_token_safe:
  assumes "get_jti (new_opaque_token l e 0) (as_store st) = None"
  shows "safe_step {} st (snd (rotate_token l t e refresh client_id st))"
proof -
  define s where "s = revoke_refresh_token (hash_token l refresh) (oe_now e 1) (as_store st)"
  have le: "oauth_le (as_store st) s" and g: "held s = held (as_store st)" "acting s = acting (as_store st)"
    by (simp_all add: s_def revoke_refresh_token_le revoked_grants)
  have "safe_step {} st (snd (issue_tokens l e 2 (rt_client_id r) (rt_subject r) (rt_scope r) (st\<lparr>as_store := s\<rparr>)))"
    if "get_refresh_token h (as_store st) = Some r" for h r
  proof -
    from that have "r \<in> set (os_refresh_tokens (as_store st))"
      by (auto simp: get_refresh_token_def dest: lookup_SomeD)
    then have "(rt_client_id r, rt_subject r, rt_scope r) \<in> held (as_store (st\<lparr>as_store := s\<rparr>))"
      by (auto simp: g) (auto simp: held_def)
    moreover have "get_jti (new_opaque_token l e 0) (as_store (st\<lparr>as_store := s\<rparr>)) = None"
      using assms by (simp add: s_def revoked_grants)
    ultimately have "safe_step {} (st\<lparr>as_store := s\<rparr>)
        (snd (issue_tokens l e 2 (rt_client_id r) (rt_subject r) (rt_scope r) (st\<lparr>as_store := s\<rparr>)))"
      by (rule issue_tokens_safe)
    then show ?thesis using g le by (auto simp: safe_step_def intro: oauth_le_trans)
  qed
  then show ?thesis
    unfolding rotate_token_def rotate_finish_def s_def [symmetric]
    by (auto dest!: rotate_check_Inr split: sum.split prod.split) (metis snd_conv)
qed

lemma token_request_safe:
  assumes "get_jti (new_opaque_token l e 0) (as_store st) = None"
  shows "safe_step {} st (snd (token_request l t e form st))"
  using redeem_code_safe [OF assms] rotate_token_safe [OF assms]
  by (simp add: token_request_def handle_authorization_code_def handle_refresh_token_def split: option.split)

lemma revoke_safe: "safe_step {} st (snd (revoke l e presented st))"
proof -
  define s where "s = revoke_refresh_token (hash_token l presented) (oe_now e 0) (as_store st)"
  have "oauth_le (as_store st) s" by (simp add: s_def revoke_refresh_token_le)
  then have "safe_step {} st (st\<lparr>as_store := s\<rparr>)" "safe_step {} st (st\<lparr>as_store := revoke_jti j n s\<rparr>)" for j n
    by (auto intro!: safe_step_store intro: oauth_le_trans revoke_jti_le simp: revoked_grants s_def)
  then show ?thesis by (simp add: revoke_def Let_def s_def split: option.split)
qed

lemma router_safe:
  assumes "get_jti (new_opaque_token l (he_env e) 0) (as_store (ms_auth srv)) = None"
  shows "safe_step (consents l e req srv) (ms_auth srv) (ms_auth (snd (http_router l tx e req srv)))"
  using register_safe [OF surjective_pairing] authorize_safe [OF surjective_pairing] decide_safe
    token_request_safe [OF assms] revoke_safe
  by (cases req) (simp_all add: with_auth_def limited_token_def split: option.split prod.split)

end
