(* ===== verification/Oauth_Demo.thy ===== *)
theory Oauth_Demo
  imports Mcp_Router
begin

text \<open>
  A small instance of the libraries and a run of the authorization server on it, on which the properties of the server
  are evaluated: a client registers, an operator consents, the client redeems the code, uses the access token,
  rotates the refresh token and revokes the access token.
\<close>

definition demo_config :: AuthConfig where
  "demo_config = \<lparr>public_base_url = ''https://h'', cf_access_team = ''https://t'', cf_access_aud = ''a'',
     access_ttl_secs = 60, refresh_ttl_secs = 60, allow_client_credentials = False\<rparr>"

definition demo_json :: "(string \<times> jval) list" where
  "demo_json =
     [(''h'', JObj [(''alg'', JStr ''RS256''), (''typ'', JStr ''JWT''), (''kid'', JStr ''chatcodex-K0'')]),
      (''T0'', access_claims_for demo_config 10 ''c'' ''op'' ''mcp:tools'' ''T0''),
      (''U0'', access_claims_for demo_config 10 ''c'' ''op'' ''mcp:tools'' ''U0''),
      (''cfh'', JObj [(''alg'', JStr ''RS256''), (''kid'', JStr ''cf'')]),
      (''cfc'', JObj [(''aud'', JStr ''a''), (''sub'', JStr ''op''), (''iss'', JStr ''https://t''),
         (''iat'', JNum 1), (''exp'', JNum 100)])]"

definition demo_libs :: libs where
  "demo_libs = \<lparr>sha256 = (\<lambda>s. s), b64_encode = (\<lambda>s. s), b64_decode = Some,
     json_text = (\<lambda>v. unwrap_or ''h'' (get_str ''jti'' v)), json_read = map_of demo_json,
     rsa_sign = (\<lambda>pem m. Some ''sig''), rsa_public = (\<lambda>pem. Some ''pub''),
     rsa_from_parts = (\<lambda>n e. Some ''pub''), rsa_verify = (\<lambda>k m s. Some (s = ''sig'')),
     url_scheme = (\<lambda>u. Some ''https''), url_pairs = (\<lambda>u ps. u), url_decode = Some\<rparr>"

definition demo_texts :: reply_texts where
  "demo_texts = \<lparr>tx_error = (\<lambda>_. ''error''), tx_jwt = (\<lambda>_. ''jwt'')\<rparr>"

definition demo_jwk :: jval where
  "demo_jwk = JObj [(''kty'', JStr ''RSA''), (''use'', JStr ''sig''), (''alg'', JStr ''RS256''), (''kid'', JStr ''chatcodex-K0''),
     (''n'', JStr ''n''), (''e'', JStr ''e'')]"

text \<open>The state after the start on an empty database (lemma \<open>demo_started\<close>).\<close>

definition demo_auth :: AuthState where
  "demo_auth = \<lparr>as_config = demo_config,
     as_store = empty_oauth_store\<lparr>os_signing_keys := [\<lparr>sk_kid = ''chatcodex-K0'', sk_alg = ''RS256'', sk_private_pem = ''pem'',
       sk_public_jwk = demo_jwk, sk_created_at = 10, sk_is_active = True\<rparr>]\<rparr>,
     as_keyring = \<lparr>kr_active = \<lparr>ke_kid = ''chatcodex-K0'', ke_alg = ''RS256'', ke_private_pem = ''pem'',
       ke_public_jwk = demo_jwk\<rparr>, kr_issuer = ''https://h'', kr_audience = ''https://h/mcp''\<rparr>,
     as_cf = \<lparr>cf_team_origin = ''https://t'', cf_expected_aud = ''a'', cf_cache = None\<rparr>\<rparr>"

definition demo_start :: mcp_server where
  "demo_start = \<lparr>ms_auth = demo_auth, ms_limiter = new_limiter 10 60\<rparr>"

text \<open>A request at time ten whose random bytes are a letter and their number.\<close>

definition demo_env :: "string \<Rightarrow> http_env" where
  "demo_env c = \<lparr>he_env = \<lparr>oe_now = (\<lambda>_. 10), oe_random = (\<lambda>k. c @ (if k = 0 then ''0'' else ''1''))\<rparr>,
     he_certs = Inr [\<lparr>cj_kid = ''cf'', cj_kty = ''RSA'', cj_usage = None, cj_alg = ''RS256'', cj_n = ''n'', cj_e = ''e''\<rparr>],
     he_instant = 10\<rparr>"

definition demo_code_form :: TokenForm where
  "demo_code_form = \<lparr>tf_grant_type = ''authorization_code'', tf_code = Some ''D0'', tf_redirect_uri = Some ''https://r'',
     tf_client_id = Some ''c'', tf_client_secret = None, tf_code_verifier = Some ''v'', tf_refresh_token = None,
     tf_resource = None\<rparr>"

definition demo_refresh_form :: TokenForm where
  "demo_refresh_form = \<lparr>tf_grant_type = ''refresh_token'', tf_code = None, tf_redirect_uri = None,
     tf_client_id = Some ''c'', tf_client_secret = None, tf_code_verifier = None, tf_refresh_token = Some ''T1'',
     tf_resource = None\<rparr>"

definition demo_requests :: "(http_env \<times> http_request) list" where
  "demo_requests =
     [(demo_env ''C'', RegisterReq \<lparr>rq_client_name = None, rq_redirect_uris = [''https://r''], rq_grant_types = None,
         rq_token_endpoint_auth_method = ''none'', rq_client_secret = None, rq_client_id = Some ''c''\<rparr>),
      (demo_env ''D'', DecideReq [''CF_Authorization=cfh.cfc.sig''] \<lparr>df_decision = ''allow'', df_client_id = ''c'',
         df_redirect_uri = ''https://r'', df_scope = ''mcp:tools'', df_state = None, df_code_challenge = ''v'',
         df_code_challenge_method = ''S256''\<rparr>),
      (demo_env ''T'', TokenReq ''client_id=c'' demo_code_form),
      (demo_env ''M'', McpReq ''/mcp'' (Some ''Bearer h.T0.sig'')),
      (demo_env ''U'', TokenReq ''client_id=c'' demo_refresh_form),
      (demo_env ''R'', RevokeReq ''h.T0.sig''),
      (demo_env ''M'', McpReq ''/mcp'' (Some ''Bearer h.T0.sig''))]"

definition demo_rsa_key :: rsa_key where
  "demo_rsa_key = \<lparr>rk_pem = ''pem'', rk_n = ''n'', rk_e = ''e''\<rparr>"

lemma demo_started:
  "auth_state_new demo_libs (he_env (demo_env ''K'')) (Inr demo_rsa_key) demo_config empty_oauth_store
     = (Inr demo_auth, as_store demo_auth)"
  by code_simp

end
