(* ===== verification/Oauth_Session.thy ===== *)
theory Oauth_Session
  imports Oauth_Safety Oauth_Demo
begin

text \<open>
  Sequences of requests to the MCP server and what holds for every one of them: codes and refresh tokens are good for
  one use and revoked tokens for none, and whoever reaches the MCP service with a token acts for an operator who
  gave consent.
\<close>

section \<open>Sessions\<close>

record exchange =
  ex_env :: http_env
  ex_request :: http_request
  ex_before :: mcp_server
  ex_reply :: http_reply
  ex_after :: mcp_server

abbreviation store_of :: "mcp_server \<Rightarrow> oauth_store" where
  "store_of srv \<equiv> as_store (ms_auth srv)"

text \<open>The 32 random bytes that would identify an access token are not those of a token issued before.\<close>

inductive mcp_session :: "libs \<Rightarrow> reply_texts \<Rightarrow> mcp_server \<Rightarrow> exchange list \<Rightarrow> mcp_server \<Rightarrow> bool"
  for l :: libs and tx :: reply_texts and srv :: mcp_server where
  start: "mcp_session l tx srv [] srv"
| request: "mcp_session l tx srv log srv1 \<Longrightarrow>
    get_jti (new_opaque_token l (he_env e) 0) (store_of srv1) = None \<Longrightarrow>
    http_router l tx e req srv1 = (reply, srv2) \<Longrightarrow>
    mcp_session l tx srv
      (log @ [\<lparr>ex_env = e, ex_request = req, ex_before = srv1, ex_reply = reply, ex_after = srv2\<rparr>]) srv2"

text \<open>A session computed from its requests; nothing when the identifiers are not new.\<close>

fun run_session ::
  "libs \<Rightarrow> reply_texts \<Rightarrow> (http_env \<times> http_request) list \<Rightarrow> exchange list \<Rightarrow> mcp_server \<Rightarrow> (exchange list \<times> mcp_server) option" where
  "run_session l tx [] log srv = Some (log, srv)"
| "run_session l tx ((e, req) # rest) log srv =
     (if is_some (get_jti (new_opaque_token l (he_env e) 0) (store_of srv)) then None
      else case http_router l tx e req srv of
        (reply, srv') \<Rightarrow>
          run_session l tx rest
            (log @ [\<lparr>ex_env = e, ex_request = req, ex_before = srv, ex_reply = reply, ex_after = srv'\<rparr>]) srv')"

lemma run_session_sound:
  "run_session l tx reqs log srv1 = Some (log', srv') \<Longrightarrow> mcp_session l tx srv log srv1 \<Longrightarrow> mcp_session l tx srv log' srv'"
proof (induction reqs arbitrary: log srv1)
  case (Cons x reqs)
  obtain e req reply srv2 where x: "x = (e, req)" "http_router l tx e req srv1 = (reply, srv2)"
    by (metis surj_pair)
  with Cons.prems(1) have new: "get_jti (new_opaque_token l (he_env e) 0) (store_of srv1) = None"
    by (auto simp: is_some_iff split: if_splits)
  show ?case
    by (rule Cons.IH [OF _ mcp_session.request [OF Cons.prems(2) new x(2)]]) (use Cons.prems(1) x new in simp)
qed simp

definition demo_run :: "exchange list \<times> mcp_server" where
  "demo_run = unwrap_or ([], demo_start) (run_session demo_libs demo_texts demo_requests [] demo_start)"

lemma demo_session: "mcp_session demo_libs demo_texts demo_start (fst demo_run) (snd demo_run)"
proof -
  have "is_some (run_session demo_libs demo_texts demo_requests [] demo_start)" by code_simp
  then show ?thesis
    unfolding demo_run_def is_some_iff
    by (auto intro!: run_session_sound [OF _ mcp_session.start])
qed

lemma demo_run_facts:
  "case demo_run of (log, srv) \<Rightarrow>
     length log = 7 \<and> map ex_request log = map snd demo_requests \<and>
     map ex_reply (drop 2 log) =
       [Reply (TokenOk \<lparr>tr_access_token = ''h.T0.sig'', tr_token_type = ''Bearer'', tr_expires_in = 60,
          tr_refresh_token = ''T1'', tr_scope = ''mcp:tools''\<rparr>), PassedOn,
        Reply (TokenOk \<lparr>tr_access_token = ''h.U0.sig'', tr_token_type = ''Bearer'', tr_expires_in = 60,
          tr_refresh_token = ''U1'', tr_scope = ''mcp:tools''\<rparr>), Reply (JsonOk (JObj [])), Refused 401] \<and>
     oe_now (he_env (ex_env (log ! 5))) 1 = 10 \<and>
     get_jti ''T0'' (store_of (ex_before (log ! 5))) = Some (jti_row demo_config 10 ''c'' ''op'' ''T0'') \<and>
     fst (http_router demo_libs demo_texts (demo_env ''M'') (McpReq ''/mcp'' (Some ''Bearer h.U0.sig'')) srv) = PassedOn"
  by code_simp

lemma demo_run_simps:
  "length (fst demo_run) = 7" "oe_now (he_env (ex_env (fst demo_run ! 5))) 1 = 10"
  "get_jti ''T0'' (store_of (ex_before (fst demo_run ! 5))) = Some (jti_row demo_config 10 ''c'' ''op'' ''T0'')"
  "fst (http_router demo_libs demo_texts (demo_env ''M'') (McpReq ''/mcp'' (Some ''Bearer h.U0.sig'')) (snd demo_run)) = PassedOn"
  using demo_run_facts by (simp_all add: case_prod_beta)

lemma demo_requests_nth:
  "ex_request (fst demo_run ! 2) = TokenReq ''client_id=c'' demo_code_form"
  "ex_request (fst demo_run ! 4) = TokenReq ''client_id=c'' demo_refresh_form"
  "ex_request (fst demo_run ! 5) = RevokeReq ''h.T0.sig''"
proof -
  have r: "ex_request (fst demo_run ! k) = map snd demo_requests ! k" if "k < 7" for k
    using demo_run_facts that nth_map [of k "fst demo_run" ex_request] by (auto simp: case_prod_beta)
  show "ex_request (fst demo_run ! 2) = TokenReq ''client_id=c'' demo_code_form"
    "ex_request (fst demo_run ! 4) = TokenReq ''client_id=c'' demo_refresh_form"
    "ex_request (fst demo_run ! 5) = RevokeReq ''h.T0.sig''"
    by (simp_all add: r demo_requests_def)
qed

lemma demo_replies_nth:
  "ex_reply (fst demo_run ! 2) = Reply (TokenOk \<lparr>tr_access_token = ''h.T0.sig'', tr_token_type = ''Bearer'',
     tr_expires_in = 60, tr_refresh_token = ''T1'', tr_scope = ''mcp:tools''\<rparr>)"
  "ex_reply (fst demo_run ! 4) = Reply (TokenOk \<lparr>tr_access_token = ''h.U0.sig'', tr_token_type = ''Bearer'',
     tr_expires_in = 60, tr_refresh_token = ''U1'', tr_scope = ''mcp:tools''\<rparr>)"
proof -
  have "ex_reply (fst demo_run ! (2 + k)) = map ex_reply (drop 2 (fst demo_run)) ! k" if "k < 5" for k
    using that demo_run_simps(1) by simp
  from this [of 0] this [of 2]
  show "ex_reply (fst demo_run ! 2) = Reply (TokenOk \<lparr>tr_access_token = ''h.T0.sig'', tr_token_type = ''Bearer'',
     tr_expires_in = 60, tr_refresh_token = ''T1'', tr_scope = ''mcp:tools''\<rparr>)"
    "ex_reply (fst demo_run ! 4) = Reply (TokenOk \<lparr>tr_access_token = ''h.U0.sig'', tr_token_type = ''Bearer'',
     tr_expires_in = 60, tr_refresh_token = ''U1'', tr_scope = ''mcp:tools''\<rparr>)"
    using demo_run_facts by (simp_all add: case_prod_beta del: drop_eq_Nil)
qed

definition consented :: "libs \<Rightarrow> exchange list \<Rightarrow> (string \<times> string \<times> string) set" where
  "consented l log = (\<Union>x \<in> set log. consents l (ex_env x) (ex_request x) (ex_before x))"

lemma consented_snoc [simp]:
  "consented l (log @ [x]) = consented l log \<union> consents l (ex_env x) (ex_request x) (ex_before x)"
  by (auto simp: consented_def)

lemma session_safe:
  assumes "mcp_session l tx srv log srv'"
  shows "oauth_le (store_of srv) (store_of srv') \<and> held (store_of srv') \<subseteq> held (store_of srv) \<union> consented l log \<and>
    acting (store_of srv') \<subseteq> acting (store_of srv) \<union> for_whom ` (held (store_of srv) \<union> consented l log) \<and>
    as_keyring (ms_auth srv') = as_keyring (ms_auth srv)"
  using assms
proof induction
  case (request log srv1 e req reply srv2)
  from router_safe [OF request.hyps(2), of req tx] request.hyps(3)
  have step: "safe_step (consents l e req srv1) (ms_auth srv1) (ms_auth srv2)" by simp
  then have "acting (store_of srv2) \<subseteq> acting (store_of srv1) \<union> for_whom ` held (store_of srv1)"
    by (simp add: safe_step_def)
  moreover have "for_whom ` held (store_of srv1) \<subseteq> for_whom ` (held (store_of srv) \<union> consented l log)"
    using request.IH by (intro image_mono) simp
  ultimately have "acting (store_of srv2) \<subseteq> acting (store_of srv) \<union> for_whom ` (held (store_of srv) \<union> consented l log)"
    using request.IH by blast
  with step request.IH show ?case
    by (auto simp: safe_step_def image_Un intro: oauth_le_trans)
qed (simp add: consented_def)

lemma session_exchanges:
  assumes "mcp_session l tx srv log srv'"
  shows "\<forall>x \<in> set log. http_router l tx (ex_env x) (ex_request x) (ex_before x) = (ex_reply x, ex_after x) \<and>
    as_keyring (ms_auth (ex_before x)) = as_keyring (ms_auth srv) \<and> oauth_le (store_of (ex_after x)) (store_of srv')"
  using assms
proof induction
  case (request log srv1 e req reply srv2)
  from router_safe [OF request.hyps(2), of req tx] request.hyps(3)
  have "oauth_le (store_of srv1) (store_of srv2)" by (simp add: safe_step_def)
  with request.IH request.hyps(3) session_safe [OF request.hyps(1)] show ?case
    by (auto intro: oauth_le_trans)
qed simp

lemmas session_exchange = session_exchanges [rule_format, THEN conjunct1]
  session_exchanges [rule_format, THEN conjunct2, THEN conjunct1]
  session_exchanges [rule_format, THEN conjunct2, THEN conjunct2]

lemma session_order:
  assumes "mcp_session l tx srv log srv'" "i < j" "j < length log"
  shows "oauth_le (store_of (ex_after (log ! i))) (store_of (ex_before (log ! j)))"
  using assms
proof (induction arbitrary: i j)
  case (request log srv1 e req reply srv2)
  show ?case
  proof (cases "j < length log")
    case True
    with request show ?thesis by (simp add: nth_append)
  next
    case False
    with request.prems have "j = length log" "i < length log" by auto
    with session_exchange(3) [OF request.hyps(1), of "log ! i"] show ?thesis by (simp add: nth_append)
  qed
qed simp


section \<open>One use\<close>

text \<open>
  A request that spends a credential leaves it spent and needs it not to be. Whatever is spent by an exchange of a
  session is spent by no other.
\<close>

lemma spent_once:
  assumes "mcp_session l tx srv log srv'" "i < length log" "j < length log" "i \<noteq> j"
    and kept: "\<And>s s'. oauth_le s s' \<Longrightarrow> \<not> live s \<Longrightarrow> \<not> live s'"
    and before: "live (store_of (ex_before (log ! i)))" "live (store_of (ex_before (log ! j)))"
    and after: "\<not> live (store_of (ex_after (log ! i)))" "\<not> live (store_of (ex_after (log ! j)))"
  shows False
proof (cases "i < j")
  case True
  from kept [OF session_order [OF assms(1) True assms(3)] after(1)] before(2) show False by simp
next
  case False
  with assms(4) have "j < i" by simp
  from kept [OF session_order [OF assms(1) this assms(2)] after(2)] before(1) show False by simp
qed

definition live_code :: "string \<Rightarrow> oauth_store \<Rightarrow> bool" where
  "live_code h s = (\<exists>r. get_auth_code h s = Some r \<and> ac_consumed_at r = None)"

definition live_refresh :: "string \<Rightarrow> oauth_store \<Rightarrow> bool" where
  "live_refresh h s = (\<exists>r. get_refresh_token h s = Some r \<and> rt_revoked_at r = None)"

lemma live_kept:
  "oauth_le s s' \<Longrightarrow> get_auth_code h s \<noteq> None \<Longrightarrow> \<not> live_code h s \<Longrightarrow> get_auth_code h s' \<noteq> None \<and> \<not> live_code h s'"
  "oauth_le s s' \<Longrightarrow> get_refresh_token h s \<noteq> None \<Longrightarrow> \<not> live_refresh h s \<Longrightarrow>
     get_refresh_token h s' \<noteq> None \<and> \<not> live_refresh h s'"
  using codes.stays_spent [of h s _ s'] refreshes.stays_spent [of h s _ s']
  unfolding live_code_def live_refresh_def by fastforce+

lemma issue_tokens_rows:
  "get_auth_code h (as_store (snd (issue_tokens l e k client_id subject scope st))) = get_auth_code h (as_store st)"
  "get_refresh_token h (as_store st) = Some r \<Longrightarrow>
     get_refresh_token h (as_store (snd (issue_tokens l e k client_id subject scope st))) = Some r"
  using issue_tokens_state [of l e k client_id subject scope st]
  by (auto simp: Let_def insert_refresh_token_Inr insert_access_jti_def get_auth_code_def get_refresh_token_def lookup_append_row)

lemma redeemed_code:
  assumes "token_request l t e form st = (TokenOk r, st')" "tf_grant_type form = ''authorization_code''"
    "tf_code form = Some code"
  shows "live_code (hash_token l code) (as_store st)"
    "get_auth_code (hash_token l code) (as_store st') \<noteq> None" "\<not> live_code (hash_token l code) (as_store st')"
proof -
  obtain client_id redirect_uri verifier where
    r: "redeem_code l t e code client_id redirect_uri verifier st = (TokenOk r, st')"
    using assms by (auto simp: token_request_def handle_authorization_code_def split: option.splits)
  then obtain client c s x where
    c: "consume_auth_code (hash_token l code) (oe_now e 0) (as_store st) = (Some c, s)"
      "issue_tokens l e 1 client (ac_subject c) (ac_scope c) (st\<lparr>as_store := s\<rparr>) = (x, st')"
    by (auto simp: redeem_code_def split: option.splits prod.splits)
  note cs = consume_auth_code_Some [OF c(1)]
  from cs show "live_code (hash_token l code) (as_store st)" by (simp add: live_code_def)
  have "get_auth_code (hash_token l code) (as_store st') = get_auth_code (hash_token l code) s"
    using issue_tokens_rows(1) [of "hash_token l code" l e 1 client "ac_subject c" "ac_scope c"
      "st\<lparr>as_store := s\<rparr>"] c(2) by simp
  with cs show "get_auth_code (hash_token l code) (as_store st') \<noteq> None" "\<not> live_code (hash_token l code) (as_store st')"
    by (simp_all add: live_code_def)
qed

lemma refreshed_token:
  assumes "token_request l t e form st = (TokenOk r, st')" "tf_grant_type form = ''refresh_token''"
    "tf_refresh_token form = Some token"
  shows "live_refresh (hash_token l token) (as_store st)"
    "get_refresh_token (hash_token l token) (as_store st') \<noteq> None" "\<not> live_refresh (hash_token l token) (as_store st')"
proof -
  obtain client_id where r: "rotate_token l t e token client_id st = (TokenOk r, st')"
    using assms by (auto simp: token_request_def handle_refresh_token_def split: option.splits)
  then obtain client c x where
    c: "get_refresh_token (hash_token l token) (as_store st) = Some c" "rt_revoked_at c = None"
      "issue_tokens l e 2 client (rt_subject c) (rt_scope c)
         (st\<lparr>as_store := revoke_refresh_token (hash_token l token) (oe_now e 1) (as_store st)\<rparr>) = (x, st')"
    by (auto simp: rotate_token_def rotate_finish_def rotate_check_Inl dest!: rotate_check_Inr split: sum.splits prod.splits)
  from c show "live_refresh (hash_token l token) (as_store st)" by (simp add: live_refresh_def)
  from c have "get_refresh_token (hash_token l token) (as_store st') = Some (c\<lparr>rt_revoked_at := Some (oe_now e 1)\<rparr>)"
    using issue_tokens_rows(2) [of "hash_token l token"
      "st\<lparr>as_store := revoke_refresh_token (hash_token l token) (oe_now e 1) (as_store st)\<rparr>" _ l e 2
      client "rt_subject c" "rt_scope c"]
    by (simp add: get_refresh_revoked)
  then show "get_refresh_token (hash_token l token) (as_store st') \<noteq> None" "\<not> live_refresh (hash_token l token) (as_store st')"
    by (simp_all add: live_refresh_def)
qed

lemma limited_token_Reply:
  "limited_token l tx e body form srv = (Reply response, srv') \<Longrightarrow>
     token_request l (tx_error tx) (he_env e) form (ms_auth srv) = (response, ms_auth srv')"
  by (cases "token_request l (tx_error tx) (he_env e) form (ms_auth srv)")
     (auto simp: limited_token_def with_auth_def split: prod.splits option.splits)

lemma session_token:
  assumes "mcp_session l tx srv log srv'" "k < length log" "ex_request (log ! k) = TokenReq body form"
    "ex_reply (log ! k) = Reply response"
  shows "token_request l (tx_error tx) (he_env (ex_env (log ! k))) form (ms_auth (ex_before (log ! k)))
    = (response, ms_auth (ex_after (log ! k)))"
  using session_exchange(1) [OF assms(1) nth_mem [OF assms(2)]] assms(3,4) limited_token_Reply by simp

text \<open>
  C15: an authorization code is exchanged for tokens at most once. In every sequence of requests, served one after
  another, two token requests that succeed with the same authorization code are the same request.
\<close>

theorem code_redeemed_once:
  assumes "mcp_session l tx srv log srv'" "i < length log" "j < length log"
    and "ex_request (log ! i) = TokenReq b1 f1" "ex_reply (log ! i) = Reply (TokenOk r1)"
    and "ex_request (log ! j) = TokenReq b2 f2" "ex_reply (log ! j) = Reply (TokenOk r2)"
    and "tf_grant_type f1 = ''authorization_code''" "tf_grant_type f2 = ''authorization_code''"
    and "tf_code f1 = Some code" "tf_code f2 = Some code"
  shows "i = j"
proof (rule ccontr)
  let ?live = "\<lambda>s. get_auth_code (hash_token l code) s = None \<or> live_code (hash_token l code) s"
  note ti = redeemed_code [OF session_token [OF assms(1,2,4,5)] assms(8,10)]
    and tj = redeemed_code [OF session_token [OF assms(1,3,6,7)] assms(9,11)]
  assume "i \<noteq> j"
  then show False
    by (rule spent_once [OF assms(1-3), where live = ?live]) (use ti tj live_kept(1) in auto)
qed

theorem code_redeemed_once_witness:
  "mcp_session demo_libs demo_texts demo_start (fst demo_run) (snd demo_run) \<and>
   ex_request (fst demo_run ! 2) = TokenReq ''client_id=c'' demo_code_form \<and>
   ex_reply (fst demo_run ! 2) = Reply (TokenOk \<lparr>tr_access_token = ''h.T0.sig'', tr_token_type = ''Bearer'',
        tr_expires_in = 60, tr_refresh_token = ''T1'', tr_scope = ''mcp:tools''\<rparr>) \<and> (2::nat) = 2"
proof -
  have i: "2 < length (fst demo_run)" by (simp add: demo_run_simps)
  have f: "tf_grant_type demo_code_form = ''authorization_code''" "tf_code demo_code_form = Some ''D0''"
    by (simp_all add: demo_code_form_def)
  note q = demo_requests_nth(1) and r = demo_replies_nth(1)
  from code_redeemed_once [OF demo_session i i q r q r f(1) f(1) f(2) f(2)] demo_session q r show ?thesis by blast
qed

text \<open>
  C16: a refresh token is exchanged for tokens at most once (rotation). In every sequence of requests, served one
  after another, two token requests that succeed with the same refresh token are the same request. (Of requests
  that overlap this does not hold, see \<open>rotation_race\<close>.)
\<close>

theorem refresh_token_used_once:
  assumes "mcp_session l tx srv log srv'" "i < length log" "j < length log"
    and "ex_request (log ! i) = TokenReq b1 f1" "ex_reply (log ! i) = Reply (TokenOk r1)"
    and "ex_request (log ! j) = TokenReq b2 f2" "ex_reply (log ! j) = Reply (TokenOk r2)"
    and "tf_grant_type f1 = ''refresh_token''" "tf_grant_type f2 = ''refresh_token''"
    and "tf_refresh_token f1 = Some token" "tf_refresh_token f2 = Some token"
  shows "i = j"
proof (rule ccontr)
  let ?live = "\<lambda>s. get_refresh_token (hash_token l token) s = None \<or> live_refresh (hash_token l token) s"
  note ti = refreshed_token [OF session_token [OF assms(1,2,4,5)] assms(8,10)]
    and tj = refreshed_token [OF session_token [OF assms(1,3,6,7)] assms(9,11)]
  assume "i \<noteq> j"
  then show False
    by (rule spent_once [OF assms(1-3), where live = ?live]) (use ti tj live_kept(2) in auto)
qed

theorem refresh_token_used_once_witness:
  "mcp_session demo_libs demo_texts demo_start (fst demo_run) (snd demo_run) \<and>
   ex_request (fst demo_run ! 4) = TokenReq ''client_id=c'' demo_refresh_form \<and>
   ex_reply (fst demo_run ! 4) = Reply (TokenOk \<lparr>tr_access_token = ''h.U0.sig'', tr_token_type = ''Bearer'',
        tr_expires_in = 60, tr_refresh_token = ''U1'', tr_scope = ''mcp:tools''\<rparr>) \<and> (4::nat) = 4"
proof -
  have i: "4 < length (fst demo_run)" by (simp add: demo_run_simps)
  have f: "tf_grant_type demo_refresh_form = ''refresh_token''" "tf_refresh_token demo_refresh_form = Some ''T1''"
    by (simp_all add: demo_refresh_form_def)
  note q = demo_requests_nth(2) and r = demo_replies_nth(2)
  from refresh_token_used_once [OF demo_session i i q r q r f(1) f(1) f(2) f(2)] demo_session q r show ?thesis by blast
qed

text \<open>
  The checks of a rotation and the revocation are separate sections under the lock of the store. When two requests
  with the same refresh token have both been checked before either revokes it, both get tokens.
\<close>

definition demo_race :: "oauth_response list" where
  "demo_race =
     (let st = ms_auth (ex_after (fst demo_run ! 3)); l = demo_libs; t = tx_error demo_texts;
          e1 = he_env (demo_env ''U''); e2 = he_env (demo_env ''V'')
      in case (rotate_check l e1 ''T1'' ''c'' st, rotate_check l e2 ''T1'' ''c'' st) of
           (Inr c1, Inr c2) \<Rightarrow>
             (case rotate_finish l t e1 ''T1'' c1 st of (r1, st) \<Rightarrow>
             (case rotate_finish l t e2 ''T1'' c2 st of (r2, st) \<Rightarrow> [r1, r2]))
         | _ \<Rightarrow> [])"

lemma rotation_race:
  "demo_race = map (\<lambda>c. TokenOk \<lparr>tr_access_token = ''h.'' @ c @ ''0.sig'', tr_token_type = ''Bearer'', tr_expires_in = 60,
     tr_refresh_token = c @ ''1'', tr_scope = ''mcp:tools''\<rparr>) [''U'', ''V'']"
  by code_simp


section \<open>Access\<close>

lemma require_bearer_passed:
  assumes "require_bearer l e path authorization st = None" "path \<noteq> ''/healthz''"
  shows "\<exists>token claims jti row. authorization = Some (''Bearer '' @ token) \<and>
    keyring_verify l (as_keyring st) token (oe_now e 0) = Inr (Some claims) \<and> get_str ''jti'' claims = Some jti \<and>
    get_jti jti (as_store st) = Some row \<and> jt_revoked_at row = None \<and> oe_now e 1 < jt_expires_at row"
proof -
  obtain header token where h: "authorization = Some header" "strip_prefix ''Bearer '' header = Some token"
    using assms by (cases authorization) (auto simp: require_bearer_def split: option.splits)
  with strip_prefix_SomeD [OF h(2)] have "authorization = Some (''Bearer '' @ token)" by simp
  with assms h show ?thesis
    by (auto simp: require_bearer_def jti_is_active_def split: sum.splits option.splits if_splits)
qed

lemma started_empty:
  assumes "auth_state_new l e new_key config empty_oauth_store = (Inr st, s)"
  shows "acting (as_store st) = {}" "held (as_store st) = {}"
  using assms
  by (auto simp: auth_state_new_def load_or_create_signing_key_def load_active_signing_key_def insert_signing_key_def
      empty_oauth_store_def acting_def held_def Let_def split: sum.splits prod.splits)

text \<open>
  C3: nobody reaches the MCP service without a token for which an operator gave consent. When a server that started
  on an empty database passes a request on, then the request carries a token that is signed with the key of the server
  and has not expired, its identifier is recorded, neither revoked nor expired, and an operator whom Cloudflare
  Access identified as the recorded subject has allowed the recorded client in an earlier request.
  (The path \<open>/mcp/healthz\<close> is the exception, see \<open>mcp_healthz_unprotected\<close>.)
\<close>

theorem bearer_needs_consent:
  assumes started: "auth_state_new l e0 new_key config empty_oauth_store = (Inr (ms_auth srv), s0)"
    and session: "mcp_session l tx srv log srv'"
    and passed: "http_router l tx e (McpReq path authorization) srv' = (PassedOn, srv'')"
    and path: "nested_path path \<noteq> ''/healthz''"
  shows "\<exists>token claims jti row x scope. authorization = Some (''Bearer '' @ token) \<and>
    keyring_verify l (as_keyring (ms_auth srv)) token (oe_now (he_env e) 0) = Inr (Some claims) \<and>
    get_str ''jti'' claims = Some jti \<and> get_jti jti (store_of srv') = Some row \<and>
    jt_revoked_at row = None \<and> oe_now (he_env e) 1 < jt_expires_at row \<and>
    x \<in> set log \<and> (jt_client_id row, jt_subject row, scope) \<in> consents l (ex_env x) (ex_request x) (ex_before x)"
proof -
  note safe = session_safe [OF session]
  from passed have "require_bearer l (he_env e) (nested_path path) authorization (ms_auth srv') = None"
    by (simp add: mcp_endpoint_def split: option.splits)
  from require_bearer_passed [OF this path] safe obtain token claims jti row where
    t: "authorization = Some (''Bearer '' @ token)"
      "keyring_verify l (as_keyring (ms_auth srv)) token (oe_now (he_env e) 0) = Inr (Some claims)"
      "get_str ''jti'' claims = Some jti" "get_jti jti (store_of srv') = Some row"
      "jt_revoked_at row = None" "oe_now (he_env e) 1 < jt_expires_at row"
    by auto
  from t(4) have "(jt_client_id row, jt_subject row) \<in> acting (store_of srv')"
    by (auto simp: get_jti_def acting_def dest: lookup_SomeD)
  with safe have "(jt_client_id row, jt_subject row) \<in> for_whom ` consented l log"
    by (auto simp: started_empty [OF started])
  then obtain scope where "(jt_client_id row, jt_subject row, scope) \<in> consented l log"
    by (auto simp: for_whom_def)
  with t show ?thesis unfolding consented_def by blast
qed

theorem bearer_needs_consent_witness:
  "\<exists>token claims jti row x scope. Some ''Bearer h.U0.sig'' = Some (''Bearer '' @ token) \<and>
    keyring_verify demo_libs (as_keyring (ms_auth demo_start)) token (oe_now (he_env (demo_env ''M'')) 0) = Inr (Some claims) \<and>
    get_str ''jti'' claims = Some jti \<and> get_jti jti (store_of (snd demo_run)) = Some row \<and>
    jt_revoked_at row = None \<and> oe_now (he_env (demo_env ''M'')) 1 < jt_expires_at row \<and> x \<in> set (fst demo_run) \<and>
    (jt_client_id row, jt_subject row, scope) \<in> consents demo_libs (ex_env x) (ex_request x) (ex_before x)"
proof (rule bearer_needs_consent [OF _ demo_session, where path = "''/mcp''"])
  show "auth_state_new demo_libs (he_env (demo_env ''K'')) (Inr demo_rsa_key) demo_config empty_oauth_store
      = (Inr (ms_auth demo_start), as_store demo_auth)"
    using demo_started by (simp add: demo_start_def)
  show "http_router demo_libs demo_texts (demo_env ''M'') (McpReq ''/mcp'' (Some ''Bearer h.U0.sig'')) (snd demo_run)
      = (PassedOn, snd demo_run)" using demo_run_simps(4) by simp
  show "nested_path ''/mcp'' \<noteq> ''/healthz''" by code_simp
qed

text \<open>The outcome of a verification changes in time only when the token expires.\<close>

lemma keyring_verify_again:
  assumes "keyring_verify l k token t = Inr (Some claims)"
  shows "keyring_verify l k token t' \<in> {Inr None, Inr (Some claims)}"
  using assms
  by (auto simp: keyring_verify_def verify_jwt_def verify_claims_def verify_signature_def or_error_def
      split: list.splits option.splits if_splits sum.splits)

text \<open>
  C17: revocation takes effect for good. Once an access token whose identifier is recorded has been revoked, every
  request that presents it is refused with status 401, whatever happened in between; the one path that asks
  for no token, \<open>healthz\<close>, is apart.
\<close>

theorem revoked_token_refused:
  assumes session: "mcp_session l tx srv log srv'" and x: "x \<in> set log" "ex_request x = RevokeReq token"
    and token: "keyring_verify l (as_keyring (ms_auth srv)) token (oe_now (he_env (ex_env x)) 1) = Inr (Some claims)"
      "get_str ''jti'' claims = Some jti" "get_jti jti (store_of (ex_before x)) = Some row"
    and path: "nested_path path \<noteq> ''/healthz''"
  shows "http_router l tx e (McpReq path (Some (''Bearer '' @ token))) srv' = (Refused 401, srv')"
proof -
  note ex = session_exchange [OF session x(1)]
  have "ex_after x = snd (http_router l tx (ex_env x) (ex_request x) (ex_before x))" using ex(1) by simp
  with ex(2) x(2) token(1,2)
  have "store_of (ex_after x) = revoke_jti jti (oe_now (he_env (ex_env x)) 2)
      (revoke_refresh_token (hash_token l token) (oe_now (he_env (ex_env x)) 0) (store_of (ex_before x)))"
    by (simp add: with_auth_def revoke_def Let_def)
  with token(3) obtain row' where row': "get_jti jti (store_of (ex_after x)) = Some row'" "jt_revoked_at row' \<noteq> None"
    by (simp add: get_jti_revoked revoked_grants del: not_None_eq)
  have "\<not> jti_is_active jti n (store_of srv')" for n
    using jtis.stays_spent(1) [OF row' ex(3)] by (auto simp: jti_is_active_def split: option.splits)
  with keyring_verify_again [OF token(1), of "oe_now (he_env e) 0"] session_safe [OF session] token(2) path
  show ?thesis
    by (auto simp: mcp_endpoint_def require_bearer_def bearer_prefix)
qed

theorem revoked_token_refused_witness:
  "http_router demo_libs demo_texts (demo_env ''M'') (McpReq ''/mcp/x'' (Some (''Bearer '' @ ''h.T0.sig''))) (snd demo_run)
     = (Refused 401, snd demo_run)"
proof (rule revoked_token_refused [OF demo_session, where x = "fst demo_run ! 5" and jti = "''T0''"
    and claims = "access_claims_for demo_config 10 ''c'' ''op'' ''mcp:tools'' ''T0''"
    and row = "jti_row demo_config 10 ''c'' ''op'' ''T0''"])
  show "fst demo_run ! 5 \<in> set (fst demo_run)" by (rule nth_mem) (simp add: demo_run_simps)
  show "ex_request (fst demo_run ! 5) = RevokeReq ''h.T0.sig''" by (rule demo_requests_nth)
  have "keyring_verify demo_libs (as_keyring (ms_auth demo_start)) ''h.T0.sig'' 10
      = Inr (Some (access_claims_for demo_config 10 ''c'' ''op'' ''mcp:tools'' ''T0''))" by code_simp
  then show "keyring_verify demo_libs (as_keyring (ms_auth demo_start)) ''h.T0.sig'' (oe_now (he_env (ex_env (fst demo_run ! 5))) 1)
      = Inr (Some (access_claims_for demo_config 10 ''c'' ''op'' ''mcp:tools'' ''T0''))"
    by (simp only: demo_run_simps(2))
  show "get_str ''jti'' (access_claims_for demo_config 10 ''c'' ''op'' ''mcp:tools'' ''T0'') = Some ''T0''" by code_simp
  show "get_jti ''T0'' (store_of (ex_before (fst demo_run ! 5))) = Some (jti_row demo_config 10 ''c'' ''op'' ''T0'')"
    by (rule demo_run_simps)
  show "nested_path ''/mcp/x'' \<noteq> ''/healthz''" by code_simp
qed

end
