(* ===== verification/Oauth_Exact.thy ===== *)
theory Oauth_Exact
  imports Oauth_Safety Oauth_Demo
begin

text \<open>
  What single requests to the authorization server do, exactly: when an authorization code is exchanged for
  tokens, and that the access token that comes out is accepted in front of the MCP service until it expires.
\<close>

definition demo_code_row :: AuthCodeRecord where
  "demo_code_row = code_row demo_libs 10 ''D0'' ''op'' \<lparr>df_decision = ''allow'', df_client_id = ''c'',
     df_redirect_uri = ''https://r'', df_scope = ''mcp:tools'', df_state = None, df_code_challenge = ''v'',
     df_code_challenge_method = ''S256''\<rparr>"

definition demo_consented :: AuthState where
  "demo_consented = demo_auth\<lparr>as_store := empty_oauth_store\<lparr>
     os_clients := [\<lparr>cl_client_id = ''c'', cl_client_secret_hash = None, cl_client_name = None,
       cl_redirect_uris = [''https://r''], cl_grant_types = [''authorization_code''],
       cl_token_endpoint_auth_method = ''none'', cl_created_at = 1, cl_disabled_at = None\<rparr>],
     os_codes := [demo_code_row]\<rparr>\<rparr>"


section \<open>Redeeming a code\<close>

lemma code_mismatch_None:
  assumes "length (b64_encode l (sha256 l verifier)) < 2 ^ 64" "\<And>c. ac_code_challenge r = Some c \<Longrightarrow> length c < 2 ^ 64"
  shows "code_mismatch l client_id redirect_uri verifier r = None \<longleftrightarrow>
    ac_client_id r = client_id \<and> ac_redirect_uri r = redirect_uri \<and>
    ac_code_challenge r = Some (b64_encode l (sha256 l verifier)) \<and> ac_code_challenge_method r = Some ''S256''"
  using constant_time_eq_iff [OF assms(1)] assms(2)
  by (cases "ac_code_challenge r") (auto simp: code_mismatch_def)

text \<open>Tokens are issued unless the private key cannot be read or the new refresh token has been drawn before.\<close>

definition can_issue :: "libs \<Rightarrow> oauth_env \<Rightarrow> nat \<Rightarrow> string \<Rightarrow> string \<Rightarrow> string \<Rightarrow> AuthState \<Rightarrow> bool" where
  "can_issue l e k client_id subject scope st \<longleftrightarrow>
     keyring_sign l (as_keyring st) (b64_encode l (json_text l
       (access_claims_for (as_config st) (oe_now e k) client_id subject scope (new_opaque_token l e 0)))) \<noteq> None \<and>
     get_refresh_token (hash_token l (new_opaque_token l e 1)) (as_store st) = None"

lemma issue_tokens_ok:
  "(\<exists>t. fst (issue_tokens l e k client_id subject scope st) = Inr t) \<longleftrightarrow> can_issue l e k client_id subject scope st"
proof -
  let ?s = "insert_access_jti (jti_row (as_config st) (oe_now e k) client_id subject (new_opaque_token l e 0)) (as_store st)"
  let ?r = "refresh_row l (oe_now e k) client_id subject scope (new_opaque_token l e 1)"
  have "(\<exists>s. insert_refresh_token ?r ?s = Inr s) \<longleftrightarrow>
      get_refresh_token (hash_token l (new_opaque_token l e 1)) (as_store st) = None"
    by (simp add: insert_refresh_token_Inr refresh_row_def get_refresh_token_def insert_access_jti_def)
  then show ?thesis
    by (cases "insert_refresh_token ?r ?s") (auto simp: issue_tokens_def can_issue_def Let_def split: option.split)
qed

lemma token_response_ok: "(\<exists>r. token_response t config scope x = TokenOk r) \<longleftrightarrow> (\<exists>y. x = Inr y)"
  by (cases x) (auto simp: token_response_def)

lemma can_issue_codes:
  "can_issue l e k client_id subject scope (st\<lparr>as_store := as_store st\<lparr>os_codes := cs\<rparr>\<rparr>) \<longleftrightarrow> can_issue l e k client_id subject scope st"
  by (simp add: can_issue_def get_refresh_token_def)

lemma consume_auth_code_iff:
  "fst (consume_auth_code h now s) = Some r \<longleftrightarrow>
     get_auth_code h s = Some r \<and> ac_consumed_at r = None \<and> now < ac_expires_at r"
  by (auto simp: consume_auth_code_def is_some_iff split: option.splits)

lemma redeem_code_ok:
  assumes "get_client client_id (as_store st) = Some client"
  shows "(\<exists>r. fst (redeem_code l t e code client_id redirect_uri verifier st) = TokenOk r) \<longleftrightarrow>
    (\<exists>row. fst (consume_auth_code (hash_token l code) (oe_now e 0) (as_store st)) = Some row \<and>
       code_mismatch l client_id redirect_uri verifier row = None \<and>
       can_issue l e 1 client_id (ac_subject row) (ac_scope row) st)"
proof -
  have id: "cl_client_id client = client_id" using assms by (auto simp: get_client_def dest: lookup_SomeD)
  obtain c s where c: "consume_auth_code (hash_token l code) (oe_now e 0) (as_store st) = (c, s)" by fastforce
  show ?thesis
  proof (cases c)
    case None
    with assms c show ?thesis by (simp add: redeem_code_def)
  next
    case (Some row)
    from consume_auth_code_Some(5) [OF c [unfolded Some]]
    have "can_issue l e 1 client_id (ac_subject row) (ac_scope row) (st\<lparr>as_store := s\<rparr>) \<longleftrightarrow>
        can_issue l e 1 client_id (ac_subject row) (ac_scope row) st"
      by (simp add: can_issue_codes)
    with assms c Some id show ?thesis
      unfolding redeem_code_def
      by (auto simp: token_response_ok issue_tokens_ok [symmetric] split: option.split prod.split)
  qed
qed

text \<open>
  C13: when an authorization code is exchanged for tokens. The request succeeds exactly when it names a registered
  client and a code that was issued to this client for this redirect URI, has been neither used nor expired,
  and whose challenge is the S256 digest of the verifier presented; and the server can issue the tokens. (Texts are
  shorter than \<open>2\<^sup>6\<^sup>4\<close> bytes.)
\<close>

theorem code_redeemed_iff:
  assumes form: "tf_grant_type form = ''authorization_code''" "tf_code form = Some code" "tf_client_id form = Some client_id"
      "tf_redirect_uri form = Some redirect_uri" "tf_code_verifier form = Some verifier"
    and texts: "length (b64_encode l (sha256 l verifier)) < 2 ^ 64"
      "list_all (\<lambda>r. length (unwrap_or [] (ac_code_challenge r)) < 2 ^ 64) (os_codes (as_store st))"
  shows "(\<exists>r. fst (token_request l t e form st) = TokenOk r) \<longleftrightarrow>
    get_client client_id (as_store st) \<noteq> None \<and>
    (\<exists>row. get_auth_code (hash_token l code) (as_store st) = Some row \<and> ac_consumed_at row = None \<and>
       oe_now e 0 < ac_expires_at row \<and> ac_client_id row = client_id \<and> ac_redirect_uri row = redirect_uri \<and>
       ac_code_challenge row = Some (b64_encode l (sha256 l verifier)) \<and> ac_code_challenge_method row = Some ''S256'' \<and>
       can_issue l e 1 client_id (ac_subject row) (ac_scope row) st)"
proof -
  have redeem: "token_request l t e form st = redeem_code l t e code client_id redirect_uri verifier st"
    by (simp add: token_request_def handle_authorization_code_def form)
  have match: "code_mismatch l client_id redirect_uri verifier row = None \<longleftrightarrow>
      ac_client_id row = client_id \<and> ac_redirect_uri row = redirect_uri \<and>
      ac_code_challenge row = Some (b64_encode l (sha256 l verifier)) \<and> ac_code_challenge_method row = Some ''S256''"
    if "get_auth_code h (as_store st) = Some row" for h row
  proof (rule code_mismatch_None [OF texts(1)])
    fix c
    assume "ac_code_challenge row = Some c"
    moreover from that have "row \<in> set (os_codes (as_store st))" by (auto simp: get_auth_code_def dest: lookup_SomeD)
    ultimately show "length c < 2 ^ 64" using texts(2) by (force simp: list_all_iff)
  qed
  show ?thesis
  proof (cases "get_client client_id (as_store st)")
    case None
    then show ?thesis by (simp add: redeem redeem_code_def)
  next
    case (Some client)
    show ?thesis
      unfolding redeem redeem_code_ok [OF Some] consume_auth_code_iff using match Some by blast
  qed
qed

theorem code_redeemed_iff_witness:
  "(\<exists>r. fst (token_request demo_libs (tx_error demo_texts) (he_env (demo_env ''T'')) demo_code_form demo_consented) = TokenOk r) \<and>
   \<not> (\<exists>r. fst (token_request demo_libs (tx_error demo_texts) (he_env (demo_env ''T''))
          (demo_code_form\<lparr>tf_code_verifier := Some ''w''\<rparr>) demo_consented) = TokenOk r)"
proof -
  have form: "tf_grant_type demo_code_form = ''authorization_code''" "tf_code demo_code_form = Some ''D0''"
    "tf_client_id demo_code_form = Some ''c''" "tf_redirect_uri demo_code_form = Some ''https://r''"
    "tf_code_verifier demo_code_form = Some ''v''"
    by (simp_all add: demo_code_form_def)
  have texts: "length (b64_encode demo_libs (sha256 demo_libs [ch])) < 2 ^ 64" for ch
    by (simp add: demo_libs_def)
  have stored: "list_all (\<lambda>r. length (unwrap_or [] (ac_code_challenge r)) < 2 ^ 64) (os_codes (as_store demo_consented))"
    by (simp add: demo_consented_def demo_code_row_def code_row_def)
  have row: "get_auth_code (hash_token demo_libs ''D0'') (as_store demo_consented) = Some demo_code_row"
    by (simp add: demo_consented_def demo_code_row_def get_auth_code_def lookup_def code_row_def)
  have client: "get_client ''c'' (as_store demo_consented) \<noteq> None"
    by (simp add: demo_consented_def get_client_def lookup_def)
  have issue: "can_issue demo_libs (he_env (demo_env ''T'')) 1 ''c'' (ac_subject demo_code_row) (ac_scope demo_code_row) demo_consented"
    by code_simp
  have checks: "ac_consumed_at demo_code_row = None" "oe_now (he_env (demo_env ''T'')) 0 < ac_expires_at demo_code_row"
    "ac_client_id demo_code_row = ''c''" "ac_redirect_uri demo_code_row = ''https://r''"
    "ac_code_challenge demo_code_row = Some ''v''" "ac_code_challenge_method demo_code_row = Some ''S256''"
    "b64_encode demo_libs (sha256 demo_libs ''v'') = ''v''" "b64_encode demo_libs (sha256 demo_libs ''w'') = ''w''"
    by code_simp+
  have "\<exists>r. fst (token_request demo_libs (tx_error demo_texts) (he_env (demo_env ''T'')) demo_code_form demo_consented) = TokenOk r"
    unfolding code_redeemed_iff [OF form texts stored] using row client issue checks by simp
  moreover have "\<not> (\<exists>r. fst (token_request demo_libs (tx_error demo_texts) (he_env (demo_env ''T''))
      (demo_code_form\<lparr>tf_code_verifier := Some ''w''\<rparr>) demo_consented) = TokenOk r)"
    by (subst code_redeemed_iff [where code = "''D0''" and client_id = "''c''" and redirect_uri = "''https://r''"
          and verifier = "''w''", OF _ _ _ _ _ texts stored])
       (use form row checks in simp_all)
  ultimately show ?thesis by blast
qed


section \<open>Using the token\<close>

text \<open>What the libraries are expected to do: texts of JSON values and of signatures can be read back.\<close>

definition encodes :: "libs \<Rightarrow> string \<Rightarrow> bool" where
  "encodes l x \<longleftrightarrow> b64_decode l (b64_encode l x) = Some x \<and> CHR ''.'' \<notin> set (b64_encode l x)"

definition reads_back :: "libs \<Rightarrow> jval \<Rightarrow> bool" where
  "reads_back l v \<longleftrightarrow> json_read l (json_text l v) = Some v \<and> encodes l (json_text l v)"

definition signs_with :: "libs \<Rightarrow> string \<Rightarrow> bool" where
  "signs_with l pem \<longleftrightarrow>
     (\<exists>pub. rsa_public l pem = Some pub \<and>
       (\<forall>m sig. rsa_sign l pem m = Some sig \<longrightarrow> rsa_verify l pub m sig = Some True \<and> encodes l sig))"

lemma i64_add_range: "- (2 ^ 63) \<le> i64_add a b" "i64_add a b < 2 ^ 63"
  using sint_range_size [of "word_of_int (a + b) :: 64 word"] by (simp_all add: i64_add_def word_size)

lemma access_claims_fields:
  "get_str ''iss'' (access_claims_for config now client_id subject scope jti) = Some (issuer_of config)"
  "get_str ''jti'' (access_claims_for config now client_id subject scope jti) = Some jti"
  "aud_ok (resource_indicator config) (access_claims_for config now client_id subject scope jti)"
  "Option.bind (jget ''exp'' (access_claims_for config now client_id subject scope jti)) as_i64 =
     Some (i64_add now (usize_as_i64 (access_ttl_secs config)))"
  using i64_add_range [of now "usize_as_i64 (access_ttl_secs config)"]
  by (simp_all add: access_claims_for_def get_str_def jget_def as_str_def aud_ok_def as_i64_def)

lemma jwt_header_fields:
  "get_str ''kid'' (jwt_header key) = Some (ke_kid key)" "get_str ''alg'' (jwt_header key) = Some ''RS256''"
  by (simp_all add: jwt_header_def get_str_def jget_def as_str_def)

lemma signed_token_verifies:
  assumes "sign_jwt l key (b64_encode l (json_text l claims)) = Some token"
    and "reads_back l (jwt_header key)" "reads_back l claims" "signs_with l (ke_private_pem key)" "ke_private_pem key \<noteq> []"
    and "get_str ''iss'' claims = Some issuer" "aud_ok audience claims"
      "Option.bind (jget ''exp'' claims) as_i64 = Some exp" "now < exp"
  shows "verify_jwt l token issuer audience key now = Inr (Some claims)"
proof -
  let ?h = "b64_encode l (json_text l (jwt_header key))" and ?p = "b64_encode l (json_text l claims)"
  obtain sig where sig: "rsa_sign l (ke_private_pem key) (?h @ ''.'' @ ?p) = Some sig"
    "token = ?h @ CHR ''.'' # ?p @ CHR ''.'' # b64_encode l sig"
    using assms(1) by (auto simp: sign_jwt_def Let_def)
  from assms(4) sig(1) obtain pub where pub: "rsa_public l (ke_private_pem key) = Some pub"
    "rsa_verify l pub (?h @ ''.'' @ ?p) sig = Some True" "encodes l sig"
    by (auto simp: signs_with_def)
  have "split_on (CHR ''.'') token = [?h, ?p, b64_encode l sig]"
    using assms(2,3) pub(3) unfolding sig(2) reads_back_def encodes_def by (simp add: split_on_append split_on_no)
  with assms(2,3,5-9) pub show ?thesis
    by (simp add: verify_jwt_def verify_claims_def verify_signature_def verifying_key_def or_error_def reads_back_def
        encodes_def jwt_header_fields)
qed

text \<open>
  C18: an access token that the server issues is accepted. As long as the token has not expired, the check in front of
  the MCP service passes on a request that presents it, provided that the key ring was set up from the
  configuration, that values of JSON, base64 texts and signatures can be read back, and that
  the signing key is readable.
\<close>

theorem issued_token_accepted:
  assumes issued: "issue_tokens l e k client_id subject scope st = (Inr (access_token, refresh), st')"
    and keyring: "kr_issuer (as_keyring st) = issuer_of (as_config st)"
      "kr_audience (as_keyring st) = resource_indicator (as_config st)" "ke_private_pem (kr_active (as_keyring st)) \<noteq> []"
    and libs: "reads_back l (jwt_header (kr_active (as_keyring st)))"
      "reads_back l (access_claims_for (as_config st) (oe_now e k) client_id subject scope (new_opaque_token l e 0))"
      "signs_with l (ke_private_pem (kr_active (as_keyring st)))"
    and time: "oe_now e' 0 < i64_add (oe_now e k) (usize_as_i64 (access_ttl_secs (as_config st)))"
      "oe_now e' 1 < i64_add (oe_now e k) (usize_as_i64 (access_ttl_secs (as_config st)))"
  shows "require_bearer l e' path (Some (''Bearer '' @ access_token)) st' = None"
proof -
  let ?jti = "new_opaque_token l e 0"
  let ?claims = "access_claims_for (as_config st) (oe_now e k) client_id subject scope ?jti"
  let ?row = "jti_row (as_config st) (oe_now e k) client_id subject ?jti"
  from issued obtain s where s: "sign_jwt l (kr_active (as_keyring st)) (b64_encode l (json_text l ?claims)) = Some access_token"
    "insert_refresh_token (refresh_row l (oe_now e k) client_id subject scope (new_opaque_token l e 1))
       (insert_access_jti ?row (as_store st)) = Inr s" "st' = st\<lparr>as_store := s\<rparr>"
    by (auto simp: issue_tokens_def Let_def keyring_sign_def split: option.splits sum.splits)
  have "keyring_verify l (as_keyring st) access_token (oe_now e' 0) = Inr (Some ?claims)"
    unfolding keyring_verify_def keyring
    by (rule signed_token_verifies [OF s(1) libs keyring(3) access_claims_fields(1,3,4) time(1)])
  moreover have "get_jti ?jti s = Some ?row"
    using s(2) jti_table.get_put_same [OF TrueI, of ?row "as_store st"]
    by (auto simp: insert_refresh_token_Inr get_jti_def jti_row_def)
  ultimately show ?thesis
    using time(2) s(3) unfolding require_bearer_def
    by (simp add: bearer_prefix access_claims_fields jti_is_active_def jti_row_def)
qed

theorem issued_token_accepted_witness:
  "require_bearer demo_libs (he_env (demo_env ''M'')) ''/'' (Some (''Bearer '' @ ''h.T0.sig''))
     (snd (issue_tokens demo_libs (he_env (demo_env ''T'')) 1 ''c'' ''op'' ''mcp:tools'' demo_auth)) = None"
proof (rule issued_token_accepted [where e = "he_env (demo_env ''T'')" and k = 1 and client_id = "''c''" and st = demo_auth
    and subject = "''op''" and scope = "''mcp:tools''" and refresh = "''T1''"])
  have "fst (issue_tokens demo_libs (he_env (demo_env ''T'')) 1 ''c'' ''op'' ''mcp:tools'' demo_auth) = Inr (''h.T0.sig'', ''T1'')"
    by code_simp
  then show "issue_tokens demo_libs (he_env (demo_env ''T'')) 1 ''c'' ''op'' ''mcp:tools'' demo_auth =
      (Inr (''h.T0.sig'', ''T1''), snd (issue_tokens demo_libs (he_env (demo_env ''T'')) 1 ''c'' ''op'' ''mcp:tools'' demo_auth))"
    by (simp add: prod_eq_iff)
  show "signs_with demo_libs (ke_private_pem (kr_active (as_keyring demo_auth)))"
    by (simp add: signs_with_def demo_libs_def encodes_def)
qed code_simp+

end
