(* ===== verification/Spec2Isabelle.thy ===== *)
theory Spec2Isabelle
  imports Daemon_Properties View_Properties Queue_Properties Store_Refinement
    Patch_Round_Trip Patch_Exactness Policy_Properties Policy_Amend
    Oauth_Session Oauth_Exact
begin

text \<open>
  \<^bold>\<open>A verification of the deterministic harness of ChatCodex\<close>

  The repository is a fork of the Codex coding agent. What the fork adds is a harness that carries out, for
  a model that lives elsewhere, the steps of a coding task one request at a time and with a rule for each of
  them: a daemon (\<open>src/codex-rs/deterministic-daemon\<close>) that serves JSON-RPC requests, a library of operations
  (\<open>deterministic-core\<close>) and the types both share (\<open>deterministic-protocol\<close>), and an MCP server with an OAuth
  authorization server in front of it (\<open>native-harness-mcp\<close>, \<open>native-harness-mcp-auth\<close>). Of the code it was forked from, the
  development covers the parts that decide what happens to a user's files and which commands may run: the
  patch format and its application (\<open>apply-patch\<close>), with the paths and the file system it works on
  (\<open>utils/absolute-path\<close>, \<open>exec-server\<close>), and the execution policy (\<open>execpolicy\<close>).

  \<^bold>\<open>How the parts interact.\<close> A request reaches \<open>rpc_handler\<close>, which decodes it and calls \<open>dispatch\<close>; the handler
  looks up the run the request is about in the store, calls one operation of the core on it, saves the run and
  appends to its audit trail. A patch or a test run first passes the approval policy of its run: it is
  carried out at once, or an approval is recorded and the run waits. A patch in the textual format is read by
  the parser (or, while it is still being written, by the streaming parser, for a preview), and its hunks are
  applied one after the other; each application says which files it changed and whether that record is exact, so
  that it can be undone. A shell command is judged by an execution policy, which is loaded from files
  and amended when the user approves a command for good. A remote client of the MCP server registers itself, sends
  its operator to the consent page, exchanges the code it gets for tokens, and presents an access token
  with every request to the MCP service.

  \<^bold>\<open>State and effects.\<close> A struct is a \<open>record\<close>, an enum a \<open>datatype\<close>, a Rust string the list of its bytes. A function
  that changes something takes it as an argument and returns it with its result, also when it fails, since a
  failure does not undo what was done before; results are values of a sum type, panics are a value
  of their own (\<open>None\<close>, \<open>Panic\<close>). Hash maps are association lists, and no property depends on their order.
  What the programs draw from outside is an argument: the clock, fresh identifiers, the home directory, the
  outcome of child processes, the JSON codec, the Starlark interpreter, the shell-word splitter, and for the
  authorization server random bytes, SHA-256, base64, RSA and URLs (the record \<open>libs\<close>).

  \<^bold>\<open>The prelude.\<close>
  \<^item> \<open>Harness_Prelude\<close>: strings, lines, numbers, errors as the Rust library has them, with their lemmas.
  \<^item> \<open>Workspace_FS\<close>: paths and a Unix file system of directories, files and symbolic links, with the path
    walk of the kernel. A walk follows at most 40 links, the limit of Linux, so it ends on every
    tree, loops of links included; there are no permissions, times or hard links.
  \<^item> \<open>Table_Prelude\<close>: JSON values, tables as lists of rows in row-id order with the SQL statements on them, and the
    locale \<open>keyed_table\<close>, the contract of a table with a key, interpreted on the table of runs, on the SQL rows that
    hold it and on the identifiers of access tokens.

  \<^bold>\<open>Protocol and core operations.\<close>
  \<^item> \<open>Protocol_Types\<close>, \<open>Protocol_Queue\<close>, \<open>Protocol_Methods\<close> (\<open>deterministic-protocol/src\<close>): every structure and method
    name; the parser of method names is inverse to the printer.
  \<^item> \<open>Approval_Policy\<close> (\<open>approval_policy.rs\<close>): which rule gates a patch, and that splitting a patch adds no gate.
  \<^item> \<open>Patch_Apply\<close> (\<open>patch_apply.rs\<close>): edits of files by create, replace and delete. Replacing and deleting
    never touch anything outside the workspace; a replacement changes one file and only there.
  \<^item> \<open>Workspace_Tools\<close>, \<open>Command_Runner\<close>: reading, searching, testing, git, and the screen of commands.
  \<^item> \<open>Run_Lifecycle\<close>, \<open>Run_Metadata\<close>, \<open>Run_Derivation\<close>: one operation per file \<open>run_*.rs\<close>, with what each stores and
    refuses; normal forms of labels, dates and dependencies; derived readiness, staleness and triage.
  \<^item> \<open>Run_Invariants\<close>: the invariant of a run and the locale \<open>run_operation\<close>, the contract of an operation
    that reads a run and writes it back, interpreted for each of the fifteen operations.

  \<^bold>\<open>The daemon.\<close>
  \<^item> \<open>Run_Store\<close> (\<open>persistence.rs\<close> as the handlers see it); \<open>Persistence\<close> and
    \<open>Store_Refinement\<close>: the SQL columns, texts and migrations that implement the table of runs, and the
    simulation of the abstract store by it.
  \<^item> \<open>Daemon_State\<close>, \<open>Handlers\<close>, \<open>Queue_Views\<close>, \<open>Queue_Listing\<close> (\<open>handlers.rs\<close>), \<open>Daemon\<close> (\<open>dispatch\<close>, \<open>router.rs\<close>).
  \<^item> \<open>Store_Invariants\<close>, \<open>Handler_Invariants\<close>: every handler keeps the invariant of the store and moves the
    store forward in an order in which nothing that was recorded is lost.
  \<^item> \<open>Daemon_Machine\<close>: the daemon as a step relation, with properties of all sequences of requests;
    \<open>Daemon_Properties\<close>, \<open>View_Properties\<close>, \<open>Queue_Properties\<close>: properties of single requests,
    among them which rows a listing has and in which order.

  \<^bold>\<open>Patches.\<close>
  \<^item> \<open>Patch_Format\<close> (\<open>parser.rs\<close>): the parser. Its loops advance by the number of lines a hunk or chunk used, which
    is shown to be positive and in range; no fuel is needed.
  \<^item> \<open>Patch_Stream\<close> (\<open>streaming_parser.rs\<close>): the parser that is fed pieces. The cuts do not matter, the preview
    only grows, and what is finished is complete.
  \<^item> \<open>Patch_Round_Trip\<close>: a printed patch is read back by both parsers.
  \<^item> \<open>Patch_Update\<close> (\<open>seek_sequence.rs\<close>, \<open>lib.rs\<close>): where the lines of a chunk are found and how a text is
    rewritten. Slices, indices and insertions out of range are panic values, and none occurs; an error names
    the first chunk that is not found; the relation \<open>patched\<close> is the specification that a successful update refines.
  \<^item> \<open>Absolute_Path\<close>, \<open>Patch_Files\<close> (\<open>absolute-path\<close>, \<open>local_file_system.rs\<close>, \<open>lib.rs\<close>): hunks applied to a tree.
  \<^item> \<open>Patch_Exactness\<close>: a record that claims to be exact replays and undoes the patch.

  \<^bold>\<open>Execution policy.\<close>
  \<^item> \<open>Exec_Policy\<close>, \<open>Policy_Builder\<close>, \<open>Policy_Amend\<close> (\<open>execpolicy/src\<close>): rules, matching, policy files, approved rules.
  \<^item> \<open>Policy_Properties\<close>: the verdict is the most restrictive covering rule, overlays only tighten, the last
    network rule wins, loaded policies are well formed and their examples hold.

  \<^bold>\<open>Authorization server.\<close>
  \<^item> \<open>Oauth_Store\<close> (\<open>storage.rs\<close>), \<open>Oauth_Tokens\<close> (\<open>keyring.rs\<close>, \<open>config.rs\<close>, \<open>cf_access.rs\<close>), \<open>Oauth_Server\<close> (\<open>clients.rs\<close>,
    \<open>authorize.rs\<close>, \<open>token.rs\<close>, \<open>middleware.rs\<close>, \<open>discovery.rs\<close>, \<open>state.rs\<close>), \<open>Rate_Limit\<close> (\<open>ratelimit.rs\<close>): tables, signed
    tokens, endpoints and the limit of the token endpoint with its bound.
  \<^item> \<open>Mcp_Router\<close> (\<open>http_router_with_state\<close>): which request reaches which handler behind which check.
  \<^item> \<open>Oauth_Safety\<close>: every handler keeps what is recorded, and a code, refresh token or identifier that is spent
    stays spent (the locale \<open>spendable\<close> with its three interpretations); new rows stand for grants that were
    held or are consented to.
  \<^item> \<open>Oauth_Session\<close>: sequences of requests as an inductive relation. Access needs consent, codes and refresh
    tokens are used once, revoked tokens are refused. Requests are served one after another there;
    \<open>rotation_race\<close> shows what overlapping requests can do to the rotation of refresh tokens.
  \<^item> \<open>Oauth_Exact\<close>: exactly when a code is redeemed, and that the issued token is accepted.
  \<^item> \<open>Oauth_Demo\<close>: a concrete instance of the libraries and a run on which the properties are evaluated.

  \<^bold>\<open>Bounds.\<close> Counters the source keeps in \<open>usize\<close> or \<open>u64\<close> and only compares are natural numbers; the line counters
  of patches and the limit of a listing, where wrapping can be seen, are words or are bounded in the
  statement (a limit below 2 to the power of 63, which SQLite reads as a signed number). Unix times are signed
  64-bit numbers whose sums wrap (\<open>i64_add\<close>). Paths of links are
  excluded from \<open>exact_record_replays\<close> because the code records the path it was given; \<open>dangling_link_recorded_exact\<close>
  shows that the record is wrong there.

  \<^bold>\<open>Not modelled.\<close>
  \<^item> Start-up of the daemon (\<open>main.rs\<close>), sockets, locks and disk errors: process set-up and I/O.
  \<^item> The tools and prompts of the MCP server, which start processes and call the agent, its metrics, and the reading of
    the configuration of the authorization server from the environment.
  \<^item> The serde attributes of the protocol, the Starlark interpreter, SQLite's engine, tree-sitter: libraries, which
    are parameters or are modelled as far as the statements of the source use them.
  \<^item> The Windows variants of paths and programs, and the sandboxed and remote file systems.
  \<^item> The agent itself (\<open>core\<close>, \<open>app-server\<close>, \<open>exec\<close>), the terminal interface, the sandboxes and the SDKs: asynchronous
    code around a language model, terminal rendering and kernel interfaces, most of which is not
    determined by its inputs.
\<close>

end
